(* ===== verification/Vite_Prelude.thy ===== *)
theory Vite_Prelude
  imports Main "HOL-Library.Word"
begin

text \<open>
  The prelude of the development: Go's machine types, the outcome of a Go call that may panic,
  the errors of vm/util/errors.go, slices and the list and word lemmas shared by the component
  theories.

  A Go slice of bytes is a \<open>byte list\<close>; nil and the empty slice are not distinguished by any code
  modelled here.  A \<open>uint64\<close> is a \<open>64 word\<close>, an arbitrary-precision \<open>big.Int\<close> is an \<open>int\<close>.
  A call that panics (an index out of range, \<open>util.DealWithErr\<close> on an error) is the value
  \<open>Panics p\<close>, any other outcome is \<open>Ret v\<close>; an \<open>(T, error)\<close> pair is a sum with the error on the left.
\<close>

type_synonym byte = "8 word"
type_synonym bytes = "byte list"
type_synonym u16 = "16 word"
type_synonym u64 = "64 word"

named_theorems vite_defs "definitions unfolded when a closed term is evaluated"
named_theorems vite_wf "preservation facts of the component invariants"

section \<open>Errors and panics\<close>

datatype vm_error =
    ErrInvalidMethodParam | ErrInvalidQuotaMultiplier | ErrRewardIsNotDrained
  | ErrInsufficientBalance | ErrCalcPoWTwice | ErrAbiMethodNotFound | ErrInvalidResponseLatency
  | ErrInvalidRandomDegree | ErrAddressNotMatch | ErrTransactionTypeNotSupport
  | ErrVersionNotSupport | ErrBlockTypeNotSupported | ErrDataNotExist | ErrContractNotExists
  | ErrNoReliableStatus | ErrSBPNotExists
  | ErrAddressCollision | ErrIDCollision | ErrRewardNotDue
  | ErrExecutionReverted | ErrDepth
  | ErrGasUintOverflow | ErrStorageModifyLimitReached | ErrMemSizeOverflow
  | ErrReturnDataOutOfBounds | ErrBlockQuotaLimitReached | ErrAccountQuotaLimitReached
  | ErrOutOfQuota | ErrInvalidCodeLength | ErrInvalidUnconfirmedQuota
  | ErrStackLimitReached | ErrStackUnderflow | ErrInvalidJumpDestination | ErrInvalidOpCode
  | ErrChainForked | ErrContractCreationFail | ErrExecutionCanceled
  | ErrOther string

datatype gopanic =
    PanicErr vm_error      \<comment> \<open>panic(err) of util.DealWithErr and of the cancelled loop\<close>
  | PanicStr string        \<comment> \<open>panic with a message\<close>
  | PanicIndex             \<comment> \<open>index or slice bound out of range\<close>
  | PanicNil               \<comment> \<open>nil dereference\<close>
  | PanicDivide            \<comment> \<open>integer divide by zero\<close>

datatype 'a go = Panics gopanic | Ret 'a

fun go_bind :: "'a go \<Rightarrow> ('a \<Rightarrow> 'b go) \<Rightarrow> 'b go" where
  "go_bind (Panics p) f = Panics p"
| "go_bind (Ret a) f = f a"

definition DealWithErr :: "vm_error + 'a \<Rightarrow> 'a go" where
  "DealWithErr r = (case r of Inl e \<Rightarrow> Panics (PanicErr e) | Inr a \<Rightarrow> Ret a)"

lemma DealWithErr_simps [simp]:
  "DealWithErr (Inl e) = Panics (PanicErr e)"
  "DealWithErr (Inr a) = Ret a"
  by (simp_all add: DealWithErr_def)

lemma go_bind_eq_Ret: "go_bind m f = Ret b \<longleftrightarrow> (\<exists>a. m = Ret a \<and> f a = Ret b)"
  by (cases m) auto

lemma go_bind_eq_Panics:
  "go_bind m f = Panics p \<longleftrightarrow> m = Panics p \<or> (\<exists>a. m = Ret a \<and> f a = Panics p)"
  by (cases m) auto

section \<open>Slices\<close>

text \<open>\<open>xs[lo:hi]\<close> within the length of the slice.\<close>

definition slice :: "'a list \<Rightarrow> nat \<Rightarrow> nat \<Rightarrow> 'a list" where
  "slice xs lo hi = take (hi - lo) (drop lo xs)"

lemma length_slice [simp]: "length (slice xs lo hi) = min (length xs - lo) (hi - lo)"
  by (simp add: slice_def min.commute)

lemma slice_self [simp]: "slice xs n n = []"
  by (simp add: slice_def)

text \<open>\<open>copy(dst[at:], src)\<close>: overwrite the elements from index \<open>at\<close>, up to the end of \<open>dst\<close>.\<close>

definition overwrite :: "'a list \<Rightarrow> nat \<Rightarrow> 'a list \<Rightarrow> 'a list" where
  "overwrite dst at src =
     take at dst @ take (length dst - at) src @ drop (at + length src) dst"

lemma length_overwrite [simp]: "at \<le> length dst \<Longrightarrow> length (overwrite dst at src) = length dst"
  by (simp add: overwrite_def)

lemma slice_overwrite:
  assumes "at + length src \<le> length dst"
  shows "slice (overwrite dst at src) at (at + length src) = src"
  using assms by (simp add: slice_def overwrite_def)

lemma nth_overwrite_outside:
  assumes "at + length src \<le> length dst" "i < length dst" "i < at \<or> at + length src \<le> i"
  shows "overwrite dst at src ! i = dst ! i"
  using assms by (auto simp: overwrite_def nth_append min_def)

section \<open>Bytes\<close>

text \<open>Big-endian value of a byte string, and \<open>big.Int.Bytes\<close>: the shortest big-endian encoding.\<close>

fun be_val :: "bytes \<Rightarrow> nat" where
  "be_val [] = 0"
| "be_val (b # bs) = unat b * 256 ^ length bs + be_val bs"

function nat_bytes :: "nat \<Rightarrow> bytes" where
  "nat_bytes n = (if n = 0 then [] else nat_bytes (n div 256) @ [of_nat (n mod 256)])"
  by pat_completeness auto
termination by (relation "measure id") auto

declare nat_bytes.simps [simp del]

lemma be_val_append: "be_val (xs @ ys) = be_val xs * 256 ^ length ys + be_val ys"
  by (induction xs) (auto simp: power_add algebra_simps)

lemma be_val_replicate_zero [simp]: "be_val (replicate n 0) = 0"
  by (induction n) auto

lemma be_val_less: "be_val bs < 256 ^ length bs"
proof (induction bs)
  case (Cons b bs)
  have "unat b * 256 ^ length bs + be_val bs < unat b * 256 ^ length bs + 256 ^ length bs"
    using Cons by simp
  also have "\<dots> = (unat b + 1) * 256 ^ length bs" by (simp add: algebra_simps)
  also have "\<dots> \<le> 256 * 256 ^ length bs"
    using unsigned_less [where 'a = nat, of b] by (intro mult_right_mono) auto
  finally show ?case by simp
qed simp

lemma nat_bytes_0 [simp]: "nat_bytes 0 = []"
  by (simp add: nat_bytes.simps)

lemma be_val_nat_bytes [simp]: "be_val (nat_bytes n) = n"
proof (induction n rule: nat_bytes.induct)
  case (1 n)
  show ?case
  proof (cases "n = 0")
    case False
    have "unat (of_nat (n mod 256) :: byte) = n mod 256"
      by (simp add: unat_of_nat)
    with 1 False show ?thesis
      by (subst nat_bytes.simps) (simp add: be_val_append)
  qed simp
qed

lemma nat_bytes_eq_Nil_iff [simp]: "nat_bytes n = [] \<longleftrightarrow> n = 0"
  by (subst nat_bytes.simps) auto

lemma nat_bytes_inject: "nat_bytes m = nat_bytes n \<longleftrightarrow> m = n"
  by (metis be_val_nat_bytes)

lemma length_nat_bytes_le: "n < 256 ^ k \<Longrightarrow> length (nat_bytes n) \<le> k"
proof (induction k arbitrary: n)
  case (Suc k)
  show ?case
  proof (cases "n = 0")
    case False
    have "n div 256 < 256 ^ k" using Suc.prems by (simp add: less_mult_imp_div_less mult.commute)
    then have "length (nat_bytes (n div 256)) \<le> k" by (rule Suc.IH)
    with False show ?thesis by (subst nat_bytes.simps) simp
  qed simp
qed simp

section \<open>Words\<close>

lemma unat_u64_lt [simp]: "unat (w :: u64) < 18446744073709551616"
  using unsigned_less [where 'a = nat, of w] by simp

lemma unat_byte_lt [simp]: "unat (b :: byte) < 256"
  using unsigned_less [where 'a = nat, of b] by simp

lemma unat_ucast_byte_u64 [simp]: "unat (ucast (b :: byte) :: u64) = unat b"
proof -
  have "unat b < 2 ^ 64" using unat_byte_lt [of b] by (simp del: unat_byte_lt)
  then show ?thesis by (simp add: unsigned_ucast_eq take_bit_nat_eq_self_iff)
qed

lemma unat_plus_u64:
  "unat (a :: u64) + unat b < 18446744073709551616 \<Longrightarrow> unat (a + b) = unat a + unat b"
  using unat_add_lem [of a b] by simp

lemma unat_minus_u64: "b \<le> (a :: u64) \<Longrightarrow> unat (a - b) = unat a - unat b"
  by (rule unat_sub)

lemma unat_mult_u64:
  "unat (a :: u64) * unat b < 18446744073709551616 \<Longrightarrow> unat (a * b) = unat a * unat b"
  using unat_mult_lem [of a b] by simp

lemma unat_div_u64: "unat (a div (b :: u64)) = unat a div unat b"
  by (rule unat_div)

lemmas u64_arith = unat_plus_u64 unat_minus_u64 unat_mult_u64 unat_div_u64

end
