(* ===== verification/Big_Int.thy ===== *)
theory Big_Int
  imports Vite_Prelude
begin

text \<open>
  Go's math/big as the virtual machine uses it, and common/helper/math_big.go: 256-bit truncation
  and sign reading, exponentiation by squaring over the 64-bit limbs of the exponent, byte access
  and big-endian encoding.  A \<open>big.Int\<close> is an \<open>int\<close>; \<open>big.Word\<close> has 64 bits (the platforms
  the node is built for).  The lemmas give each routine its arithmetic meaning.
\<close>

unbundle bit_operations_syntax

section \<open>math/big\<close>

definition big_Uint64 :: "int \<Rightarrow> u64" where
  "big_Uint64 x = word_of_int \<bar>x\<bar>"

definition big_Int64 :: "int \<Rightarrow> int" where
  "big_Int64 x = sint (word_of_int x :: u64)"

definition big_Bytes :: "int \<Rightarrow> bytes" where
  "big_Bytes x = nat_bytes (nat \<bar>x\<bar>)"

definition big_SetBytes :: "bytes \<Rightarrow> int" where
  "big_SetBytes bs = int (be_val bs)"

fun nat_bitlen :: "nat \<Rightarrow> nat" where
  "nat_bitlen n = (if n = 0 then 0 else Suc (nat_bitlen (n div 2)))"

declare nat_bitlen.simps [simp del]

definition big_BitLen :: "int \<Rightarrow> nat" where
  "big_BitLen x = nat_bitlen (nat \<bar>x\<bar>)"

text \<open>\<open>big.Int.Bits\<close>: the limbs of the absolute value, least significant first, none of them
  a leading zero.\<close>

function nat_limbs :: "nat \<Rightarrow> u64 list" where
  "nat_limbs n = (if n = 0 then [] else of_nat n # nat_limbs (n div 2 ^ 64))"
  by pat_completeness auto
termination by (relation "measure id") auto

declare nat_limbs.simps [simp del]

definition big_Bits :: "int \<Rightarrow> u64 list" where
  "big_Bits x = nat_limbs (nat \<bar>x\<bar>)"

fun limbs_val :: "u64 list \<Rightarrow> nat" where
  "limbs_val [] = 0"
| "limbs_val (w # ws) = unat w + 2 ^ 64 * limbs_val ws"

section \<open>common/helper/math_big.go\<close>

definition BigPow :: "int \<Rightarrow> nat \<Rightarrow> int" where
  "BigPow a b = a ^ b"

definition Tt255 :: int where "Tt255 = BigPow 2 255"
definition Tt256 :: int where "Tt256 = BigPow 2 256"
definition Tt256m1 :: int where "Tt256m1 = Tt256 - 1"

definition U256 :: "int \<Rightarrow> int" where
  "U256 x = x AND Tt256m1"

definition S256 :: "int \<Rightarrow> int" where
  "S256 x = (if x < Tt255 then x else x - Tt256)"

text \<open>The inner loop of \<open>ReadBits\<close>: \<open>j\<close> bytes left of the limb \<open>d\<close>, \<open>i\<close> the write position.\<close>

fun readLimb :: "nat \<Rightarrow> nat \<Rightarrow> u64 \<Rightarrow> bytes \<Rightarrow> nat \<times> bytes" where
  "readLimb 0 i d buf = (i, buf)"
| "readLimb (Suc j) i d buf =
     (if i = 0 then (i, buf)
      else readLimb j (i - 1) (drop_bit 8 d) (buf[i - 1 := ucast d]))"

fun readLimbs :: "u64 list \<Rightarrow> nat \<Rightarrow> bytes \<Rightarrow> bytes" where
  "readLimbs [] i buf = buf"
| "readLimbs (d # ds) i buf = (case readLimb 8 i d buf of (i', buf') \<Rightarrow> readLimbs ds i' buf')"

definition ReadBits :: "int \<Rightarrow> bytes \<Rightarrow> bytes" where
  "ReadBits bigint buf = readLimbs (big_Bits bigint) (length buf) buf"

text \<open>\<open>Exp\<close>: the inner loop over the bits of one limb, the outer loop over the limbs.\<close>

fun expBits :: "nat \<Rightarrow> u64 \<Rightarrow> int \<Rightarrow> int \<Rightarrow> int \<times> int" where
  "expBits 0 word base result = (base, result)"
| "expBits (Suc i) word base result =
     expBits i (drop_bit 1 word) (U256 (base * base))
       (if word AND 1 = 1 then U256 (result * base) else result)"

fun expLimbs :: "u64 list \<Rightarrow> int \<Rightarrow> int \<Rightarrow> int" where
  "expLimbs [] base result = result"
| "expLimbs (word # words) base result =
     (case expBits 64 word base result of (base', result') \<Rightarrow> expLimbs words base' result')"

definition Exp :: "int \<Rightarrow> int \<Rightarrow> int" where
  "Exp base exponent = expLimbs (big_Bits exponent) base 1"

definition bigEndianByteAt :: "int \<Rightarrow> nat \<Rightarrow> byte" where
  "bigEndianByteAt bigint n =
     (let words = big_Bits bigint; i = n div 8
      in if i \<ge> length words then 0 else ucast (drop_bit (8 * (n mod 8)) (words ! i)))"

definition Byte :: "int \<Rightarrow> nat \<Rightarrow> nat \<Rightarrow> byte" where
  "Byte bigint padlength n =
     (if n \<ge> padlength then 0 else bigEndianByteAt bigint (padlength - 1 - n))"

definition BigMin :: "int \<Rightarrow> int \<Rightarrow> int" where
  "BigMin x y = (if x > y then y else x)"

definition BigMax :: "int \<Rightarrow> int \<Rightarrow> int" where
  "BigMax x y = (if x < y then y else x)"

definition PaddedBigBytes :: "int \<Rightarrow> nat \<Rightarrow> bytes" where
  "PaddedBigBytes bigint n =
     (if big_BitLen bigint div 8 \<ge> n then big_Bytes bigint
      else ReadBits bigint (replicate n 0))"

section \<open>256-bit values\<close>

definition wf_val :: "int \<Rightarrow> bool" where
  "wf_val x \<longleftrightarrow> 0 \<le> x \<and> x < 2 ^ 256"

lemma Tt_simps: "Tt255 = 2 ^ 255" "Tt256 = 2 ^ 256" "Tt256m1 = 2 ^ 256 - 1"
  by (simp_all add: Tt255_def Tt256_def Tt256m1_def BigPow_def)

lemma U256_mod: "U256 x = x mod 2 ^ 256"
proof -
  have "Tt256m1 = mask 256" by (simp add: Tt_simps mask_eq_exp_minus_1)
  then have "U256 x = take_bit 256 x" by (simp only: U256_def take_bit_eq_mask)
  then show ?thesis by (simp only: take_bit_eq_mod)
qed

lemma wf_val_U256 [simp, vite_wf]: "wf_val (U256 x)"
  by (simp add: wf_val_def U256_mod)

lemma U256_id [simp]: "wf_val x \<Longrightarrow> U256 x = x"
  by (simp add: wf_val_def U256_mod)

lemma wf_val_numeral [simp]: "wf_val 0" "wf_val 1"
  by (simp_all add: wf_val_def)

lemma S256_sint: "wf_val x \<Longrightarrow> S256 x = sint (word_of_int x :: 256 word)"
proof -
  assume x: "wf_val x"
  have "sint (word_of_int x :: 256 word) = signed_take_bit 255 x"
    by (simp add: sint_sbintrunc')
  also have "\<dots> = (x + 2 ^ 255) mod 2 ^ 256 - 2 ^ 255"
    by (simp add: signed_take_bit_eq_take_bit_shift take_bit_eq_mod)
  also have "\<dots> = S256 x"
  proof (cases "x < 2 ^ 255")
    case True
    with x have "(x + 2 ^ 255) mod 2 ^ 256 = x + 2 ^ 255"
      by (intro mod_pos_pos_trivial) (auto simp: wf_val_def)
    with True show ?thesis by (simp add: S256_def Tt_simps)
  next
    case False
    with x have "(x + 2 ^ 255) mod 2 ^ 256 = x - 2 ^ 255"
      by (intro int_mod_pos_eq [where q = 1]) (auto simp: wf_val_def)
    then show ?thesis using False by (simp add: S256_def Tt_simps)
  qed
  finally show ?thesis by simp
qed

section \<open>Limbs\<close>

lemma nat_limbs_0 [simp]: "nat_limbs 0 = []"
  by (simp add: nat_limbs.simps)

lemma limbs_val_nat_limbs [simp]: "limbs_val (nat_limbs n) = n"
proof (induction n rule: nat_limbs.induct)
  case (1 n)
  show ?case
  proof (cases "n = 0")
    case False
    with 1 show ?thesis
      by (subst nat_limbs.simps) (simp add: unat_of_nat)
  qed simp
qed

lemma nth_nat_limbs: "i < length (nat_limbs n) \<Longrightarrow> nat_limbs n ! i = of_nat (n div (2 ^ 64) ^ i)"
proof (induction n arbitrary: i rule: nat_limbs.induct)
  case (1 n)
  show ?case
  proof (cases "n = 0")
    case False
    note eq = nat_limbs.simps [of n]
    show ?thesis
    proof (cases i)
      case 0
      with False show ?thesis by (subst eq) simp
    next
      case (Suc k)
      with "1.prems" False have "k < length (nat_limbs (n div 2 ^ 64))"
        by (subst (asm) eq) simp
      from "1.IH" [OF False this] False Suc show ?thesis
        by (subst eq) (simp add: div_mult2_eq [symmetric] mult.commute)
    qed
  qed (use 1 in simp)
qed

lemma length_nat_limbs_le: "length (nat_limbs n) \<le> i \<Longrightarrow> n < (2 ^ 64) ^ i"
proof (induction n arbitrary: i rule: nat_limbs.induct)
  case (1 n)
  show ?case
  proof (cases "n = 0")
    case False
    note eq = nat_limbs.simps [of n]
    from "1.prems" False obtain k where k: "i = Suc k" "length (nat_limbs (n div 2 ^ 64)) \<le> k"
      by (cases i) (simp_all add: eq)
    from "1.IH" [OF False k(2)] have "n div 2 ^ 64 < (2 ^ 64) ^ k" .
    then have "n < (2 ^ 64) ^ k * 2 ^ 64" by (simp add: div_less_iff_less_mult)
    then show ?thesis using k by (simp add: mult.commute)
  qed simp
qed

section \<open>Exponentiation\<close>

lemma word_and_1_iff_odd: "(w :: u64) AND 1 = 1 \<longleftrightarrow> odd (unat w)"
proof -
  have "odd (unat w) \<longleftrightarrow> odd w"
    by transfer (simp add: even_nat_iff take_bit_int_eq_self_iff even_take_bit_eq)
  then show ?thesis by (simp add: and_one_eq odd_iff_mod_2_eq_one)
qed

lemma expBits_base: "fst (expBits (Suc n) w base result) = base ^ (2 ^ Suc n) mod 2 ^ 256"
proof (induction n arbitrary: w base result)
  case (Suc n)
  have "fst (expBits (Suc (Suc n)) w base result) = (U256 (base * base)) ^ (2 ^ Suc n) mod 2 ^ 256"
    by (subst expBits.simps) (rule Suc.IH)
  also have "\<dots> = (base * base) ^ (2 ^ Suc n) mod 2 ^ 256"
    by (simp only: U256_mod power_mod)
  also have "(base * base) ^ (2 ^ Suc n) = base ^ (2 ^ Suc (Suc n))"
    by (simp add: power_mult_distrib power_add [symmetric] mult_2)
  finally show ?case .
qed (simp add: U256_mod power2_eq_square)

lemma mult_power_mod: "(a :: int) * (b mod m) ^ k mod m = a * b ^ k mod m"
  by (metis mod_mult_right_eq power_mod)

lemma mod_mult_power_mod: "(a mod m) * ((b :: int) mod m) ^ k mod m = a * b ^ k mod m"
  by (metis mod_mult_left_eq mult_power_mod)

lemma expBits_result:
  "unat w < 2 ^ n \<Longrightarrow> result mod 2 ^ 256 = result \<Longrightarrow>
     snd (expBits n w base result) = result * base ^ unat w mod 2 ^ 256"
proof (induction n arbitrary: w base result)
  case (Suc n)
  let ?r = "if w AND 1 = 1 then U256 (result * base) else result"
  have half: "unat (drop_bit 1 w) = unat w div 2"
    by (simp add: drop_bit_Suc unat_div_u64)
  have r: "?r mod 2 ^ 256 = ?r" using Suc.prems by (simp add: U256_mod)
  have "unat (drop_bit 1 w) < 2 ^ n" using Suc.prems half by simp
  from Suc.IH [OF this r]
  have "snd (expBits (Suc n) w base result)
      = ?r * U256 (base * base) ^ (unat w div 2) mod 2 ^ 256"
    by (simp only: expBits.simps half)
  also have "\<dots> = ?r * (base * base) ^ (unat w div 2) mod 2 ^ 256"
    by (simp only: U256_mod mult_power_mod)
  also have "?r = result * base ^ (unat w mod 2) mod 2 ^ 256"
  proof (cases "odd (unat w)")
    case True
    then show ?thesis by (simp add: word_and_1_iff_odd U256_mod odd_iff_mod_2_eq_one)
  next
    case False
    then have "unat w mod 2 = 0" by (simp add: even_iff_mod_2_eq_zero)
    with False Suc.prems(2) show ?thesis
      by (simp only: word_and_1_iff_odd if_False power_0 mult_1_right)
  qed
  also have "result * base ^ (unat w mod 2) mod 2 ^ 256 * (base * base) ^ (unat w div 2) mod 2 ^ 256
      = result * (base ^ (unat w mod 2) * (base * base) ^ (unat w div 2)) mod 2 ^ 256"
    by (simp only: mod_mult_left_eq mult.assoc)
  also have "base ^ (unat w mod 2) * (base * base) ^ (unat w div 2) = base ^ unat w"
    by (simp add: power_mult [symmetric] power_add [symmetric] flip: power2_eq_square)
  finally show ?case .
qed simp
lemma expLimbs_correct:
  "result mod 2 ^ 256 = result \<Longrightarrow>
     expLimbs ws base result = result * base ^ limbs_val ws mod 2 ^ 256"
proof (induction ws arbitrary: base result)
  case (Cons w ws)
  let ?b = "fst (expBits 64 w base result)" and ?r = "snd (expBits 64 w base result)"
  have b: "?b = base ^ (2 ^ 64) mod 2 ^ 256"
    using expBits_base [of 63 w base result] by simp
  have r: "?r = result * base ^ unat w mod 2 ^ 256"
    using Cons.prems by (intro expBits_result) simp_all
  have "expLimbs (w # ws) base result = expLimbs ws ?b ?r"
    by (simp add: case_prod_beta)
  also have "\<dots> = ?r * ?b ^ limbs_val ws mod 2 ^ 256"
    by (rule Cons.IH) (simp add: r)
  also have "\<dots> = result * base ^ unat w * (base ^ (2 ^ 64)) ^ limbs_val ws mod 2 ^ 256"
    by (simp only: b r mod_mult_power_mod)
  also have "result * base ^ unat w * (base ^ (2 ^ 64)) ^ limbs_val ws
      = result * base ^ limbs_val (w # ws)"
    by (simp only: limbs_val.simps power_add power_mult mult.assoc)
  finally show ?case .
qed simp

lemma Exp_correct: "0 \<le> e \<Longrightarrow> Exp base e = base ^ nat e mod 2 ^ 256"
  by (simp add: Exp_def big_Bits_def expLimbs_correct)

section \<open>Bytes of a value\<close>

lemma unat_byte_of_limb:
  fixes n :: nat
  assumes "k < 8"
  shows "unat (ucast (drop_bit (8 * k) (of_nat n :: u64)) :: byte) = n div 256 ^ k mod 256"
proof -
  have "unat (ucast (drop_bit (8 * k) (of_nat n :: u64)) :: byte)
      = take_bit 8 (drop_bit (8 * k) (take_bit 64 n))"
    by (simp add: unsigned_ucast_eq unat_drop_bit_eq unat_of_nat take_bit_eq_mod)
  also have "\<dots> = take_bit 8 (drop_bit (8 * k) n)"
    using assms by (simp add: drop_bit_take_bit min_absorb2)
  also have "\<dots> = n div 256 ^ k mod 256"
    by (simp add: take_bit_eq_mod drop_bit_eq_div power_mult)
  finally show ?thesis .
qed

lemma pow256_split: "(256::nat) ^ n = (2 ^ 64) ^ (n div 8) * 256 ^ (n mod 8)"
proof -
  have "(256::nat) ^ n = 256 ^ (8 * (n div 8) + n mod 8)" by simp
  also have "\<dots> = (2 ^ 64) ^ (n div 8) * 256 ^ (n mod 8)"
    by (simp only: power_add power_mult) simp
  finally show ?thesis .
qed

lemma unat_bigEndianByteAt: "unat (bigEndianByteAt x n) = nat \<bar>x\<bar> div 256 ^ n mod 256"
proof -
  let ?X = "nat \<bar>x\<bar>" and ?i = "n div 8"
  show ?thesis
  proof (cases "length (nat_limbs ?X) \<le> ?i")
    case True
    then have "?X < (2 ^ 64) ^ ?i" by (rule length_nat_limbs_le)
    also have "\<dots> \<le> 256 ^ n" by (subst pow256_split) simp
    finally show ?thesis using True by (simp add: bigEndianByteAt_def big_Bits_def)
  next
    case False
    then have "bigEndianByteAt x n
        = ucast (drop_bit (8 * (n mod 8)) (of_nat (?X div (2 ^ 64) ^ ?i) :: u64))"
      by (simp add: bigEndianByteAt_def big_Bits_def Let_def nth_nat_limbs)
    then show ?thesis
      by (simp add: unat_byte_of_limb pow256_split [of n] div_mult2_eq)
  qed
qed

lemma be_val_bytes_at:
  "be_val (map (\<lambda>p. bigEndianByteAt x (n - Suc p)) [0..<n]) = nat \<bar>x\<bar> mod 256 ^ n"
proof (induction n)
  case (Suc n)
  let ?X = "nat \<bar>x\<bar>"
  have "map (\<lambda>p. bigEndianByteAt x (Suc n - Suc p)) [0..<Suc n]
      = bigEndianByteAt x n # map (\<lambda>p. bigEndianByteAt x (n - Suc p)) [0..<n]"
    by (subst upt_conv_Cons) (auto simp: map_Suc_upt [symmetric] simp del: upt_Suc)
  then have "be_val (map (\<lambda>p. bigEndianByteAt x (Suc n - Suc p)) [0..<Suc n])
      = ?X div 256 ^ n mod 256 * 256 ^ n + ?X mod 256 ^ n"
    by (simp only: be_val.simps length_map length_upt diff_zero Suc.IH unat_bigEndianByteAt)
  also have "\<dots> = ?X mod 256 ^ Suc n"
    using mod_mult2_eq [of ?X "256 ^ n" 256] by (simp add: mult.commute)
  finally show ?case .
qed simp

text \<open>Where \<open>ReadBits\<close> writes, and what.\<close>

lemma readLimb_spec:
  "i \<le> length buf \<Longrightarrow> readLimb j i d buf = (i', buf') \<Longrightarrow>
     i' = i - j \<and> length buf' = length buf \<and>
     (\<forall>p < length buf. buf' ! p =
        (if i - j \<le> p \<and> p < i then ucast (drop_bit (8 * (i - Suc p)) d) else buf ! p))"
proof (induction j arbitrary: i d buf)
  case (Suc j)
  show ?case
  proof (cases i)
    case 0
    with Suc.prems show ?thesis by simp
  next
    case (Suc m)
    let ?buf = "buf[m := ucast d]"
    have "m \<le> length ?buf" "readLimb j m (drop_bit 8 d) ?buf = (i', buf')"
      using Suc Suc.prems by simp_all
    from Suc.IH [OF this]
    have IH: "i' = m - j" "length buf' = length buf"
      "\<And>p. p < length buf \<Longrightarrow> buf' ! p = (if m - j \<le> p \<and> p < m
          then ucast (drop_bit (8 * (m - Suc p)) (drop_bit 8 d)) else ?buf ! p)"
      by auto
    have sh: "p < m \<Longrightarrow> drop_bit (8 * (m - Suc p)) (drop_bit 8 d) = drop_bit (8 * (m - p)) d" for p
    proof -
      assume "p < m"
      then have "8 * (m - Suc p) + 8 = 8 * (m - p)" by simp
      then show ?thesis by (simp only: drop_bit_drop_bit)
    qed
    show ?thesis
      using IH(1,2) Suc.prems Suc by (auto simp: IH(3) sh nth_list_update not_le simp del: drop_bit_drop_bit)
  qed
qed auto

lemma readLimbs_spec:
  "i \<le> length buf \<Longrightarrow>
     length (readLimbs ws i buf) = length buf \<and>
     (\<forall>p < length buf. readLimbs ws i buf ! p =
        (if p < i \<and> (i - Suc p) div 8 < length ws
         then ucast (drop_bit (8 * ((i - Suc p) mod 8)) (ws ! ((i - Suc p) div 8))) else buf ! p))"
proof (induction ws arbitrary: i buf)
  case (Cons d ds)
  obtain i' buf' where r: "readLimb 8 i d buf = (i', buf')" by fastforce
  note spec = readLimb_spec [OF Cons.prems r]
  then have i': "i' = i - 8" "length buf' = length buf" by auto
  have le: "i' \<le> length buf'" using i' Cons.prems by simp
  note IH = Cons.IH [OF le]
  have "readLimbs (d # ds) i buf ! p =
      (if p < i \<and> (i - Suc p) div 8 < length (d # ds)
       then ucast (drop_bit (8 * ((i - Suc p) mod 8)) ((d # ds) ! ((i - Suc p) div 8)))
       else buf ! p)" if p: "p < length buf" for p
  proof (cases "p < i - 8")
    case True
    then have e: "i - Suc p = 8 + (i - 8 - Suc p)" by simp
    have "(i - Suc p) div 8 = Suc ((i - 8 - Suc p) div 8)" "(i - Suc p) mod 8 = (i - 8 - Suc p) mod 8"
      by (subst e, simp)+
    with True p IH spec show ?thesis by (auto simp: r i' not_le)
  next
    case False
    then have "p < i \<Longrightarrow> (i - Suc p) div 8 = 0 \<and> (i - Suc p) mod 8 = i - Suc p"
      by (simp add: not_less)
    with False p IH spec show ?thesis by (auto simp: r i' not_le not_less)
  qed
  moreover have "length (readLimbs (d # ds) i buf) = length buf"
    using IH by (simp add: r i')
  ultimately show ?case by blast
qed simp

lemma length_ReadBits [simp]: "length (ReadBits x buf) = length buf"
  using readLimbs_spec [of "length buf" buf] by (simp add: ReadBits_def)

lemma ReadBits_zero:
  "ReadBits x (replicate n 0) = map (\<lambda>p. bigEndianByteAt x (n - Suc p)) [0..<n]"
proof (rule nth_equalityI)
  fix p assume "p < length (ReadBits x (replicate n 0))"
  then show "ReadBits x (replicate n 0) ! p = map (\<lambda>p. bigEndianByteAt x (n - Suc p)) [0..<n] ! p"
    using readLimbs_spec [of n "replicate n 0" "big_Bits x"]
    by (simp add: ReadBits_def bigEndianByteAt_def Let_def not_less)
qed simp

lemma be_val_ReadBits: "0 \<le> x \<Longrightarrow> x < 256 ^ n \<Longrightarrow> int (be_val (ReadBits x (replicate n 0))) = x"
  by (simp add: ReadBits_zero be_val_bytes_at nat_less_iff)

lemma big_SetBytes_Bytes [simp]: "0 \<le> x \<Longrightarrow> big_SetBytes (big_Bytes x) = x"
  by (simp add: big_SetBytes_def big_Bytes_def)

lemma wf_val_SetBytes: "length bs \<le> 32 \<Longrightarrow> wf_val (big_SetBytes bs)"
proof -
  assume "length bs \<le> 32"
  then have "(256::nat) ^ length bs \<le> 256 ^ 32" by (intro power_increasing) auto
  with be_val_less [of bs] have "be_val bs < 256 ^ 32" by linarith
  then have "int (be_val bs) < 256 ^ 32" by simp
  then show ?thesis by (simp add: wf_val_def big_SetBytes_def)
qed

lemma length_big_Bytes: "wf_val x \<Longrightarrow> length (big_Bytes x) \<le> 32"
  by (auto simp: big_Bytes_def wf_val_def nat_less_iff intro!: length_nat_bytes_le)

lemma big_Bytes_eq_Nil_iff [simp]: "big_Bytes x = [] \<longleftrightarrow> x = 0"
  by (simp add: big_Bytes_def)

lemma nat_bitlen_le_iff: "nat_bitlen n \<le> k \<longleftrightarrow> n < 2 ^ k"
proof (induction k arbitrary: n)
  case 0
  then show ?case by (subst nat_bitlen.simps) auto
next
  case (Suc k)
  show ?case
  proof (cases "n = 0")
    case False
    then have "nat_bitlen n \<le> Suc k \<longleftrightarrow> nat_bitlen (n div 2) \<le> k"
      by (subst nat_bitlen.simps) simp
    also have "\<dots> \<longleftrightarrow> n < 2 ^ Suc k" by (simp add: Suc.IH div_less_iff_less_mult mult.commute)
    finally show ?thesis .
  qed (simp add: nat_bitlen.simps)
qed

lemma big_BitLen_le_iff: "big_BitLen x \<le> k \<longleftrightarrow> \<bar>x\<bar> < 2 ^ k"
  by (simp add: big_BitLen_def nat_bitlen_le_iff nat_less_iff)

lemma uint_big_Uint64: "0 \<le> x \<Longrightarrow> x < 2 ^ 64 \<Longrightarrow> uint (big_Uint64 x) = x"
  by (simp add: big_Uint64_def uint_word_of_int)

lemma unat_big_Uint64: "0 \<le> x \<Longrightarrow> x < 2 ^ 64 \<Longrightarrow> unat (big_Uint64 x) = nat x"
  by (simp only: unat_eq_nat_uint uint_big_Uint64)

lemma big_Int64_small: "- (2 ^ 63) \<le> x \<Longrightarrow> x < 2 ^ 63 \<Longrightarrow> big_Int64 x = x"
  by (simp add: big_Int64_def sint_sbintrunc' signed_take_bit_int_eq_self_iff)

section \<open>Properties\<close>

text \<open>C22: \<open>Exp\<close>, the square-and-multiply loop over the limbs of the exponent, computes the power
  modulo 2^256, for every base and every non-negative exponent.\<close>

theorem Exp_is_power: "0 \<le> e \<Longrightarrow> Exp base e = base ^ nat e mod 2 ^ 256"
  by (rule Exp_correct)

theorem Exp_is_power_witness: "Exp 3 5 = 243"
  using Exp_is_power [of 5 3] by simp

end
