(* ===== verification/Helper.thy ===== *)
theory Helper
  imports Big_Int
begin

text \<open>
  common/helper/common.go and common/helper/math_integer.go: overflow-reporting arithmetic on
  \<open>uint64\<close>, word-size rounding, byte padding and the zero-padded window \<open>GetDataBig\<close> that the
  copy instructions read through.  \<open>WordSize\<close> is the 32 bytes of a VM word.
\<close>

section \<open>Definitions\<close>

definition MaxUint64 :: u64 where "MaxUint64 = 18446744073709551615"

definition WordSize :: nat where "WordSize = 32"

definition SafeMul :: "u64 \<Rightarrow> u64 \<Rightarrow> u64 \<times> bool" where
  "SafeMul x y = (if x = 0 \<or> y = 0 then (0, False) else (x * y, y > MaxUint64 div x))"

definition SafeAdd :: "u64 \<Rightarrow> u64 \<Rightarrow> u64 \<times> bool" where
  "SafeAdd x y = (x + y, y > MaxUint64 - x)"

definition Min64 :: "u64 \<Rightarrow> u64 \<Rightarrow> u64" where
  "Min64 x y = (if x < y then x else y)"

definition Max64 :: "u64 \<Rightarrow> u64 \<Rightarrow> u64" where
  "Max64 x y = (if x > y then x else y)"

definition ToWordSize :: "u64 \<Rightarrow> u64" where
  "ToWordSize sz =
     (if sz > MaxUint64 - 32 + 1 then MaxUint64 div 32 + 1 else (sz + 32 - 1) div 32)"

definition BigUint64 :: "int \<Rightarrow> u64 \<times> bool" where
  "BigUint64 v = (big_Uint64 v, big_BitLen v > 64)"

text \<open>The length argument of the padding functions is a Go \<open>int\<close>, which may be negative.\<close>

definition RightPadBytes :: "bytes \<Rightarrow> int \<Rightarrow> bytes" where
  "RightPadBytes s l =
     (if l \<le> int (length s) then s else overwrite (replicate (nat l) 0) 0 s)"

definition LeftPadBytes :: "bytes \<Rightarrow> int \<Rightarrow> bytes" where
  "LeftPadBytes s l =
     (if l \<le> int (length s) then s else overwrite (replicate (nat l) 0) (nat l - length s) s)"

definition GetDataBig :: "bytes \<Rightarrow> int \<Rightarrow> int \<Rightarrow> bytes" where
  "GetDataBig data start sz =
     (let dlen = int (length data);
          s = BigMin start dlen;
          e = BigMin (s + sz) dlen
      in RightPadBytes (slice data (unat (big_Uint64 s)) (unat (big_Uint64 e)))
           (sint (big_Uint64 sz)))"

definition AllZero :: "bytes \<Rightarrow> bool" where
  "AllZero b = (\<forall>x \<in> set b. x = 0)"

definition JoinBytes :: "bytes list \<Rightarrow> bytes" where
  "JoinBytes ds = foldl (@) [] ds"

definition BytesToU64 :: "bytes \<Rightarrow> u64" where
  "BytesToU64 d = (if length d < 8 then 0 else of_nat (be_val (take 8 d)))"

section \<open>Overflow reports\<close>

lemma unat_MaxUint64 [simp]: "unat MaxUint64 = 18446744073709551615"
  by (simp add: MaxUint64_def)

lemma le_MaxUint64 [simp]: "x \<le> MaxUint64"
  using unat_u64_lt [of x] by (simp only: word_le_nat_alt unat_MaxUint64)

lemma SafeAdd_overflow: "snd (SafeAdd x y) \<longleftrightarrow> 2 ^ 64 \<le> unat x + unat y"
proof -
  have "unat (MaxUint64 - x) = 18446744073709551615 - unat x"
    by (simp add: unat_minus_u64)
  then have "snd (SafeAdd x y) \<longleftrightarrow> 18446744073709551615 - unat x < unat y"
    by (simp add: SafeAdd_def word_less_nat_alt)
  then show ?thesis using unat_u64_lt [of x] by (auto simp del: unat_u64_lt)
qed

lemma SafeAdd_exact: "\<not> snd (SafeAdd x y) \<Longrightarrow> unat (fst (SafeAdd x y)) = unat x + unat y"
  by (simp add: SafeAdd_overflow) (simp add: SafeAdd_def unat_plus_u64)

lemma SafeMul_overflow: "snd (SafeMul x y) \<longleftrightarrow> 2 ^ 64 \<le> unat x * unat y"
proof (cases "x = 0 \<or> y = 0")
  case False
  then have "0 < unat x" by (simp add: unat_gt_0)
  then have "18446744073709551615 div unat x < unat y \<longleftrightarrow> 18446744073709551615 < unat x * unat y"
    by (simp add: div_less_iff_less_mult mult.commute)
  with False show ?thesis by (auto simp: SafeMul_def word_less_nat_alt unat_div_u64)
qed (auto simp: SafeMul_def)

lemma SafeMul_exact: "\<not> snd (SafeMul x y) \<Longrightarrow> unat (fst (SafeMul x y)) = unat x * unat y"
  by (simp add: SafeMul_overflow) (auto simp: SafeMul_def unat_mult_u64)

lemma BigUint64_overflow: "0 \<le> v \<Longrightarrow> snd (BigUint64 v) \<longleftrightarrow> 2 ^ 64 \<le> v"
  using big_BitLen_le_iff [of v 64] by (auto simp: BigUint64_def)

lemma BigUint64_exact: "0 \<le> v \<Longrightarrow> \<not> snd (BigUint64 v) \<Longrightarrow> unat (fst (BigUint64 v)) = nat v"
  by (simp add: BigUint64_overflow) (simp add: BigUint64_def unat_big_Uint64)

text \<open>\<open>ToWordSize\<close> is the ceiling of \<open>sz / 32\<close> on all of \<open>uint64\<close>.\<close>

lemma unat_ToWordSize: "unat (ToWordSize sz) = (unat sz + 31) div 32"
proof (cases "sz > MaxUint64 - 32 + 1")
  case True
  then have "18446744073709551584 < unat sz"
    by (simp add: word_less_nat_alt MaxUint64_def)
  moreover have "unat sz < 18446744073709551616" by simp
  ultimately have "(unat sz + 31) div 32 = 576460752303423488" by linarith
  with True show ?thesis by (simp add: ToWordSize_def MaxUint64_def)
next
  case False
  then have le: "unat sz \<le> 18446744073709551584"
    by (simp add: word_less_nat_alt MaxUint64_def)
  have "unat (sz + 32 - 1) = unat sz + 31"
    using le by (simp add: unat_plus_u64 flip: add_diff_eq)
  with False show ?thesis by (simp add: ToWordSize_def unat_div_u64)
qed

section \<open>Padding\<close>

lemma RightPadBytes_eq: "RightPadBytes s l = s @ replicate (nat l - length s) 0"
  by (auto simp: RightPadBytes_def overwrite_def)

lemma LeftPadBytes_eq: "LeftPadBytes s l = replicate (nat l - length s) 0 @ s"
  by (auto simp: LeftPadBytes_def overwrite_def)

lemma be_val_LeftPadBytes [simp]: "be_val (LeftPadBytes s l) = be_val s"
  by (simp add: LeftPadBytes_eq be_val_append)

text \<open>The window: byte \<open>i\<close> of the result is byte \<open>start + i\<close> of the data, and 0 past its end.\<close>

definition window :: "bytes \<Rightarrow> nat \<Rightarrow> nat \<Rightarrow> bytes" where
  "window data start n = map (\<lambda>i. if start + i < length data then data ! (start + i) else 0) [0..<n]"

lemma length_window [simp]: "length (window data start n) = n"
  by (simp add: window_def)

lemma window_eq: "window data start n = take n (drop start data @ replicate n 0)"
  by (rule nth_equalityI) (auto simp: window_def nth_append)

lemma GetDataBig_window:
  assumes "0 \<le> start" "0 \<le> sz" "sz < 2 ^ 63" "length data < 2 ^ 63"
  shows "GetDataBig data start sz = window data (nat start) (nat sz)"
proof -
  define s where "s = BigMin start (int (length data))"
  define e where "e = BigMin (s + sz) (int (length data))"
  have b: "0 \<le> s" "s \<le> e" "e \<le> int (length data)" "e < 2 ^ 64" "s < 2 ^ 64"
    using assms by (auto simp: s_def e_def BigMin_def)
  have szi: "sint (big_Uint64 sz) = sz"
    using assms big_Int64_small [of sz] by (simp add: big_Uint64_def big_Int64_def)
  have "GetDataBig data start sz = RightPadBytes (slice data (nat s) (nat e)) sz"
    using b by (simp add: GetDataBig_def Let_def s_def [symmetric] e_def [symmetric]
        unat_big_Uint64 szi)
  also have "slice data (nat s) (nat e) = take (nat sz) (drop (nat start) data)"
  proof (cases "start < int (length data)")
    case True
    then have "s = start" by (simp add: s_def BigMin_def)
    moreover have "nat e - nat s = min (nat sz) (length data - nat start)"
      using True assms \<open>s = start\<close> by (simp add: e_def BigMin_def min_def nat_diff_distrib) linarith
    ultimately show ?thesis by (simp add: slice_def min_def)
  next
    case False
    then have "s = int (length data)" by (auto simp: s_def BigMin_def)
    with False show ?thesis by (simp add: slice_def nat_le_iff not_less le_nat_iff)
  qed
  also have "RightPadBytes \<dots> sz = window data (nat start) (nat sz)"
    by (simp add: RightPadBytes_eq window_eq min_def)
  finally show ?thesis .
qed

lemma length_GetDataBig:
  "0 \<le> start \<Longrightarrow> 0 \<le> sz \<Longrightarrow> sz < 2 ^ 63 \<Longrightarrow> length data < 2 ^ 63 \<Longrightarrow>
     length (GetDataBig data start sz) = nat sz"
  by (simp add: GetDataBig_window)

section \<open>Properties\<close>

text \<open>\<open>SafeAdd\<close> and \<open>SafeMul\<close> return the result modulo 2^64 together with a flag that is set
  exactly when the true result does not fit, for all pairs of \<open>uint64\<close>.\<close>

theorem safe_arith_exact:
  "unat (fst (SafeAdd x y)) = (unat x + unat y) mod 2 ^ 64 \<and>
   (snd (SafeAdd x y) \<longleftrightarrow> 2 ^ 64 \<le> unat x + unat y) \<and>
   unat (fst (SafeMul x y)) = unat x * unat y mod 2 ^ 64 \<and>
   (snd (SafeMul x y) \<longleftrightarrow> 2 ^ 64 \<le> unat x * unat y)"
proof -
  have "unat (fst (SafeAdd x y)) = (unat x + unat y) mod 2 ^ 64"
    by (simp add: SafeAdd_def unat_word_ariths)
  moreover have "unat (fst (SafeMul x y)) = unat x * unat y mod 2 ^ 64"
    by (auto simp: SafeMul_def unat_word_ariths)
  ultimately show ?thesis using SafeAdd_overflow SafeMul_overflow by blast
qed

end
