(* ===== verification/Common_Types.thy ===== *)
theory Common_Types
  imports Helper
begin

text \<open>
  common/types (hash.go, address.go, tokentypeid.go, gid.go), crypto/hash.go and
  \<open>LDI\<close> of common/helper.  The fixed-size arrays \<open>Hash\<close> (32 bytes), \<open>Address\<close> (20 bytes and a kind
  byte), \<open>TokenTypeId\<close> and \<open>Gid\<close> (10 bytes) are byte lists; a constructor that gets the wrong length
  returns the zero value with an error, as the Go code does.  The hash primitives of
  golang.org/x/crypto are the record \<open>crypto\<close>, a parameter; what the code relies on of them is
  \<open>crypto_ok\<close>.  The textual form of an address carries a checksum, inverted for a contract, and
  the lemmas show that it reads back.
\<close>

section \<open>Definitions\<close>

subsection \<open>crypto/hash.go\<close>

record crypto =
  blake2b :: "nat \<Rightarrow> bytes \<Rightarrow> bytes"   \<comment> \<open>digest of the given size\<close>
  keccak :: "bytes \<Rightarrow> bytes"

text \<open>\<open>d.Write(item)\<close> for every item, then \<open>d.Sum(nil)\<close>.\<close>

definition Hash256 :: "crypto \<Rightarrow> bytes list \<Rightarrow> bytes" where
  "Hash256 c data = blake2b c 32 (concat data)"

definition Keccak256 :: "crypto \<Rightarrow> bytes list \<Rightarrow> bytes" where
  "Keccak256 c data = keccak c (concat data)"

definition Hash512 :: "crypto \<Rightarrow> bytes list \<Rightarrow> bytes" where
  "Hash512 c data = blake2b c 64 (concat data)"

definition HashN :: "crypto \<Rightarrow> nat \<Rightarrow> bytes list \<Rightarrow> bytes" where
  "HashN c sz data = blake2b c sz (concat data)"

subsection \<open>encoding/hex\<close>

definition hexDigit :: "nat \<Rightarrow> char" where
  "hexDigit n = ''0123456789abcdef'' ! n"

fun hex_EncodeToString :: "bytes \<Rightarrow> string" where
  "hex_EncodeToString [] = []"
| "hex_EncodeToString (b # bs) =
     hexDigit (unat b div 16) # hexDigit (unat b mod 16) # hex_EncodeToString bs"

definition fromHexChar :: "char \<Rightarrow> nat option" where
  "fromHexChar c =
     (let n = of_char c :: nat
      in if 48 \<le> n \<and> n \<le> 57 then Some (n - 48)
         else if 97 \<le> n \<and> n \<le> 102 then Some (n - 97 + 10)
         else if 65 \<le> n \<and> n \<le> 70 then Some (n - 65 + 10)
         else None)"

fun hex_DecodeString :: "string \<Rightarrow> bytes option" where
  "hex_DecodeString [] = Some []"
| "hex_DecodeString [c] = None"
| "hex_DecodeString (a # b # s) =
     (case (fromHexChar a, fromHexChar b, hex_DecodeString s) of
        (Some x, Some y, Some bs) \<Rightarrow> Some (of_nat (16 * x + y) # bs)
      | _ \<Rightarrow> None)"

subsection \<open>hash.go\<close>

type_synonym Hash = bytes
type_synonym Address = bytes
type_synonym TokenTypeId = bytes
type_synonym Gid = bytes

definition ZERO_HASH :: Hash where "ZERO_HASH = replicate 32 0"

definition BytesToHash :: "bytes \<Rightarrow> Hash \<times> vm_error option" where
  "BytesToHash b =
     (if length b \<noteq> 32 then (ZERO_HASH, Some (ErrOther ''error hash size''))
      else (overwrite ZERO_HASH 0 b, None))"

definition HexToHash :: "string \<Rightarrow> Hash \<times> vm_error option" where
  "HexToHash hexstr =
     (if length hexstr \<noteq> 2 * 32 then (ZERO_HASH, Some (ErrOther ''error hex hash size''))
      else case hex_DecodeString hexstr of
             None \<Rightarrow> (ZERO_HASH, Some (ErrOther ''encoding/hex: invalid byte''))
           | Some b \<Rightarrow> BytesToHash b)"

definition BigToHash :: "int \<Rightarrow> Hash \<times> vm_error option" where
  "BigToHash b =
     (let s = big_Bytes b
      in if length s < 32 then BytesToHash (overwrite (replicate 32 0) (32 - length s) s)
         else BytesToHash s)"

definition DataHash :: "crypto \<Rightarrow> bytes \<Rightarrow> Hash" where
  "DataHash c data = fst (BytesToHash (Hash256 c [data]))"

definition DataListHash :: "crypto \<Rightarrow> bytes list \<Rightarrow> Hash" where
  "DataListHash c data = fst (BytesToHash (Hash256 c data))"

subsection \<open>address.go\<close>

definition LDI :: "bytes \<Rightarrow> bytes" where
  "LDI s = map not s"

definition AddressPrefix :: string where "AddressPrefix = ''vite_''"

abbreviation (input) UserAddrByte :: byte where "UserAddrByte \<equiv> 0"
abbreviation (input) ContractAddrByte :: byte where "ContractAddrByte \<equiv> 1"

definition ZERO_ADDRESS :: Address where "ZERO_ADDRESS = replicate 21 0"

definition BytesToAddress :: "bytes \<Rightarrow> Address \<times> vm_error option" where
  "BytesToAddress b =
     (if length b \<noteq> 21 then (ZERO_ADDRESS, Some (ErrOther ''error address size''))
      else (overwrite ZERO_ADDRESS 0 b, None))"

definition BigToAddress :: "int \<Rightarrow> Address \<times> vm_error option" where
  "BigToAddress b = BytesToAddress (LeftPadBytes (big_Bytes b) 21)"

definition GenContractAddress :: "bytes \<Rightarrow> Address \<times> vm_error option" where
  "GenContractAddress data = BytesToAddress (data @ [ContractAddrByte])"

definition GenUserAddress :: "bytes \<Rightarrow> Address \<times> vm_error option" where
  "GenUserAddress data = BytesToAddress (data @ [UserAddrByte])"

definition CreateContractAddress :: "crypto \<Rightarrow> bytes list \<Rightarrow> Address" where
  "CreateContractAddress c data = fst (BytesToAddress (HashN c 20 data @ [ContractAddrByte]))"

definition PubkeyToAddress :: "crypto \<Rightarrow> bytes \<Rightarrow> Address go" where
  "PubkeyToAddress c pubkey =
     (case GenUserAddress (HashN c 20 [pubkey]) of
        (addr, None) \<Rightarrow> Ret addr
      | (_, Some err) \<Rightarrow> Panics (PanicErr err))"

definition AddressQuota :: Address where
  "AddressQuota = fst (BytesToAddress [0,0,0,0,0,0,0,0,0,0,0,0,0,0,0,0,0,0,0,3,ContractAddrByte])"
definition AddressGovernance :: Address where
  "AddressGovernance = fst (BytesToAddress [0,0,0,0,0,0,0,0,0,0,0,0,0,0,0,0,0,0,0,4,ContractAddrByte])"
definition AddressAsset :: Address where
  "AddressAsset = fst (BytesToAddress [0,0,0,0,0,0,0,0,0,0,0,0,0,0,0,0,0,0,0,5,ContractAddrByte])"
definition AddressDexFund :: Address where
  "AddressDexFund = fst (BytesToAddress [0,0,0,0,0,0,0,0,0,0,0,0,0,0,0,0,0,0,0,6,ContractAddrByte])"
definition AddressDexTrade :: Address where
  "AddressDexTrade = fst (BytesToAddress [0,0,0,0,0,0,0,0,0,0,0,0,0,0,0,0,0,0,0,7,ContractAddrByte])"

definition BuiltinContracts :: "Address list" where
  "BuiltinContracts =
     [AddressQuota, AddressGovernance, AddressAsset, AddressDexFund, AddressDexTrade]"
definition BuiltinContractsWithoutQuota :: "Address list" where
  "BuiltinContractsWithoutQuota = [AddressQuota, AddressGovernance, AddressAsset, AddressDexTrade]"
definition BuiltinContractsWithSendConfirm :: "Address list" where
  "BuiltinContractsWithSendConfirm = [AddressQuota, AddressGovernance, AddressAsset]"

definition IsContractAddr :: "Address \<Rightarrow> bool" where
  "IsContractAddr addr \<longleftrightarrow> addr ! 20 = ContractAddrByte"

definition IsBuiltinContractAddr :: "Address \<Rightarrow> bool" where
  "IsBuiltinContractAddr addr \<longleftrightarrow>
     IsContractAddr addr \<and> AllZero (slice addr 0 19) \<and> addr ! 19 \<noteq> 0"

definition IsBuiltinContractAddrInUse :: "Address \<Rightarrow> bool" where
  "IsBuiltinContractAddrInUse addr = List.member BuiltinContracts addr"

definition IsBuiltinContractAddrInUseWithoutQuota :: "Address \<Rightarrow> bool" where
  "IsBuiltinContractAddrInUseWithoutQuota addr = List.member BuiltinContractsWithoutQuota addr"

definition IsBuiltinContractAddrInUseWithSendConfirm :: "Address \<Rightarrow> bool" where
  "IsBuiltinContractAddrInUseWithSendConfirm addr = List.member BuiltinContractsWithSendConfirm addr"

definition Address_Hex :: "crypto \<Rightarrow> Address \<Rightarrow> string" where
  "Address_Hex c addr =
     (let coreAddr = slice addr 0 20; byt = addr ! 20
      in if byt = UserAddrByte
         then AddressPrefix @ hex_EncodeToString coreAddr @ hex_EncodeToString (HashN c 5 [coreAddr])
         else if byt = ContractAddrByte
         then AddressPrefix @ hex_EncodeToString coreAddr @ hex_EncodeToString (LDI (HashN c 5 [coreAddr]))
         else ''error address'')"

definition getAddrCoreFromHex :: "string \<Rightarrow> bytes option" where
  "getAddrCoreFromHex hexStr = hex_DecodeString (slice hexStr 5 45)"

definition getAddressChecksumFromHex :: "string \<Rightarrow> bytes option" where
  "getAddressChecksumFromHex hexStr = hex_DecodeString (drop 45 hexStr)"

definition ValidHexAddress :: "crypto \<Rightarrow> string \<Rightarrow> Address \<times> vm_error option" where
  "ValidHexAddress c hexStr =
     (if length hexStr \<noteq> 55 \<or> take 5 hexStr \<noteq> AddressPrefix
      then (ZERO_ADDRESS, Some (ErrOther ''error hex address or prefix''))
      else case getAddrCoreFromHex hexStr of
        None \<Rightarrow> (ZERO_ADDRESS, Some (ErrOther ''encoding/hex: invalid byte''))
      | Some addrCore \<Rightarrow>
          (case getAddressChecksumFromHex hexStr of
             None \<Rightarrow> (ZERO_ADDRESS, Some (ErrOther ''encoding/hex: invalid byte''))
           | Some addressChecksum \<Rightarrow>
               (let checksum = HashN c 5 [addrCore]
                in if checksum = addressChecksum then GenUserAddress addrCore
                   else if checksum = LDI addressChecksum then GenContractAddress addrCore
                   else (ZERO_ADDRESS, Some (ErrOther ''error address checksum'')))))"

subsection \<open>tokentypeid.go\<close>

definition ZERO_TOKENID :: TokenTypeId where "ZERO_TOKENID = replicate 10 0"

definition TokenTypeIdPrefix :: string where "TokenTypeIdPrefix = ''tti_''"

definition BytesToTokenTypeId :: "bytes \<Rightarrow> TokenTypeId \<times> vm_error option" where
  "BytesToTokenTypeId b =
     (if length b \<noteq> 10 then (ZERO_TOKENID, Some (ErrOther ''error tokentypeid size error''))
      else (overwrite ZERO_TOKENID 0 b, None))"

definition BigToTokenTypeId :: "int \<Rightarrow> TokenTypeId \<times> vm_error option" where
  "BigToTokenTypeId b = BytesToTokenTypeId (LeftPadBytes (big_Bytes b) 10)"

definition CreateTokenTypeId :: "crypto \<Rightarrow> bytes list \<Rightarrow> TokenTypeId" where
  "CreateTokenTypeId c data = fst (BytesToTokenTypeId (HashN c 10 data))"

definition TokenTypeId_Hex :: "crypto \<Rightarrow> TokenTypeId \<Rightarrow> string" where
  "TokenTypeId_Hex c tid =
     TokenTypeIdPrefix @ hex_EncodeToString tid @ hex_EncodeToString (HashN c 2 [tid])"

definition getTokenTypeIdFromHex :: "string \<Rightarrow> bytes option" where
  "getTokenTypeIdFromHex hexStr = hex_DecodeString (slice hexStr 4 24)"

definition getTtiChecksumFromHex :: "string \<Rightarrow> bytes option" where
  "getTtiChecksumFromHex hexStr = hex_DecodeString (drop 24 hexStr)"

definition IsValidHexTokenTypeId :: "crypto \<Rightarrow> string \<Rightarrow> bool" where
  "IsValidHexTokenTypeId c hexStr =
     (if length hexStr \<noteq> 28 \<or> take 4 hexStr \<noteq> TokenTypeIdPrefix then False
      else case (getTokenTypeIdFromHex hexStr, getTtiChecksumFromHex hexStr) of
             (Some tti, Some ttiChecksum) \<Rightarrow> HashN c 2 [tti] = ttiChecksum
           | _ \<Rightarrow> False)"

definition HexToTokenTypeId :: "crypto \<Rightarrow> string \<Rightarrow> TokenTypeId \<times> vm_error option" where
  "HexToTokenTypeId c hexStr =
     (if IsValidHexTokenTypeId c hexStr
      then (case getTokenTypeIdFromHex hexStr of Some tti \<Rightarrow> tti | None \<Rightarrow> ZERO_TOKENID, None)
      else (ZERO_TOKENID, Some (ErrOther ''Not valid hex TokenTypeId'')))"

subsection \<open>gid.go\<close>

abbreviation (input) ZERO_GID :: Gid where "ZERO_GID \<equiv> replicate 10 0"

definition PRIVATE_GID :: Gid where "PRIVATE_GID = [0,0,0,0,0,0,0,0,0,0]"
definition SNAPSHOT_GID :: Gid where "SNAPSHOT_GID = [0,0,0,0,0,0,0,0,0,1]"
definition DELEGATE_GID :: Gid where "DELEGATE_GID = [0,0,0,0,0,0,0,0,0,2]"

definition BytesToGid :: "bytes \<Rightarrow> Gid \<times> vm_error option" where
  "BytesToGid b =
     (if length b \<noteq> 10 then (ZERO_GID, Some (ErrOther ''error gid size''))
      else (overwrite ZERO_GID 0 b, None))"

definition BigToGid :: "int \<Rightarrow> Gid \<times> vm_error option" where
  "BigToGid data =
     (let s = big_Bytes data
      in if length s < 10 then BytesToGid (overwrite (replicate 10 0) (10 - length s) s)
         else BytesToGid s)"

definition DataToGid :: "crypto \<Rightarrow> bytes list \<Rightarrow> Gid" where
  "DataToGid c data = fst (BytesToGid (HashN c 10 data))"

section \<open>Conversions\<close>

text \<open>The result always has the size of the array, whatever the argument.\<close>

lemma overwrite_all [simp]: "length b = length z \<Longrightarrow> overwrite z 0 b = b"
  by (simp add: overwrite_def)

lemma length_fst_BytesToHash [simp]: "length (fst (BytesToHash b)) = 32"
  by (simp add: BytesToHash_def ZERO_HASH_def)

lemma BytesToHash_id [simp]: "length b = 32 \<Longrightarrow> BytesToHash b = (b, None)"
  by (simp add: BytesToHash_def ZERO_HASH_def)

lemma length_fst_BytesToAddress [simp]: "length (fst (BytesToAddress b)) = 21"
  by (simp add: BytesToAddress_def ZERO_ADDRESS_def)

lemma BytesToAddress_id [simp]: "length b = 21 \<Longrightarrow> BytesToAddress b = (b, None)"
  by (simp add: BytesToAddress_def ZERO_ADDRESS_def)

lemma length_fst_BytesToTokenTypeId [simp]: "length (fst (BytesToTokenTypeId b)) = 10"
  by (simp add: BytesToTokenTypeId_def ZERO_TOKENID_def)

lemma BytesToTokenTypeId_id [simp]: "length b = 10 \<Longrightarrow> BytesToTokenTypeId b = (b, None)"
  by (simp add: BytesToTokenTypeId_def ZERO_TOKENID_def)

lemma length_fst_BytesToGid [simp]: "length (fst (BytesToGid b)) = 10"
  by (simp add: BytesToGid_def)

lemma BytesToGid_id [simp]: "length b = 10 \<Longrightarrow> BytesToGid b = (b, None)"
  by (simp add: BytesToGid_def)

text \<open>\<open>BigToHash\<close> is total on VM words: the storage key of a value is its 32-byte encoding.\<close>

lemma BigToHash_word:
  assumes "wf_val v"
  shows "BigToHash v = (LeftPadBytes (big_Bytes v) 32, None)"
    and "be_val (fst (BigToHash v)) = nat v"
proof -
  have "length (big_Bytes v) \<le> 32" using assms
    by (auto simp: wf_val_def big_Bytes_def nat_less_iff intro!: length_nat_bytes_le)
  then have len: "length (LeftPadBytes (big_Bytes v) 32) = 32"
    by (simp add: LeftPadBytes_eq)
  have "BigToHash v = BytesToHash (LeftPadBytes (big_Bytes v) 32)"
    by (auto simp: BigToHash_def Let_def LeftPadBytes_def)
  with len show eq: "BigToHash v = (LeftPadBytes (big_Bytes v) 32, None)" by simp
  show "be_val (fst (BigToHash v)) = nat v"
    using assms by (simp add: eq big_Bytes_def wf_val_def)
qed

lemma BigToHash_inject:
  "wf_val v \<Longrightarrow> wf_val w \<Longrightarrow> fst (BigToHash v) = fst (BigToHash w) \<Longrightarrow> v = w"
  by (metis BigToHash_word(2) eq_nat_nat_iff wf_val_def)

section \<open>Textual form of addresses and token ids\<close>

lemma length_hex_Encode [simp]: "length (hex_EncodeToString bs) = 2 * length bs"
  by (induction bs) auto

lemma fromHexChar_hexDigit: "n < 16 \<Longrightarrow> fromHexChar (hexDigit n) = Some n"
proof -
  assume "n < 16"
  then have "n \<in> set [0..<16]" by simp
  then show ?thesis
    by (auto simp: upt_rec hexDigit_def fromHexChar_def)
qed

lemma hex_Decode_Encode [simp]: "hex_DecodeString (hex_EncodeToString bs) = Some bs"
proof (induction bs)
  case (Cons b bs)
  have "unat b div 16 < 16" using unat_byte_lt [of b] by linarith
  moreover have "of_nat (16 * (unat b div 16) + unat b mod 16) = b"
    by (simp only: mult_div_mod_eq) simp
  ultimately show ?case using Cons by (simp add: fromHexChar_hexDigit)
qed simp

lemma LDI_LDI [simp]: "LDI (LDI bs) = bs"
  by (simp add: LDI_def comp_def)

lemma not_byte_neq: "not (b :: byte) \<noteq> b"
proof
  assume "not b = b"
  then have "bit (not b) 0 = bit b 0" by simp
  then show False by (simp add: bit_not_iff del: bit_0)
qed

lemma LDI_neq: "bs \<noteq> [] \<Longrightarrow> LDI bs \<noteq> bs"
  by (cases bs) (auto simp: LDI_def not_byte_neq)

text \<open>What the code relies on of the hash functions: a digest has the size asked for.\<close>

definition crypto_ok :: "crypto \<Rightarrow> bool" where
  "crypto_ok c \<longleftrightarrow> (\<forall>n d. 0 < n \<longrightarrow> n \<le> 64 \<longrightarrow> length (blake2b c n d) = n) \<and> (\<forall>d. length (keccak c d) = 32)"

lemma length_HashN [simp]: "crypto_ok c \<Longrightarrow> 0 < n \<Longrightarrow> n \<le> 64 \<Longrightarrow> length (HashN c n ds) = n"
  by (simp add: HashN_def crypto_ok_def)

lemma length_Hash256 [simp]: "crypto_ok c \<Longrightarrow> length (Hash256 c ds) = 32"
  by (simp add: Hash256_def crypto_ok_def)

lemma CreateContractAddress_kind:
  "crypto_ok c \<Longrightarrow> IsContractAddr (CreateContractAddress c ds) \<and> length (CreateContractAddress c ds) = 21"
  by (simp add: CreateContractAddress_def IsContractAddr_def nth_append)

lemma ValidHexAddress_Hex:
  assumes c: "crypto_ok c" and "length a = 21" "a ! 20 = UserAddrByte \<or> a ! 20 = ContractAddrByte"
  shows "ValidHexAddress c (Address_Hex c a) = (a, None)"
proof -
  let ?core = "slice a 0 20" and ?h = "HashN c 5 [slice a 0 20]"
  have core: "length ?core = 20" using assms by simp
  have a: "?core @ [a ! 20] = a"
    using assms by (simp add: slice_def take_Suc_conv_app_nth [symmetric])
  have h: "length ?h = 5" "?h \<noteq> []" using c by (auto simp flip: length_0_conv)
  have parts: "getAddrCoreFromHex (AddressPrefix @ hex_EncodeToString ?core @ s) = Some ?core"
    "getAddressChecksumFromHex (AddressPrefix @ hex_EncodeToString ?core @ hex_EncodeToString t) = Some t"
    for s t
    using core by (simp_all add: getAddrCoreFromHex_def getAddressChecksumFromHex_def slice_def AddressPrefix_def)
  have len: "length (LDI ?h) = 5" using h by (simp add: LDI_def)
  show ?thesis
  proof (cases "a ! 20 = UserAddrByte")
    case True
    then have "ValidHexAddress c (Address_Hex c a) = GenUserAddress ?core"
      using core h parts by (simp add: Address_Hex_def ValidHexAddress_def Let_def) (simp add: AddressPrefix_def)
    with True a assms show ?thesis by (simp add: GenUserAddress_def)
  next
    case False
    with assms have "a ! 20 = ContractAddrByte" by blast
    moreover from this have "ValidHexAddress c (Address_Hex c a) = GenContractAddress ?core"
      using core h len parts LDI_neq [OF h(2)]
      by (auto simp: Address_Hex_def ValidHexAddress_def Let_def) (auto simp: AddressPrefix_def)
    ultimately show ?thesis using a assms by (simp add: GenContractAddress_def)
  qed
qed

lemma HexToTokenTypeId_Hex:
  assumes "crypto_ok c" "length t = 10"
  shows "HexToTokenTypeId c (TokenTypeId_Hex c t) = (t, None)"
  using assms
  by (simp add: HexToTokenTypeId_def IsValidHexTokenTypeId_def TokenTypeId_Hex_def
      getTokenTypeIdFromHex_def getTtiChecksumFromHex_def slice_def TokenTypeIdPrefix_def)

text \<open>An instance of the hash primitives: padding or truncating the input to the size.\<close>

definition pad_crypto :: crypto where
  "pad_crypto = \<lparr>blake2b = (\<lambda>n d. take n (d @ replicate n 0)), keccak = (\<lambda>d. take 32 (d @ replicate 32 0))\<rparr>"

lemma pad_crypto_ok [simp]: "crypto_ok pad_crypto"
  by (auto simp: crypto_ok_def pad_crypto_def)

section \<open>Properties\<close>

text \<open>C33: the textual form of an address, with its checksum (inverted for a contract), reads back as
  the same address and is accepted without an error.\<close>

theorem Address_Hex_roundtrip:
  assumes "crypto_ok c" "length a = 21" "a ! 20 = 0 \<or> a ! 20 = 1"
  shows "ValidHexAddress c (Address_Hex c a) = (a, None)"
  using assms by (rule ValidHexAddress_Hex)

theorem Address_Hex_roundtrip_witness:
  "ValidHexAddress pad_crypto (Address_Hex pad_crypto AddressGovernance) = (AddressGovernance, None)"
  by (rule Address_Hex_roundtrip) (simp_all add: AddressGovernance_def)

text \<open>The textual form of a token id reads back as the same id.\<close>

theorem TokenTypeId_Hex_roundtrip:
  assumes "crypto_ok c" "length t = 10"
  shows "HexToTokenTypeId c (TokenTypeId_Hex c t) = (t, None)"
  using assms by (rule HexToTokenTypeId_Hex)

theorem TokenTypeId_Hex_roundtrip_witness:
  "HexToTokenTypeId pad_crypto (TokenTypeId_Hex pad_crypto [1, 2, 3, 4, 5, 6, 7, 8, 9, 255]) =
     ([1, 2, 3, 4, 5, 6, 7, 8, 9, 255], None)"
  by (rule TokenTypeId_Hex_roundtrip) simp_all

end
