(* ===== verification/Upgrade.thy ===== *)
theory Upgrade
  imports Vite_Prelude "HOL-Library.AList"
begin

text \<open>
  common/upgrade: the hard-fork table.  A box maps a fork version to the snapshot height at which it
  becomes active; \<open>newUpgradeBox\<close> builds it and panics on a gap in the versions or on a height that
  goes down.  The Go map \<open>pointMap\<close> is an association list with distinct keys.  The global variable
  \<open>upgrade\<close> is the first argument of the queries.  The lemmas show that the forks of a box that was
  accepted are nested: a height past a later fork is past every earlier one.
\<close>

section \<open>Definitions\<close>

record UpgradePoint =
  up_Name :: string
  up_Height :: u64
  up_Version :: "32 word"

record upgradeBox =
  pointMap :: "(32 word \<times> UpgradePoint) list"
  heightMap :: "u64 list"
  sortedPoints :: "UpgradePoint list"

definition EndlessHeight :: u64 where "EndlessHeight = 1000000000"

definition sortPoints :: "(32 word \<times> UpgradePoint) list \<Rightarrow> UpgradePoint list" where
  "sortPoints m = sort_key up_Version (map snd m)"

fun checkPoints :: "nat \<Rightarrow> u64 \<Rightarrow> UpgradePoint list \<Rightarrow> unit go" where
  "checkPoints index lastHeight [] = Ret ()"
| "checkPoints index lastHeight (ele # rest) =
     (if Suc index \<noteq> unat (up_Version ele)
      then Panics (PanicStr ''error version in upgrade box'')
      else if up_Height ele < lastHeight then Panics (PanicStr ''error height in upgrade box'')
      else checkPoints (Suc index) (up_Height ele) rest)"

definition checkBox :: "upgradeBox \<Rightarrow> unit go" where
  "checkBox box = checkPoints 0 0 (sortedPoints box)"

text \<open>\<open>fmt.Sprintf("%d", version)\<close>, the name of a point that comes without one.\<close>

fun decimal :: "nat \<Rightarrow> string" where
  "decimal n = (if n < 10 then [char_of (48 + n)] else decimal (n div 10) @ [char_of (48 + n mod 10)])"

declare decimal.simps [simp del]

definition setName :: "UpgradePoint \<Rightarrow> UpgradePoint" where
  "setName p = (if up_Name p = [] then p\<lparr>up_Name := decimal (unat (up_Version p))\<rparr> else p)"

definition setPoint :: "UpgradePoint \<Rightarrow> upgradeBox \<Rightarrow> upgradeBox" where
  "setPoint p box = box\<lparr>pointMap := AList.update (up_Version p) p (pointMap box),
                        heightMap := up_Height p # heightMap box\<rparr>"

definition initFromArray :: "UpgradePoint list \<Rightarrow> upgradeBox \<Rightarrow> upgradeBox" where
  "initFromArray points box =
     (let box' = fold (\<lambda>p. setPoint (setName p)) points box in box'\<lparr>sortedPoints := sortPoints (pointMap box')\<rparr>)"

definition newUpgradeBox :: "UpgradePoint list \<Rightarrow> upgradeBox go" where
  "newUpgradeBox points =
     (let result = initFromArray points \<lparr>pointMap = [], heightMap = [], sortedPoints = []\<rparr>
      in go_bind (checkBox result) (\<lambda>_. Ret result))"

definition AddPoint :: "32 word \<Rightarrow> u64 \<Rightarrow> upgradeBox \<Rightarrow> upgradeBox go" where
  "AddPoint version height box =
     (if 0 < length (pointMap box) \<and> map_of (pointMap box) (version - 1) = None
      then Panics (PanicStr ''last upgrade version is missing'')
      else let box' = setPoint \<lparr>up_Name = [], up_Height = height, up_Version = version\<rparr> box
           in Ret (box'\<lparr>sortedPoints := sortPoints (pointMap box')\<rparr>))"

definition latestPoint :: "upgradeBox \<Rightarrow> UpgradePoint option" where
  "latestPoint box =
     (case rev (takeWhile (\<lambda>v. up_Height v < EndlessHeight) (sortedPoints box)) of
        [] \<Rightarrow> None | v # _ \<Rightarrow> Some v)"

definition currentPoint :: "upgradeBox \<Rightarrow> u64 \<Rightarrow> UpgradePoint option" where
  "currentPoint box height =
     (case rev (takeWhile (\<lambda>v. up_Height v \<le> height) (sortedPoints box)) of
        [] \<Rightarrow> None | v # _ \<Rightarrow> Some v)"

definition activePoints :: "upgradeBox \<Rightarrow> u64 \<Rightarrow> UpgradePoint list" where
  "activePoints box height = filter (\<lambda>v. up_Height v \<le> height) (sortedPoints box)"

definition getUpgradePoint :: "upgradeBox \<Rightarrow> 32 word \<Rightarrow> UpgradePoint option" where
  "getUpgradePoint box version = map_of (pointMap box) version"

definition isActive :: "upgradeBox \<Rightarrow> 32 word \<Rightarrow> u64 \<Rightarrow> bool" where
  "isActive box version height =
     (case map_of (pointMap box) version of None \<Rightarrow> False | Some point \<Rightarrow> height \<ge> up_Height point)"

definition isPoint :: "upgradeBox \<Rightarrow> u64 \<Rightarrow> bool" where
  "isPoint box height = List.member (heightMap box) height"

text \<open>The package variable \<open>upgrade\<close> is None before the node installs a box; installing twice panics.
  The queries below take the installed box.\<close>

definition InitUpgradeBox :: "UpgradePoint list \<Rightarrow> upgradeBox option \<Rightarrow> upgradeBox option go" where
  "InitUpgradeBox points upgrade =
     (case upgrade of
        Some _ \<Rightarrow> Panics (PanicStr ''init upgrade twice'')
      | None \<Rightarrow> go_bind (newUpgradeBox points) (\<lambda>box. Ret (Some box)))"

definition AddUpgradePoint :: "32 word \<Rightarrow> u64 \<Rightarrow> upgradeBox option \<Rightarrow> upgradeBox option go" where
  "AddUpgradePoint version height upgrade =
     (case upgrade of
        None \<Rightarrow> Panics PanicNil
      | Some box \<Rightarrow> go_bind (AddPoint version height box) (\<lambda>box'. Ret (Some box')))"

definition IsSeedUpgrade :: "upgradeBox \<Rightarrow> u64 \<Rightarrow> bool" where
  "IsSeedUpgrade upgrade sHeight = isActive upgrade 1 sHeight"
definition IsDexUpgrade :: "upgradeBox \<Rightarrow> u64 \<Rightarrow> bool" where
  "IsDexUpgrade upgrade sHeight = isActive upgrade 2 sHeight"
definition IsDexFeeUpgrade :: "upgradeBox \<Rightarrow> u64 \<Rightarrow> bool" where
  "IsDexFeeUpgrade upgrade sHeight = isActive upgrade 3 sHeight"
definition IsStemUpgrade :: "upgradeBox \<Rightarrow> u64 \<Rightarrow> bool" where
  "IsStemUpgrade upgrade sHeight = isActive upgrade 4 sHeight"
definition IsLeafUpgrade :: "upgradeBox \<Rightarrow> u64 \<Rightarrow> bool" where
  "IsLeafUpgrade upgrade sHeight = isActive upgrade 5 sHeight"
definition IsEarthUpgrade :: "upgradeBox \<Rightarrow> u64 \<Rightarrow> bool" where
  "IsEarthUpgrade upgrade sHeight = isActive upgrade 6 sHeight"
definition IsDexMiningUpgrade :: "upgradeBox \<Rightarrow> u64 \<Rightarrow> bool" where
  "IsDexMiningUpgrade upgrade sHeight = isActive upgrade 7 sHeight"
definition IsDexRobotUpgrade :: "upgradeBox \<Rightarrow> u64 \<Rightarrow> bool" where
  "IsDexRobotUpgrade upgrade sHeight = isActive upgrade 8 sHeight"
definition IsDexStableMarketUpgrade :: "upgradeBox \<Rightarrow> u64 \<Rightarrow> bool" where
  "IsDexStableMarketUpgrade upgrade sHeight = isActive upgrade 9 sHeight"
definition IsVersion10Upgrade :: "upgradeBox \<Rightarrow> u64 \<Rightarrow> bool" where
  "IsVersion10Upgrade upgrade sHeight = isActive upgrade 10 sHeight"
definition IsVersion11Upgrade :: "upgradeBox \<Rightarrow> u64 \<Rightarrow> bool" where
  "IsVersion11Upgrade upgrade sHeight = isActive upgrade 11 sHeight"
definition IsVersion12Upgrade :: "upgradeBox \<Rightarrow> u64 \<Rightarrow> bool" where
  "IsVersion12Upgrade upgrade sHeight = isActive upgrade 12 sHeight"
definition IsVersion13Upgrade :: "upgradeBox \<Rightarrow> u64 \<Rightarrow> bool" where
  "IsVersion13Upgrade upgrade sHeight = isActive upgrade 13 sHeight"
definition IsVersionXUpgrade :: "upgradeBox \<Rightarrow> u64 \<Rightarrow> bool" where
  "IsVersionXUpgrade upgrade sHeight = isActive upgrade 14 sHeight"

text \<open>The points of the main network.\<close>

definition mainnetPoints :: "UpgradePoint list" where
  "mainnetPoints =
    [\<lparr>up_Name = ''SeedFork'', up_Height = 3488471, up_Version = 1\<rparr>,
     \<lparr>up_Name = ''DexFork'', up_Height = 5442723, up_Version = 2\<rparr>,
     \<lparr>up_Name = ''DexFeeFork'', up_Height = 8013367, up_Version = 3\<rparr>,
     \<lparr>up_Name = ''StemFork'', up_Height = 8403110, up_Version = 4\<rparr>,
     \<lparr>up_Name = ''LeafFork'', up_Height = 9413600, up_Version = 5\<rparr>,
     \<lparr>up_Name = ''EarthFork'', up_Height = 16634530, up_Version = 6\<rparr>,
     \<lparr>up_Name = ''DexMiningFork'', up_Height = 17142720, up_Version = 7\<rparr>,
     \<lparr>up_Name = ''DexRobotFork'', up_Height = 31305900, up_Version = 8\<rparr>,
     \<lparr>up_Name = ''DexStableMarketFork'', up_Height = 39694000, up_Version = 9\<rparr>,
     \<lparr>up_Name = ''Version10'', up_Height = 77106666, up_Version = 10\<rparr>,
     \<lparr>up_Name = ''Version11'', up_Height = 101320000, up_Version = 11\<rparr>,
     \<lparr>up_Name = ''Version12'', up_Height = 116480000, up_Version = 12\<rparr>,
     \<lparr>up_Name = ''Version13'', up_Height = 166869900, up_Version = 13\<rparr>,
     \<lparr>up_Name = ''VersionX'', up_Height = EndlessHeight, up_Version = 14\<rparr>]"

definition NewMainnetUpgradeBox :: "upgradeBox go" where
  "NewMainnetUpgradeBox = newUpgradeBox mainnetPoints"

section \<open>Accepted boxes\<close>

lemma checkPoints_Ret:
  "checkPoints i lastH ps = Ret () \<Longrightarrow>
     (\<forall>k < length ps. unat (up_Version (ps ! k)) = Suc (i + k)) \<and>
     sorted_wrt (\<lambda>p q. up_Height p \<le> up_Height q) ps \<and> (\<forall>p \<in> set ps. lastH \<le> up_Height p)"
proof (induction i lastH ps rule: checkPoints.induct)
  case (2 i lastH ele rest)
  then have v: "unat (up_Version ele) = Suc i" and h: "lastH \<le> up_Height ele"
    and r: "checkPoints (Suc i) (up_Height ele) rest = Ret ()"
    by (auto split: if_splits)
  from 2 v h r have IH: "\<forall>k < length rest. unat (up_Version (rest ! k)) = Suc (Suc i + k)"
    "sorted_wrt (\<lambda>p q. up_Height p \<le> up_Height q) rest" "\<forall>p \<in> set rest. up_Height ele \<le> up_Height p"
    by auto
  have "unat (up_Version ((ele # rest) ! k)) = Suc (i + k)" if "k < length (ele # rest)" for k
    using that v IH(1) by (cases k) auto
  with IH h show ?case by (auto intro: order_trans)
qed simp

text \<open>The map of a box built by \<open>newUpgradeBox\<close> stores every point under its own version.\<close>

definition keyed :: "(32 word \<times> UpgradePoint) list \<Rightarrow> bool" where
  "keyed m \<longleftrightarrow> distinct (map fst m) \<and> (\<forall>(v, p) \<in> set m. up_Version p = v)"

lemma keyed_update: "keyed m \<Longrightarrow> keyed (AList.update (up_Version p) p m)"
proof -
  assume m: "keyed m"
  have "set (AList.update (up_Version p) p m) \<subseteq> insert (up_Version p, p) (set m)"
    by (induction m) (auto split: if_splits)
  moreover have "distinct (map fst (AList.update (up_Version p) p m))"
    using m distinct_update by (auto simp: keyed_def)
  ultimately show ?thesis using m by (auto simp: keyed_def)
qed

lemma keyed_fold_setPoint: "keyed (pointMap box) \<Longrightarrow> keyed (pointMap (fold (\<lambda>p. setPoint (setName p)) ps box))"
  by (induction ps arbitrary: box) (auto simp: setPoint_def keyed_update)

lemma newUpgradeBox_Ret:
  assumes "newUpgradeBox ps = Ret box"
  shows "keyed (pointMap box)" "sortedPoints box = sortPoints (pointMap box)"
    "checkPoints 0 0 (sortedPoints box) = Ret ()"
  using assms keyed_fold_setPoint [of "\<lparr>pointMap = [], heightMap = [], sortedPoints = []\<rparr>" ps]
  by (auto simp: newUpgradeBox_def Let_def go_bind_eq_Ret checkBox_def initFromArray_def keyed_def)

lemma lookup_sortedPoints:
  assumes "keyed (pointMap box)" "sortedPoints box = sortPoints (pointMap box)"
  shows "map_of (pointMap box) v = Some p \<longleftrightarrow> p \<in> set (sortedPoints box) \<and> up_Version p = v"
  using assms by (auto simp: keyed_def sortPoints_def map_of_eq_Some_iff image_iff Bex_def)

text \<open>Later forks of an accepted box include the earlier ones.\<close>

lemma isActive_antimono:
  assumes box: "newUpgradeBox ps = Ret box"
    and act: "isActive box v h" and w: "0 < w" "w \<le> v"
  shows "isActive box w h"
proof -
  note nb = newUpgradeBox_Ret [OF box]
  note chk = checkPoints_Ret [OF nb(3)]
  note look = lookup_sortedPoints [OF nb(1,2)]
  from act obtain p where p: "p \<in> set (sortedPoints box)" "up_Version p = v" "up_Height p \<le> h"
    by (auto simp: isActive_def look split: option.splits)
  then obtain k where k: "k < length (sortedPoints box)" "sortedPoints box ! k = p"
    by (auto simp: in_set_conv_nth)
  have vk: "unat v = Suc k" using chk k p by auto
  have w0: "0 < unat w" using w by (simp add: unat_gt_0)
  define j where "j = unat w - 1"
  have j: "j \<le> k" "unat w = Suc j" using w w0 vk by (auto simp: word_le_nat_alt j_def)
  let ?q = "sortedPoints box ! j"
  have q: "?q \<in> set (sortedPoints box)" using j k by simp
  have "unat (up_Version ?q) = Suc j" using chk j k by simp
  then have "up_Version ?q = w" using j by (metis word_unat_eq_iff)
  with q have look_w: "map_of (pointMap box) w = Some ?q" by (simp add: look)
  have "up_Height ?q \<le> up_Height p"
  proof (cases "j = k")
    case False
    with chk j k show ?thesis by (auto simp: sorted_wrt_iff_nth_less)
  qed (use k in simp)
  with p look_w show ?thesis by (simp add: isActive_def)
qed

lemma NewMainnetUpgradeBox_Ret:
  "case NewMainnetUpgradeBox of Ret box \<Rightarrow> sortedPoints box = mainnetPoints | Panics _ \<Rightarrow> False"
  by code_simp

section \<open>Properties\<close>

text \<open>C25: the forks of an accepted box are nested: at a height where version \<open>v\<close> is active, every
  earlier version is active too.\<close>

theorem forks_nested:
  assumes "newUpgradeBox ps = Ret box" "isActive box v h" "0 < w" "w \<le> v"
  shows "isActive box w h"
  using assms by (rule isActive_antimono)

theorem forks_nested_witness:
  "case NewMainnetUpgradeBox of Ret box \<Rightarrow> IsEarthUpgrade box 16634530 \<and> IsSeedUpgrade box 16634530
   | Panics _ \<Rightarrow> False"
proof (cases NewMainnetUpgradeBox)
  case (Ret box)
  have "case NewMainnetUpgradeBox of Ret box \<Rightarrow> isActive box 6 16634530 | Panics _ \<Rightarrow> False"
    by code_simp
  then have "isActive box 6 16634530" unfolding Ret by simp
  moreover from this have "isActive box 1 16634530"
    using forks_nested [of mainnetPoints box 6 16634530 1] Ret by (simp add: NewMainnetUpgradeBox_def)
  ultimately show ?thesis unfolding Ret by (simp add: IsEarthUpgrade_def IsSeedUpgrade_def)
next
  case (Panics p)
  from NewMainnetUpgradeBox_Ret show ?thesis unfolding Panics by simp
qed

end
