(* ===== verification/Ledger_Core.thy ===== *)
theory Ledger_Core
  imports Common_Types Upgrade
begin

text \<open>
  interfaces/core: account blocks (account_block.go), contract metadata (contract_meta.go), event logs
  (vm_log_list.go) and the fields of a snapshot block that the VM reads.

  \<open>AccountBlock\<close> is recursive in the code (a receive block of a contract carries the send blocks it
  produced), so it is a datatype over the record of its plain fields; \<open>ab_X b\<close> reads the field \<open>X\<close>.
  A nil \<open>*big.Int\<close> of \<open>Amount\<close> or \<open>Fee\<close> is the number 0, the cached producer address is left out.
  The lemmas give the round trips of the two serializers, the layout of the hashed bytes, and what
  \<open>Copy\<close> really copies.
\<close>

section \<open>Definitions\<close>

abbreviation (input) BlockTypeSendCreate :: byte where "BlockTypeSendCreate \<equiv> 1"
abbreviation (input) BlockTypeSendCall :: byte where "BlockTypeSendCall \<equiv> 2"
abbreviation (input) BlockTypeSendReward :: byte where "BlockTypeSendReward \<equiv> 3"
abbreviation (input) BlockTypeReceive :: byte where "BlockTypeReceive \<equiv> 4"
abbreviation (input) BlockTypeReceiveError :: byte where "BlockTypeReceiveError \<equiv> 5"
abbreviation (input) BlockTypeSendRefund :: byte where "BlockTypeSendRefund \<equiv> 6"
abbreviation (input) BlockTypeGenesisReceive :: byte where "BlockTypeGenesisReceive \<equiv> 7"

record BlockFields =
  f_BlockType :: byte
  f_Hash :: Hash
  f_PrevHash :: Hash
  f_Height :: u64
  f_AccountAddress :: Address
  f_PublicKey :: bytes
  f_ToAddress :: Address
  f_Amount :: int
  f_TokenId :: TokenTypeId
  f_FromBlockHash :: Hash
  f_Data :: bytes
  f_Quota :: u64
  f_QuotaUsed :: u64
  f_Fee :: int
  f_LogHash :: "Hash option"
  f_Difficulty :: "int option"
  f_Nonce :: bytes
  f_Signature :: bytes

datatype AccountBlock = AccountBlock (ab_fields: BlockFields) (ab_SendBlockList: "AccountBlock list")

abbreviation "ab_BlockType b \<equiv> f_BlockType (ab_fields b)"
abbreviation "ab_Hash b \<equiv> f_Hash (ab_fields b)"
abbreviation "ab_PrevHash b \<equiv> f_PrevHash (ab_fields b)"
abbreviation "ab_Height b \<equiv> f_Height (ab_fields b)"
abbreviation "ab_AccountAddress b \<equiv> f_AccountAddress (ab_fields b)"
abbreviation "ab_ToAddress b \<equiv> f_ToAddress (ab_fields b)"
abbreviation "ab_Amount b \<equiv> f_Amount (ab_fields b)"
abbreviation "ab_TokenId b \<equiv> f_TokenId (ab_fields b)"
abbreviation "ab_FromBlockHash b \<equiv> f_FromBlockHash (ab_fields b)"
abbreviation "ab_Data b \<equiv> f_Data (ab_fields b)"
abbreviation "ab_Quota b \<equiv> f_Quota (ab_fields b)"
abbreviation "ab_QuotaUsed b \<equiv> f_QuotaUsed (ab_fields b)"
abbreviation "ab_Fee b \<equiv> f_Fee (ab_fields b)"
abbreviation "ab_LogHash b \<equiv> f_LogHash (ab_fields b)"
abbreviation "ab_Difficulty b \<equiv> f_Difficulty (ab_fields b)"
abbreviation "ab_Nonce b \<equiv> f_Nonce (ab_fields b)"

text \<open>The zero value of the struct and an assignment to its plain fields.\<close>

definition zeroFields :: BlockFields where
  "zeroFields =
     \<lparr>f_BlockType = 0, f_Hash = ZERO_HASH, f_PrevHash = ZERO_HASH, f_Height = 0,
      f_AccountAddress = ZERO_ADDRESS, f_PublicKey = [], f_ToAddress = ZERO_ADDRESS, f_Amount = 0,
      f_TokenId = ZERO_TOKENID, f_FromBlockHash = ZERO_HASH, f_Data = [], f_Quota = 0,
      f_QuotaUsed = 0, f_Fee = 0, f_LogHash = None, f_Difficulty = None, f_Nonce = [],
      f_Signature = []\<rparr>"

definition ab_map :: "(BlockFields \<Rightarrow> BlockFields) \<Rightarrow> AccountBlock \<Rightarrow> AccountBlock" where
  "ab_map f b = AccountBlock (f (ab_fields b)) (ab_SendBlockList b)"

definition IsSendBlock :: "byte \<Rightarrow> bool" where
  "IsSendBlock blockType \<longleftrightarrow>
     blockType = BlockTypeSendCreate \<or> blockType = BlockTypeSendCall \<or>
     blockType = BlockTypeSendReward \<or> blockType = BlockTypeSendRefund"

definition IsReceiveBlock :: "byte \<Rightarrow> bool" where
  "IsReceiveBlock blockType \<longleftrightarrow>
     blockType = BlockTypeReceive \<or> blockType = BlockTypeReceiveError \<or>
     blockType = BlockTypeGenesisReceive"

definition IsGenesisBlock :: "AccountBlock \<Rightarrow> bool" where
  "IsGenesisBlock ab \<longleftrightarrow> ab_BlockType ab = BlockTypeGenesisReceive \<and> ab_Height ab = 1"

text \<open>\<open>newAb := *ab\<close> copies the slice of send blocks as well; the loop then appends a copy of each.\<close>

fun Copy :: "AccountBlock \<Rightarrow> AccountBlock" where
  "Copy (AccountBlock f sendBlockList) = AccountBlock f (sendBlockList @ map Copy sendBlockList)"

text \<open>\<open>binary.BigEndian.PutUint64\<close>.\<close>

definition putUint64 :: "u64 \<Rightarrow> bytes" where
  "putUint64 w = map (\<lambda>i. ucast (drop_bit (8 * (7 - i)) w)) [0..<8]"

definition hashSource :: "crypto \<Rightarrow> AccountBlock \<Rightarrow> bytes \<Rightarrow> bytes" where
  "hashSource c ab extraByte =
     [ab_BlockType ab] @ ab_PrevHash ab @ putUint64 (ab_Height ab) @ ab_AccountAddress ab @
     (if IsSendBlock (ab_BlockType ab)
      then ab_ToAddress ab @ LeftPadBytes (big_Bytes (ab_Amount ab)) 32 @ ab_TokenId ab
      else ab_FromBlockHash ab) @
     (if length (ab_Data ab) > 0 then Hash256 c [ab_Data ab] else []) @
     LeftPadBytes (big_Bytes (ab_Fee ab)) 32 @
     (case ab_LogHash ab of None \<Rightarrow> [] | Some h \<Rightarrow> h) @
     LeftPadBytes (ab_Nonce ab) 8 @
     concat (map (\<lambda>sb. ab_Hash sb) (ab_SendBlockList ab)) @
     extraByte"

definition hashSourceLength :: "AccountBlock \<Rightarrow> nat" where
  "hashSourceLength ab =
     1 + 32 + 8 + 21 +
     (if IsSendBlock (ab_BlockType ab) then 21 + length (big_Bytes (ab_Amount ab)) + 10 else 32) +
     (if length (ab_Data ab) > 0 then 32 else 0) + 32 +
     (if ab_LogHash ab \<noteq> None then 32 else 0) +
     (8 + 32 * length (ab_SendBlockList ab))"

definition ComputeHash :: "crypto \<Rightarrow> AccountBlock \<Rightarrow> Hash" where
  "ComputeHash c ab = fst (BytesToHash (Hash256 c [hashSource c ab []]))"

definition ComputeSendHash :: "crypto \<Rightarrow> AccountBlock \<Rightarrow> AccountBlock \<Rightarrow> byte \<Rightarrow> Hash" where
  "ComputeSendHash c ab hostBlock index =
     (let extraBytes = ab_PrevHash hostBlock @ putUint64 (ab_Height hostBlock) @ [index]
      in fst (BytesToHash (Hash256 c [hashSource c ab extraBytes])))"

subsection \<open>Protobuf message\<close>

record PbFields =
  pb_BlockType :: byte
  pb_Hash :: bytes
  pb_Height :: u64
  pb_PrevHash :: bytes
  pb_AccountAddress :: bytes
  pb_PublicKey :: bytes
  pb_ToAddress :: bytes
  pb_Amount :: bytes
  pb_TokenId :: bytes
  pb_FromBlockHash :: bytes
  pb_Data :: bytes
  pb_Quota :: u64
  pb_Fee :: bytes
  pb_LogHash :: bytes
  pb_Difficulty :: bytes
  pb_Nonce :: bytes
  pb_Signature :: bytes
  pb_QuotaUsed :: u64

datatype PbAccountBlock = PbAccountBlock (pb_fields: PbFields) (pb_SendBlockList: "PbAccountBlock list")

definition protoFields :: "BlockFields \<Rightarrow> PbFields" where
  "protoFields f =
     (let send = IsSendBlock (f_BlockType f);
          money = send \<or> f_BlockType f = BlockTypeGenesisReceive
      in \<lparr>pb_BlockType = f_BlockType f, pb_Hash = f_Hash f, pb_Height = f_Height f,
          pb_PrevHash = (if f_Height f > 1 then f_PrevHash f else []),
          pb_AccountAddress = f_AccountAddress f, pb_PublicKey = f_PublicKey f,
          pb_ToAddress = (if send then f_ToAddress f else []),
          pb_Amount = (if money then big_Bytes (f_Amount f) else []),
          pb_TokenId = (if money then f_TokenId f else []),
          pb_FromBlockHash = (if send then [] else f_FromBlockHash f),
          pb_Data = f_Data f, pb_Quota = f_Quota f, pb_Fee = big_Bytes (f_Fee f),
          pb_LogHash = (case f_LogHash f of None \<Rightarrow> [] | Some h \<Rightarrow> h),
          pb_Difficulty = (case f_Difficulty f of None \<Rightarrow> [] | Some d \<Rightarrow> big_Bytes d),
          pb_Nonce = f_Nonce f, pb_Signature = f_Signature f, pb_QuotaUsed = f_QuotaUsed f\<rparr>)"

fun Proto :: "AccountBlock \<Rightarrow> PbAccountBlock" where
  "Proto (AccountBlock f sendBlockList) = PbAccountBlock (protoFields f) (map Proto sendBlockList)"

text \<open>\<open>DeProto\<close> assigns field by field and returns at the first conversion that fails; what it has
  assigned by then stays.  The stages follow the numbering of the comments in the code.\<close>

definition deprotoHead :: "PbFields \<Rightarrow> BlockFields \<Rightarrow> BlockFields \<times> vm_error option" where
  "deprotoHead p f =
     (let f1 = f\<lparr>f_BlockType := pb_BlockType p, f_Hash := fst (BytesToHash (pb_Hash p)),
                 f_Height := pb_Height p\<rparr>;
          f2 = (if pb_Height p > 1 then f1\<lparr>f_PrevHash := fst (BytesToHash (pb_PrevHash p))\<rparr> else f1);
          (a, e) = BytesToAddress (pb_AccountAddress p)
      in (f2\<lparr>f_AccountAddress := a\<rparr>, e))"

definition deprotoPeer :: "PbFields \<Rightarrow> BlockFields \<Rightarrow> BlockFields \<times> vm_error option" where
  "deprotoPeer p f =
     (let f1 = f\<lparr>f_PublicKey := pb_PublicKey p\<rparr>
      in if IsSendBlock (f_BlockType f1)
         then let (a, e) = BytesToAddress (pb_ToAddress p) in (f1\<lparr>f_ToAddress := a\<rparr>, e)
         else let (h, e) = BytesToHash (pb_FromBlockHash p) in (f1\<lparr>f_FromBlockHash := h\<rparr>, e))"

definition deprotoMoney :: "PbFields \<Rightarrow> BlockFields \<Rightarrow> BlockFields \<times> vm_error option" where
  "deprotoMoney p f =
     (if IsSendBlock (f_BlockType f) \<or> f_BlockType f = BlockTypeGenesisReceive
      then let (t, e) = BytesToTokenTypeId (pb_TokenId p)
           in case e of
                Some err \<Rightarrow> (f\<lparr>f_TokenId := t\<rparr>, Some err)
              | None \<Rightarrow> (f\<lparr>f_TokenId := t, f_Amount := big_SetBytes (pb_Amount p)\<rparr>, None)
      else (f, None))"

definition deprotoTail :: "PbFields \<Rightarrow> BlockFields \<Rightarrow> BlockFields \<times> vm_error option" where
  "deprotoTail p f =
     (let f1 = f\<lparr>f_Data := pb_Data p, f_Quota := pb_Quota p, f_QuotaUsed := pb_QuotaUsed p,
                 f_Fee := big_SetBytes (pb_Fee p)\<rparr>;
          fin = (\<lambda>g. (if length (pb_Difficulty p) > 0
                      then g\<lparr>f_Difficulty := Some (big_SetBytes (pb_Difficulty p))\<rparr> else g)
                     \<lparr>f_Nonce := pb_Nonce p\<rparr>)
      in if length (pb_LogHash p) > 0
         then (case BytesToHash (pb_LogHash p) of
                 (_, Some err) \<Rightarrow> (f1, Some err)
               | (logHash, None) \<Rightarrow> (fin (f1\<lparr>f_LogHash := Some logHash\<rparr>), None))
         else (fin f1, None))"

definition deprotoFields :: "PbFields \<Rightarrow> BlockFields \<Rightarrow> BlockFields \<times> vm_error option" where
  "deprotoFields p f =
     (case deprotoHead p f of (f1, Some err) \<Rightarrow> (f1, Some err) | (f1, None) \<Rightarrow>
     (case deprotoPeer p f1 of (f2, Some err) \<Rightarrow> (f2, Some err) | (f2, None) \<Rightarrow>
     (case deprotoMoney p f2 of (f3, Some err) \<Rightarrow> (f3, Some err) | (f3, None) \<Rightarrow>
      deprotoTail p f3)))"

text \<open>The loop over the send blocks keeps the blocks read before the first error.\<close>

fun collect :: "('a \<times> vm_error option) list \<Rightarrow> 'a list \<times> vm_error option" where
  "collect [] = ([], None)"
| "collect ((b, Some err) # _) = ([], Some err)"
| "collect ((b, None) # rest) = (case collect rest of (bs, e) \<Rightarrow> (b # bs, e))"

primrec DeProto :: "PbAccountBlock \<Rightarrow> AccountBlock \<Rightarrow> AccountBlock \<times> vm_error option" where
  "DeProto (PbAccountBlock p ps) = (\<lambda>ab.
     (case deprotoFields p (ab_fields ab) of
        (f, Some err) \<Rightarrow> (AccountBlock f (ab_SendBlockList ab), Some err)
      | (f, None) \<Rightarrow>
          (case collect (map (\<lambda>g. g (AccountBlock zeroFields [])) (map DeProto ps)) of
             (bs, Some err) \<Rightarrow> (AccountBlock f bs, Some err)
           | (bs, None) \<Rightarrow> (AccountBlock (f\<lparr>f_Signature := pb_Signature p\<rparr>) bs, None))))"

text \<open>\<open>proto.Marshal\<close> and \<open>proto.Unmarshal\<close> are arguments.  \<open>Deserialize\<close> does not look at the error of
  \<open>DeProto\<close>.\<close>

definition AccountBlock_Serialize :: "(PbAccountBlock \<Rightarrow> vm_error + bytes) \<Rightarrow> AccountBlock \<Rightarrow> vm_error + bytes" where
  "AccountBlock_Serialize proto_Marshal ab = proto_Marshal (Proto ab)"

definition AccountBlock_Deserialize ::
    "(bytes \<Rightarrow> vm_error + PbAccountBlock) \<Rightarrow> bytes \<Rightarrow> AccountBlock \<Rightarrow> AccountBlock \<times> vm_error option" where
  "AccountBlock_Deserialize proto_Unmarshal buf ab =
     (case proto_Unmarshal buf of
        Inl err \<Rightarrow> (ab, Some err)
      | Inr pb \<Rightarrow> (fst (DeProto pb ab), None))"

subsection \<open>contract_meta.go\<close>

record ContractMeta =
  cm_Gid :: Gid
  cm_SendConfirmedTimes :: byte
  cm_CreateBlockHash :: Hash
  cm_QuotaRatio :: byte
  cm_SeedConfirmedTimes :: byte

abbreviation (input) LengthBeforeSeedFork :: nat where "LengthBeforeSeedFork \<equiv> 44"

definition ContractMeta_Serialize :: "ContractMeta \<Rightarrow> bytes" where
  "ContractMeta_Serialize cm =
     cm_Gid cm @ [cm_SendConfirmedTimes cm] @ cm_CreateBlockHash cm @ [cm_QuotaRatio cm] @
     [cm_SeedConfirmedTimes cm]"

definition ContractMeta_Deserialize :: "bytes \<Rightarrow> ContractMeta go" where
  "ContractMeta_Deserialize buf =
     (if length buf < 44 then Panics PanicIndex
      else
        let sendTimes = buf ! 10
        in Ret \<lparr>cm_Gid = fst (BytesToGid (slice buf 0 10)), cm_SendConfirmedTimes = sendTimes,
                cm_CreateBlockHash = fst (BytesToHash (slice buf 11 43)),
                cm_QuotaRatio = buf ! 43,
                cm_SeedConfirmedTimes =
                  (if length buf \<le> LengthBeforeSeedFork then sendTimes else buf ! 44)\<rparr>)"

definition getBuiltinContractQuotaRatio :: "Address \<Rightarrow> byte" where
  "getBuiltinContractQuotaRatio addr = 10"

definition GetBuiltinContractMeta :: "Address \<Rightarrow> ContractMeta option" where
  "GetBuiltinContractMeta addr =
     (if IsBuiltinContractAddrInUseWithSendConfirm addr
      then Some \<lparr>cm_Gid = DELEGATE_GID, cm_SendConfirmedTimes = 1, cm_CreateBlockHash = ZERO_HASH,
                 cm_QuotaRatio = getBuiltinContractQuotaRatio addr, cm_SeedConfirmedTimes = 0\<rparr>
      else if IsBuiltinContractAddrInUse addr
      then Some \<lparr>cm_Gid = DELEGATE_GID, cm_SendConfirmedTimes = 0, cm_CreateBlockHash = ZERO_HASH,
                 cm_QuotaRatio = getBuiltinContractQuotaRatio addr, cm_SeedConfirmedTimes = 0\<rparr>
      else None)"

subsection \<open>vm_log_list.go, snapshot_block.go\<close>

record VmLog =
  vl_Topics :: "Hash list"
  vl_Data :: bytes

definition VmLogList_Hash ::
    "crypto \<Rightarrow> upgradeBox \<Rightarrow> VmLog list \<Rightarrow> u64 \<Rightarrow> Address \<Rightarrow> Hash \<Rightarrow> Hash option" where
  "VmLogList_Hash c upgrade vll snapshotHeight address prevHash =
     (if length vll = 0 then None
      else
        let source = concat (map (\<lambda>vmLog. concat (vl_Topics vmLog) @ vl_Data vmLog) vll);
            source' = (if IsSeedUpgrade upgrade snapshotHeight then source @ address @ prevHash else source)
        in Some (fst (BytesToHash (Hash256 c [source']))))"

record HashHeight =
  hh_Height :: u64
  hh_Hash :: Hash

type_synonym SnapshotContent = "(Address \<times> HashHeight) list"

record SnapshotBlock =
  sb_Hash :: Hash
  sb_PrevHash :: Hash
  sb_Height :: u64
  sb_PublicKey :: bytes
  sb_Signature :: bytes
  sb_Timestamp :: int   \<comment> \<open>nanoseconds since the epoch\<close>
  sb_Seed :: u64
  sb_SeedHash :: "Hash option"
  sb_SnapshotContent :: SnapshotContent
  sb_Version :: "32 word"

text \<open>\<open>time.Time.Unix\<close>.\<close>

definition time_Unix :: "int \<Rightarrow> int" where
  "time_Unix t = t div 1000000000"

section \<open>Account blocks\<close>

lemma ab_map_simps [simp]:
  "ab_fields (ab_map f b) = f (ab_fields b)"
  "ab_SendBlockList (ab_map f b) = ab_SendBlockList b"
  by (simp_all add: ab_map_def)

text \<open>A copy lists every send block twice: once shared with the original, once copied.\<close>

lemma Copy_fields [simp]:
  "ab_fields (Copy b) = ab_fields b"
  "ab_SendBlockList (Copy b) = ab_SendBlockList b @ map Copy (ab_SendBlockList b)"
  by (cases b; simp)+

lemma Copy_id_iff: "Copy b = b \<longleftrightarrow> ab_SendBlockList b = []"
  by (cases b) auto

lemma send_not_receive: "IsSendBlock t \<Longrightarrow> \<not> IsReceiveBlock t"
  by (auto simp: IsSendBlock_def IsReceiveBlock_def)

text \<open>The sizes of the fixed arrays of a block, of the numbers, and what the message leaves out.\<close>

definition wf_fields :: "BlockFields \<Rightarrow> bool" where
  "wf_fields f \<longleftrightarrow>
     length (f_Hash f) = 32 \<and> length (f_PrevHash f) = 32 \<and> length (f_AccountAddress f) = 21 \<and>
     length (f_ToAddress f) = 21 \<and> length (f_TokenId f) = 10 \<and> length (f_FromBlockHash f) = 32 \<and>
     0 \<le> f_Amount f \<and> 0 \<le> f_Fee f \<and>
     (case f_LogHash f of None \<Rightarrow> True | Some h \<Rightarrow> length h = 32) \<and>
     (case f_Difficulty f of None \<Rightarrow> True | Some d \<Rightarrow> 0 < d)"

definition normal_fields :: "BlockFields \<Rightarrow> bool" where
  "normal_fields f \<longleftrightarrow>
     (f_Height f > 1 \<or> f_PrevHash f = ZERO_HASH) \<and>
     (if IsSendBlock (f_BlockType f) then f_FromBlockHash f = ZERO_HASH
      else f_ToAddress f = ZERO_ADDRESS \<and>
        (f_BlockType f = BlockTypeGenesisReceive \<or> f_Amount f = 0 \<and> f_TokenId f = ZERO_TOKENID))"

primrec wf_block :: "AccountBlock \<Rightarrow> bool" where
  "wf_block (AccountBlock f bs) \<longleftrightarrow> wf_fields f \<and> normal_fields f \<and> list_all wf_block bs"

lemma deprotoFields_proto:
  assumes "wf_fields f" "normal_fields f"
  shows "deprotoFields (protoFields f) zeroFields = (f\<lparr>f_Signature := []\<rparr>, None)"
proof -
  have D: "big_SetBytes (big_Bytes d) = d \<and> big_Bytes d \<noteq> []" if "f_Difficulty f = Some d" for d
    using assms that by (auto simp: wf_fields_def big_Bytes_def big_SetBytes_def)
  show ?thesis using assms D
    by (cases f, cases "f_LogHash f"; cases "f_Difficulty f")
      (auto simp: deprotoFields_def deprotoHead_def deprotoPeer_def deprotoMoney_def deprotoTail_def
        protoFields_def zeroFields_def wf_fields_def normal_fields_def Let_def split: if_splits)
qed

lemma collect_all_ok: "collect (map (\<lambda>b. (b, None)) bs) = (bs, None)"
  by (induction bs) auto

lemma DeProto_Proto: "wf_block b \<Longrightarrow> DeProto (Proto b) (AccountBlock zeroFields []) = (b, None)"
proof (induction b)
  case (AccountBlock f bs)
  then have eq: "map (\<lambda>b. DeProto (Proto b) (AccountBlock zeroFields [])) bs = map (\<lambda>b. (b, None)) bs"
    by (auto simp: list_all_iff)
  from AccountBlock.prems show ?case
    by (simp add: deprotoFields_proto comp_def eq collect_all_ok) (simp add: protoFields_def Let_def)
qed

text \<open>Bytes of a height.\<close>

lemma length_putUint64 [simp]: "length (putUint64 w) = 8"
  by (simp add: putUint64_def)

lemma putUint64_inject: "putUint64 v = putUint64 w \<longleftrightarrow> v = w"
proof
  assume "putUint64 v = putUint64 w"
  then have byte_eq: "(ucast (drop_bit (8 * (7 - i)) v) :: byte) = ucast (drop_bit (8 * (7 - i)) w)" if "i < 8" for i
    using that by (simp add: putUint64_def)
  show "v = w"
  proof (rule bit_word_eqI)
    fix n assume "n < LENGTH(64)"
    then have n: "n div 8 < 8" "n mod 8 < 8" "8 * (n div 8) + n mod 8 = n" by auto
    let ?k = "8 * (7 - (7 - n div 8))"
    have k: "?k = 8 * (n div 8)" using n by simp
    have "bit (ucast (drop_bit ?k v) :: byte) (n mod 8) = bit (ucast (drop_bit ?k w) :: byte) (n mod 8)"
      using byte_eq [of "7 - n div 8"] n by simp
    then show "bit v n = bit w n"
      using n unfolding k by (simp add: bit_simps)
  qed
qed simp

lemma hashSource_head:
  "hashSource c ab x = ab_BlockType ab # ab_PrevHash ab @ putUint64 (ab_Height ab) @ ab_AccountAddress ab @
     drop 62 (hashSource c ab x)"
  if "wf_fields (ab_fields ab)"
  using that by (simp add: hashSource_def wf_fields_def)

text \<open>Two blocks with the same hashed bytes agree on the chain position they claim.\<close>

lemma hashSource_position:
  assumes "wf_fields (ab_fields a)" "wf_fields (ab_fields b)" "hashSource c a x = hashSource c b y"
  shows "ab_BlockType a = ab_BlockType b \<and> ab_PrevHash a = ab_PrevHash b \<and>
    ab_Height a = ab_Height b \<and> ab_AccountAddress a = ab_AccountAddress b"
proof -
  have "ab_BlockType a # ab_PrevHash a @ putUint64 (ab_Height a) @ ab_AccountAddress a @ drop 62 (hashSource c a x) =
    ab_BlockType b # ab_PrevHash b @ putUint64 (ab_Height b) @ ab_AccountAddress b @ drop 62 (hashSource c b y)"
    using hashSource_head assms by metis
  with assms(1,2) show ?thesis by (simp add: wf_fields_def putUint64_inject)
qed

section \<open>Contract metadata\<close>

definition wf_meta :: "ContractMeta \<Rightarrow> bool" where
  "wf_meta cm \<longleftrightarrow> length (cm_Gid cm) = 10 \<and> length (cm_CreateBlockHash cm) = 32"

lemma ContractMeta_roundtrip:
  "wf_meta cm \<Longrightarrow> ContractMeta_Deserialize (ContractMeta_Serialize cm) = Ret cm"
  by (cases cm) (auto simp: wf_meta_def ContractMeta_Deserialize_def ContractMeta_Serialize_def slice_def
      nth_append nth_Cons' Let_def)

text \<open>Metadata written before the seed fork: the seed count defaults to the confirmation count.\<close>

lemma ContractMeta_old_format:
  "wf_meta cm \<Longrightarrow> ContractMeta_Deserialize (butlast (ContractMeta_Serialize cm)) =
     Ret (cm\<lparr>cm_SeedConfirmedTimes := cm_SendConfirmedTimes cm\<rparr>)"
  by (cases cm) (auto simp: wf_meta_def ContractMeta_Deserialize_def ContractMeta_Serialize_def slice_def
      nth_append nth_Cons' Let_def butlast_append)

section \<open>Properties\<close>


definition sampleSend :: AccountBlock where
  "sampleSend = AccountBlock (zeroFields\<lparr>f_BlockType := BlockTypeSendCall, f_Height := 7,
     f_Amount := 300, f_Data := [1, 2], f_Fee := 5\<rparr>) []"

definition sampleReceive :: AccountBlock where
  "sampleReceive = AccountBlock (zeroFields\<lparr>f_BlockType := BlockTypeReceive, f_Height := 2,
     f_LogHash := Some ZERO_HASH, f_Difficulty := Some 12\<rparr>) [sampleSend]"


text \<open>C30: \<open>Copy\<close> of a block lists every send block twice, once shared and once copied, so it is the
  original only for a block that carries none.\<close>

theorem Copy_duplicates_send_blocks:
  "length (ab_SendBlockList (Copy b)) = 2 * length (ab_SendBlockList b) \<and>
   (Copy b = b \<longleftrightarrow> ab_SendBlockList b = [])"
  by (simp add: Copy_id_iff)


text \<open>C32: two blocks with the same hashed bytes claim the same position: block type, previous hash,
  height and account.\<close>

theorem hashSource_binds_position:
  assumes "wf_fields (ab_fields a)" "wf_fields (ab_fields b)" "hashSource c a x = hashSource c b y"
  shows "ab_BlockType a = ab_BlockType b \<and> ab_PrevHash a = ab_PrevHash b \<and>
    ab_Height a = ab_Height b \<and> ab_AccountAddress a = ab_AccountAddress b"
  using assms by (rule hashSource_position)

theorem hashSource_binds_position_witness:
  "ab_Height sampleSend = ab_Height (ab_map (f_Signature_update (\<lambda>_. [9])) sampleSend)"
proof -
  have wf: "wf_fields (ab_fields sampleSend)"
    by (simp add: sampleSend_def wf_fields_def zeroFields_def ZERO_HASH_def ZERO_ADDRESS_def ZERO_TOKENID_def)
  then have wf': "wf_fields (ab_fields (ab_map (f_Signature_update (\<lambda>_. [9])) sampleSend))"
    by (simp add: wf_fields_def)
  have eq: "hashSource pad_crypto sampleSend [] =
      hashSource pad_crypto (ab_map (f_Signature_update (\<lambda>_. [9])) sampleSend) []"
    by (simp add: hashSource_def)
  from hashSource_binds_position [OF wf wf' eq] show ?thesis by blast
qed

text \<open>Contract metadata reads back from its serialized form, and metadata written before the
  seed fork (one byte shorter) reads back with the seed count set to the confirmation count.\<close>

theorem ContractMeta_serialization:
  assumes "wf_meta cm"
  shows "ContractMeta_Deserialize (ContractMeta_Serialize cm) = Ret cm \<and>
    ContractMeta_Deserialize (butlast (ContractMeta_Serialize cm)) =
      Ret (cm\<lparr>cm_SeedConfirmedTimes := cm_SendConfirmedTimes cm\<rparr>)"
  using assms by (simp add: ContractMeta_roundtrip ContractMeta_old_format)

theorem ContractMeta_serialization_witness:
  "\<exists>cm. GetBuiltinContractMeta AddressQuota = Some cm \<and> cm_SendConfirmedTimes cm = 1 \<and>
     ContractMeta_Deserialize (ContractMeta_Serialize cm) = Ret cm"
proof -
  let ?cm = "\<lparr>cm_Gid = DELEGATE_GID, cm_SendConfirmedTimes = 1, cm_CreateBlockHash = ZERO_HASH,
    cm_QuotaRatio = getBuiltinContractQuotaRatio AddressQuota, cm_SeedConfirmedTimes = 0\<rparr>"
  have "GetBuiltinContractMeta AddressQuota = Some ?cm"
    by (simp add: GetBuiltinContractMeta_def IsBuiltinContractAddrInUseWithSendConfirm_def
        BuiltinContractsWithSendConfirm_def)
  moreover have "wf_meta ?cm" by (simp add: wf_meta_def DELEGATE_GID_def ZERO_HASH_def)
  ultimately show ?thesis using ContractMeta_serialization [of ?cm] by simp
qed

end
