(* ===== verification/Quota_Table.thy ===== *)
theory Quota_Table
  imports Ledger_Core
begin

text \<open>
  vm/util/quota.go: the quota table of the opcodes, the transactions and the built-in contracts, its
  version at every fork, and the quota arithmetic of a block.  A field the Go literal leaves out is 0.
  The field \<open>AddressQuota\<close> is \<open>AddressOpQuota\<close> here, since common/types has a variable of that name.

  What the VM relies on of a table is the locale \<open>quota_table\<close>: every opcode price it divides by or
  counts on is positive, the SSTORE prices are ordered so that refunds never exceed what was paid,
  and all prices are small.  It is interpreted for the nine tables of the code.
\<close>

section \<open>Definitions\<close>

definition CommonQuotaMultiplier :: byte where "CommonQuotaMultiplier = 10"
definition quotaMultiplierDivision :: u64 where "quotaMultiplierDivision = 10"
definition QuotaAccumulationBlockCount :: u64 where "QuotaAccumulationBlockCount = 75"

record QuotaTable =
  AddQuota :: u64
  MulQuota :: u64
  SubQuota :: u64
  DivQuota :: u64
  SDivQuota :: u64
  ModQuota :: u64
  SModQuota :: u64
  AddModQuota :: u64
  MulModQuota :: u64
  ExpQuota :: u64
  ExpByteQuota :: u64
  SignExtendQuota :: u64
  LtQuota :: u64
  GtQuota :: u64
  SltQuota :: u64
  SgtQuota :: u64
  EqQuota :: u64
  IsZeroQuota :: u64
  AndQuota :: u64
  OrQuota :: u64
  XorQuota :: u64
  NotQuota :: u64
  ByteQuota :: u64
  ShlQuota :: u64
  ShrQuota :: u64
  SarQuota :: u64
  Blake2bQuota :: u64
  Blake2bWordQuota :: u64
  AddressOpQuota :: u64
  BalanceQuota :: u64
  CallerQuota :: u64
  CallValueQuota :: u64
  CallDataLoadQuota :: u64
  CallDataSizeQuota :: u64
  CallDataCopyQuota :: u64
  MemCopyWordQuota :: u64
  CodeSizeQuota :: u64
  CodeCopyQuota :: u64
  ReturnDataSizeQuota :: u64
  ReturnDataCopyQuota :: u64
  TimestampQuota :: u64
  HeightQuota :: u64
  TokenIDQuota :: u64
  AccountHeightQuota :: u64
  PreviousHashQuota :: u64
  FromBlockHashQuota :: u64
  SeedQuota :: u64
  RandomQuota :: u64
  PopQuota :: u64
  MloadQuota :: u64
  MstoreQuota :: u64
  Mstore8Quota :: u64
  SloadQuota :: u64
  SstoreResetQuota :: u64
  SstoreInitQuota :: u64
  SstoreCleanQuota :: u64
  SstoreNoopQuota :: u64
  SstoreMemQuota :: u64
  JumpQuota :: u64
  JumpiQuota :: u64
  PcQuota :: u64
  MsizeQuota :: u64
  JumpdestQuota :: u64
  PushQuota :: u64
  DupQuota :: u64
  SwapQuota :: u64
  LogQuota :: u64
  LogTopicQuota :: u64
  LogDataQuota :: u64
  CallMinusQuota :: u64
  MemQuotaDivision :: u64
  SnapshotQuota :: u64
  CodeQuota :: u64
  MemQuota :: u64
  TxQuota :: u64
  TxDataQuota :: u64
  CreateTxRequestQuota :: u64
  CreateTxResponseQuota :: u64
  RegisterQuota :: u64
  UpdateBlockProducingAddressQuota :: u64
  UpdateRewardWithdrawAddressQuota :: u64
  RevokeQuota :: u64
  WithdrawRewardQuota :: u64
  VoteQuota :: u64
  CancelVoteQuota :: u64
  StakeQuota :: u64
  CancelStakeQuota :: u64
  DelegateStakeQuota :: u64
  CancelDelegateStakeQuota :: u64
  IssueQuota :: u64
  ReIssueQuota :: u64
  BurnQuota :: u64
  TransferOwnershipQuota :: u64
  DisableReIssueQuota :: u64
  GetTokenInfoQuota :: u64
  DexFundDepositQuota :: u64
  DexFundWithdrawQuota :: u64
  DexFundOpenNewMarketQuota :: u64
  DexFundPlaceOrderQuota :: u64
  DexFundSettleOrdersQuota :: u64
  DexFundTriggerPeriodJobQuota :: u64
  DexFundStakeForMiningQuota :: u64
  DexFundStakeForVipQuota :: u64
  DexFundStakeForSuperVIPQuota :: u64
  DexFundDelegateStakeCallbackQuota :: u64
  DexFundCancelDelegateStakeCallbackQuota :: u64
  DexFundGetTokenInfoCallbackQuota :: u64
  DexFundAdminConfigQuota :: u64
  DexFundTradeAdminConfigQuota :: u64
  DexFundMarketAdminConfigQuota :: u64
  DexFundTransferTokenOwnershipQuota :: u64
  DexFundNotifyTimeQuota :: u64
  DexFundCreateNewInviterQuota :: u64
  DexFundBindInviteCodeQuota :: u64
  DexFundEndorseVxQuota :: u64
  DexFundSettleMakerMinedVxQuota :: u64
  DexFundConfigMarketAgentsQuota :: u64
  DexFundPlaceAgentOrderQuota :: u64
  DexFundLockVxForDividendQuota :: u64
  DexFundSwitchConfigQuota :: u64
  DexFundStakeForPrincipalSuperVIPQuota :: u64
  DexFundCancelStakeByIdQuota :: u64
  DexFundDelegateStakeCallbackV2Quota :: u64
  DexFundDelegateCancelStakeCallbackV2Quota :: u64
  DexFundCancelOrderBySendHashQuota :: u64
  DexFundCommonAdminConfigQuota :: u64
  DexFundTransferQuota :: u64
  DexFundAgentDepositQuota :: u64
  DexFundAssignedWithdrawQuota :: u64

definition initQuotaTable :: QuotaTable where
  "initQuotaTable = \<lparr>
    AddQuota = 3, MulQuota = 5, SubQuota = 3, DivQuota = 5, SDivQuota = 5, ModQuota = 5,
    SModQuota = 5, AddModQuota = 8, MulModQuota = 8, ExpQuota = 10, ExpByteQuota = 50,
    SignExtendQuota = 5, LtQuota = 3, GtQuota = 3, SltQuota = 3, SgtQuota = 3, EqQuota = 3,
    IsZeroQuota = 3, AndQuota = 3, OrQuota = 3, XorQuota = 3, NotQuota = 3, ByteQuota = 3,
    ShlQuota = 3, ShrQuota = 3, SarQuota = 3, Blake2bQuota = 30, Blake2bWordQuota = 6,
    AddressOpQuota = 2, BalanceQuota = 400, CallerQuota = 2, CallValueQuota = 2,
    CallDataLoadQuota = 3, CallDataSizeQuota = 2, CallDataCopyQuota = 3, MemCopyWordQuota = 3,
    CodeSizeQuota = 2, CodeCopyQuota = 3, ReturnDataSizeQuota = 2, ReturnDataCopyQuota = 3,
    TimestampQuota = 2, HeightQuota = 2, TokenIDQuota = 2, AccountHeightQuota = 2,
    PreviousHashQuota = 2, FromBlockHashQuota = 2, SeedQuota = 2, RandomQuota = 2, PopQuota = 2,
    MloadQuota = 3, MstoreQuota = 3, Mstore8Quota = 3, SloadQuota = 200, SstoreResetQuota = 5000,
    SstoreInitQuota = 20000, SstoreCleanQuota = 100, SstoreNoopQuota = 200, SstoreMemQuota = 200,
    JumpQuota = 8, JumpiQuota = 10, PcQuota = 2, MsizeQuota = 2, JumpdestQuota = 1,
    PushQuota = 3, DupQuota = 3, SwapQuota = 3, LogQuota = 375, LogTopicQuota = 375,
    LogDataQuota = 8, CallMinusQuota = 10000, MemQuotaDivision = 512, SnapshotQuota = 200,
    CodeQuota = 200, MemQuota = 3, TxQuota = 21000, TxDataQuota = 68,
    CreateTxRequestQuota = 21000, CreateTxResponseQuota = 53000, RegisterQuota = 62200,
    UpdateBlockProducingAddressQuota = 62200, UpdateRewardWithdrawAddressQuota = 0,
    RevokeQuota = 83200, WithdrawRewardQuota = 68200, VoteQuota = 62000, CancelVoteQuota = 62000,
    StakeQuota = 82000, CancelStakeQuota = 73000, DelegateStakeQuota = 82000,
    CancelDelegateStakeQuota = 73000, IssueQuota = 104525, ReIssueQuota = 69325,
    BurnQuota = 48837, TransferOwnershipQuota = 58981, DisableReIssueQuota = 63125,
    GetTokenInfoQuota = 63200, DexFundDepositQuota = 0, DexFundWithdrawQuota = 0,
    DexFundOpenNewMarketQuota = 0, DexFundPlaceOrderQuota = 0, DexFundSettleOrdersQuota = 0,
    DexFundTriggerPeriodJobQuota = 0, DexFundStakeForMiningQuota = 0,
    DexFundStakeForVipQuota = 0, DexFundStakeForSuperVIPQuota = 0,
    DexFundDelegateStakeCallbackQuota = 0, DexFundCancelDelegateStakeCallbackQuota = 0,
    DexFundGetTokenInfoCallbackQuota = 0, DexFundAdminConfigQuota = 0,
    DexFundTradeAdminConfigQuota = 0, DexFundMarketAdminConfigQuota = 0,
    DexFundTransferTokenOwnershipQuota = 0, DexFundNotifyTimeQuota = 0,
    DexFundCreateNewInviterQuota = 0, DexFundBindInviteCodeQuota = 0, DexFundEndorseVxQuota = 0,
    DexFundSettleMakerMinedVxQuota = 0, DexFundConfigMarketAgentsQuota = 0,
    DexFundPlaceAgentOrderQuota = 0, DexFundLockVxForDividendQuota = 0,
    DexFundSwitchConfigQuota = 0, DexFundStakeForPrincipalSuperVIPQuota = 0,
    DexFundCancelStakeByIdQuota = 0, DexFundDelegateStakeCallbackV2Quota = 0,
    DexFundDelegateCancelStakeCallbackV2Quota = 0, DexFundCancelOrderBySendHashQuota = 0,
    DexFundCommonAdminConfigQuota = 0, DexFundTransferQuota = 0, DexFundAgentDepositQuota = 0,
    DexFundAssignedWithdrawQuota = 0\<rparr>"

definition newViteQuotaTable :: QuotaTable where
  "newViteQuotaTable = \<lparr>
    AddQuota = 2, MulQuota = 2, SubQuota = 2, DivQuota = 3, SDivQuota = 5, ModQuota = 3,
    SModQuota = 4, AddModQuota = 4, MulModQuota = 5, ExpQuota = 10, ExpByteQuota = 50,
    SignExtendQuota = 2, LtQuota = 2, GtQuota = 2, SltQuota = 2, SgtQuota = 2, EqQuota = 2,
    IsZeroQuota = 1, AndQuota = 2, OrQuota = 2, XorQuota = 2, NotQuota = 2, ByteQuota = 2,
    ShlQuota = 2, ShrQuota = 2, SarQuota = 3, Blake2bQuota = 20, Blake2bWordQuota = 1,
    AddressOpQuota = 1, BalanceQuota = 150, CallerQuota = 1, CallValueQuota = 1,
    CallDataLoadQuota = 2, CallDataSizeQuota = 1, CallDataCopyQuota = 3, MemCopyWordQuota = 3,
    CodeSizeQuota = 1, CodeCopyQuota = 3, ReturnDataSizeQuota = 1, ReturnDataCopyQuota = 3,
    TimestampQuota = 1, HeightQuota = 1, TokenIDQuota = 1, AccountHeightQuota = 1,
    PreviousHashQuota = 1, FromBlockHashQuota = 1, SeedQuota = 200, RandomQuota = 250,
    PopQuota = 1, MloadQuota = 2, MstoreQuota = 1, Mstore8Quota = 1, SloadQuota = 150,
    SstoreResetQuota = 15000, SstoreInitQuota = 15000, SstoreCleanQuota = 0,
    SstoreNoopQuota = 200, SstoreMemQuota = 200, JumpQuota = 4, JumpiQuota = 4, PcQuota = 1,
    MsizeQuota = 1, JumpdestQuota = 1, PushQuota = 1, DupQuota = 1, SwapQuota = 2,
    LogQuota = 375, LogTopicQuota = 375, LogDataQuota = 12, CallMinusQuota = 13500,
    MemQuotaDivision = 1024, SnapshotQuota = 40, CodeQuota = 160, MemQuota = 1, TxQuota = 21000,
    TxDataQuota = 68, CreateTxRequestQuota = 31000, CreateTxResponseQuota = 31000,
    RegisterQuota = 168000, UpdateBlockProducingAddressQuota = 168000,
    UpdateRewardWithdrawAddressQuota = 0, RevokeQuota = 126000, WithdrawRewardQuota = 147000,
    VoteQuota = 84000, CancelVoteQuota = 52500, StakeQuota = 105000, CancelStakeQuota = 105000,
    DelegateStakeQuota = 115500, CancelDelegateStakeQuota = 115500, IssueQuota = 189000,
    ReIssueQuota = 126000, BurnQuota = 115500, TransferOwnershipQuota = 136500,
    DisableReIssueQuota = 115500, GetTokenInfoQuota = 31500, DexFundDepositQuota = 10500,
    DexFundWithdrawQuota = 10500, DexFundOpenNewMarketQuota = 31500,
    DexFundPlaceOrderQuota = 25200, DexFundSettleOrdersQuota = 21000,
    DexFundTriggerPeriodJobQuota = 8400, DexFundStakeForMiningQuota = 31500,
    DexFundStakeForVipQuota = 31500, DexFundStakeForSuperVIPQuota = 0,
    DexFundDelegateStakeCallbackQuota = 12600, DexFundCancelDelegateStakeCallbackQuota = 16800,
    DexFundGetTokenInfoCallbackQuota = 10500, DexFundAdminConfigQuota = 16800,
    DexFundTradeAdminConfigQuota = 10500, DexFundMarketAdminConfigQuota = 10500,
    DexFundTransferTokenOwnershipQuota = 8400, DexFundNotifyTimeQuota = 10500,
    DexFundCreateNewInviterQuota = 18900, DexFundBindInviteCodeQuota = 8400,
    DexFundEndorseVxQuota = 6300, DexFundSettleMakerMinedVxQuota = 25200,
    DexFundConfigMarketAgentsQuota = 0, DexFundPlaceAgentOrderQuota = 0,
    DexFundLockVxForDividendQuota = 0, DexFundSwitchConfigQuota = 0,
    DexFundStakeForPrincipalSuperVIPQuota = 0, DexFundCancelStakeByIdQuota = 0,
    DexFundDelegateStakeCallbackV2Quota = 0, DexFundDelegateCancelStakeCallbackV2Quota = 0,
    DexFundCancelOrderBySendHashQuota = 0, DexFundCommonAdminConfigQuota = 0,
    DexFundTransferQuota = 0, DexFundAgentDepositQuota = 0, DexFundAssignedWithdrawQuota = 0\<rparr>"

definition newDexAgentQuotaTable :: QuotaTable where
  "newDexAgentQuotaTable = newViteQuotaTable\<lparr>DexFundStakeForSuperVIPQuota := 33600,
     DexFundConfigMarketAgentsQuota := 8400,
     DexFundPlaceAgentOrderQuota := 25200\<rparr>"

definition newEarthQuotaTable :: QuotaTable where
  "newEarthQuotaTable = newDexAgentQuotaTable\<lparr>UpdateRewardWithdrawAddressQuota := 168000,
     DexFundLockVxForDividendQuota := 31500,
     DexFundSwitchConfigQuota := 31500,
     DexFundStakeForPrincipalSuperVIPQuota := 10500,
     DexFundCancelStakeByIdQuota := 10500,
     DexFundDelegateStakeCallbackV2Quota := 31500,
     DexFundDelegateCancelStakeCallbackV2Quota := 33000\<rparr>"

definition newDexRobotQuotaTable :: QuotaTable where
  "newDexRobotQuotaTable = newEarthQuotaTable\<lparr>DexFundCancelOrderBySendHashQuota := 15200\<rparr>"

definition newDexStableMarketQuotaTable :: QuotaTable where
  "newDexStableMarketQuotaTable = newDexRobotQuotaTable\<lparr>DexFundCommonAdminConfigQuota := 10500\<rparr>"

definition newVersion10QuotaTable :: QuotaTable where
  "newVersion10QuotaTable = newDexStableMarketQuotaTable\<lparr>CodeQuota := 16,
     TxDataQuota := 28\<rparr>"

definition newVersion11QuotaTable :: QuotaTable where
  "newVersion11QuotaTable = newVersion10QuotaTable\<lparr>DexFundTransferQuota := 10500\<rparr>"

definition newVersionXQuotaTable :: QuotaTable where
  "newVersionXQuotaTable = newVersion11QuotaTable\<lparr>DexFundAgentDepositQuota := 10500,
     DexFundAssignedWithdrawQuota := 10500\<rparr>"

definition QuotaTableByHeight :: "upgradeBox \<Rightarrow> u64 \<Rightarrow> QuotaTable" where
  "QuotaTableByHeight upgrade sbHeight =
     (if IsVersionXUpgrade upgrade sbHeight then newVersionXQuotaTable
      else if IsVersion11Upgrade upgrade sbHeight then newVersion11QuotaTable
      else if IsVersion10Upgrade upgrade sbHeight then newVersion10QuotaTable
      else if IsDexStableMarketUpgrade upgrade sbHeight then newDexStableMarketQuotaTable
      else if IsDexRobotUpgrade upgrade sbHeight then newDexRobotQuotaTable
      else if IsEarthUpgrade upgrade sbHeight then newEarthQuotaTable
      else if IsStemUpgrade upgrade sbHeight then newDexAgentQuotaTable
      else if IsDexUpgrade upgrade sbHeight then newViteQuotaTable
      else initQuotaTable)"

definition MultipleCost :: "u64 \<Rightarrow> byte \<Rightarrow> vm_error + u64" where
  "MultipleCost cost quotaMultiplier =
     (if quotaMultiplier < CommonQuotaMultiplier then Inl ErrInvalidQuotaMultiplier
      else if quotaMultiplier = CommonQuotaMultiplier then Inr cost
      else
        let ratioUint64 = ucast quotaMultiplier :: u64
        in if cost > MaxUint64 div ratioUint64 then Inl ErrGasUintOverflow
           else Inr (cost * ratioUint64 div quotaMultiplierDivision))"

definition UseQuota :: "u64 \<Rightarrow> u64 \<Rightarrow> u64 \<times> vm_error option" where
  "UseQuota quotaLeft cost =
     (if quotaLeft < cost then (0, Some ErrOutOfQuota) else (quotaLeft - cost, None))"

definition UseQuotaWithFlag :: "u64 \<Rightarrow> u64 \<Rightarrow> bool \<Rightarrow> u64 \<times> vm_error option" where
  "UseQuotaWithFlag quotaLeft cost flag =
     (if flag then UseQuota quotaLeft cost else (quotaLeft + cost, None))"

text \<open>\<open>uint64(len(data))\<close> of a byte slice.\<close>

definition u64_len :: "bytes \<Rightarrow> u64" where "u64_len data = of_nat (length data)"

definition DataQuotaCost :: "bytes \<Rightarrow> QuotaTable \<Rightarrow> vm_error + u64" where
  "DataQuotaCost data quotaTable =
     (let l = u64_len data
      in if l > 0
         then if MaxUint64 div TxDataQuota quotaTable < l then Inl ErrGasUintOverflow
              else Inr (l * TxDataQuota quotaTable)
         else Inr 0)"

definition BlockGasCost :: "bytes \<Rightarrow> u64 \<Rightarrow> byte \<Rightarrow> QuotaTable \<Rightarrow> vm_error + u64" where
  "BlockGasCost data baseGas snapshotCount quotaTable =
     (case DataQuotaCost data quotaTable of
        Inl _ \<Rightarrow> Inl ErrGasUintOverflow
      | Inr gasData \<Rightarrow>
          if MaxUint64 - baseGas < gasData then Inl ErrGasUintOverflow
          else
            let gas = baseGas + gasData
            in if snapshotCount = 0 then Inr gas
               else
                 let confirmGas = ucast snapshotCount * SnapshotQuota quotaTable
                 in if MaxUint64 - gas < confirmGas then Inl ErrGasUintOverflow
                    else Inr (gas + confirmGas))"

text \<open>The pair of the code is kept: on an overflow of the sum \<open>RequestQuotaCost\<close> returns the error of
  the call before, which is nil.\<close>

definition RequestQuotaCost :: "bytes \<Rightarrow> QuotaTable \<Rightarrow> u64 \<times> vm_error option" where
  "RequestQuotaCost data quotaTable =
     (case DataQuotaCost data quotaTable of
        Inl err \<Rightarrow> (0, Some err)
      | Inr dataCost \<Rightarrow>
          let (totalCost, overflow) = SafeAdd (TxQuota quotaTable) dataCost
          in if overflow then (0, None) else (totalCost, None))"

definition CalcQuotaUsed :: "bool \<Rightarrow> u64 \<Rightarrow> u64 \<Rightarrow> u64 \<Rightarrow> vm_error option \<Rightarrow> u64 \<times> u64" where
  "CalcQuotaUsed useQuota quotaTotal quotaAddition quotaLeft err =
     (if \<not> useQuota then (0, 0)
      else if err = Some ErrOutOfQuota then (0, 0)
      else
        let qUsed = quotaTotal - quotaLeft
        in if qUsed < quotaAddition then (0, qUsed) else (qUsed - quotaAddition, qUsed))"

definition IsPoW :: "AccountBlock \<Rightarrow> bool" where
  "IsPoW block \<longleftrightarrow> length (ab_Nonce block) > 0"

section \<open>What the VM relies on of a table\<close>

text \<open>The prices of the opcodes that do not stop the program, SSTORE apart, and the two divisors.\<close>

definition positiveCosts :: "(QuotaTable \<Rightarrow> u64) list" where
  "positiveCosts = [
    AddQuota, MulQuota, SubQuota, DivQuota, SDivQuota, ModQuota, SModQuota, AddModQuota,
    MulModQuota, ExpQuota, ExpByteQuota, SignExtendQuota, LtQuota, GtQuota, SltQuota, SgtQuota,
    EqQuota, IsZeroQuota, AndQuota, OrQuota, XorQuota, NotQuota, ByteQuota, ShlQuota, ShrQuota,
    SarQuota, Blake2bQuota, Blake2bWordQuota, AddressOpQuota, BalanceQuota, CallerQuota,
    CallValueQuota, CallDataLoadQuota, CallDataSizeQuota, CallDataCopyQuota, MemCopyWordQuota,
    CodeSizeQuota, CodeCopyQuota, ReturnDataSizeQuota, ReturnDataCopyQuota, TimestampQuota,
    HeightQuota, TokenIDQuota, AccountHeightQuota, PreviousHashQuota, FromBlockHashQuota,
    SeedQuota, RandomQuota, PopQuota, MloadQuota, MstoreQuota, Mstore8Quota, SloadQuota,
    SstoreResetQuota, SstoreInitQuota, SstoreNoopQuota, SstoreMemQuota, JumpQuota, JumpiQuota,
    PcQuota, MsizeQuota, JumpdestQuota, PushQuota, DupQuota, SwapQuota, LogQuota, LogTopicQuota,
    LogDataQuota, CallMinusQuota, MemQuotaDivision, SnapshotQuota, CodeQuota, MemQuota]"

text \<open>A bound on every price used in a product or a sum.\<close>

definition smallCosts :: "(QuotaTable \<Rightarrow> u64) list" where
  "smallCosts = [TxQuota, TxDataQuota, CreateTxRequestQuota, CreateTxResponseQuota, SnapshotQuota,
    CodeQuota, MemQuota, SstoreInitQuota, SstoreResetQuota, LogTopicQuota, ExpByteQuota]"

locale quota_table =
  fixes qt :: QuotaTable
  assumes pos: "list_all (\<lambda>f. 0 < f qt) positiveCosts"
    and tx_pos: "0 < TxQuota qt \<and> 0 < TxDataQuota qt"
    and small: "list_all (\<lambda>f. f qt \<le> 60000) smallCosts"
    and sstore_init: "SstoreMemQuota qt + SstoreNoopQuota qt \<le> SstoreInitQuota qt"
    and sstore_reset: "SstoreMemQuota qt + SstoreNoopQuota qt \<le> SstoreResetQuota qt"
    and sstore_clean: "SstoreCleanQuota qt < SstoreMemQuota qt \<and> SstoreCleanQuota qt \<le> SstoreNoopQuota qt"
    and mem_division: "512 \<le> MemQuotaDivision qt"
    and sstore_noop: "SstoreNoopQuota qt \<le> 200 \<and> SstoreMemQuota qt \<le> 200"
begin

lemma positive: "f \<in> set positiveCosts \<Longrightarrow> 0 < f qt"
  using pos by (simp add: list_all_iff)

lemma costs_le: "f \<in> set smallCosts \<Longrightarrow> unat (f qt) \<le> 60000"
  using small by (auto simp: list_all_iff word_le_nat_alt)

text \<open>The data of a block is charged by its length, exactly, up to 300 TB.\<close>

lemma DataQuotaCost_exact:
  assumes "length data < 2 ^ 48"
  shows "\<exists>g. DataQuotaCost data qt = Inr g \<and> unat g = length data * unat (TxDataQuota qt)"
proof -
  have l: "unat (u64_len data) = length data"
    using assms by (simp add: u64_len_def unat_of_nat)
  have t: "unat (TxDataQuota qt) \<le> 60000" "0 < unat (TxDataQuota qt)"
    using costs_le [of TxDataQuota] tx_pos by (auto simp: smallCosts_def unat_gt_0)
  have lt: "length data * unat (TxDataQuota qt) < 18446744073709551616"
    using mult_le_mono [OF _ t(1), of "length data" "2 ^ 48"] assms by simp
  then have "length data \<le> 18446744073709551615 div unat (TxDataQuota qt)"
    using t(2) by (simp add: less_eq_div_iff_mult_less_eq)
  then have "\<not> MaxUint64 div TxDataQuota qt < u64_len data"
    using l by (simp add: word_less_nat_alt unat_div_u64)
  moreover have "unat (u64_len data * TxDataQuota qt) = length data * unat (TxDataQuota qt)"
    using lt l by (simp add: unat_mult_u64)
  moreover have "u64_len data = 0 \<Longrightarrow> length data = 0" using l by auto
  ultimately show ?thesis by (auto simp: DataQuotaCost_def Let_def word_gt_0)
qed

text \<open>The base quota of a block is exact: no wrap-around and no overflow report for real sizes.\<close>

lemma BlockGasCost_exact:
  assumes len: "length data < 2 ^ 32" and base: "unat baseGas \<le> 2 ^ 32"
  shows "\<exists>g. BlockGasCost data baseGas n qt = Inr g \<and>
    unat g = unat baseGas + length data * unat (TxDataQuota qt) + unat n * unat (SnapshotQuota qt)"
proof -
  from DataQuotaCost_exact [of data] len obtain gd where gd: "DataQuotaCost data qt = Inr gd"
    "unat gd = length data * unat (TxDataQuota qt)" by auto
  have gdl: "unat gd \<le> 2 ^ 32 * 60000"
    using mult_le_mono [of "length data" "2 ^ 32" "unat (TxDataQuota qt)" 60000] len costs_le [of TxDataQuota]
    by (simp add: gd(2) smallCosts_def)
  have un: "unat (ucast n :: u64) = unat n" by simp
  have sn: "unat n * unat (SnapshotQuota qt) \<le> 256 * 60000"
    using mult_le_mono [of "unat n" 256 "unat (SnapshotQuota qt)" 60000] unat_byte_lt [of n] costs_le [of SnapshotQuota]
    by (simp add: smallCosts_def less_imp_le)
  then have cg: "unat (ucast n * SnapshotQuota qt) = unat n * unat (SnapshotQuota qt)"
    by (subst unat_mult_u64) (simp_all add: un)
  have s1: "unat (baseGas + gd) = unat baseGas + unat gd"
    using base gdl by (intro unat_plus_u64) simp
  have s2: "unat (baseGas + gd + ucast n * SnapshotQuota qt) =
      unat baseGas + unat gd + unat n * unat (SnapshotQuota qt)"
    using base gdl sn by (subst unat_plus_u64) (simp_all add: s1 cg)
  have c1: "\<not> MaxUint64 - baseGas < gd"
    using base gdl by (simp add: word_less_nat_alt unat_minus_u64)
  have c2: "\<not> MaxUint64 - (baseGas + gd) < ucast n * SnapshotQuota qt"
    using base gdl sn by (simp add: word_less_nat_alt unat_minus_u64 s1 cg)
  show ?thesis
  proof (cases "n = 0")
    case True
    with gd s1 c1 show ?thesis by (simp add: BlockGasCost_def Let_def)
  next
    case False
    with gd s2 c1 c2 show ?thesis by (simp add: BlockGasCost_def Let_def)
  qed
qed

end

lemmas tables = initQuotaTable_def newViteQuotaTable_def newDexAgentQuotaTable_def newEarthQuotaTable_def newDexRobotQuotaTable_def newDexStableMarketQuotaTable_def newVersion10QuotaTable_def newVersion11QuotaTable_def newVersionXQuotaTable_def

interpretation init_qt: quota_table initQuotaTable
  by unfold_locales (simp_all add: positiveCosts_def smallCosts_def tables)

interpretation vite_qt: quota_table newViteQuotaTable
  by unfold_locales (simp_all add: positiveCosts_def smallCosts_def tables)

interpretation agent_qt: quota_table newDexAgentQuotaTable
  by unfold_locales (simp_all add: positiveCosts_def smallCosts_def tables)

interpretation earth_qt: quota_table newEarthQuotaTable
  by unfold_locales (simp_all add: positiveCosts_def smallCosts_def tables)

interpretation robot_qt: quota_table newDexRobotQuotaTable
  by unfold_locales (simp_all add: positiveCosts_def smallCosts_def tables)

interpretation stable_qt: quota_table newDexStableMarketQuotaTable
  by unfold_locales (simp_all add: positiveCosts_def smallCosts_def tables)

interpretation v10_qt: quota_table newVersion10QuotaTable
  by unfold_locales (simp_all add: positiveCosts_def smallCosts_def tables)

interpretation v11_qt: quota_table newVersion11QuotaTable
  by unfold_locales (simp_all add: positiveCosts_def smallCosts_def tables)

interpretation vX_qt: quota_table newVersionXQuotaTable
  by unfold_locales (simp_all add: positiveCosts_def smallCosts_def tables)

lemma quota_table_ByHeight: "quota_table (QuotaTableByHeight upgrade h)"
  by (simp add: QuotaTableByHeight_def init_qt.quota_table_axioms
      vite_qt.quota_table_axioms
      agent_qt.quota_table_axioms
      earth_qt.quota_table_axioms
      robot_qt.quota_table_axioms
      stable_qt.quota_table_axioms
      v10_qt.quota_table_axioms
      v11_qt.quota_table_axioms
      vX_qt.quota_table_axioms)

section \<open>Quota arithmetic\<close>

text \<open>\<open>UseQuota\<close> never lets the quota below zero and \<open>MultipleCost\<close> is exact.\<close>

lemma UseQuota_exact:
  "UseQuota q c = (q', None) \<longleftrightarrow> unat c \<le> unat q \<and> unat q' = unat q - unat c"
  by (auto simp: UseQuota_def word_less_nat_alt not_less unat_minus_u64 word_le_nat_alt word_unat_eq_iff)

lemma MultipleCost_exact:
  assumes "MultipleCost cost m = Inr c"
  shows "10 \<le> unat m \<and> unat c = (if unat m = 10 then unat cost else unat cost * unat m div 10)"
proof (cases "m = CommonQuotaMultiplier")
  case True
  with assms show ?thesis by (auto simp: MultipleCost_def CommonQuotaMultiplier_def)
next
  case False
  have um: "unat (ucast m :: u64) = unat m" by simp
  from False assms have m: "10 < unat m" and le: "cost \<le> MaxUint64 div ucast m"
    and c: "c = cost * ucast m div quotaMultiplierDivision"
    by (auto simp: MultipleCost_def CommonQuotaMultiplier_def Let_def word_less_nat_alt not_less
        word_unat_eq_iff word_le_nat_alt split: if_splits)
  have "unat cost * unat m \<le> 18446744073709551615"
    using le m by (simp add: word_le_nat_alt unat_div_u64 um less_eq_div_iff_mult_less_eq)
  then have "unat (cost * ucast m) = unat cost * unat m"
    by (subst unat_mult_u64) (simp_all add: um)
  with m c show ?thesis by (simp add: unat_div_u64 quotaMultiplierDivision_def)
qed

lemma MultipleCost_ge: "MultipleCost cost m = Inr c \<Longrightarrow> cost \<le> c"
proof -
  assume a: "MultipleCost cost m = Inr c"
  have "unat cost * 10 \<le> unat cost * unat m" if "10 \<le> unat m" using that by simp
  then have "unat cost \<le> unat cost * unat m div 10" if "10 \<le> unat m"
    using that by (simp add: less_eq_div_iff_mult_less_eq)
  with MultipleCost_exact [OF a] show ?thesis by (auto simp: word_le_nat_alt split: if_splits)
qed

text \<open>The quota charged to the stake never exceeds the quota used, which is what left the pool.\<close>

lemma CalcQuotaUsed_bounds:
  assumes "CalcQuotaUsed True quotaTotal addition left err = (stakeUsed, used)" "left \<le> quotaTotal"
  shows "unat stakeUsed = (if err = Some ErrOutOfQuota then 0 else unat quotaTotal - unat left - unat addition)"
    and "unat used = (if err = Some ErrOutOfQuota then 0 else unat quotaTotal - unat left)"
  using assms by (auto simp: CalcQuotaUsed_def Let_def unat_minus_u64 word_less_nat_alt word_le_nat_alt
      not_less split: if_splits)

section \<open>Properties\<close>

text \<open>C26: at every snapshot height the base quota of a block is the exact sum of its base price, the
  price of its data and the price of its confirmations: nothing wraps and no overflow is reported.\<close>

theorem BlockGasCost_no_wrap:
  assumes "length data < 2 ^ 32" "unat baseGas \<le> 2 ^ 32"
  shows "\<exists>g. BlockGasCost data baseGas n (QuotaTableByHeight upgrade h) = Inr g \<and>
    unat g = unat baseGas + length data * unat (TxDataQuota (QuotaTableByHeight upgrade h)) +
      unat n * unat (SnapshotQuota (QuotaTableByHeight upgrade h))"
  using assms quota_table.BlockGasCost_exact [OF quota_table_ByHeight] by blast

theorem BlockGasCost_no_wrap_witness:
  "\<exists>g. BlockGasCost [1, 2, 3] 21000 1 (QuotaTableByHeight \<lparr>pointMap = [], heightMap = [], sortedPoints = []\<rparr> 5) = Inr g \<and>
     unat g = 21404"
proof -
  have "QuotaTableByHeight \<lparr>pointMap = [], heightMap = [], sortedPoints = []\<rparr> 5 = initQuotaTable"
    by (simp add: QuotaTableByHeight_def IsVersionXUpgrade_def IsVersion11Upgrade_def IsVersion10Upgrade_def
        IsDexStableMarketUpgrade_def IsDexRobotUpgrade_def IsEarthUpgrade_def IsStemUpgrade_def
        IsDexUpgrade_def isActive_def)
  then show ?thesis
    using BlockGasCost_no_wrap [of "[1, 2, 3]" 21000 1 "\<lparr>pointMap = [], heightMap = [], sortedPoints = []\<rparr>" 5]
    by (simp add: initQuotaTable_def)
qed

text \<open>The quota multiplier of a contract scales a cost by tenths, exactly: a success means the
  multiplier is at least 10 and the result is the cost times the multiplier, divided by 10.\<close>

theorem MultipleCost_scales:
  assumes "MultipleCost cost m = Inr c"
  shows "10 \<le> unat m \<and> unat c = unat cost * unat m div 10"
  using MultipleCost_exact [OF assms] by (simp split: if_splits)

theorem MultipleCost_scales_witness: "MultipleCost 1001 25 = Inr 2502 \<and> unat (2502 :: u64) = 1001 * 25 div 10"
proof -
  have "MultipleCost 1001 25 = Inr 2502"
    by (simp add: MultipleCost_def CommonQuotaMultiplier_def MaxUint64_def quotaMultiplierDivision_def)
  then show ?thesis using MultipleCost_scales [of 1001 25 2502] by simp
qed

text \<open>C27: the quota a block is charged: what left the quota pool is the quota used, the part paid by
  the stake is what exceeds the proof-of-work addition, and a run out of quota is charged nothing.\<close>

theorem CalcQuotaUsed_charges:
  assumes "left \<le> quotaTotal"
  shows "case CalcQuotaUsed True quotaTotal addition left err of (stakeUsed, used) \<Rightarrow>
    unat used = (if err = Some ErrOutOfQuota then 0 else unat quotaTotal - unat left) \<and>
    unat stakeUsed = unat used - unat addition"
  using assms CalcQuotaUsed_bounds [where quotaTotal = quotaTotal and addition = addition and left = left and err = err]
  by (cases "CalcQuotaUsed True quotaTotal addition left err") simp

theorem CalcQuotaUsed_charges_witness:
  "CalcQuotaUsed True 100 30 20 None = (50, 80)"
  using CalcQuotaUsed_charges [where quotaTotal = 100 and left = 20 and addition = 30 and err = None]
  by (simp add: CalcQuotaUsed_def Let_def)



end
