(* ===== verification/Vm_Db.thy ===== *)
theory Vm_Db
  imports Ledger_Core "HOL-Library.AList" "HOL-Library.List_Lexorder"
begin

text \<open>
  vm_db: the write-back view of one account that a VM run works on, and vm/util/db_helper.go, the
  accessors of the VM that panic on a database error.

  The ledger below is the record \<open>Chain\<close>, the methods of the interface of vm_db/interface.go as
  functions; it does not change during a run.  \<open>Unsaved\<close> holds the writes of the run: its memdb is an
  association list, None once \<open>Finish\<close> released it, and \<open>GetStorage\<close> returns it in key order.  The
  code allocates \<open>Unsaved\<close> on first use; an absent one and an empty one answer every query alike, so
  the model starts with the empty one.  The fields that only cache an answer of the chain are left out.

  The locale \<open>store\<close> is the contract of a store with overriding writes; it is interpreted for the
  contract storage and for the token balances.
\<close>

section \<open>Definitions\<close>

subsection \<open>interface.go\<close>

record QuotaInfo =
  BlockCount :: u64
  QuotaTotal :: u64
  QuotaUsedTotal :: u64

record Chain =
  chain_GetQuotaUsedList :: "Address \<Rightarrow> QuotaInfo list"
  chain_GetGlobalQuota :: QuotaInfo
  chain_GetBalance :: "Address \<Rightarrow> TokenTypeId \<Rightarrow> vm_error + int"
  chain_GetContractCode :: "Address \<Rightarrow> vm_error + bytes"
  chain_GetContractMeta :: "Address \<Rightarrow> vm_error + ContractMeta option"
  chain_GetConfirmSnapshotHeaderByAbHash :: "Hash \<Rightarrow> vm_error + SnapshotBlock option"
  chain_GetConfirmedTimes :: "Hash \<Rightarrow> vm_error + u64"
  chain_GetContractMetaInSnapshot :: "Address \<Rightarrow> u64 \<Rightarrow> vm_error + ContractMeta option"
  chain_GetSnapshotHeaderByHash :: "Hash \<Rightarrow> vm_error + SnapshotBlock option"
  chain_GetSnapshotBlockByHeight :: "u64 \<Rightarrow> vm_error + SnapshotBlock option"
  chain_GetAccountBlockByHash :: "Hash \<Rightarrow> vm_error + AccountBlock option"
  chain_GetLatestAccountBlock :: "Address \<Rightarrow> vm_error + AccountBlock option"
  chain_GetVmLogList :: "Hash \<Rightarrow> vm_error + VmLog list"
  chain_GetUnconfirmedBlocks :: "Address \<Rightarrow> AccountBlock list"
  chain_GetGenesisSnapshotBlock :: SnapshotBlock
  chain_GetStakeBeneficialAmount :: "Address \<Rightarrow> vm_error + int"
  chain_GetValue :: "Address \<Rightarrow> bytes \<Rightarrow> vm_error + bytes"
  chain_GetCallDepth :: "Hash \<Rightarrow> vm_error + u16"

subsection \<open>unsaved.go\<close>

record Unsaved =
  contractMetaMap :: "(Address \<times> ContractMeta) list"
  u_code :: bytes
  logList :: "VmLog list"
  u_storage :: "(bytes \<times> bytes) list option"
  deletedKeys :: "bytes list"
  u_keys :: "bytes list"
  storageDirty :: bool
  storageCache :: "(bytes \<times> bytes) list"
  balanceMap :: "(TokenTypeId \<times> int) list"

definition NewUnsaved :: Unsaved where
  "NewUnsaved =
     \<lparr>contractMetaMap = [], u_code = [], logList = [], u_storage = Some [], deletedKeys = [],
      u_keys = [], storageDirty = False, storageCache = [], balanceMap = []\<rparr>"

definition uns_Reset :: "Unsaved \<Rightarrow> Unsaved go" where
  "uns_Reset uns =
     (case u_storage uns of
        None \<Rightarrow> Panics PanicNil
      | Some _ \<Rightarrow> Ret (uns\<lparr>contractMetaMap := [], u_code := [], logList := [], u_storage := Some [],
                           deletedKeys := [], storageDirty := False, storageCache := [],
                           balanceMap := []\<rparr>))"

definition uns_GetStorage :: "Unsaved \<Rightarrow> (Unsaved \<times> (bytes \<times> bytes) list) go" where
  "uns_GetStorage uns =
     (if storageDirty uns
      then case u_storage uns of
             None \<Rightarrow> Panics PanicNil
           | Some st \<Rightarrow>
               let cache = sort_key fst st
               in Ret (uns\<lparr>storageCache := cache, storageDirty := False\<rparr>, cache)
      else Ret (uns, storageCache uns))"

definition uns_GetContractMeta :: "Unsaved \<Rightarrow> Address \<Rightarrow> ContractMeta option" where
  "uns_GetContractMeta uns addr = map_of (contractMetaMap uns) addr"

definition uns_IsDelete :: "Unsaved \<Rightarrow> bytes \<Rightarrow> bool" where
  "uns_IsDelete uns key = List.member (deletedKeys uns) key"

definition uns_SetValue :: "bytes \<Rightarrow> bytes \<Rightarrow> Unsaved \<Rightarrow> Unsaved go" where
  "uns_SetValue key val uns =
     (case u_storage uns of
        None \<Rightarrow> Panics PanicNil
      | Some st \<Rightarrow>
          Ret (uns\<lparr>storageDirty := True,
                   u_keys := List.insert key (u_keys uns),
                   deletedKeys := (if length val \<le> 0 then List.insert key (deletedKeys uns)
                                   else removeAll key (deletedKeys uns)),
                   u_storage := Some (AList.update key val st)\<rparr>))"

definition uns_GetValue :: "Unsaved \<Rightarrow> bytes \<Rightarrow> (bytes \<times> bool) go" where
  "uns_GetValue uns key =
     (case u_storage uns of
        None \<Rightarrow> Panics PanicNil
      | Some st \<Rightarrow>
          Ret (case map_of st key of
                 None \<Rightarrow> ([], List.member (deletedKeys uns) key)
               | Some val \<Rightarrow> (val, True)))"

definition uns_GetBalance :: "Unsaved \<Rightarrow> TokenTypeId \<Rightarrow> int option" where
  "uns_GetBalance uns tokenTypeId = map_of (balanceMap uns) tokenTypeId"

definition uns_SetBalance :: "TokenTypeId \<Rightarrow> int \<Rightarrow> Unsaved \<Rightarrow> Unsaved" where
  "uns_SetBalance tokenTypeId amount uns =
     uns\<lparr>balanceMap := AList.update tokenTypeId amount (balanceMap uns)\<rparr>"

definition uns_AddLog :: "VmLog \<Rightarrow> Unsaved \<Rightarrow> Unsaved" where
  "uns_AddLog log uns = uns\<lparr>logList := logList uns @ [log]\<rparr>"

definition uns_GetLogListHash :: "crypto \<Rightarrow> upgradeBox \<Rightarrow> Unsaved \<Rightarrow> u64 \<Rightarrow> Address \<Rightarrow> Hash \<Rightarrow> Hash option" where
  "uns_GetLogListHash c upgrade uns snapshotBlockHeight address prevHash =
     VmLogList_Hash c upgrade (logList uns) snapshotBlockHeight address prevHash"

definition uns_SetContractMeta :: "Address \<Rightarrow> ContractMeta \<Rightarrow> Unsaved \<Rightarrow> Unsaved" where
  "uns_SetContractMeta addr contractMeta uns =
     uns\<lparr>contractMetaMap := AList.update addr contractMeta (contractMetaMap uns)\<rparr>"

definition uns_SetCode :: "bytes \<Rightarrow> Unsaved \<Rightarrow> Unsaved" where
  "uns_SetCode code uns = uns\<lparr>u_code := code\<rparr>"

definition uns_ReleaseRuntime :: "Unsaved \<Rightarrow> Unsaved go" where
  "uns_ReleaseRuntime uns = go_bind (uns_GetStorage uns) (\<lambda>(uns', _). Ret (uns'\<lparr>u_storage := None\<rparr>))"

subsection \<open>vm_db.go, balance.go, storage.go, meta_code.go, context.go, state.go, vm_log.go\<close>

record vmDb =
  vdb_uns :: Unsaved
  vdb_address :: "Address option"
  vdb_isGenesis :: bool
  vdb_latestSnapshotBlockHash :: "Hash option"
  vdb_prevAccountBlockHash :: "Hash option"

definition NewVmDb :: "Address option \<Rightarrow> Hash option \<Rightarrow> Hash option \<Rightarrow> vm_error + vmDb" where
  "NewVmDb address latestSnapshotBlockHash prevAccountBlockHash =
     (if address = None then Inl (ErrOther ''address is nil'')
      else if latestSnapshotBlockHash = None then Inl (ErrOther ''latestSnapshotBlockHash is nil'')
      else if prevAccountBlockHash = None then Inl (ErrOther ''prevAccountBlockHash is nil'')
      else Inr \<lparr>vdb_uns = NewUnsaved, vdb_address = address, vdb_isGenesis = False,
                vdb_latestSnapshotBlockHash = latestSnapshotBlockHash,
                vdb_prevAccountBlockHash = prevAccountBlockHash\<rparr>)"

definition vdb_CanWrite :: "vmDb \<Rightarrow> bool" where
  "vdb_CanWrite vdb \<longleftrightarrow>
     vdb_isGenesis vdb \<or>
     (vdb_address vdb \<noteq> None \<and> vdb_prevAccountBlockHash vdb \<noteq> None \<and> vdb_latestSnapshotBlockHash vdb \<noteq> None)"

definition NewNoContextVmDb :: vmDb where
  "NewNoContextVmDb = \<lparr>vdb_uns = NewUnsaved, vdb_address = None, vdb_isGenesis = False,
     vdb_latestSnapshotBlockHash = None, vdb_prevAccountBlockHash = None\<rparr>"

definition NewVmDbByAddr :: "Address option \<Rightarrow> vmDb" where
  "NewVmDbByAddr address = \<lparr>vdb_uns = NewUnsaved, vdb_address = address, vdb_isGenesis = False,
     vdb_latestSnapshotBlockHash = None, vdb_prevAccountBlockHash = None\<rparr>"

definition NewGenesisVmDB :: "Address option \<Rightarrow> vmDb" where
  "NewGenesisVmDB address = \<lparr>vdb_uns = NewUnsaved, vdb_address = address, vdb_isGenesis = True,
     vdb_latestSnapshotBlockHash = None, vdb_prevAccountBlockHash = None\<rparr>"

text \<open>\<open>*vdb.address\<close>.\<close>

definition derefAddress :: "vmDb \<Rightarrow> Address go" where
  "derefAddress vdb = (case vdb_address vdb of None \<Rightarrow> Panics PanicNil | Some a \<Rightarrow> Ret a)"

definition vdb_GetBalance :: "Chain \<Rightarrow> vmDb \<Rightarrow> TokenTypeId \<Rightarrow> (vm_error + int) go" where
  "vdb_GetBalance chain vdb tokenTypeId =
     (case uns_GetBalance (vdb_uns vdb) tokenTypeId of
        Some balance \<Rightarrow> Ret (Inr balance)
      | None \<Rightarrow> go_bind (derefAddress vdb) (\<lambda>a. Ret (chain_GetBalance chain a tokenTypeId)))"

definition vdb_SetBalance :: "TokenTypeId \<Rightarrow> int \<Rightarrow> vmDb \<Rightarrow> vmDb" where
  "vdb_SetBalance tokenTypeId amount vdb = vdb\<lparr>vdb_uns := uns_SetBalance tokenTypeId amount (vdb_uns vdb)\<rparr>"

definition vdb_GetOriginalValue :: "Chain \<Rightarrow> vmDb \<Rightarrow> bytes \<Rightarrow> (vm_error + bytes) go" where
  "vdb_GetOriginalValue chain vdb key =
     go_bind (derefAddress vdb) (\<lambda>a. Ret (chain_GetValue chain a key))"

definition vdb_GetValue :: "Chain \<Rightarrow> vmDb \<Rightarrow> bytes \<Rightarrow> (vm_error + bytes) go" where
  "vdb_GetValue chain vdb key =
     go_bind (uns_GetValue (vdb_uns vdb) key)
       (\<lambda>(val, ok). if ok then Ret (Inr val) else vdb_GetOriginalValue chain vdb key)"

definition vdb_SetValue :: "bytes \<Rightarrow> bytes \<Rightarrow> vmDb \<Rightarrow> (vm_error + vmDb) go" where
  "vdb_SetValue key val vdb =
     (if length key > 32
      then Ret (Inl (ErrOther ''the length of key is not allowed to exceed 32 bytes''))
      else go_bind (uns_SetValue key val (vdb_uns vdb)) (\<lambda>uns'. Ret (Inr (vdb\<lparr>vdb_uns := uns'\<rparr>))))"

definition vdb_SetContractMeta :: "Address \<Rightarrow> ContractMeta \<Rightarrow> vmDb \<Rightarrow> vmDb" where
  "vdb_SetContractMeta toAddress meta vdb =
     vdb\<lparr>vdb_uns := uns_SetContractMeta toAddress meta (vdb_uns vdb)\<rparr>"

definition vdb_GetContractMeta :: "Chain \<Rightarrow> vmDb \<Rightarrow> vm_error + ContractMeta option" where
  "vdb_GetContractMeta chain vdb =
     (case vdb_address vdb of
        None \<Rightarrow> Inl (ErrOther ''no self address'')
      | Some a \<Rightarrow>
          (case uns_GetContractMeta (vdb_uns vdb) a of
             Some meta \<Rightarrow> Inr (Some meta)
           | None \<Rightarrow> chain_GetContractMeta chain a))"

definition vdb_GetContractMetaInSnapshot ::
    "Chain \<Rightarrow> vmDb \<Rightarrow> Address \<Rightarrow> SnapshotBlock \<Rightarrow> vm_error + ContractMeta option" where
  "vdb_GetContractMetaInSnapshot chain vdb contractAddress snapshotBlock =
     chain_GetContractMetaInSnapshot chain contractAddress (sb_Height snapshotBlock)"

definition vdb_SetContractCode :: "bytes \<Rightarrow> vmDb \<Rightarrow> vmDb" where
  "vdb_SetContractCode code vdb = vdb\<lparr>vdb_uns := uns_SetCode code (vdb_uns vdb)\<rparr>"

definition vdb_GetContractCode :: "Chain \<Rightarrow> vmDb \<Rightarrow> (vm_error + bytes) go" where
  "vdb_GetContractCode chain vdb =
     (if length (u_code (vdb_uns vdb)) > 0 then Ret (Inr (u_code (vdb_uns vdb)))
      else go_bind (derefAddress vdb) (\<lambda>a. Ret (chain_GetContractCode chain a)))"

definition vdb_GetContractCodeBySnapshotBlock :: "vmDb \<Rightarrow> Address \<Rightarrow> SnapshotBlock option \<Rightarrow> vm_error + bytes" where
  "vdb_GetContractCodeBySnapshotBlock vdb addr snapshotBlock = Inr []"

definition vdb_LatestSnapshotBlock :: "Chain \<Rightarrow> vmDb \<Rightarrow> vm_error + SnapshotBlock" where
  "vdb_LatestSnapshotBlock chain vdb =
     (case vdb_latestSnapshotBlockHash vdb of
        None \<Rightarrow> Inl (ErrOther ''No context, vdb.latestSnapshotBlockHash is nil'')
      | Some h \<Rightarrow>
          (case chain_GetSnapshotHeaderByHash chain h of
             Inl err \<Rightarrow> Inl err
           | Inr None \<Rightarrow> Inl (ErrOther ''the returned snapshotHeader is nil'')
           | Inr (Some sb) \<Rightarrow> Inr sb))"

definition vdb_PrevAccountBlockHash :: "vmDb \<Rightarrow> Hash" where
  "vdb_PrevAccountBlockHash vdb =
     (case vdb_prevAccountBlockHash vdb of None \<Rightarrow> ZERO_HASH | Some h \<Rightarrow> h)"

definition vdb_PrevAccountBlock :: "Chain \<Rightarrow> vmDb \<Rightarrow> vm_error + AccountBlock option" where
  "vdb_PrevAccountBlock chain vdb =
     (case vdb_prevAccountBlockHash vdb of
        None \<Rightarrow> Inl (ErrOther ''No context, vdb.prevAccountBlockHash is nil'')
      | Some h \<Rightarrow>
          if h = ZERO_HASH then Inr None
          else (case chain_GetAccountBlockByHash chain h of
                  Inl err \<Rightarrow> Inl err
                | Inr None \<Rightarrow> Inl (ErrOther ''the returned accountBlock is nil'')
                | Inr (Some ab) \<Rightarrow> Inr (Some ab)))"

definition vdb_GetCallDepth :: "Chain \<Rightarrow> vmDb \<Rightarrow> Hash \<Rightarrow> vm_error + u16" where
  "vdb_GetCallDepth chain vdb sendBlockHash = chain_GetCallDepth chain sendBlockHash"

definition vdb_GetConfirmSnapshotHeader :: "Chain \<Rightarrow> vmDb \<Rightarrow> Hash \<Rightarrow> vm_error + SnapshotBlock option" where
  "vdb_GetConfirmSnapshotHeader chain vdb blockHash = chain_GetConfirmSnapshotHeaderByAbHash chain blockHash"

definition vdb_GetStakeBeneficialAmount :: "Chain \<Rightarrow> vmDb \<Rightarrow> Address \<Rightarrow> vm_error + int" where
  "vdb_GetStakeBeneficialAmount chain vdb addr =
     (if vdb_latestSnapshotBlockHash vdb = None
      then Inl (ErrOther ''no context, vdb.latestSnapshotBlockHash is nil'')
      else chain_GetStakeBeneficialAmount chain addr)"

definition vdb_AddLog :: "VmLog \<Rightarrow> vmDb \<Rightarrow> vmDb" where
  "vdb_AddLog log vdb = vdb\<lparr>vdb_uns := uns_AddLog log (vdb_uns vdb)\<rparr>"

definition vdb_GetLogListHash :: "crypto \<Rightarrow> upgradeBox \<Rightarrow> Chain \<Rightarrow> vmDb \<Rightarrow> Hash option go" where
  "vdb_GetLogListHash c upgrade chain vdb =
     go_bind (if vdb_isGenesis vdb then Ret 0
              else case vdb_LatestSnapshotBlock chain vdb of
                     Inl _ \<Rightarrow> Panics (PanicStr ''Error'')
                   | Inr sb \<Rightarrow> Ret (sb_Height sb))
       (\<lambda>sbHeight. go_bind (derefAddress vdb)
         (\<lambda>a. Ret (uns_GetLogListHash c upgrade (vdb_uns vdb) sbHeight a (vdb_PrevAccountBlockHash vdb))))"

definition vdb_GetReceiptHash :: "crypto \<Rightarrow> vmDb \<Rightarrow> (vmDb \<times> Hash) go" where
  "vdb_GetReceiptHash c vdb =
     go_bind (uns_GetStorage (vdb_uns vdb)) (\<lambda>(uns', kvList).
       Ret (vdb\<lparr>vdb_uns := uns'\<rparr>,
            if length kvList \<le> 0 then ZERO_HASH
            else fst (BytesToHash (Hash256 c [concat (map (\<lambda>kv. fst kv @ snd kv) kvList)]))))"

definition vdb_Reset :: "vmDb \<Rightarrow> vmDb go" where
  "vdb_Reset vdb = go_bind (uns_Reset (vdb_uns vdb)) (\<lambda>uns'. Ret (vdb\<lparr>vdb_uns := uns'\<rparr>))"

definition vdb_Finish :: "vmDb \<Rightarrow> vmDb go" where
  "vdb_Finish vdb = go_bind (uns_ReleaseRuntime (vdb_uns vdb)) (\<lambda>uns'. Ret (vdb\<lparr>vdb_uns := uns'\<rparr>))"

subsection \<open>vm/util/db_helper.go\<close>

definition util_GetBalance :: "Chain \<Rightarrow> vmDb \<Rightarrow> TokenTypeId \<Rightarrow> int go" where
  "util_GetBalance chain db tokenId = go_bind (vdb_GetBalance chain db tokenId) DealWithErr"

definition AddBalance :: "Chain \<Rightarrow> vmDb \<Rightarrow> TokenTypeId \<Rightarrow> int \<Rightarrow> vmDb go" where
  "AddBalance chain db tokenId amount =
     go_bind (util_GetBalance chain db tokenId) (\<lambda>b. Ret (vdb_SetBalance tokenId (b + amount) db))"

definition SubBalance :: "Chain \<Rightarrow> vmDb \<Rightarrow> TokenTypeId \<Rightarrow> int \<Rightarrow> (vmDb \<times> bool) go" where
  "SubBalance chain db tokenId amount =
     go_bind (util_GetBalance chain db tokenId) (\<lambda>b.
       if b \<ge> amount then Ret (vdb_SetBalance tokenId (b - amount) db, True) else Ret (db, False))"

definition util_GetValue :: "Chain \<Rightarrow> vmDb \<Rightarrow> bytes \<Rightarrow> bytes go" where
  "util_GetValue chain db key = go_bind (vdb_GetValue chain db key) DealWithErr"

definition util_SetValue :: "bytes \<Rightarrow> bytes \<Rightarrow> vmDb \<Rightarrow> vmDb go" where
  "util_SetValue key val db = go_bind (vdb_SetValue key val db) DealWithErr"

text \<open>\<open>GetContractCode\<close> splits the stored code into its type byte and the byte code.\<close>

definition util_GetContractCode :: "Chain \<Rightarrow> vmDb \<Rightarrow> Address \<Rightarrow> SnapshotBlock option \<Rightarrow> (bytes \<times> bytes) go" where
  "util_GetContractCode chain db addr statusSnapshotBlock =
     go_bind (derefAddress db) (\<lambda>self.
     go_bind (if self = addr then vdb_GetContractCode chain db
              else Ret (vdb_GetContractCodeBySnapshotBlock db addr statusSnapshotBlock)) (\<lambda>r.
     go_bind (DealWithErr r) (\<lambda>code.
       if length code > 0 then Ret (take 1 code, drop 1 code) else Ret ([], []))))"

section \<open>A store with overriding writes\<close>

locale store =
  fixes ready :: "'s \<Rightarrow> bool"
    and okkey :: "'k \<Rightarrow> bool"
    and look :: "'s \<Rightarrow> 'k \<Rightarrow> 'v go"
    and put :: "'k \<Rightarrow> 'v \<Rightarrow> 's \<Rightarrow> 's go"
  assumes put_ready: "ready s \<Longrightarrow> okkey k \<Longrightarrow> \<exists>s'. put k v s = Ret s' \<and> ready s'"
    and look_put: "put k v s = Ret s' \<Longrightarrow> look s' k' = (if k' = k then Ret v else look s k')"
begin

text \<open>A sequence of writes: every key holds its last write, every other key is untouched.\<close>

primrec putAll :: "('k \<times> 'v) list \<Rightarrow> 's \<Rightarrow> 's go" where
  "putAll [] s = Ret s"
| "putAll (kv # kvs) s = go_bind (put (fst kv) (snd kv) s) (putAll kvs)"

lemma putAll_ready: "ready s \<Longrightarrow> \<forall>(k, v) \<in> set kvs. okkey k \<Longrightarrow> \<exists>s'. putAll kvs s = Ret s' \<and> ready s'"
proof (induction kvs arbitrary: s)
  case (Cons kv kvs)
  then have "okkey (fst kv)" by (cases kv) auto
  with Cons.prems obtain s1 where s1: "put (fst kv) (snd kv) s = Ret s1" "ready s1"
    using put_ready by blast
  with Cons show ?case by auto
qed simp

lemma look_putAll:
  "putAll kvs s = Ret s' \<Longrightarrow>
     look s' k = (case map_of (rev kvs) k of None \<Rightarrow> look s k | Some v \<Rightarrow> Ret v)"
proof (induction kvs arbitrary: s)
  case (Cons kv kvs)
  then obtain s1 where s1: "put (fst kv) (snd kv) s = Ret s1" and rest: "putAll kvs s1 = Ret s'"
    by (auto simp: go_bind_eq_Ret)
  have "look s1 k = (if k = fst kv then Ret (snd kv) else look s k)" using look_put [OF s1] .
  with Cons.IH [OF rest] show ?case
    by (cases kv) (auto simp: map_add_def split: option.splits if_splits)
qed simp

end

section \<open>The storage and the balances of a run\<close>

definition db_ready :: "vmDb \<Rightarrow> bool" where
  "db_ready db \<longleftrightarrow> vdb_address db \<noteq> None \<and> u_storage (vdb_uns db) \<noteq> None"

lemma map_of_AList_update: "map_of (AList.update k v m) k' = (if k' = k then Some v else map_of m k')"
  by (simp add: update_conv')

lemma util_SetValue_Ret:
  "util_SetValue k v db = Ret db' \<longleftrightarrow> length k \<le> 32 \<and> (\<exists>st. u_storage (vdb_uns db) = Some st \<and>
     db' = db\<lparr>vdb_uns := (vdb_uns db)\<lparr>storageDirty := True, u_keys := List.insert k (u_keys (vdb_uns db)),
        deletedKeys := (if length v \<le> 0 then List.insert k (deletedKeys (vdb_uns db))
                        else removeAll k (deletedKeys (vdb_uns db))),
        u_storage := Some (AList.update k v st)\<rparr>\<rparr>)"
  by (auto simp: util_SetValue_def vdb_SetValue_def uns_SetValue_def split: option.splits)

lemma uns_GetValue_SetValue:
  assumes "uns_SetValue k v u = Ret u'"
  shows "uns_GetValue u' k' = (if k' = k then Ret (v, True) else uns_GetValue u k')"
proof (cases "u_storage u")
  case None
  with assms show ?thesis by (simp add: uns_SetValue_def)
next
  case (Some st)
  with assms have u': "u_storage u' = Some (AList.update k v st)"
    "k' \<noteq> k \<Longrightarrow> List.member (deletedKeys u') k' = List.member (deletedKeys u) k'"
    by (auto simp: uns_SetValue_def List.member_iff split: if_splits)
  with Some show ?thesis by (cases "k' = k") (simp_all add: uns_GetValue_def map_of_AList_update split: option.split)
qed

text \<open>A key that was deleted is in the memdb with an empty value, so a lookup of the storage is the
  memdb entry when there is one and the ledger's value otherwise.\<close>

definition deleted_ok :: "vmDb \<Rightarrow> bool" where
  "deleted_ok db \<longleftrightarrow> (case u_storage (vdb_uns db) of None \<Rightarrow> True
     | Some st \<Rightarrow> \<forall>k \<in> set (deletedKeys (vdb_uns db)). map_of st k \<noteq> None)"

lemma util_GetValue_eq:
  assumes "vdb_address db = Some a" "u_storage (vdb_uns db) = Some st" "deleted_ok db"
  shows "util_GetValue chain db k =
    (case map_of st k of Some v \<Rightarrow> Ret v | None \<Rightarrow> DealWithErr (chain_GetValue chain a k))"
  using assms
  by (auto simp: util_GetValue_def vdb_GetValue_def uns_GetValue_def vdb_GetOriginalValue_def
      derefAddress_def deleted_ok_def List.member_iff split: option.splits)

interpretation storage: store db_ready "\<lambda>k :: bytes. length k \<le> 32" "util_GetValue chain" util_SetValue
  for chain
proof unfold_locales
  fix s and k v :: bytes assume "db_ready s" "length k \<le> 32"
  then show "\<exists>s'. util_SetValue k v s = Ret s' \<and> db_ready s'"
    by (auto simp: db_ready_def util_SetValue_Ret)
next
  fix k v s s' k' assume "util_SetValue k v s = Ret s'"
  then obtain u' where u': "uns_SetValue k v (vdb_uns s) = Ret u'" and s': "s' = s\<lparr>vdb_uns := u'\<rparr>"
    by (auto simp: util_SetValue_def vdb_SetValue_def go_bind_eq_Ret split: if_splits)
  show "util_GetValue chain s' k' = (if k' = k then Ret v else util_GetValue chain s k')"
    by (simp add: s' util_GetValue_def vdb_GetValue_def uns_GetValue_SetValue [OF u']
        vdb_GetOriginalValue_def derefAddress_def cong: if_cong)
qed

interpretation balances: store "\<lambda>_. True" "\<lambda>_. True" "util_GetBalance chain" "\<lambda>t b db. Ret (vdb_SetBalance t b db)"
  for chain
  by unfold_locales (auto simp: util_GetBalance_def vdb_GetBalance_def vdb_SetBalance_def
      uns_SetBalance_def uns_GetBalance_def map_of_AList_update derefAddress_def split: option.splits if_splits)

text \<open>\<open>AddBalance\<close> and \<open>SubBalance\<close> change one balance, exactly, and \<open>SubBalance\<close> keeps it non-negative.\<close>

lemma AddBalance_Ret:
  "AddBalance chain db t a = Ret db' \<longleftrightarrow>
     (\<exists>b. util_GetBalance chain db t = Ret b \<and> db' = vdb_SetBalance t (b + a) db)"
  by (auto simp: AddBalance_def go_bind_eq_Ret)

lemma SubBalance_Ret:
  "SubBalance chain db t a = Ret (db', ok) \<longleftrightarrow>
     (\<exists>b. util_GetBalance chain db t = Ret b \<and> ok = (a \<le> b) \<and>
          db' = (if a \<le> b then vdb_SetBalance t (b - a) db else db))"
  by (auto simp: SubBalance_def go_bind_eq_Ret)

lemma util_GetBalance_SetBalance [simp]:
  "util_GetBalance chain (vdb_SetBalance t b db) t' = (if t' = t then Ret b else util_GetBalance chain db t')"
  using balances.look_put [OF refl] .

text \<open>The rest of the view is independent of a balance change.\<close>

lemma vdb_SetBalance_simps [simp]:
  "vdb_address (vdb_SetBalance t b db) = vdb_address db"
  "u_storage (vdb_uns (vdb_SetBalance t b db)) = u_storage (vdb_uns db)"
  "deletedKeys (vdb_uns (vdb_SetBalance t b db)) = deletedKeys (vdb_uns db)"
  "logList (vdb_uns (vdb_SetBalance t b db)) = logList (vdb_uns db)"
  "u_code (vdb_uns (vdb_SetBalance t b db)) = u_code (vdb_uns db)"
  by (simp_all add: vdb_SetBalance_def uns_SetBalance_def)

text \<open>\<open>Reset\<close> forgets the writes of the run: every read goes to the ledger again.\<close>

lemma vdb_Reset_reads:
  assumes "db_ready db"
  shows "\<exists>db'. vdb_Reset db = Ret db' \<and> vdb_address db' = vdb_address db \<and>
    util_GetValue chain db' k = go_bind (vdb_GetOriginalValue chain db k) DealWithErr \<and>
    util_GetBalance chain db' t = go_bind (derefAddress db) (\<lambda>a. DealWithErr (chain_GetBalance chain a t)) \<and>
    logList (vdb_uns db') = [] \<and> contractMetaMap (vdb_uns db') = [] \<and> u_code (vdb_uns db') = []"
  using assms
  by (auto simp: db_ready_def vdb_Reset_def uns_Reset_def util_GetValue_def vdb_GetValue_def uns_GetValue_def
      vdb_GetOriginalValue_def util_GetBalance_def vdb_GetBalance_def uns_GetBalance_def derefAddress_def
      List.member_iff)

text \<open>The receipt hash is over the writes in key order, so it does not depend on the order in which
  distinct keys were first written.\<close>

lemma keys_distinct_SetValue:
  assumes "util_SetValue k v db = Ret db'" "distinct (map fst (the (u_storage (vdb_uns db))))"
  shows "distinct (map fst (the (u_storage (vdb_uns db'))))"
  using assms by (auto simp: util_SetValue_Ret distinct_update)

lemma sort_key_determined:
  assumes "map_of m = map_of n" "distinct (map fst m)" "distinct (map fst n)"
  shows "sort_key fst m = sort_key (fst :: 'a :: linorder \<times> 'b \<Rightarrow> 'a) n"
proof (rule map_sorted_distinct_set_unique [where f = fst])
  show "inj_on fst (set (sort_key fst m) \<union> set (sort_key fst n))"
    using assms map_of_inject_set [of m n] by (auto simp: distinct_map)
qed (use assms map_of_inject_set [of m n] in \<open>auto simp: distinct_map\<close>)

section \<open>Properties\<close>

text \<open>A ledger without accounts, for the examples.\<close>

definition genesisSnapshot :: SnapshotBlock where
  "genesisSnapshot = \<lparr>sb_Hash = ZERO_HASH, sb_PrevHash = ZERO_HASH, sb_Height = 1, sb_PublicKey = [],
     sb_Signature = [], sb_Timestamp = 0, sb_Seed = 0, sb_SeedHash = None, sb_SnapshotContent = [],
     sb_Version = 0\<rparr>"

definition emptyChain :: Chain where
  "emptyChain = \<lparr>chain_GetQuotaUsedList = (\<lambda>_. []),
     chain_GetGlobalQuota = \<lparr>BlockCount = 0, QuotaTotal = 0, QuotaUsedTotal = 0\<rparr>,
     chain_GetBalance = (\<lambda>_ _. Inr 0), chain_GetContractCode = (\<lambda>_. Inr []),
     chain_GetContractMeta = (\<lambda>_. Inr None), chain_GetConfirmSnapshotHeaderByAbHash = (\<lambda>_. Inr None),
     chain_GetConfirmedTimes = (\<lambda>_. Inr 0), chain_GetContractMetaInSnapshot = (\<lambda>_ _. Inr None),
     chain_GetSnapshotHeaderByHash = (\<lambda>h. Inr (Some (genesisSnapshot\<lparr>sb_Hash := h\<rparr>))),
     chain_GetSnapshotBlockByHeight = (\<lambda>_. Inr None), chain_GetAccountBlockByHash = (\<lambda>_. Inr None),
     chain_GetLatestAccountBlock = (\<lambda>_. Inr None), chain_GetVmLogList = (\<lambda>_. Inr []),
     chain_GetUnconfirmedBlocks = (\<lambda>_. []),
     chain_GetGenesisSnapshotBlock = genesisSnapshot,
     chain_GetStakeBeneficialAmount = (\<lambda>_. Inr 0), chain_GetValue = (\<lambda>_ _. Inr []),
     chain_GetCallDepth = (\<lambda>_. Inr 0)\<rparr>"

text \<open>C23: a sequence of storage writes of a run: every write succeeds, every written key reads as its
  last write, and every other key still reads as before.\<close>

theorem storage_last_write:
  assumes "db_ready db" "\<forall>(k, v) \<in> set kvs. length k \<le> 32"
  shows "\<exists>db'. storage.putAll kvs db = Ret db' \<and> (\<forall>k. util_GetValue chain db' k =
    (case map_of (rev kvs) k of None \<Rightarrow> util_GetValue chain db k | Some v \<Rightarrow> Ret v))"
  using storage.putAll_ready [OF assms] storage.look_putAll [where chain = chain] by blast

theorem storage_last_write_witness:
  "\<exists>db'. storage.putAll [([1], [7]), ([2], [8]), ([1], [])] (NewVmDbByAddr (Some ZERO_ADDRESS)) = Ret db' \<and>
     util_GetValue emptyChain db' [1] = Ret [] \<and> util_GetValue emptyChain db' [2] = Ret [8]"
proof -
  have "db_ready (NewVmDbByAddr (Some ZERO_ADDRESS))"
    by (simp add: db_ready_def NewVmDbByAddr_def NewUnsaved_def)
  from storage_last_write [OF this, of "[([1], [7]), ([2], [8]), ([1], [])]" emptyChain]
  obtain db' where "storage.putAll [([1], [7]), ([2], [8]), ([1], [])] (NewVmDbByAddr (Some ZERO_ADDRESS)) = Ret db'"
    "\<forall>k. util_GetValue emptyChain db' k = (case map_of (rev [([1], [7]), ([2], [8]), ([1], [])]) k of
       None \<Rightarrow> util_GetValue emptyChain (NewVmDbByAddr (Some ZERO_ADDRESS)) k | Some v \<Rightarrow> Ret v)"
    by auto
  then show ?thesis by auto
qed

text \<open>\<open>SubBalance\<close> takes the amount from the balance of its token when the balance covers it and
  changes nothing otherwise; the balance stays non-negative and the other tokens are untouched.\<close>

theorem SubBalance_exact:
  assumes "util_GetBalance chain db t = Ret b" "0 \<le> b"
  shows "\<exists>db'. SubBalance chain db t a = Ret (db', a \<le> b) \<and>
    (\<forall>t'. util_GetBalance chain db' t' =
       (if t' = t \<and> a \<le> b then Ret (b - a) else util_GetBalance chain db t')) \<and>
    (a \<le> b \<longrightarrow> 0 \<le> b - a)"
  using assms by (intro exI [of _ "if a \<le> b then vdb_SetBalance t (b - a) db else db"]) (simp add: SubBalance_Ret)

theorem SubBalance_exact_witness:
  "\<exists>db'. SubBalance emptyChain (vdb_SetBalance ZERO_TOKENID 10 (NewVmDbByAddr (Some ZERO_ADDRESS))) ZERO_TOKENID 4 =
       Ret (db', True) \<and> util_GetBalance emptyChain db' ZERO_TOKENID = Ret 6"
  using SubBalance_exact [of emptyChain "vdb_SetBalance ZERO_TOKENID 10 (NewVmDbByAddr (Some ZERO_ADDRESS))" ZERO_TOKENID 10 4]
  by auto

text \<open>C24: \<open>Reset\<close> discards everything a run wrote: values and balances read as the ledger has them,
  and there are no logs, metadata or code left.\<close>

theorem Reset_discards_writes:
  assumes "db_ready db"
  shows "\<exists>db'. vdb_Reset db = Ret db' \<and>
    (\<forall>k. util_GetValue chain db' k = go_bind (vdb_GetOriginalValue chain db k) DealWithErr) \<and>
    (\<forall>t. util_GetBalance chain db' t = go_bind (derefAddress db) (\<lambda>a. DealWithErr (chain_GetBalance chain a t))) \<and>
    logList (vdb_uns db') = [] \<and> contractMetaMap (vdb_uns db') = [] \<and> u_code (vdb_uns db') = []"
proof -
  from vdb_Reset_reads [OF assms] obtain db' where "vdb_Reset db = Ret db'" by blast
  with vdb_Reset_reads [OF assms, of chain] show ?thesis by auto
qed

theorem Reset_discards_writes_witness:
  "\<exists>db'. vdb_Reset (vdb_SetBalance ZERO_TOKENID 10 (NewVmDbByAddr (Some ZERO_ADDRESS))) = Ret db' \<and>
     util_GetBalance emptyChain db' ZERO_TOKENID = Ret 0"
  using Reset_discards_writes [of "vdb_SetBalance ZERO_TOKENID 10 (NewVmDbByAddr (Some ZERO_ADDRESS))" emptyChain]
  by (auto simp: db_ready_def NewVmDbByAddr_def NewUnsaved_def derefAddress_def emptyChain_def)

end
