(* ===== verification/Vm_Stack.thy ===== *)
theory Vm_Stack
  imports Big_Int
begin

text \<open>
  vm/stack.go and vm/stack_table.go.  The stack is a list with its top first, so \<open>stack_back n\<close> reads index
  \<open>n\<close>; an index out of range panics as in Go.  The instructions write the result of an operation
  through the pointer that \<open>peek\<close> returned: \<open>poke\<close> replaces the top.  The integer pool only recycles
  big.Int objects and has no effect on the values.

  The lemmas show what \<open>validateStack\<close> guarantees: an operation that declares \<open>pops\<close> and \<open>pushes\<close>
  finds its operands, and leaves at most 1024 elements.
\<close>

section \<open>Definitions\<close>

type_synonym stack = "int list"

definition stackLimit :: nat where "stackLimit = 1024"

definition newStack :: stack where "newStack = []"

definition push :: "int \<Rightarrow> stack \<Rightarrow> stack" where "push d st = d # st"

definition pop :: "stack \<Rightarrow> (int \<times> stack) go" where
  "pop st = (case st of [] \<Rightarrow> Panics PanicIndex | d # rest \<Rightarrow> Ret (d, rest))"

definition peek :: "stack \<Rightarrow> int go" where
  "peek st = (case st of [] \<Rightarrow> Panics PanicIndex | d # _ \<Rightarrow> Ret d)"

definition poke :: "int \<Rightarrow> stack \<Rightarrow> stack" where
  "poke d st = (case st of [] \<Rightarrow> [] | _ # rest \<Rightarrow> d # rest)"

definition require :: "nat \<Rightarrow> stack \<Rightarrow> vm_error option" where
  "require n st = (if length st < n then Some ErrStackUnderflow else None)"

definition stack_back :: "nat \<Rightarrow> stack \<Rightarrow> int go" where
  "stack_back n st = (if n < length st then Ret (st ! n) else Panics PanicIndex)"

text \<open>\<open>dup n\<close> reads \<open>data[len-n]\<close>, \<open>swap n\<close> exchanges it with the top.\<close>

definition dup :: "nat \<Rightarrow> stack \<Rightarrow> stack go" where
  "dup n st = (if 0 < n \<and> n \<le> length st then Ret (push (st ! (n - 1)) st) else Panics PanicIndex)"

definition swap :: "nat \<Rightarrow> stack \<Rightarrow> stack go" where
  "swap n st =
     (if 0 < n \<and> n \<le> length st then Ret (st[0 := st ! (n - 1), n - 1 := st ! 0])
      else Panics PanicIndex)"

type_synonym stackValidationFunc = "stack \<Rightarrow> vm_error option"

definition makeStackFunc :: "nat \<Rightarrow> nat \<Rightarrow> stackValidationFunc" where
  "makeStackFunc pops pushes st =
     (case require pops st of
        Some err \<Rightarrow> Some err
      | None \<Rightarrow>
          if int (length st) + int pushes - int pops > int stackLimit then Some ErrStackLimitReached
          else None)"

definition makeDupStackFunc :: "nat \<Rightarrow> stackValidationFunc" where
  "makeDupStackFunc n = makeStackFunc n (n + 1)"

definition makeSwapStackFunc :: "nat \<Rightarrow> stackValidationFunc" where
  "makeSwapStackFunc n = makeStackFunc n n"

section \<open>Lemmas\<close>

lemma stack_simps [simp]:
  "pop (d # st) = Ret (d, st)" "peek (d # st) = Ret d" "poke e (d # st) = e # st"
  "length (push d st) = Suc (length st)"
  by (simp_all add: pop_def peek_def poke_def push_def)

lemma makeStackFunc_None:
  "makeStackFunc pops pushes st = None \<longleftrightarrow>
     pops \<le> length st \<and> length st - pops + pushes \<le> stackLimit"
  by (auto simp: makeStackFunc_def require_def split: if_splits option.splits)

text \<open>A validated stack starts with its operands.\<close>

lemma stack_split:
  assumes "n \<le> length st"
  obtains xs rest where "st = xs @ rest" "length xs = n"
  using assms by (metis append_take_drop_id length_take min_absorb2)

lemma length_ge_1 [simp]: "Suc 0 \<le> length st \<longleftrightarrow> (\<exists>a r. st = a # r)"
  by (cases st) auto

lemma length_ge_Suc: "Suc n \<le> length st \<longleftrightarrow> (\<exists>a r. st = a # r \<and> n \<le> length r)"
  by (cases st) auto

text \<open>\<open>dup\<close> and \<open>swap\<close> on a validated stack.\<close>

lemma dup_Ret: "0 < n \<Longrightarrow> n \<le> length st \<Longrightarrow> dup n st = Ret (st ! (n - 1) # st)"
  by (simp add: dup_def push_def)

lemma swap_mset:
  assumes "swap n st = Ret st'"
  shows "length st' = length st" "set st' = set st"
proof -
  from assms have n: "0 < n" "n \<le> length st" and st': "st' = st[0 := st ! (n - 1), n - 1 := st ! 0]"
    by (auto simp: swap_def split: if_splits)
  then show "length st' = length st" by simp
  show "set st' = set st" unfolding st' using n by (intro set_swap) auto
qed

text \<open>Swapping twice is the identity.\<close>

lemma swap_swap:
  assumes "swap n st = Ret st'"
  shows "swap n st' = Ret st"
proof -
  from assms have n: "0 < n" "n \<le> length st" and st': "st' = st[0 := st ! (n - 1), n - 1 := st ! 0]"
    by (auto simp: swap_def split: if_splits)
  have ne: "st \<noteq> []" using n by auto
  have "st'[0 := st' ! (n - 1), n - 1 := st' ! 0] = st"
    unfolding st' using n ne by (intro nth_equalityI) (auto simp: nth_list_update)
  with n st' show ?thesis by (simp add: swap_def)
qed

text \<open>All elements of the stack are VM words.\<close>

definition wf_stack :: "stack \<Rightarrow> bool" where
  "wf_stack st \<longleftrightarrow> list_all wf_val st"

lemma wf_stack_simps [simp]:
  "wf_stack []" "wf_stack (d # st) \<longleftrightarrow> wf_val d \<and> wf_stack st"
  "wf_stack (push d st) \<longleftrightarrow> wf_val d \<and> wf_stack st"
  "wf_stack (xs @ ys) \<longleftrightarrow> wf_stack xs \<and> wf_stack ys"
  by (simp_all add: wf_stack_def push_def)

lemma wf_stack_nth: "wf_stack st \<Longrightarrow> n < length st \<Longrightarrow> wf_val (st ! n)"
  by (simp add: wf_stack_def list_all_length)

lemma wf_stack_swap: "swap n st = Ret st' \<Longrightarrow> wf_stack st \<Longrightarrow> wf_stack st'"
  by (simp add: wf_stack_def list_all_iff swap_mset)

lemma wf_stack_dup: "dup n st = Ret st' \<Longrightarrow> wf_stack st \<Longrightarrow> wf_stack st'"
  by (auto simp: dup_def wf_stack_nth split: if_splits)

end
