(* ===== verification/Vm_Memory.thy ===== *)
theory Vm_Memory
  imports Vm_Stack Helper
begin

text \<open>
  vm/memory.go and vm/memory_table.go.  A Go slice can be re-sliced up to its capacity, past its
  length, so the memory keeps the capacity of its backing array; the bytes between the length and the
  capacity are zero.  The capacity that \<open>append\<close> chooses is the runtime's: the argument \<open>growCap\<close>.
  The offsets and sizes of the readers are \<open>int64\<close>, those of the writers \<open>uint64\<close>, and their sums wrap.

  The lemmas give the round trips between the readers and the writers, that a write leaves the other
  bytes alone, and that no access inside the length panics.
\<close>

section \<open>Definitions\<close>

record memory =
  mem_store :: bytes
  lastGasCost :: u64
  mem_cap :: nat

definition newMemory :: memory where
  "newMemory = \<lparr>mem_store = [], lastGasCost = 0, mem_cap = 0\<rparr>"

definition mem_len :: "memory \<Rightarrow> nat" where
  "mem_len m = length (mem_store m)"

definition mem_resize :: "(nat \<Rightarrow> nat \<Rightarrow> nat) \<Rightarrow> u64 \<Rightarrow> memory \<Rightarrow> memory" where
  "mem_resize growCap sz m =
     (if mem_len m < unat sz
      then m\<lparr>mem_store := mem_store m @ replicate (unat sz - mem_len m) 0,
             mem_cap := (if unat sz \<le> mem_cap m then mem_cap m
                         else max (unat sz) (growCap (mem_cap m) (unat sz)))\<rparr>
      else m)"

text \<open>\<open>int64\<close> addition and the expression \<open>m.store[offset:end]\<close>.\<close>

definition int64_add :: "int \<Rightarrow> int \<Rightarrow> int" where
  "int64_add a b = sint (word_of_int (a + b) :: u64)"

definition mem_slice :: "memory \<Rightarrow> int \<Rightarrow> int \<Rightarrow> bytes go" where
  "mem_slice m lo hi =
     (if 0 \<le> lo \<and> lo \<le> hi \<and> hi \<le> int (mem_cap m)
      then Ret (slice (mem_store m @ replicate (mem_cap m - mem_len m) 0) (nat lo) (nat hi))
      else Panics PanicIndex)"

definition mem_get :: "memory \<Rightarrow> int \<Rightarrow> int \<Rightarrow> bytes go" where
  "mem_get m offset sz =
     (if sz = 0 then Ret []
      else if int (mem_len m) > offset
      then if sz < 0 then Panics PanicIndex
           else go_bind (mem_slice m offset (int64_add offset sz))
                  (\<lambda>s. Ret (overwrite (replicate (nat sz) 0) 0 s))
      else Ret [])"

definition mem_getPtr :: "memory \<Rightarrow> int \<Rightarrow> int \<Rightarrow> bytes go" where
  "mem_getPtr m offset sz =
     (if sz = 0 then Ret []
      else if int (mem_len m) > offset then mem_slice m offset (int64_add offset sz)
      else Ret [])"

definition mem_set :: "u64 \<Rightarrow> u64 \<Rightarrow> bytes \<Rightarrow> memory \<Rightarrow> memory go" where
  "mem_set offset sz val m =
     (if sz > 0
      then if unat (offset + sz) > mem_len m
           then Panics (PanicStr ''invalid memory: store empty'')
           else if offset > offset + sz then Panics PanicIndex
           else Ret (m\<lparr>mem_store := overwrite (mem_store m) (unat offset) (take (unat sz) val)\<rparr>)
      else Ret m)"

definition mem_set32 :: "u64 \<Rightarrow> int \<Rightarrow> memory \<Rightarrow> memory go" where
  "mem_set32 offset val m =
     (if unat (offset + 32) > mem_len m then Panics (PanicStr ''invalid memory: store empty'')
      else if offset > offset + 32 then Panics PanicIndex
      else
        let zeroed = overwrite (mem_store m) (unat offset) (replicate 32 0);
            window = slice zeroed (unat offset) (unat offset + 32)
        in Ret (m\<lparr>mem_store := overwrite zeroed (unat offset) (ReadBits val window)\<rparr>))"

text \<open>\<open>mem.store[off] = b\<close>.\<close>

definition mem_setByte :: "int \<Rightarrow> byte \<Rightarrow> memory \<Rightarrow> memory go" where
  "mem_setByte off b m =
     (if 0 \<le> off \<and> off < int (mem_len m) then Ret (m\<lparr>mem_store := (mem_store m)[nat off := b]\<rparr>)
      else Panics PanicIndex)"

subsection \<open>memory_table.go\<close>

type_synonym memorySizeFunc = "stack \<Rightarrow> int go"

definition calcMemSize :: "int \<Rightarrow> int \<Rightarrow> int" where
  "calcMemSize off l = (if l = 0 then 0 else off + l)"

text \<open>The operand at index \<open>i\<close> is the offset, the one at index \<open>j\<close> the length.\<close>

definition memAt :: "nat \<Rightarrow> nat \<Rightarrow> memorySizeFunc" where
  "memAt i j st = go_bind (stack_back i st) (\<lambda>off. go_bind (stack_back j st) (\<lambda>len. Ret (calcMemSize off len)))"

definition memorySha3 :: memorySizeFunc where "memorySha3 = memAt 0 1"
definition memoryBlake2b :: memorySizeFunc where "memoryBlake2b = memAt 0 1"
definition memoryCallDataCopy :: memorySizeFunc where "memoryCallDataCopy = memAt 0 2"
definition memoryCodeCopy :: memorySizeFunc where "memoryCodeCopy = memAt 0 2"
definition memoryExtCodeCopy :: memorySizeFunc where "memoryExtCodeCopy = memAt 1 3"
definition memoryReturnDataCopy :: memorySizeFunc where "memoryReturnDataCopy = memAt 0 2"
definition memoryMLoad :: memorySizeFunc where
  "memoryMLoad st = go_bind (stack_back 0 st) (\<lambda>off. Ret (calcMemSize off 32))"
definition memoryMStore :: memorySizeFunc where
  "memoryMStore st = go_bind (stack_back 0 st) (\<lambda>off. Ret (calcMemSize off 32))"
definition memoryMStore8 :: memorySizeFunc where
  "memoryMStore8 st = go_bind (stack_back 0 st) (\<lambda>off. Ret (calcMemSize off 1))"
definition memoryLog :: memorySizeFunc where "memoryLog = memAt 0 1"
definition memoryDelegateCall :: memorySizeFunc where
  "memoryDelegateCall st =
     go_bind (memAt 3 4 st) (\<lambda>x. go_bind (memAt 1 2 st) (\<lambda>y. Ret (BigMax x y)))"
definition memoryCall :: memorySizeFunc where "memoryCall = memAt 3 4"
definition memoryReturn :: memorySizeFunc where "memoryReturn = memAt 0 1"
definition memoryRevert :: memorySizeFunc where "memoryRevert = memAt 0 1"

section \<open>Well-formed memory\<close>

definition wf_mem :: "memory \<Rightarrow> bool" where
  "wf_mem m \<longleftrightarrow> mem_len m \<le> mem_cap m"

lemma wf_newMemory [simp]: "wf_mem newMemory"
  by (simp add: wf_mem_def newMemory_def mem_len_def)

lemma mem_len_newMemory [simp]: "mem_len newMemory = 0"
  by (simp add: newMemory_def mem_len_def)

lemma mem_len_resize [simp]: "mem_len (mem_resize g sz m) = max (mem_len m) (unat sz)"
  by (simp add: mem_resize_def mem_len_def)

lemma wf_mem_resize [simp]: "wf_mem m \<Longrightarrow> wf_mem (mem_resize g sz m)"
  by (auto simp: wf_mem_def mem_resize_def mem_len_def)

lemma lastGasCost_resize [simp]: "lastGasCost (mem_resize g sz m) = lastGasCost m"
  by (simp add: mem_resize_def)

text \<open>Growing keeps the contents and appends zeros.\<close>

lemma mem_store_resize:
  "mem_store (mem_resize g sz m) = mem_store m @ replicate (unat sz - mem_len m) 0"
  by (simp add: mem_resize_def mem_len_def)

lemma mem_set_Ret:
  assumes "mem_set offset sz val m = Ret m'"
  shows "mem_len m' = mem_len m" "mem_cap m' = mem_cap m" "lastGasCost m' = lastGasCost m"
  using assms
  by (auto simp: mem_set_def mem_len_def word_less_nat_alt not_less word_le_nat_alt split: if_splits)

lemma mem_set32_Ret:
  assumes "mem_set32 offset val m = Ret m'"
  shows "mem_len m' = mem_len m" "mem_cap m' = mem_cap m" "lastGasCost m' = lastGasCost m"
  using assms
  by (auto simp: mem_set32_def mem_len_def Let_def word_less_nat_alt not_less word_le_nat_alt split: if_splits)

lemma mem_setByte_Ret:
  assumes "mem_setByte off b m = Ret m'"
  shows "mem_len m' = mem_len m" "mem_cap m' = mem_cap m" "lastGasCost m' = lastGasCost m"
  using assms by (auto simp: mem_setByte_def mem_len_def split: if_splits)

lemma wf_mem_writes [vite_wf]:
  "wf_mem m \<Longrightarrow> mem_set offset sz val m = Ret m' \<Longrightarrow> wf_mem m'"
  "wf_mem m \<Longrightarrow> mem_set32 offset v m = Ret m' \<Longrightarrow> wf_mem m'"
  "wf_mem m \<Longrightarrow> mem_setByte off b m = Ret m' \<Longrightarrow> wf_mem m'"
  by (simp_all add: wf_mem_def mem_set_Ret mem_set32_Ret mem_setByte_Ret)

section \<open>Accesses inside the memory\<close>

lemma int64_add_small: "0 \<le> a \<Longrightarrow> 0 \<le> b \<Longrightarrow> a + b < 2 ^ 63 \<Longrightarrow> int64_add a b = a + b"
  using big_Int64_small [of "a + b"] by (simp add: int64_add_def big_Int64_def)

text \<open>The bytes at \<open>[off, off + n)\<close>.\<close>

definition mem_bytes :: "memory \<Rightarrow> nat \<Rightarrow> nat \<Rightarrow> bytes" where
  "mem_bytes m off n = slice (mem_store m) off (off + n)"

lemma mem_slice_inside:
  assumes "wf_mem m" "off + n \<le> mem_len m"
  shows "mem_slice m (int off) (int (off + n)) = Ret (mem_bytes m off n)"
  using assms by (auto simp: mem_slice_def wf_mem_def mem_bytes_def mem_len_def slice_def nat_int_add)

lemma mem_get_inside:
  assumes "wf_mem m" "off + n \<le> mem_len m" "mem_len m < 2 ^ 63"
  shows "mem_get m (int off) (int n) = Ret (mem_bytes m off n)"
proof (cases "n = 0")
  case False
  have "int64_add (int off) (int n) = int (off + n)"
    using assms by (subst int64_add_small) auto
  then show ?thesis
    using False assms mem_slice_inside [OF assms(1,2)]
    by (simp add: mem_get_def overwrite_def mem_bytes_def mem_len_def)
qed (simp add: mem_get_def mem_bytes_def)

lemma mem_getPtr_inside:
  assumes "wf_mem m" "off + n \<le> mem_len m" "mem_len m < 2 ^ 63"
  shows "mem_getPtr m (int off) (int n) = Ret (mem_bytes m off n)"
proof (cases "n = 0")
  case False
  have "int64_add (int off) (int n) = int (off + n)"
    using assms by (subst int64_add_small) auto
  then show ?thesis
    using False assms mem_slice_inside [OF assms(1,2)] by (simp add: mem_getPtr_def)
qed (simp add: mem_getPtr_def mem_bytes_def)

lemma mem_set_inside:
  assumes "unat off + unat sz \<le> mem_len m" "mem_len m < 2 ^ 63" "length val = unat sz"
  shows "mem_set off sz val m = Ret (m\<lparr>mem_store := overwrite (mem_store m) (unat off) val\<rparr>)"
proof (cases "sz = 0")
  case False
  have "unat (off + sz) = unat off + unat sz" using assms by (intro unat_plus_u64) simp
  moreover have "0 < unat sz" using False by (simp add: unat_gt_0)
  ultimately show ?thesis using assms by (simp add: mem_set_def word_less_nat_alt)
qed (use assms in \<open>simp add: mem_set_def overwrite_def\<close>)

lemma mem_set32_inside:
  assumes "unat off + 32 \<le> mem_len m" "mem_len m < 2 ^ 63"
  shows "mem_set32 off val m =
    Ret (m\<lparr>mem_store := overwrite (mem_store m) (unat off) (ReadBits val (replicate 32 0))\<rparr>)"
proof -
  have s: "unat (off + 32) = unat off + 32"
    using assms unat_plus_u64 [of off 32] by simp
  have win: "slice (overwrite (mem_store m) (unat off) (replicate 32 (0 :: byte))) (unat off) (unat off + 32) =
    replicate 32 0"
    using assms slice_overwrite [of "unat off" "replicate 32 0" "mem_store m"] by (simp add: mem_len_def)
  have "overwrite (overwrite (mem_store m) (unat off) (replicate 32 0)) (unat off) w =
    overwrite (mem_store m) (unat off) w" if "length w = 32" for w
    using that assms by (simp add: overwrite_def mem_len_def)
  with assms s win show ?thesis
    by (simp add: mem_set32_def word_less_nat_alt Let_def)
qed

text \<open>A word written with \<open>set32\<close> reads back, and a write only changes its own range.\<close>

lemma mem_bytes_overwrite:
  assumes "off + length w \<le> mem_len m"
  shows "mem_bytes (m\<lparr>mem_store := overwrite (mem_store m) off w\<rparr>) off (length w) = w"
  using assms by (simp add: mem_bytes_def slice_overwrite mem_len_def)

lemma mem_bytes_overwrite_other:
  assumes "off + length w \<le> mem_len m" "off' + n \<le> off \<or> off + length w \<le> off'"
  shows "mem_bytes (m\<lparr>mem_store := overwrite (mem_store m) off w\<rparr>) off' n = mem_bytes m off' n"
proof (rule nth_equalityI)
  show "length (mem_bytes (m\<lparr>mem_store := overwrite (mem_store m) off w\<rparr>) off' n) = length (mem_bytes m off' n)"
    using assms by (simp add: mem_bytes_def mem_len_def)
next
  fix i assume "i < length (mem_bytes (m\<lparr>mem_store := overwrite (mem_store m) off w\<rparr>) off' n)"
  then have i: "i < n" "off' + i < mem_len m"
    using assms by (auto simp: mem_bytes_def mem_len_def)
  then have "off' + i < off \<or> off + length w \<le> off' + i" using assms by linarith
  with i assms nth_overwrite_outside [of off w "mem_store m" "off' + i"]
  show "mem_bytes (m\<lparr>mem_store := overwrite (mem_store m) off w\<rparr>) off' n ! i = mem_bytes m off' n ! i"
    by (simp add: mem_bytes_def slice_def mem_len_def)
qed

lemma mstore_mload:
  assumes "wf_mem m" "unat off + 32 \<le> mem_len m" "mem_len m < 2 ^ 63" "wf_val v"
    and "mem_set32 off v m = Ret m'"
  shows "\<exists>bs. mem_get m' (int (unat off)) 32 = Ret bs \<and> big_SetBytes bs = v"
proof -
  let ?w = "ReadBits v (replicate 32 0)"
  have m': "m' = m\<lparr>mem_store := overwrite (mem_store m) (unat off) ?w\<rparr>"
    using assms mem_set32_inside by simp
  have "wf_mem m'" "mem_len m' = mem_len m"
    using assms wf_mem_writes mem_set32_Ret by blast+
  then have "mem_get m' (int (unat off)) (int 32) = Ret (mem_bytes m' (unat off) 32)"
    using assms by (intro mem_get_inside) simp_all
  moreover have "mem_bytes m' (unat off) 32 = ?w"
    using mem_bytes_overwrite [of "unat off" ?w m] assms by (simp add: m')
  moreover have "big_SetBytes ?w = v"
    using assms be_val_ReadBits [of v 32] by (simp add: wf_val_def big_SetBytes_def)
  ultimately show ?thesis by simp
qed

section \<open>Properties\<close>

text \<open>C21: a VM word stored in memory reads back as the same word, and the 32 bytes written are the
  only ones that change.\<close>

theorem memory_word_roundtrip:
  assumes "wf_mem m" "unat off + 32 \<le> mem_len m" "mem_len m < 2 ^ 63" "wf_val v"
  shows "\<exists>m' bs. mem_set32 off v m = Ret m' \<and> mem_get m' (int (unat off)) 32 = Ret bs \<and>
    big_SetBytes bs = v \<and> mem_len m' = mem_len m \<and>
    (\<forall>p n. p + n \<le> unat off \<or> unat off + 32 \<le> p \<longrightarrow> mem_bytes m' p n = mem_bytes m p n)"
proof -
  let ?m' = "m\<lparr>mem_store := overwrite (mem_store m) (unat off) (ReadBits v (replicate 32 0))\<rparr>"
  have s: "mem_set32 off v m = Ret ?m'" using assms by (simp add: mem_set32_inside)
  have "mem_bytes ?m' p n = mem_bytes m p n" if "p + n \<le> unat off \<or> unat off + 32 \<le> p" for p n
    using that assms by (intro mem_bytes_overwrite_other) simp_all
  with s mem_set32_Ret(1) [OF s] mstore_mload [OF assms s] show ?thesis by blast
qed

theorem memory_word_roundtrip_witness:
  "\<exists>m' bs. mem_set32 8 258 (mem_resize (\<lambda>_ _. 0) 64 newMemory) = Ret m' \<and> mem_get m' 8 32 = Ret bs \<and>
     big_SetBytes bs = 258"
proof -
  have "wf_mem (mem_resize (\<lambda>_ _. 0) 64 newMemory)" by simp
  moreover have "mem_len (mem_resize (\<lambda>_ _. 0) 64 newMemory) = 64"
    by simp
  moreover have "wf_val 258" by (simp add: wf_val_def)
  ultimately show ?thesis
    using memory_word_roundtrip [of "mem_resize (\<lambda>_ _. 0) 64 newMemory" 8 258] by auto
qed

end
