(* ===== verification/Opcodes.thy ===== *)
theory Opcodes
  imports Vite_Prelude
begin

text \<open>
  vm/opcodes.go: the opcodes and their names.  The constants are abbreviations for the byte; \<open>AND\<close>,
  \<open>OR\<close>, \<open>XOR\<close> and \<open>NOT\<close> carry the suffix \<open>_OP\<close>, since these words are operators on words here.
  The Go maps of names are association lists.
\<close>

section \<open>Definitions\<close>

type_synonym opCode = byte

abbreviation (input) "STOP \<equiv> 0 :: opCode"
abbreviation (input) "ADD \<equiv> 1 :: opCode"
abbreviation (input) "MUL \<equiv> 2 :: opCode"
abbreviation (input) "SUB \<equiv> 3 :: opCode"
abbreviation (input) "DIV \<equiv> 4 :: opCode"
abbreviation (input) "SDIV \<equiv> 5 :: opCode"
abbreviation (input) "MOD \<equiv> 6 :: opCode"
abbreviation (input) "SMOD \<equiv> 7 :: opCode"
abbreviation (input) "ADDMOD \<equiv> 8 :: opCode"
abbreviation (input) "MULMOD \<equiv> 9 :: opCode"
abbreviation (input) "EXP \<equiv> 0xa :: opCode"
abbreviation (input) "SIGNEXTEND \<equiv> 0xb :: opCode"
abbreviation (input) "LT \<equiv> 0x10 :: opCode"
abbreviation (input) "GT \<equiv> 0x11 :: opCode"
abbreviation (input) "SLT \<equiv> 0x12 :: opCode"
abbreviation (input) "SGT \<equiv> 0x13 :: opCode"
abbreviation (input) "EQ \<equiv> 0x14 :: opCode"
abbreviation (input) "ISZERO \<equiv> 0x15 :: opCode"
abbreviation (input) "AND_OP \<equiv> 0x16 :: opCode"
abbreviation (input) "OR_OP \<equiv> 0x17 :: opCode"
abbreviation (input) "XOR_OP \<equiv> 0x18 :: opCode"
abbreviation (input) "NOT_OP \<equiv> 0x19 :: opCode"
abbreviation (input) "BYTE \<equiv> 0x1a :: opCode"
abbreviation (input) "SHL \<equiv> 0x1b :: opCode"
abbreviation (input) "SHR \<equiv> 0x1c :: opCode"
abbreviation (input) "SAR \<equiv> 0x1d :: opCode"
abbreviation (input) "SHA3 \<equiv> 0x20 :: opCode"
abbreviation (input) "BLAKE2B \<equiv> 0x21 :: opCode"
abbreviation (input) "ADDRESS \<equiv> 0x30 :: opCode"
abbreviation (input) "BALANCE \<equiv> 0x31 :: opCode"
abbreviation (input) "ORIGIN \<equiv> 0x32 :: opCode"
abbreviation (input) "CALLER \<equiv> 0x33 :: opCode"
abbreviation (input) "CALLVALUE \<equiv> 0x34 :: opCode"
abbreviation (input) "CALLDATALOAD \<equiv> 0x35 :: opCode"
abbreviation (input) "CALLDATASIZE \<equiv> 0x36 :: opCode"
abbreviation (input) "CALLDATACOPY \<equiv> 0x37 :: opCode"
abbreviation (input) "CODESIZE \<equiv> 0x38 :: opCode"
abbreviation (input) "CODECOPY \<equiv> 0x39 :: opCode"
abbreviation (input) "GASPRICE \<equiv> 0x3a :: opCode"
abbreviation (input) "EXTCODESIZE \<equiv> 0x3b :: opCode"
abbreviation (input) "EXTCODECOPY \<equiv> 0x3c :: opCode"
abbreviation (input) "RETURNDATASIZE \<equiv> 0x3d :: opCode"
abbreviation (input) "RETURNDATACOPY \<equiv> 0x3e :: opCode"
abbreviation (input) "EXTCODEHASH \<equiv> 0x3f :: opCode"
abbreviation (input) "BLOCKHASH \<equiv> 0x40 :: opCode"
abbreviation (input) "COINBASE \<equiv> 0x41 :: opCode"
abbreviation (input) "TIMESTAMP \<equiv> 0x42 :: opCode"
abbreviation (input) "HEIGHT \<equiv> 0x43 :: opCode"
abbreviation (input) "DIFFICULTY \<equiv> 0x44 :: opCode"
abbreviation (input) "GASLIMIT \<equiv> 0x45 :: opCode"
abbreviation (input) "TOKENID \<equiv> 0x46 :: opCode"
abbreviation (input) "ACCOUNTHEIGHT \<equiv> 0x47 :: opCode"
abbreviation (input) "PREVHASH \<equiv> 0x48 :: opCode"
abbreviation (input) "FROMHASH \<equiv> 0x49 :: opCode"
abbreviation (input) "SEED \<equiv> 0x4a :: opCode"
abbreviation (input) "RANDOM \<equiv> 0x4b :: opCode"
abbreviation (input) "POP \<equiv> 0x50 :: opCode"
abbreviation (input) "MLOAD \<equiv> 0x51 :: opCode"
abbreviation (input) "MSTORE \<equiv> 0x52 :: opCode"
abbreviation (input) "MSTORE8 \<equiv> 0x53 :: opCode"
abbreviation (input) "SLOAD \<equiv> 0x54 :: opCode"
abbreviation (input) "SSTORE \<equiv> 0x55 :: opCode"
abbreviation (input) "JUMP \<equiv> 0x56 :: opCode"
abbreviation (input) "JUMPI \<equiv> 0x57 :: opCode"
abbreviation (input) "PC \<equiv> 0x58 :: opCode"
abbreviation (input) "MSIZE \<equiv> 0x59 :: opCode"
abbreviation (input) "GAS \<equiv> 0x5a :: opCode"
abbreviation (input) "JUMPDEST \<equiv> 0x5b :: opCode"
abbreviation (input) "PUSH1 \<equiv> 0x60 :: opCode"
abbreviation (input) "PUSH2 \<equiv> 0x61 :: opCode"
abbreviation (input) "PUSH3 \<equiv> 0x62 :: opCode"
abbreviation (input) "PUSH4 \<equiv> 0x63 :: opCode"
abbreviation (input) "PUSH5 \<equiv> 0x64 :: opCode"
abbreviation (input) "PUSH6 \<equiv> 0x65 :: opCode"
abbreviation (input) "PUSH7 \<equiv> 0x66 :: opCode"
abbreviation (input) "PUSH8 \<equiv> 0x67 :: opCode"
abbreviation (input) "PUSH9 \<equiv> 0x68 :: opCode"
abbreviation (input) "PUSH10 \<equiv> 0x69 :: opCode"
abbreviation (input) "PUSH11 \<equiv> 0x6a :: opCode"
abbreviation (input) "PUSH12 \<equiv> 0x6b :: opCode"
abbreviation (input) "PUSH13 \<equiv> 0x6c :: opCode"
abbreviation (input) "PUSH14 \<equiv> 0x6d :: opCode"
abbreviation (input) "PUSH15 \<equiv> 0x6e :: opCode"
abbreviation (input) "PUSH16 \<equiv> 0x6f :: opCode"
abbreviation (input) "PUSH17 \<equiv> 0x70 :: opCode"
abbreviation (input) "PUSH18 \<equiv> 0x71 :: opCode"
abbreviation (input) "PUSH19 \<equiv> 0x72 :: opCode"
abbreviation (input) "PUSH20 \<equiv> 0x73 :: opCode"
abbreviation (input) "PUSH21 \<equiv> 0x74 :: opCode"
abbreviation (input) "PUSH22 \<equiv> 0x75 :: opCode"
abbreviation (input) "PUSH23 \<equiv> 0x76 :: opCode"
abbreviation (input) "PUSH24 \<equiv> 0x77 :: opCode"
abbreviation (input) "PUSH25 \<equiv> 0x78 :: opCode"
abbreviation (input) "PUSH26 \<equiv> 0x79 :: opCode"
abbreviation (input) "PUSH27 \<equiv> 0x7a :: opCode"
abbreviation (input) "PUSH28 \<equiv> 0x7b :: opCode"
abbreviation (input) "PUSH29 \<equiv> 0x7c :: opCode"
abbreviation (input) "PUSH30 \<equiv> 0x7d :: opCode"
abbreviation (input) "PUSH31 \<equiv> 0x7e :: opCode"
abbreviation (input) "PUSH32 \<equiv> 0x7f :: opCode"
abbreviation (input) "DUP1 \<equiv> 0x80 :: opCode"
abbreviation (input) "DUP2 \<equiv> 0x81 :: opCode"
abbreviation (input) "DUP3 \<equiv> 0x82 :: opCode"
abbreviation (input) "DUP4 \<equiv> 0x83 :: opCode"
abbreviation (input) "DUP5 \<equiv> 0x84 :: opCode"
abbreviation (input) "DUP6 \<equiv> 0x85 :: opCode"
abbreviation (input) "DUP7 \<equiv> 0x86 :: opCode"
abbreviation (input) "DUP8 \<equiv> 0x87 :: opCode"
abbreviation (input) "DUP9 \<equiv> 0x88 :: opCode"
abbreviation (input) "DUP10 \<equiv> 0x89 :: opCode"
abbreviation (input) "DUP11 \<equiv> 0x8a :: opCode"
abbreviation (input) "DUP12 \<equiv> 0x8b :: opCode"
abbreviation (input) "DUP13 \<equiv> 0x8c :: opCode"
abbreviation (input) "DUP14 \<equiv> 0x8d :: opCode"
abbreviation (input) "DUP15 \<equiv> 0x8e :: opCode"
abbreviation (input) "DUP16 \<equiv> 0x8f :: opCode"
abbreviation (input) "SWAP1 \<equiv> 0x90 :: opCode"
abbreviation (input) "SWAP2 \<equiv> 0x91 :: opCode"
abbreviation (input) "SWAP3 \<equiv> 0x92 :: opCode"
abbreviation (input) "SWAP4 \<equiv> 0x93 :: opCode"
abbreviation (input) "SWAP5 \<equiv> 0x94 :: opCode"
abbreviation (input) "SWAP6 \<equiv> 0x95 :: opCode"
abbreviation (input) "SWAP7 \<equiv> 0x96 :: opCode"
abbreviation (input) "SWAP8 \<equiv> 0x97 :: opCode"
abbreviation (input) "SWAP9 \<equiv> 0x98 :: opCode"
abbreviation (input) "SWAP10 \<equiv> 0x99 :: opCode"
abbreviation (input) "SWAP11 \<equiv> 0x9a :: opCode"
abbreviation (input) "SWAP12 \<equiv> 0x9b :: opCode"
abbreviation (input) "SWAP13 \<equiv> 0x9c :: opCode"
abbreviation (input) "SWAP14 \<equiv> 0x9d :: opCode"
abbreviation (input) "SWAP15 \<equiv> 0x9e :: opCode"
abbreviation (input) "SWAP16 \<equiv> 0x9f :: opCode"
abbreviation (input) "LOG0 \<equiv> 0xa0 :: opCode"
abbreviation (input) "LOG1 \<equiv> 0xa1 :: opCode"
abbreviation (input) "LOG2 \<equiv> 0xa2 :: opCode"
abbreviation (input) "LOG3 \<equiv> 0xa3 :: opCode"
abbreviation (input) "LOG4 \<equiv> 0xa4 :: opCode"
abbreviation (input) "CREATE \<equiv> 0xf0 :: opCode"
abbreviation (input) "CALL \<equiv> 0xf1 :: opCode"
abbreviation (input) "CALL2 \<equiv> 0xf2 :: opCode"
abbreviation (input) "RETURN \<equiv> 0xf3 :: opCode"
abbreviation (input) "DELEGATECALL \<equiv> 0xf4 :: opCode"
abbreviation (input) "STATICCALL \<equiv> 0xfa :: opCode"
abbreviation (input) "REVERT \<equiv> 0xfd :: opCode"
abbreviation (input) "SELFDESTRUCT \<equiv> 0xff :: opCode"

definition isPush :: "opCode \<Rightarrow> bool" where
  "isPush op \<longleftrightarrow> op \<in> {PUSH1, PUSH2, PUSH3, PUSH4, PUSH5, PUSH6, PUSH7, PUSH8, PUSH9, PUSH10, PUSH11, PUSH12, PUSH13, PUSH14, PUSH15, PUSH16, PUSH17, PUSH18, PUSH19, PUSH20, PUSH21, PUSH22, PUSH23, PUSH24, PUSH25, PUSH26, PUSH27, PUSH28, PUSH29, PUSH30, PUSH31, PUSH32}"

definition isStaticJump :: "opCode \<Rightarrow> bool" where
  "isStaticJump op \<longleftrightarrow> op = JUMP"

definition opCodeToString :: "(opCode \<times> string) list" where
  "opCodeToString = [
    (STOP, ''STOP''), (ADD, ''ADD''), (MUL, ''MUL''), (SUB, ''SUB''), (DIV, ''DIV''),
    (SDIV, ''SDIV''), (MOD, ''MOD''), (SMOD, ''SMOD''), (EXP, ''EXP''), (NOT_OP, ''NOT''),
    (LT, ''LT''), (GT, ''GT''), (SLT, ''SLT''), (SGT, ''SGT''), (EQ, ''EQ''),
    (ISZERO, ''ISZERO''), (SIGNEXTEND, ''SIGNEXTEND''), (AND_OP, ''AND''), (OR_OP, ''OR''),
    (XOR_OP, ''XOR''), (BYTE, ''BYTE''), (SHL, ''SHL''), (SHR, ''SHR''), (SAR, ''SAR''),
    (ADDMOD, ''ADDMOD''), (MULMOD, ''MULMOD''), (SHA3, ''SHA3''), (BLAKE2B, ''BLAKE2B''),
    (ADDRESS, ''ADDRESS''), (BALANCE, ''BALANCE''), (ORIGIN, ''ORIGIN''), (CALLER, ''CALLER''),
    (CALLVALUE, ''CALLVALUE''), (CALLDATALOAD, ''CALLDATALOAD''),
    (CALLDATASIZE, ''CALLDATASIZE''), (CALLDATACOPY, ''CALLDATACOPY''), (CODESIZE, ''CODESIZE''),
    (CODECOPY, ''CODECOPY''), (GASPRICE, ''GASPRICE''), (EXTCODESIZE, ''EXTCODESIZE''),
    (EXTCODECOPY, ''EXTCODECOPY''), (RETURNDATASIZE, ''RETURNDATASIZE''),
    (RETURNDATACOPY, ''RETURNDATACOPY''), (EXTCODEHASH, ''EXTCODEHASH''),
    (BLOCKHASH, ''BLOCKHASH''), (COINBASE, ''COINBASE''), (TIMESTAMP, ''TIMESTAMP''),
    (HEIGHT, ''HEIGHT''), (DIFFICULTY, ''DIFFICULTY''), (GASLIMIT, ''GASLIMIT''),
    (TOKENID, ''TOKENID''), (ACCOUNTHEIGHT, ''ACCOUNTHEIGHT''), (PREVHASH, ''PREVHASH''),
    (FROMHASH, ''FROMHASH''), (SEED, ''SEED''), (RANDOM, ''RANDOM''), (POP, ''POP''),
    (MLOAD, ''MLOAD''), (MSTORE, ''MSTORE''), (MSTORE8, ''MSTORE8''), (SLOAD, ''SLOAD''),
    (SSTORE, ''SSTORE''), (JUMP, ''JUMP''), (JUMPI, ''JUMPI''), (PC, ''PC''), (MSIZE, ''MSIZE''),
    (GAS, ''GAS''), (JUMPDEST, ''JUMPDEST''), (PUSH1, ''PUSH1''), (PUSH2, ''PUSH2''),
    (PUSH3, ''PUSH3''), (PUSH4, ''PUSH4''), (PUSH5, ''PUSH5''), (PUSH6, ''PUSH6''),
    (PUSH7, ''PUSH7''), (PUSH8, ''PUSH8''), (PUSH9, ''PUSH9''), (PUSH10, ''PUSH10''),
    (PUSH11, ''PUSH11''), (PUSH12, ''PUSH12''), (PUSH13, ''PUSH13''), (PUSH14, ''PUSH14''),
    (PUSH15, ''PUSH15''), (PUSH16, ''PUSH16''), (PUSH17, ''PUSH17''), (PUSH18, ''PUSH18''),
    (PUSH19, ''PUSH19''), (PUSH20, ''PUSH20''), (PUSH21, ''PUSH21''), (PUSH22, ''PUSH22''),
    (PUSH23, ''PUSH23''), (PUSH24, ''PUSH24''), (PUSH25, ''PUSH25''), (PUSH26, ''PUSH26''),
    (PUSH27, ''PUSH27''), (PUSH28, ''PUSH28''), (PUSH29, ''PUSH29''), (PUSH30, ''PUSH30''),
    (PUSH31, ''PUSH31''), (PUSH32, ''PUSH32''), (DUP1, ''DUP1''), (DUP2, ''DUP2''),
    (DUP3, ''DUP3''), (DUP4, ''DUP4''), (DUP5, ''DUP5''), (DUP6, ''DUP6''), (DUP7, ''DUP7''),
    (DUP8, ''DUP8''), (DUP9, ''DUP9''), (DUP10, ''DUP10''), (DUP11, ''DUP11''),
    (DUP12, ''DUP12''), (DUP13, ''DUP13''), (DUP14, ''DUP14''), (DUP15, ''DUP15''),
    (DUP16, ''DUP16''), (SWAP1, ''SWAP1''), (SWAP2, ''SWAP2''), (SWAP3, ''SWAP3''),
    (SWAP4, ''SWAP4''), (SWAP5, ''SWAP5''), (SWAP6, ''SWAP6''), (SWAP7, ''SWAP7''),
    (SWAP8, ''SWAP8''), (SWAP9, ''SWAP9''), (SWAP10, ''SWAP10''), (SWAP11, ''SWAP11''),
    (SWAP12, ''SWAP12''), (SWAP13, ''SWAP13''), (SWAP14, ''SWAP14''), (SWAP15, ''SWAP15''),
    (SWAP16, ''SWAP16''), (LOG0, ''LOG0''), (LOG1, ''LOG1''), (LOG2, ''LOG2''), (LOG3, ''LOG3''),
    (LOG4, ''LOG4''), (CREATE, ''CREATE''), (CALL, ''CALL''), (RETURN, ''RETURN''),
    (CALL2, ''CALL2''), (DELEGATECALL, ''DELEGATECALL''), (STATICCALL, ''STATICCALL''),
    (REVERT, ''REVERT''), (SELFDESTRUCT, ''SELFDESTRUCT'')]"

text \<open>\<open>fmt.Sprintf("%x")\<close>.\<close>

fun hexString :: "nat \<Rightarrow> string" where
  "hexString n = (if n < 16 then [''0123456789abcdef'' ! n]
                  else hexString (n div 16) @ [''0123456789abcdef'' ! (n mod 16)])"

definition opCode_String :: "opCode \<Rightarrow> string" where
  "opCode_String op =
     (case map_of opCodeToString op of
        None \<Rightarrow> ''Missing opcode 0x'' @ hexString (unat op)
      | Some str \<Rightarrow> if length str = 0 then ''Missing opcode 0x'' @ hexString (unat op) else str)"

definition stringToOp :: "(string \<times> opCode) list" where
  "stringToOp = [
    (''STOP'', STOP), (''ADD'', ADD), (''MUL'', MUL), (''SUB'', SUB), (''DIV'', DIV),
    (''SDIV'', SDIV), (''MOD'', MOD), (''SMOD'', SMOD), (''EXP'', EXP), (''NOT'', NOT_OP),
    (''LT'', LT), (''GT'', GT), (''SLT'', SLT), (''SGT'', SGT), (''EQ'', EQ),
    (''ISZERO'', ISZERO), (''SIGNEXTEND'', SIGNEXTEND), (''AND'', AND_OP), (''OR'', OR_OP),
    (''XOR'', XOR_OP), (''BYTE'', BYTE), (''SHL'', SHL), (''SHR'', SHR), (''SAR'', SAR),
    (''ADDMOD'', ADDMOD), (''MULMOD'', MULMOD), (''SHA3'', SHA3), (''BLAKE2B'', BLAKE2B),
    (''ADDRESS'', ADDRESS), (''BALANCE'', BALANCE), (''ORIGIN'', ORIGIN), (''CALLER'', CALLER),
    (''CALLVALUE'', CALLVALUE), (''CALLDATALOAD'', CALLDATALOAD),
    (''CALLDATASIZE'', CALLDATASIZE), (''CALLDATACOPY'', CALLDATACOPY),
    (''DELEGATECALL'', DELEGATECALL), (''STATICCALL'', STATICCALL), (''CODESIZE'', CODESIZE),
    (''CODECOPY'', CODECOPY), (''GASPRICE'', GASPRICE), (''EXTCODESIZE'', EXTCODESIZE),
    (''EXTCODECOPY'', EXTCODECOPY), (''RETURNDATASIZE'', RETURNDATASIZE),
    (''RETURNDATACOPY'', RETURNDATACOPY), (''EXTCODEHASH'', EXTCODEHASH),
    (''BLOCKHASH'', BLOCKHASH), (''COINBASE'', COINBASE), (''TIMESTAMP'', TIMESTAMP),
    (''HEIGHT'', HEIGHT), (''DIFFICULTY'', DIFFICULTY), (''GASLIMIT'', GASLIMIT),
    (''TOKENID'', TOKENID), (''ACCOUNTHEIGHT'', ACCOUNTHEIGHT), (''PREVHASH'', PREVHASH),
    (''FROMHASH'', FROMHASH), (''SEED'', SEED), (''RANDOM'', RANDOM), (''POP'', POP),
    (''MLOAD'', MLOAD), (''MSTORE'', MSTORE), (''MSTORE8'', MSTORE8), (''SLOAD'', SLOAD),
    (''SSTORE'', SSTORE), (''JUMP'', JUMP), (''JUMPI'', JUMPI), (''PC'', PC), (''MSIZE'', MSIZE),
    (''GAS'', GAS), (''JUMPDEST'', JUMPDEST), (''PUSH1'', PUSH1), (''PUSH2'', PUSH2),
    (''PUSH3'', PUSH3), (''PUSH4'', PUSH4), (''PUSH5'', PUSH5), (''PUSH6'', PUSH6),
    (''PUSH7'', PUSH7), (''PUSH8'', PUSH8), (''PUSH9'', PUSH9), (''PUSH10'', PUSH10),
    (''PUSH11'', PUSH11), (''PUSH12'', PUSH12), (''PUSH13'', PUSH13), (''PUSH14'', PUSH14),
    (''PUSH15'', PUSH15), (''PUSH16'', PUSH16), (''PUSH17'', PUSH17), (''PUSH18'', PUSH18),
    (''PUSH19'', PUSH19), (''PUSH20'', PUSH20), (''PUSH21'', PUSH21), (''PUSH22'', PUSH22),
    (''PUSH23'', PUSH23), (''PUSH24'', PUSH24), (''PUSH25'', PUSH25), (''PUSH26'', PUSH26),
    (''PUSH27'', PUSH27), (''PUSH28'', PUSH28), (''PUSH29'', PUSH29), (''PUSH30'', PUSH30),
    (''PUSH31'', PUSH31), (''PUSH32'', PUSH32), (''DUP1'', DUP1), (''DUP2'', DUP2),
    (''DUP3'', DUP3), (''DUP4'', DUP4), (''DUP5'', DUP5), (''DUP6'', DUP6), (''DUP7'', DUP7),
    (''DUP8'', DUP8), (''DUP9'', DUP9), (''DUP10'', DUP10), (''DUP11'', DUP11),
    (''DUP12'', DUP12), (''DUP13'', DUP13), (''DUP14'', DUP14), (''DUP15'', DUP15),
    (''DUP16'', DUP16), (''SWAP1'', SWAP1), (''SWAP2'', SWAP2), (''SWAP3'', SWAP3),
    (''SWAP4'', SWAP4), (''SWAP5'', SWAP5), (''SWAP6'', SWAP6), (''SWAP7'', SWAP7),
    (''SWAP8'', SWAP8), (''SWAP9'', SWAP9), (''SWAP10'', SWAP10), (''SWAP11'', SWAP11),
    (''SWAP12'', SWAP12), (''SWAP13'', SWAP13), (''SWAP14'', SWAP14), (''SWAP15'', SWAP15),
    (''SWAP16'', SWAP16), (''LOG0'', LOG0), (''LOG1'', LOG1), (''LOG2'', LOG2), (''LOG3'', LOG3),
    (''LOG4'', LOG4), (''CREATE'', CREATE), (''CALL'', CALL), (''RETURN'', RETURN),
    (''CALL2'', CALL2), (''REVERT'', REVERT), (''SELFDESTRUCT'', SELFDESTRUCT)]"

section \<open>Push opcodes\<close>

text \<open>The push opcodes are the interval from PUSH1 to PUSH32.\<close>

lemma isPush_iff: "isPush op \<longleftrightarrow> PUSH1 \<le> op \<and> op \<le> PUSH32"
proof
  assume "PUSH1 \<le> op \<and> op \<le> PUSH32"
  then have "list_ex (\<lambda>n. unat op = n) [96..<128]"
    by (simp add: list_ex_iff word_le_nat_alt del: upt_rec_numeral)
  then show "isPush op" by (simp add: isPush_def word_unat_eq_iff)
qed (auto simp: isPush_def)

end
