(* ===== verification/Destination.thy ===== *)
theory Destination
  imports Opcodes Common_Types
begin

unbundle bit_operations_syntax

text \<open>
  vm/destination.go: the bitmap that marks the immediate data of PUSH instructions, the jump
  destination test, and the scans for opcodes that read the snapshot chain.  Positions are natural
  numbers: a code slice is far shorter than 2^63 bytes.  An access outside the bitmap panics.

  The lemmas show that \<open>codeBitmap\<close> never writes outside the bitmap (the four spare bytes are enough
  for a PUSH32 at the end) and that it marks exactly the bytes that are not the start of an
  instruction, so that \<open>has\<close> accepts exactly the JUMPDEST instructions.
\<close>

section \<open>Definitions\<close>

type_synonym bitvec = bytes
type_synonym destinations = "(Address \<times> bitvec) list"

text \<open>\<open>bits[i] |= m\<close>.\<close>

definition orByte :: "nat \<Rightarrow> byte \<Rightarrow> bitvec \<Rightarrow> bitvec go" where
  "orByte i m bits = (if i < length bits then Ret (bits[i := bits ! i OR m]) else Panics PanicIndex)"

definition bitvec_set :: "nat \<Rightarrow> bitvec \<Rightarrow> bitvec go" where
  "bitvec_set pos bits = orByte (pos div 8) (drop_bit (pos mod 8) 0x80) bits"

definition bitvec_set8 :: "nat \<Rightarrow> bitvec \<Rightarrow> bitvec go" where
  "bitvec_set8 pos bits =
     go_bind (orByte (pos div 8) (drop_bit (pos mod 8) 0xFF) bits)
       (orByte (pos div 8 + 1) (NOT (drop_bit (pos mod 8) 0xFF)))"

definition codeSegment :: "bitvec \<Rightarrow> nat \<Rightarrow> bool go" where
  "codeSegment bits pos =
     (if pos div 8 < length bits then Ret (bits ! (pos div 8) AND drop_bit (pos mod 8) 0x80 = 0)
      else Panics PanicIndex)"

text \<open>The two inner loops of \<open>codeBitmap\<close>: eight bits at a time, then one at a time.\<close>

fun mark8 :: "nat \<Rightarrow> nat \<Rightarrow> bitvec \<Rightarrow> (nat \<times> nat \<times> bitvec) go" where
  "mark8 numbits pc bits =
     (if numbits \<ge> 8 then go_bind (bitvec_set8 pc bits) (\<lambda>b. mark8 (numbits - 8) (pc + 8) b)
      else Ret (numbits, pc, bits))"

fun mark1 :: "nat \<Rightarrow> nat \<Rightarrow> bitvec \<Rightarrow> (nat \<times> bitvec) go" where
  "mark1 0 pc bits = Ret (pc, bits)"
| "mark1 (Suc numbits) pc bits = go_bind (bitvec_set pc bits) (\<lambda>b. mark1 numbits (pc + 1) b)"

definition markPush :: "nat \<Rightarrow> nat \<Rightarrow> bitvec \<Rightarrow> (nat \<times> bitvec) go" where
  "markPush numbits pc bits =
     go_bind (mark8 numbits pc bits) (\<lambda>(n, pc', b). mark1 n pc' b)"

text \<open>The outer loop, with fuel: it advances by at least one byte, so the length of the code is
  enough (lemma \<open>codeBitmap_spec\<close>).\<close>

fun bitmapLoop :: "nat \<Rightarrow> bytes \<Rightarrow> nat \<Rightarrow> bitvec \<Rightarrow> bitvec go" where
  "bitmapLoop 0 code pc bits = Ret bits"
| "bitmapLoop (Suc fuel) code pc bits =
     (if pc < length code
      then let op = code ! pc
           in if op \<ge> PUSH1 \<and> op \<le> PUSH32
              then go_bind (markPush (unat (op - PUSH1 + 1)) (pc + 1) bits)
                     (\<lambda>(pc', b). bitmapLoop fuel code pc' b)
              else bitmapLoop fuel code (pc + 1) bits
      else Ret bits)"

definition codeBitmap :: "bytes \<Rightarrow> bitvec go" where
  "codeBitmap code = bitmapLoop (length code) code 0 (replicate (length code div 8 + 1 + 4) 0)"

definition dests_has :: "Address \<Rightarrow> bytes \<Rightarrow> int \<Rightarrow> destinations \<Rightarrow> (bool \<times> destinations) go" where
  "dests_has addr code dest d =
     (let udest = unat (big_Uint64 dest)
      in if big_BitLen dest \<ge> 63 \<or> udest \<ge> length code then Ret (False, d)
         else go_bind (case map_of d addr of
                         Some m \<Rightarrow> Ret (m, d)
                       | None \<Rightarrow> go_bind (codeBitmap code) (\<lambda>m. Ret (m, (addr, m) # d)))
                (\<lambda>(m, d'). if code ! udest = JUMPDEST
                           then go_bind (codeSegment m udest) (\<lambda>b. Ret (b, d'))
                           else Ret (False, d')))"

definition auxCodePrefix :: bytes where
  "auxCodePrefix = [0xa1, 0x65, 0x62, 0x7a, 0x7a, 0x72, 0x30, 0x58, 0x20]"
definition auxCodeSuffix :: bytes where "auxCodeSuffix = [0x00, 0x29]"
definition statusCodeList :: "opCode list" where
  "statusCodeList = [HEIGHT, TIMESTAMP, SEED, DELEGATECALL, EXTCODESIZE, EXTCODECOPY]"

definition containsAuxCode :: "bytes \<Rightarrow> bool" where
  "containsAuxCode code =
     (let l = length code
      in l > 43 \<and> slice code (l - 43) (l - 34) = auxCodePrefix \<and> drop (l - 2) code = auxCodeSuffix)"

fun anyStatus :: "bitvec \<Rightarrow> bytes \<Rightarrow> nat list \<Rightarrow> bool go" where
  "anyStatus m code [] = Ret False"
| "anyStatus m code (i # is) =
     go_bind (codeSegment m i) (\<lambda>b.
       if b \<and> List.member statusCodeList (code ! i) then Ret True else anyStatus m code is)"

definition ContainsStatusCode :: "bytes \<Rightarrow> bool go" where
  "ContainsStatusCode code =
     (let code' = (if containsAuxCode code then take (length code - 43) code else code)
      in go_bind (codeBitmap code') (\<lambda>m. anyStatus m code' [0..<length code']))"

definition auxCodePrefixWithFE :: bytes where
  "auxCodePrefixWithFE = [0xfe, 0xa1, 0x65, 0x62, 0x7a, 0x7a, 0x72, 0x30, 0x58, 0x20]"
definition pushCheckCount :: nat where "pushCheckCount = 3"
definition statusCodeListRequireSnapshot :: "opCode list" where
  "statusCodeListRequireSnapshot = [HEIGHT, TIMESTAMP, DELEGATECALL, EXTCODESIZE, EXTCODECOPY]"
definition statusCodeListRequireSnapshotWithSeed :: "opCode list" where
  "statusCodeListRequireSnapshotWithSeed = [SEED, RANDOM]"

text \<open>\<open>bytes.Index\<close>.\<close>

fun bytes_Index :: "bytes \<Rightarrow> bytes \<Rightarrow> nat option" where
  "bytes_Index [] sep = (if sep = [] then Some 0 else None)"
| "bytes_Index (b # bs) sep =
     (if take (length sep) (b # bs) = sep then Some 0 else map_option Suc (bytes_Index bs sep))"

fun anyData :: "bitvec \<Rightarrow> nat list \<Rightarrow> bool go" where
  "anyData m [] = Ret False"
| "anyData m (i # is) = go_bind (codeSegment m i) (\<lambda>b. if \<not> b then Ret True else anyData m is)"

text \<open>The loop consumes at least the prefix in every round, so the length of the code is enough fuel.\<close>

fun stripAuxLoop :: "nat \<Rightarrow> bitvec \<Rightarrow> bytes \<Rightarrow> nat \<Rightarrow> bytes \<Rightarrow> bytes go" where
  "stripAuxLoop 0 originM code prevIndex resultCode = Ret (resultCode @ code)"
| "stripAuxLoop (Suc fuel) originM code prevIndex resultCode =
     (case bytes_Index code auxCodePrefixWithFE of
        None \<Rightarrow> Ret (resultCode @ code)
      | Some index \<Rightarrow>
          if int index > int (length code) - 44 then Ret (resultCode @ code)
          else
            go_bind (anyData originM (map (\<lambda>i. prevIndex + index + i) [0..<pushCheckCount])) (\<lambda>flag.
              if flag
              then let newIndex = index + length auxCodePrefixWithFE
                   in stripAuxLoop fuel originM (drop newIndex code) (prevIndex + newIndex)
                        (resultCode @ take newIndex code)
              else Ret (resultCode @ take (index + 1) code)))"

definition getCodeWithoutAuxCodeAndParams :: "bytes \<Rightarrow> bytes go" where
  "getCodeWithoutAuxCodeAndParams code =
     go_bind (codeBitmap code) (\<lambda>originM. stripAuxLoop (Suc (length code)) originM code 0 [])"

fun certainLoop :: "bitvec \<Rightarrow> bytes \<Rightarrow> nat list \<Rightarrow> bool \<Rightarrow> bool \<Rightarrow> (bool \<times> bool) go" where
  "certainLoop m code [] requireSnapshot requireSnapshotWithSeed =
     Ret (requireSnapshot, requireSnapshotWithSeed)"
| "certainLoop m code (i # is) requireSnapshot requireSnapshotWithSeed =
     go_bind (codeSegment m i) (\<lambda>b.
       if b
       then let rs = requireSnapshot \<or> List.member statusCodeListRequireSnapshot (code ! i);
                rss = requireSnapshotWithSeed \<or> List.member statusCodeListRequireSnapshotWithSeed (code ! i)
            in if rs \<and> rss then Ret (rs, rss) else certainLoop m code is rs rss
       else certainLoop m code is requireSnapshot requireSnapshotWithSeed)"

definition ContainsCertainStatusCode :: "bytes \<Rightarrow> (bool \<times> bool) go" where
  "ContainsCertainStatusCode code =
     (if length code = 0 then Ret (False, False)
      else go_bind (getCodeWithoutAuxCodeAndParams code) (\<lambda>resultCode.
           go_bind (codeBitmap resultCode) (\<lambda>m.
             certainLoop m resultCode [0..<length resultCode] False False)))"

section \<open>Instruction boundaries\<close>

text \<open>The reference: the positions at which an instruction starts when the code is read from
  position \<open>pc\<close> on.\<close>

definition pushSize :: "opCode \<Rightarrow> nat" where
  "pushSize op = (if isPush op then unat op - 95 else 0)"

function instrStarts :: "bytes \<Rightarrow> nat \<Rightarrow> nat list" where
  "instrStarts code pc =
     (if pc < length code then pc # instrStarts code (pc + 1 + pushSize (code ! pc)) else [])"
  by pat_completeness auto
termination by (relation "measure (\<lambda>(code, pc). length code - pc)") auto

declare instrStarts.simps [simp del]

lemma instrStarts_ge: "i \<in> set (instrStarts code pc) \<Longrightarrow> pc \<le> i \<and> i < length code"
proof (induction code pc rule: instrStarts.induct)
  case (1 code pc)
  from "1.prems" show ?case
    by (subst (asm) instrStarts.simps) (auto dest: "1.IH" split: if_splits)
qed

lemma unat_pushSize:
  assumes "PUSH1 \<le> op" "op \<le> PUSH32"
  shows "unat (op - PUSH1 + 1) = pushSize op"
proof -
  have "95 \<le> op" using assms by (simp add: word_le_nat_alt)
  then have "unat (op - 95) = unat op - 95" by (simp add: unat_sub)
  moreover have "op - PUSH1 + 1 = op - 95" by simp
  ultimately show ?thesis using assms by (simp add: pushSize_def isPush_iff)
qed

lemma pushSize_le: "pushSize op \<le> 32"
proof (cases "isPush op")
  case True
  then have "unat op \<le> 127" by (simp add: isPush_iff word_le_nat_alt)
  then show ?thesis unfolding pushSize_def by auto
qed (simp add: pushSize_def)

section \<open>The bitmap\<close>

definition bitAt :: "bitvec \<Rightarrow> nat \<Rightarrow> bool" where
  "bitAt bits p = bit (bits ! (p div 8)) (7 - p mod 8)"

lemma less_8_cases: "(n :: nat) < 8 \<Longrightarrow> n = 0 \<or> n = 1 \<or> n = 2 \<or> n = 3 \<or> n = 4 \<or> n = 5 \<or> n = 6 \<or> n = 7"
  by presburger

lemma bit_byte_ge: "\<not> n < 8 \<Longrightarrow> \<not> bit (b :: byte) n"
  using bit_imp_le_length [of b n] by auto

lemma bit_byte_0x80: "bit (0x80 :: byte) n \<longleftrightarrow> n = 7"
  by (cases "n < 8") (use less_8_cases [of n] in \<open>auto simp: bit_byte_ge\<close>)

lemma bit_byte_0xFF: "bit (0xFF :: byte) n \<longleftrightarrow> n < 8"
  by (cases "n < 8") (use less_8_cases [of n] in \<open>auto simp: bit_byte_ge\<close>)

lemma bit_0x80: "bit (drop_bit k 0x80 :: byte) n \<longleftrightarrow> n + k = 7"
  by (simp only: bit_drop_bit_eq comp_def bit_byte_0x80) (simp add: add.commute)

lemma bit_0xFF: "bit (drop_bit k 0xFF :: byte) n \<longleftrightarrow> n + k < 8"
  by (simp only: bit_drop_bit_eq comp_def bit_byte_0xFF) (simp add: add.commute)

lemma byte_eq_0_iff: "(b :: byte) = 0 \<longleftrightarrow> (\<forall>n. \<not> bit b n)"
  using bit_byte_ge [of _ b] by (auto simp: bit_eq_iff)

lemma and_0x80:
  assumes "k < 8"
  shows "(b :: byte) AND drop_bit k 0x80 = 0 \<longleftrightarrow> \<not> bit b (7 - k)"
proof -
  have "n + k = 7 \<longleftrightarrow> n = 7 - k" for n using assms by auto
  then show ?thesis by (simp only: byte_eq_0_iff bit_and_iff bit_0x80) auto
qed

lemma codeSegment_bitAt: "p div 8 < length bits \<Longrightarrow> codeSegment bits p = Ret (\<not> bitAt bits p)"
  by (simp add: codeSegment_def bitAt_def and_0x80 del: drop_bit_numeral_bit0)

lemma bitAt_orByte:
  assumes "orByte i m bits = Ret bits'"
  shows "length bits' = length bits" "bitAt bits' p \<longleftrightarrow> bitAt bits p \<or> p div 8 = i \<and> bit m (7 - p mod 8)"
  using assms by (auto simp: orByte_def bitAt_def nth_list_update bit_or_iff split: if_splits)

lemma bitvec_set_spec:
  assumes "pos div 8 < length bits"
  obtains bits' where "bitvec_set pos bits = Ret bits'" "length bits' = length bits"
    "\<And>p. bitAt bits' p \<longleftrightarrow> bitAt bits p \<or> p = pos"
proof -
  obtain bits' where b: "bitvec_set pos bits = Ret bits'" using assms by (simp add: bitvec_set_def orByte_def)
  have "bitAt bits' p \<longleftrightarrow> bitAt bits p \<or> p = pos" for p
  proof -
    have "p = pos \<longleftrightarrow> p div 8 = pos div 8 \<and> p mod 8 = pos mod 8" by (metis div_mult_mod_eq)
    moreover have "7 - p mod 8 + pos mod 8 = 7 \<longleftrightarrow> p mod 8 = pos mod 8"
      using mod_less_divisor [of 8 p] mod_less_divisor [of 8 pos] by linarith
    ultimately show ?thesis using bitAt_orByte(2) [OF b [unfolded bitvec_set_def], of p]
      by (simp add: bit_0x80 del: drop_bit_numeral_bit0)
  qed
  with b that bitAt_orByte(1) [OF b [unfolded bitvec_set_def]] show ?thesis by blast
qed

lemma bitvec_set8_spec:
  assumes "pos div 8 + 1 < length bits"
  obtains bits' where "bitvec_set8 pos bits = Ret bits'" "length bits' = length bits"
    "\<And>p. bitAt bits' p \<longleftrightarrow> bitAt bits p \<or> pos \<le> p \<and> p < pos + 8"
proof -
  obtain b1 where b1: "orByte (pos div 8) (drop_bit (pos mod 8) 0xFF) bits = Ret b1" "length b1 = length bits"
    using assms by (simp add: orByte_def)
  obtain b2 where b2: "orByte (pos div 8 + 1) (NOT (drop_bit (pos mod 8) 0xFF)) b1 = Ret b2" "length b2 = length b1"
    using assms b1(2) by (simp add: orByte_def)
  have "bitAt b2 p \<longleftrightarrow> bitAt bits p \<or> pos \<le> p \<and> p < pos + 8" for p
  proof -
    have m: "p mod 8 < 8" "pos mod 8 < 8" by simp_all
    have d: "p = 8 * (p div 8) + p mod 8" "pos = 8 * (pos div 8) + pos mod 8" by simp_all
    have "bitAt b2 p \<longleftrightarrow> bitAt bits p \<or> p div 8 = pos div 8 \<and> 7 - p mod 8 + pos mod 8 < 8 \<or>
        p div 8 = pos div 8 + 1 \<and> \<not> 7 - p mod 8 + pos mod 8 < 8"
      using bitAt_orByte(2) [OF b1(1), of p] bitAt_orByte(2) [OF b2(1), of p]
      by (auto simp: bit_0xFF bit_not_iff simp del: drop_bit_numeral_bit1)
    also have "\<dots> \<longleftrightarrow> bitAt bits p \<or> p div 8 = pos div 8 \<and> pos mod 8 \<le> p mod 8 \<or>
        p div 8 = pos div 8 + 1 \<and> p mod 8 < pos mod 8"
      using m by auto
    also have "\<dots> \<longleftrightarrow> bitAt bits p \<or> pos \<le> p \<and> p < pos + 8"
      using m d by linarith
    finally show ?thesis .
  qed
  with b1 b2 that show ?thesis by (auto simp: bitvec_set8_def)
qed

declare mark8.simps [simp del]

text \<open>One PUSH marks exactly its immediate bytes.\<close>

lemma mark8_spec:
  "(pc + n) div 8 < length bits \<Longrightarrow>
     \<exists>n' pc' bits'. mark8 n pc bits = Ret (n', pc', bits') \<and> pc' + n' = pc + n \<and> pc \<le> pc' \<and>
       length bits' = length bits \<and> (\<forall>p. bitAt bits' p \<longleftrightarrow> bitAt bits p \<or> pc \<le> p \<and> p < pc')"
proof (induction n pc bits rule: mark8.induct)
  case (1 n pc bits)
  show ?case
  proof (cases "8 \<le> n")
    case True
    then have "pc div 8 + 1 < length bits" using "1.prems" by linarith
    then obtain b where b: "bitvec_set8 pc bits = Ret b" "length b = length bits"
      "\<And>p. bitAt b p \<longleftrightarrow> bitAt bits p \<or> pc \<le> p \<and> p < pc + 8"
      by (rule bitvec_set8_spec) blast
    have "(pc + 8 + (n - 8)) div 8 < length b" using "1.prems" True b(2) by simp
    from "1.IH" [OF True this] obtain n' pc' bits' where
      r: "mark8 (n - 8) (pc + 8) b = Ret (n', pc', bits')" "pc' + n' = pc + 8 + (n - 8)" "pc + 8 \<le> pc'"
        "length bits' = length b" "\<forall>p. bitAt bits' p \<longleftrightarrow> bitAt b p \<or> pc + 8 \<le> p \<and> p < pc'"
      by blast
    have "mark8 n pc bits = Ret (n', pc', bits')" using True b(1) r(1) by (simp add: mark8.simps [of n])
    moreover have "bitAt bits' p \<longleftrightarrow> bitAt bits p \<or> pc \<le> p \<and> p < pc'" for p
      using r(3) r(5) [rule_format, of p] b(3) [of p] by linarith
    ultimately show ?thesis using r(2,3,4) b(2) True
      by (intro exI [of _ n'] exI [of _ pc'] exI [of _ bits']) simp
  qed (auto simp: mark8.simps)
qed

lemma mark1_spec:
  "(pc + n) div 8 < length bits \<Longrightarrow>
     \<exists>bits'. mark1 n pc bits = Ret (pc + n, bits') \<and> length bits' = length bits \<and>
       (\<forall>p. bitAt bits' p \<longleftrightarrow> bitAt bits p \<or> pc \<le> p \<and> p < pc + n)"
proof (induction n arbitrary: pc bits)
  case (Suc n)
  then have "pc div 8 < length bits" by linarith
  then obtain b where b: "bitvec_set pc bits = Ret b" "length b = length bits"
    "\<And>p. bitAt b p \<longleftrightarrow> bitAt bits p \<or> p = pc"
    by (rule bitvec_set_spec) blast
  from Suc.IH [of "pc + 1" b] Suc.prems b(2) obtain bits' where
    "mark1 n (pc + 1) b = Ret (pc + 1 + n, bits')" "length bits' = length b"
    "\<forall>p. bitAt bits' p \<longleftrightarrow> bitAt b p \<or> pc + 1 \<le> p \<and> p < pc + 1 + n" by auto
  note r = this
  have "mark1 (Suc n) pc bits = Ret (pc + Suc n, bits')" using b(1) r(1) by simp
  moreover have "bitAt bits' p \<longleftrightarrow> bitAt bits p \<or> pc \<le> p \<and> p < pc + Suc n" for p
    using r(3) [rule_format, of p] b(3) [of p] by linarith
  ultimately show ?case using r(2) b(2) by (intro exI [of _ bits']) simp
qed auto

lemma markPush_spec:
  assumes "(pc + n) div 8 < length bits"
  obtains bits' where "markPush n pc bits = Ret (pc + n, bits')" "length bits' = length bits"
    "\<And>p. bitAt bits' p \<longleftrightarrow> bitAt bits p \<or> pc \<le> p \<and> p < pc + n"
proof -
  from mark8_spec [OF assms] obtain n' pc' b where
    m: "mark8 n pc bits = Ret (n', pc', b)" "pc' + n' = pc + n" "pc \<le> pc'" "length b = length bits"
      "\<forall>p. bitAt b p \<longleftrightarrow> bitAt bits p \<or> pc \<le> p \<and> p < pc'" by blast
  from mark1_spec [of pc' n' b] m(2,4) assms obtain bits' where
    "mark1 n' pc' b = Ret (pc + n, bits')" "length bits' = length b"
    "\<forall>p. bitAt bits' p \<longleftrightarrow> bitAt b p \<or> pc' \<le> p \<and> p < pc + n" by auto
  note m1 = this
  have "markPush n pc bits = Ret (pc + n, bits')" using m(1) m1(1) by (simp add: markPush_def)
  moreover have "bitAt bits' p \<longleftrightarrow> bitAt bits p \<or> pc \<le> p \<and> p < pc + n" for p
    using m(2,3) m(5) [rule_format, of p] m1(3) [rule_format, of p] by linarith
  ultimately show ?thesis using m(4) m1(2) that [of bits'] by simp
qed

lemma bitmapLoop_spec:
  "length code \<le> pc + fuel \<Longrightarrow> length bits = length code div 8 + 5 \<Longrightarrow>
     \<exists>bits'. bitmapLoop fuel code pc bits = Ret bits' \<and> length bits' = length bits \<and>
       (\<forall>p < length code. bitAt bits' p \<longleftrightarrow> bitAt bits p \<or> pc \<le> p \<and> p \<notin> set (instrStarts code pc))"
proof (induction fuel arbitrary: pc bits)
  case (Suc fuel)
  show ?case
  proof (cases "pc < length code")
    case True
    let ?op = "code ! pc" and ?n = "pushSize (code ! pc)"
    have starts: "set (instrStarts code pc) = insert pc (set (instrStarts code (pc + 1 + ?n)))"
      using True by (subst instrStarts.simps) simp
    have "(pc + 1 + ?n) div 8 < length bits" using True Suc.prems pushSize_le [of ?op] by linarith
    then obtain b where b: "markPush ?n (pc + 1) bits = Ret (pc + 1 + ?n, b)" "length b = length bits"
      "\<And>p. bitAt b p \<longleftrightarrow> bitAt bits p \<or> pc + 1 \<le> p \<and> p < pc + 1 + ?n"
      by (rule markPush_spec) blast
    from Suc.IH [of "pc + 1 + ?n" b] Suc.prems b(2) obtain bits' where
      r: "bitmapLoop fuel code (pc + 1 + ?n) b = Ret bits'" "length bits' = length b"
        "\<forall>p < length code. bitAt bits' p \<longleftrightarrow> bitAt b p \<or> pc + 1 + ?n \<le> p \<and> p \<notin> set (instrStarts code (pc + 1 + ?n))"
      by auto
    have noop: "?n = 0 \<Longrightarrow> b = bits" using b(1) by (auto simp: markPush_def mark8.simps)
    have step: "bitmapLoop (Suc fuel) code pc bits = Ret bits'"
    proof (cases "isPush ?op")
      case True
      with \<open>pc < length code\<close> b(1) r(1) show ?thesis
        by (simp add: isPush_iff unat_pushSize [simplified] Let_def)
    next
      case False
      moreover from this have "?n = 0" by (simp add: pushSize_def)
      ultimately show ?thesis using \<open>pc < length code\<close> r(1) noop by (auto simp: isPush_iff Let_def)
    qed
    have "bitAt bits' p \<longleftrightarrow> bitAt bits p \<or> pc \<le> p \<and> p \<notin> set (instrStarts code pc)" if "p < length code" for p
      using that r(3) b(3) [of p] instrStarts_ge [of p code "pc + 1 + ?n"] unfolding starts
      by (auto simp: not_less)
    with step r(2) b(2) show ?thesis by auto
  next
    case False
    then have "instrStarts code pc = []" by (subst instrStarts.simps) simp
    with False show ?thesis by auto
  qed
qed (auto simp: instrStarts.simps)

lemma bitAt_zero: "p div 8 < n \<Longrightarrow> \<not> bitAt (replicate n 0) p"
  by (simp add: bitAt_def)

text \<open>\<open>codeBitmap\<close> never leaves the bitmap, and its clear bits are the instruction starts.\<close>

lemma codeBitmap_spec:
  obtains m where "codeBitmap code = Ret m" "length m = length code div 8 + 5"
    "\<And>p. p < length code \<Longrightarrow> codeSegment m p = Ret (p \<in> set (instrStarts code 0))"
proof -
  from bitmapLoop_spec [of code 0 "length code" "replicate (length code div 8 + 5) 0"]
  obtain m where m: "codeBitmap code = Ret m" "length m = length code div 8 + 5"
    "\<forall>p < length code. bitAt m p \<longleftrightarrow>
       bitAt (replicate (length code div 8 + 5) 0) p \<or> p \<notin> set (instrStarts code 0)"
    by (auto simp: codeBitmap_def add.commute)
  have "codeSegment m p = Ret (p \<in> set (instrStarts code 0))" if "p < length code" for p
  proof -
    have "p div 8 < length code div 8 + 5" using that by (simp add: div_le_mono le_imp_less_Suc less_imp_le trans_less_add1)
    with that m show ?thesis by (simp add: codeSegment_bitAt bitAt_zero)
  qed
  with m that show ?thesis by blast
qed

section \<open>Jump destinations\<close>

text \<open>A cached analysis belongs to the code of the contract.\<close>

definition dests_ok :: "Address \<Rightarrow> bytes \<Rightarrow> destinations \<Rightarrow> bool" where
  "dests_ok addr code d \<longleftrightarrow> (\<forall>m. map_of d addr = Some m \<longrightarrow> codeBitmap code = Ret m)"

definition validJump :: "bytes \<Rightarrow> int \<Rightarrow> bool" where
  "validJump code dest \<longleftrightarrow> 0 \<le> dest \<and> nat dest < length code \<and> code ! nat dest = JUMPDEST \<and>
     nat dest \<in> set (instrStarts code 0)"

lemma dests_has_spec:
  assumes "dests_ok addr code d" "0 \<le> dest" "length code < 2 ^ 62"
  obtains d' where "dests_has addr code dest d = Ret (validJump code dest, d')" "dests_ok addr code d'"
proof -
  obtain m where m: "codeBitmap code = Ret m"
    "\<And>p. p < length code \<Longrightarrow> codeSegment m p = Ret (p \<in> set (instrStarts code 0))"
    by (rule codeBitmap_spec [of code]) blast
  show ?thesis
  proof (cases "nat dest < length code")
    case False
    then have nv: "\<not> validJump code dest" by (simp add: validJump_def)
    have "big_BitLen dest \<ge> 63 \<or> unat (big_Uint64 dest) \<ge> length code"
    proof (rule disjCI)
      assume "\<not> unat (big_Uint64 dest) \<ge> length code"
      with False have "\<not> dest < 2 ^ 62" using assms by (auto simp: unat_big_Uint64)
      then show "big_BitLen dest \<ge> 63" using big_BitLen_le_iff [of dest 62] assms by auto
    qed
    with nv assms that [of d] show ?thesis by (auto simp: dests_has_def Let_def)
  next
    case True
    have d62: "dest < 2 ^ 62" using True assms by simp
    then have bl: "\<not> big_BitLen dest \<ge> 63" using big_BitLen_le_iff [of dest 62] assms by auto
    have u: "unat (big_Uint64 dest) = nat dest" using d62 assms by (simp add: unat_big_Uint64)
    define d' where "d' = (case map_of d addr of Some _ \<Rightarrow> d | None \<Rightarrow> (addr, m) # d)"
    have "dests_has addr code dest d = Ret (validJump code dest, d')"
      using True bl u m assms(1,2)
      by (auto simp: dests_has_def Let_def d'_def validJump_def dests_ok_def split: option.splits)
    moreover have "dests_ok addr code d'"
      using assms(1) m(1) by (auto simp: dests_ok_def d'_def split: option.splits)
    ultimately show ?thesis using that by blast
  qed
qed

section \<open>Properties\<close>

text \<open>C19: the bitmap of a code is built without leaving its bounds, and a position is in a code
  segment exactly when an instruction starts there, as read from the start of the code.\<close>

theorem codeBitmap_is_instruction_starts:
  "\<exists>m. codeBitmap code = Ret m \<and> length m = length code div 8 + 5 \<and>
     (\<forall>p < length code. codeSegment m p = Ret (p \<in> set (instrStarts code 0)))"
proof -
  obtain m where "codeBitmap code = Ret m" "length m = length code div 8 + 5"
    "\<And>p. p < length code \<Longrightarrow> codeSegment m p = Ret (p \<in> set (instrStarts code 0))"
    by (rule codeBitmap_spec [of code]) blast
  then show ?thesis by blast
qed

theorem codeBitmap_is_instruction_starts_witness:
  "\<exists>m. codeBitmap [PUSH2, JUMPDEST, JUMPDEST, JUMPDEST] = Ret m \<and> codeSegment m 1 = Ret False \<and>
     codeSegment m 3 = Ret True"
proof -
  have starts: "instrStarts [PUSH2, JUMPDEST, JUMPDEST, JUMPDEST] 0 = [0, 3]"
    by code_simp
  from codeBitmap_is_instruction_starts [of "[PUSH2, JUMPDEST, JUMPDEST, JUMPDEST]"]
  obtain m where "codeBitmap [PUSH2, JUMPDEST, JUMPDEST, JUMPDEST] = Ret m"
    "\<forall>p < 4. codeSegment m p = Ret (p \<in> set [0, 3])"
    by (auto simp: starts)
  then show ?thesis by auto
qed

text \<open>C20: with or without a cached analysis, \<open>has\<close> accepts exactly the positions at which the code has
  a JUMPDEST instruction (never one inside the data of a PUSH), and the cache stays valid.\<close>

theorem has_accepts_jumpdests:
  assumes "dests_ok addr code d" "0 \<le> dest" "length code < 2 ^ 62"
  shows "\<exists>d'. dests_has addr code dest d = Ret (validJump code dest, d') \<and> dests_ok addr code d'"
  using dests_has_spec [OF assms] by metis

theorem has_accepts_jumpdests_witness:
  "(\<exists>d'. dests_has [] [PUSH2, JUMPDEST, JUMPDEST, JUMPDEST] 2 [] = Ret (False, d')) \<and>
   (\<exists>d'. dests_has [] [PUSH2, JUMPDEST, JUMPDEST, JUMPDEST] 3 [] = Ret (True, d'))"
proof (intro conjI)
  have starts: "instrStarts [PUSH2, JUMPDEST, JUMPDEST, JUMPDEST] 0 = [0, 3]"
    by code_simp
  have ok: "dests_ok [] [PUSH2, JUMPDEST, JUMPDEST, JUMPDEST] []" by (simp add: dests_ok_def)
  show "\<exists>d'. dests_has [] [PUSH2, JUMPDEST, JUMPDEST, JUMPDEST] 2 [] = Ret (False, d')"
    using has_accepts_jumpdests [OF ok, of 2] by (auto simp: validJump_def starts)
  show "\<exists>d'. dests_has [] [PUSH2, JUMPDEST, JUMPDEST, JUMPDEST] 3 [] = Ret (True, d')"
    using has_accepts_jumpdests [OF ok, of 3] by (auto simp: validJump_def starts)
qed

end
