(* ===== verification/Snapshot_Block.thy ===== *)
theory Snapshot_Block
  imports Ledger_Core "HOL-Library.AList" "HOL-Library.List_Lexorder" "HOL-Library.Multiset"
begin

text \<open>
  interfaces/core/snapshot_block.go: the bytes a snapshot block hashes, its seed hash and the conversion
  to and from its protobuf message.  A \<open>SnapshotContent\<close> is an association list with distinct keys; the
  code iterates the Go map in any order and then sorts, so the model sorts the list.

  The lemmas show that the order in which the map is iterated does not matter, that
  \<open>hashSourceLength\<close> is the exact length of the hashed bytes, and the round trip of the message.
\<close>

section \<open>Definitions\<close>

abbreviation (input) ScItemBytesLen :: nat where "ScItemBytesLen \<equiv> 61"

definition scItemToBytes :: "Address \<Rightarrow> HashHeight \<Rightarrow> bytes" where
  "scItemToBytes addr hashHeight = addr @ hh_Hash hashHeight @ putUint64 (hh_Height hashHeight)"

text \<open>\<open>binary.BigEndian.Uint64\<close> panics on fewer than eight bytes.\<close>

definition be_Uint64 :: "bytes \<Rightarrow> u64 go" where
  "be_Uint64 b = (if length b < 8 then Panics PanicIndex else Ret (of_nat (be_val (take 8 b))))"

definition bytesToScItem :: "bytes \<Rightarrow> (vm_error + Address \<times> HashHeight) go" where
  "bytesToScItem buf =
     (if length buf < 21 then Panics PanicIndex
      else case BytesToAddress (slice buf 0 21) of
        (_, Some err) \<Rightarrow> Ret (Inl err)
      | (addr, None) \<Rightarrow>
          if length buf < 53 then Panics PanicIndex
          else case BytesToHash (slice buf 21 53) of
            (_, Some err) \<Rightarrow> Ret (Inl err)
          | (blockHash, None) \<Rightarrow>
              go_bind (be_Uint64 (drop 53 buf)) (\<lambda>height.
                Ret (Inr (addr, \<lparr>hh_Height = height, hh_Hash = blockHash\<rparr>))))"

definition NewSnapshotContentBytesList :: "SnapshotContent \<Rightarrow> bytes list" where
  "NewSnapshotContentBytesList sc = map (\<lambda>(addr, hashHeight). scItemToBytes addr hashHeight) sc"

definition sc_bytesList :: "SnapshotContent \<Rightarrow> bytes list" where
  "sc_bytesList sc = sort (NewSnapshotContentBytesList sc)"

definition sc_proto :: "SnapshotContent \<Rightarrow> bytes" where
  "sc_proto sc =
     (let keys = rev (sort (map fst sc))
      in concat (map (\<lambda>key. case map_of sc key of None \<Rightarrow> [] | Some hh \<Rightarrow> scItemToBytes key hh) keys))"

text \<open>The loop of \<open>deProto\<close> consumes one item per round.\<close>

function sc_deProtoLoop :: "bytes \<Rightarrow> SnapshotContent \<Rightarrow> (vm_error + SnapshotContent) go" where
  "sc_deProtoLoop pb sc =
     (if pb = [] then Ret (Inr sc)
      else go_bind (bytesToScItem (take ScItemBytesLen pb)) (\<lambda>r.
        case r of
          Inl err \<Rightarrow> Ret (Inl err)
        | Inr (addr, hashHeight) \<Rightarrow>
            sc_deProtoLoop (drop ScItemBytesLen pb) (AList.update addr hashHeight sc)))"
  by pat_completeness auto
termination by (relation "measure (\<lambda>(pb, _). length pb)") auto

declare sc_deProtoLoop.simps [simp del]

definition sc_deProto :: "bytes \<Rightarrow> SnapshotContent \<Rightarrow> (vm_error + SnapshotContent) go" where
  "sc_deProto pb sc =
     (if length pb mod ScItemBytesLen \<noteq> 0 then Ret (Inl (ErrOther ''length of pb''))
      else sc_deProtoLoop pb sc)"

text \<open>\<open>uint64(t.Unix())\<close> as eight bytes, and \<open>binary.BigEndian.PutUint32\<close>.\<close>

definition unixTimeBytes :: "int \<Rightarrow> bytes" where
  "unixTimeBytes t = putUint64 (word_of_int (time_Unix t))"

definition putUint32 :: "32 word \<Rightarrow> bytes" where
  "putUint32 w = map (\<lambda>i. ucast (drop_bit (8 * (3 - i)) w)) [0..<4]"

definition ComputeSeedHash :: "crypto \<Rightarrow> u64 \<Rightarrow> Hash \<Rightarrow> int \<Rightarrow> Hash" where
  "ComputeSeedHash c seed prevHash timestamp =
     fst (BytesToHash (Hash256 c [putUint64 seed @ prevHash @ unixTimeBytes timestamp]))"

definition sb_hashSourceLength :: "upgradeBox \<Rightarrow> SnapshotBlock \<Rightarrow> nat" where
  "sb_hashSourceLength upgrade sb =
     32 + 8 + 8 + 8 + 32 + length (sb_SnapshotContent sb) * ScItemBytesLen +
     (case currentPoint upgrade (sb_Height sb) of None \<Rightarrow> 0 | Some forkPoint \<Rightarrow> length (up_Name forkPoint)) +
     (if IsLeafUpgrade upgrade (sb_Height sb) then 4 else 0)"

text \<open>\<open>[]byte(name)\<close>.\<close>

definition stringBytes :: "string \<Rightarrow> bytes" where
  "stringBytes s = map (\<lambda>ch. of_nat (of_char ch)) s"

definition sb_hashSource :: "upgradeBox \<Rightarrow> SnapshotBlock \<Rightarrow> bytes" where
  "sb_hashSource upgrade sb =
     sb_PrevHash sb @ putUint64 (sb_Height sb) @ unixTimeBytes (sb_Timestamp sb) @ putUint64 (sb_Seed sb) @
     (case sb_SeedHash sb of Some h \<Rightarrow> h | None \<Rightarrow> replicate 32 0) @
     concat (sc_bytesList (sb_SnapshotContent sb)) @
     (case currentPoint upgrade (sb_Height sb) of None \<Rightarrow> [] | Some forkPoint \<Rightarrow> stringBytes (up_Name forkPoint)) @
     (if IsLeafUpgrade upgrade (sb_Height sb) then putUint32 (sb_Version sb) else [])"

definition sb_ComputeHash :: "crypto \<Rightarrow> upgradeBox \<Rightarrow> SnapshotBlock \<Rightarrow> Hash" where
  "sb_ComputeHash c upgrade sb = fst (BytesToHash (Hash256 c [sb_hashSource upgrade sb]))"

definition sb_Producer :: "crypto \<Rightarrow> SnapshotBlock \<Rightarrow> Address go" where
  "sb_Producer c sb = PubkeyToAddress c (sb_PublicKey sb)"

record PbSnapshotBlock =
  pbs_Hash :: bytes
  pbs_PrevHash :: bytes
  pbs_Height :: u64
  pbs_PublicKey :: bytes
  pbs_Signature :: bytes
  pbs_Timestamp :: int
  pbs_Seed :: u64
  pbs_SeedHash :: bytes
  pbs_SnapshotContent :: bytes
  pbs_Version :: "32 word"

text \<open>\<open>UnixNano\<close> is an int64.\<close>

definition time_UnixNano :: "int \<Rightarrow> int" where
  "time_UnixNano t = sint (word_of_int t :: u64)"

definition sb_Proto :: "SnapshotBlock \<Rightarrow> PbSnapshotBlock" where
  "sb_Proto sb =
     \<lparr>pbs_Hash = sb_Hash sb, pbs_PrevHash = sb_PrevHash sb, pbs_Height = sb_Height sb,
      pbs_PublicKey = sb_PublicKey sb, pbs_Signature = sb_Signature sb,
      pbs_Timestamp = time_UnixNano (sb_Timestamp sb), pbs_Seed = sb_Seed sb,
      pbs_SeedHash = (case sb_SeedHash sb of None \<Rightarrow> [] | Some h \<Rightarrow> h),
      pbs_SnapshotContent = sc_proto (sb_SnapshotContent sb), pbs_Version = sb_Version sb\<rparr>"

definition sb_DeProtoSeed :: "PbSnapshotBlock \<Rightarrow> SnapshotBlock \<Rightarrow> SnapshotBlock \<times> vm_error option" where
  "sb_DeProtoSeed pb sb =
     (if length (pbs_SeedHash pb) > 0
      then case BytesToHash (pbs_SeedHash pb) of
             (_, Some err) \<Rightarrow> (sb, Some err)
           | (seedHash, None) \<Rightarrow> (sb\<lparr>sb_SeedHash := Some seedHash\<rparr>, None)
      else (sb, None))"

definition sb_DeProtoContent :: "PbSnapshotBlock \<Rightarrow> SnapshotBlock \<Rightarrow> (SnapshotBlock \<times> vm_error option) go" where
  "sb_DeProtoContent pb sb =
     (if length (pbs_SnapshotContent pb) > 0
      then go_bind (sc_deProto (pbs_SnapshotContent pb) []) (\<lambda>r.
             case r of
               Inl err \<Rightarrow> Ret (sb, Some err)
             | Inr sc \<Rightarrow> Ret (sb\<lparr>sb_SnapshotContent := sc\<rparr>, None))
      else Ret (sb, None))"

definition sb_DeProto :: "PbSnapshotBlock \<Rightarrow> SnapshotBlock \<Rightarrow> (SnapshotBlock \<times> vm_error option) go" where
  "sb_DeProto pb sb =
     (case BytesToHash (pbs_Hash pb) of
        (_, Some err) \<Rightarrow> Ret (sb\<lparr>sb_Hash := ZERO_HASH\<rparr>, Some err)
      | (h, None) \<Rightarrow>
     (case BytesToHash (pbs_PrevHash pb) of
        (_, Some err) \<Rightarrow> Ret (sb\<lparr>sb_Hash := h, sb_PrevHash := ZERO_HASH\<rparr>, Some err)
      | (prev, None) \<Rightarrow>
          let sb1 = sb\<lparr>sb_Hash := h, sb_PrevHash := prev, sb_Height := pbs_Height pb,
                       sb_PublicKey := pbs_PublicKey pb, sb_Signature := pbs_Signature pb,
                       sb_Timestamp := pbs_Timestamp pb, sb_Seed := pbs_Seed pb\<rparr>
          in case sb_DeProtoSeed pb sb1 of
               (sb2, Some err) \<Rightarrow> Ret (sb2, Some err)
             | (sb2, None) \<Rightarrow>
                 go_bind (sb_DeProtoContent pb sb2) (\<lambda>(sb3, err).
                   case err of
                     Some _ \<Rightarrow> Ret (sb3, err)
                   | None \<Rightarrow> Ret (sb3\<lparr>sb_Version := pbs_Version pb\<rparr>, None))))"

definition sb_Serialize :: "(PbSnapshotBlock \<Rightarrow> vm_error + bytes) \<Rightarrow> SnapshotBlock \<Rightarrow> vm_error + bytes" where
  "sb_Serialize proto_Marshal sb = proto_Marshal (sb_Proto sb)"

definition sb_Deserialize ::
    "(bytes \<Rightarrow> vm_error + PbSnapshotBlock) \<Rightarrow> bytes \<Rightarrow> SnapshotBlock \<Rightarrow> (SnapshotBlock \<times> vm_error option) go" where
  "sb_Deserialize proto_Unmarshal buf sb =
     (case proto_Unmarshal buf of
        Inl unmarshalErr \<Rightarrow> Ret (sb, Some unmarshalErr)
      | Inr pb \<Rightarrow> sb_DeProto pb sb)"

section \<open>Items\<close>

definition wf_content :: "SnapshotContent \<Rightarrow> bool" where
  "wf_content sc \<longleftrightarrow> distinct (map fst sc) \<and>
     list_all (\<lambda>(addr, hh). length addr = 21 \<and> length (hh_Hash hh) = 32) sc"

lemma be_val_putUint64: "be_val (putUint64 w) = unat w"
proof -
  have "(ucast (drop_bit (8 * (7 - i)) w) :: byte) = bigEndianByteAt (uint w) (8 - Suc i)" if "i < 8" for i
  proof -
    have "unat (ucast (drop_bit (8 * (7 - i)) w) :: byte) = unat w div 2 ^ (8 * (7 - i)) mod 256"
      by (simp add: unsigned_ucast_eq unsigned_drop_bit_eq take_bit_eq_mod drop_bit_eq_div [where ?'a = nat])
    also have "\<dots> = unat (bigEndianByteAt (uint w) (8 - Suc i))"
      by (simp add: unat_bigEndianByteAt power_mult)
    finally show ?thesis by (simp add: word_unat_eq_iff)
  qed
  then have "putUint64 w = map (\<lambda>p. bigEndianByteAt (uint w) (8 - Suc p)) [0..<8]"
    unfolding putUint64_def by (intro map_cong) simp_all
  then show ?thesis using be_val_bytes_at [of "uint w" 8] by (simp only:) simp
qed

lemma length_scItemToBytes [simp]:
  "length addr = 21 \<Longrightarrow> length (hh_Hash hh) = 32 \<Longrightarrow> length (scItemToBytes addr hh) = 61"
  by (simp add: scItemToBytes_def)

lemma bytesToScItem_scItemToBytes:
  assumes "length addr = 21" "length (hh_Hash hh) = 32"
  shows "bytesToScItem (scItemToBytes addr hh) = Ret (Inr (addr, hh))"
  using assms
  by (simp add: bytesToScItem_def scItemToBytes_def slice_def be_Uint64_def be_val_putUint64)

lemma sc_deProtoLoop_concat:
  "wf_content sc \<Longrightarrow> fst ` set sc \<inter> fst ` set acc = {} \<Longrightarrow>
     sc_deProtoLoop (concat (map (\<lambda>(a, hh). scItemToBytes a hh) sc)) acc = Ret (Inr (acc @ sc))"
proof (induction sc arbitrary: acc)
  case Nil
  then show ?case by (simp add: sc_deProtoLoop.simps)
next
  case (Cons p sc)
  obtain a hh where p: "p = (a, hh)" by (cases p)
  have wf: "length a = 21" "length (hh_Hash hh) = 32" "wf_content sc" "a \<notin> fst ` set sc" "a \<notin> fst ` set acc"
    using Cons.prems by (auto simp: wf_content_def p)
  have "AList.update a hh acc = acc @ [(a, hh)]"
    using wf(5) by (induction acc) auto
  moreover have "length (scItemToBytes a hh) = 61" using wf by simp
  moreover from this have "scItemToBytes a hh \<noteq> []" by auto
  moreover have "fst ` set sc \<inter> fst ` set (acc @ [(a, hh)]) = {}" using Cons.prems wf by (auto simp: p)
  ultimately show ?case
    using Cons.IH [of "acc @ [(a, hh)]"] wf
    by (subst sc_deProtoLoop.simps) (simp add: p bytesToScItem_scItemToBytes)
qed

text \<open>The sorted form of a content, as \<open>proto\<close> writes it.\<close>

definition sc_desc :: "SnapshotContent \<Rightarrow> SnapshotContent" where
  "sc_desc sc = map (\<lambda>k. (k, the (map_of sc k))) (rev (sort (map fst sc)))"

lemma map_of_sc_desc: "map_of (sc_desc sc) = map_of sc"
proof
  fix k
  show "map_of (sc_desc sc) k = map_of sc k"
  proof (cases "k \<in> fst ` set sc")
    case True
    then obtain v where "map_of sc k = Some v" by (auto simp: weak_map_of_SomeI dest: weak_map_of_SomeI)
    with True show ?thesis by (simp add: sc_desc_def map_of_map_restrict)
  next
    case False
    then have "map_of sc k = None" by (simp add: map_of_eq_None_iff)
    moreover have "map_of (sc_desc sc) k = None"
      using False by (simp add: map_of_eq_None_iff sc_desc_def image_image)
    ultimately show ?thesis by simp
  qed
qed

lemma wf_sc_desc: "wf_content sc \<Longrightarrow> wf_content (sc_desc sc)"
  by (auto simp: wf_content_def sc_desc_def list_all_iff comp_def)

lemma sc_proto_desc: "sc_proto sc = concat (map (\<lambda>(a, hh). scItemToBytes a hh) (sc_desc sc))"
proof -
  have "map (\<lambda>key. case map_of sc key of None \<Rightarrow> [] | Some hh \<Rightarrow> scItemToBytes key hh) (rev (sort (map fst sc))) =
    map (\<lambda>(a, hh). scItemToBytes a hh) (sc_desc sc)"
    by (auto simp: sc_desc_def split: option.split dest: map_of_eq_None_iff [THEN iffD1])
  then show ?thesis by (simp add: sc_proto_def Let_def)
qed

lemma length_concat_items:
  "wf_content sc \<Longrightarrow> length (concat (map (\<lambda>(a, hh). scItemToBytes a hh) sc)) = length sc * 61"
  by (induction sc) (auto simp: wf_content_def)

lemma length_sc_desc [simp]: "length (sc_desc sc) = length sc"
  by (simp add: sc_desc_def)

lemma sc_deProto_proto: "wf_content sc \<Longrightarrow> sc_deProto (sc_proto sc) [] = Ret (Inr (sc_desc sc))"
  using sc_deProtoLoop_concat [OF wf_sc_desc, of sc "[]"] length_concat_items [OF wf_sc_desc, of sc]
  by (simp add: sc_deProto_def sc_proto_desc)

text \<open>Blocks with fixed arrays of the right size and a timestamp that fits int64 nanoseconds.\<close>

definition wf_snapshot :: "SnapshotBlock \<Rightarrow> bool" where
  "wf_snapshot sb \<longleftrightarrow> length (sb_Hash sb) = 32 \<and> length (sb_PrevHash sb) = 32 \<and>
     (\<forall>h. sb_SeedHash sb = Some h \<longrightarrow> length h = 32) \<and> wf_content (sb_SnapshotContent sb) \<and>
     - (2 ^ 63) \<le> sb_Timestamp sb \<and> sb_Timestamp sb < 2 ^ 63"

lemma length_putUint32 [simp]: "length (putUint32 w) = 4"
  by (simp add: putUint32_def)

lemma length_stringBytes [simp]: "length (stringBytes s) = length s"
  by (simp add: stringBytes_def)

lemma sc_bytesList_mset: "mset sc = mset sc' \<Longrightarrow> sc_bytesList sc = sc_bytesList sc'"
  by (simp add: sc_bytesList_def NewSnapshotContentBytesList_def cong: mset_map)
     (metis mset_map sorted_list_of_multiset_mset)

lemma length_concat_bytesList:
  "wf_content sc \<Longrightarrow> length (concat (sc_bytesList sc)) = length sc * 61"
proof -
  assume "wf_content sc"
  moreover have "mset (map length (sc_bytesList sc)) = mset (map length (NewSnapshotContentBytesList sc))"
    by (simp add: sc_bytesList_def)
  then have "sum_list (map length (sc_bytesList sc)) = sum_list (map length (NewSnapshotContentBytesList sc))"
    by (metis sum_mset_sum_list)
  ultimately show ?thesis
    using length_concat_items [of sc] by (simp add: length_concat NewSnapshotContentBytesList_def)
qed

lemma sb_DeProto_Proto:
  assumes "wf_snapshot sb" "sb_SeedHash sb0 = None" "sb_SnapshotContent sb0 = []"
  shows "sb_DeProto (sb_Proto sb) sb0 =
    Ret (sb\<lparr>sb_SnapshotContent := sc_desc (sb_SnapshotContent sb)\<rparr>, None)"
proof -
  have t: "time_UnixNano (sb_Timestamp sb) = sb_Timestamp sb"
    using assms(1) big_Int64_small [of "sb_Timestamp sb"]
    by (simp add: wf_snapshot_def time_UnixNano_def big_Int64_def)
  have sc: "sc_deProto (sc_proto (sb_SnapshotContent sb)) [] = Ret (Inr (sc_desc (sb_SnapshotContent sb)))"
    using assms(1) by (simp add: wf_snapshot_def sc_deProto_proto)
  have "sc_proto (sb_SnapshotContent sb) = [] \<longleftrightarrow> sc_desc (sb_SnapshotContent sb) = []"
    using length_concat_items [OF wf_sc_desc, of "sb_SnapshotContent sb"] assms(1)
    by (simp add: wf_snapshot_def sc_proto_desc flip: length_0_conv)
  then show ?thesis
    using assms t sc
    by (auto simp: sb_DeProto_def sb_Proto_def wf_snapshot_def Let_def sb_DeProtoSeed_def
        sb_DeProtoContent_def split: option.split)
qed

section \<open>Properties\<close>

definition sampleSnapshot :: SnapshotBlock where
  "sampleSnapshot = \<lparr>sb_Hash = ZERO_HASH, sb_PrevHash = ZERO_HASH, sb_Height = 7, sb_PublicKey = [1],
     sb_Signature = [2], sb_Timestamp = 1558411200000000000, sb_Seed = 5, sb_SeedHash = Some ZERO_HASH,
     sb_SnapshotContent = [(AddressGovernance, \<lparr>hh_Height = 3, hh_Hash = ZERO_HASH\<rparr>),
                           (AddressAsset, \<lparr>hh_Height = 9, hh_Hash = ZERO_HASH\<rparr>)],
     sb_Version = 1\<rparr>"

lemma wf_sampleSnapshot: "wf_snapshot sampleSnapshot"
  by (simp add: sampleSnapshot_def wf_snapshot_def wf_content_def ZERO_HASH_def AddressGovernance_def
      AddressAsset_def)

text \<open>C39: a snapshot block survives its protobuf message: read into a fresh block, every field comes back,
  and the snapshot content is the same map.\<close>

theorem SnapshotBlock_proto_roundtrip:
  assumes "wf_snapshot sb" "sb_SeedHash sb0 = None" "sb_SnapshotContent sb0 = []"
  shows "\<exists>sc. sb_DeProto (sb_Proto sb) sb0 = Ret (sb\<lparr>sb_SnapshotContent := sc\<rparr>, None) \<and>
    map_of sc = map_of (sb_SnapshotContent sb)"
  using sb_DeProto_Proto [OF assms] map_of_sc_desc by blast

theorem SnapshotBlock_proto_roundtrip_witness:
  "\<exists>sc. sb_DeProto (sb_Proto sampleSnapshot) (sampleSnapshot\<lparr>sb_SeedHash := None, sb_SnapshotContent := []\<rparr>) =
       Ret (sampleSnapshot\<lparr>sb_SnapshotContent := sc\<rparr>, None) \<and>
     map_of sc = map_of (sb_SnapshotContent sampleSnapshot)"
  by (rule SnapshotBlock_proto_roundtrip [OF wf_sampleSnapshot]) simp_all

text \<open>The hash of a snapshot block does not depend on the order in which the content map is
  iterated, and the buffer it is assembled in is allocated with exactly its final length.\<close>

theorem SnapshotBlock_hash_canonical:
  assumes "mset sc = mset (sb_SnapshotContent sb)" "wf_snapshot sb"
  shows "sb_ComputeHash c upgrade (sb\<lparr>sb_SnapshotContent := sc\<rparr>) = sb_ComputeHash c upgrade sb \<and>
    length (sb_hashSource upgrade sb) = sb_hashSourceLength upgrade sb"
  using assms sc_bytesList_mset [OF assms(1)] length_concat_bytesList [of "sb_SnapshotContent sb"]
  by (auto simp: sb_ComputeHash_def sb_hashSource_def sb_hashSourceLength_def wf_snapshot_def
      unixTimeBytes_def split: option.split)

theorem SnapshotBlock_hash_canonical_witness:
  "sb_ComputeHash pad_crypto \<lparr>pointMap = [], heightMap = [], sortedPoints = []\<rparr>
       (sampleSnapshot\<lparr>sb_SnapshotContent := rev (sb_SnapshotContent sampleSnapshot)\<rparr>) =
     sb_ComputeHash pad_crypto \<lparr>pointMap = [], heightMap = [], sortedPoints = []\<rparr> sampleSnapshot \<and>
   length (sb_hashSource \<lparr>pointMap = [], heightMap = [], sortedPoints = []\<rparr> sampleSnapshot) =
     sb_hashSourceLength \<lparr>pointMap = [], heightMap = [], sortedPoints = []\<rparr> sampleSnapshot"
  by (rule SnapshotBlock_hash_canonical [OF _ wf_sampleSnapshot]) simp

end
