(* ===== verification/Global_Status.thy ===== *)
theory Global_Status
  imports Snapshot_Block Rand
begin

unbundle bit_operations_syntax

text \<open>
  The random numbers a contract sees: \<open>GetRandomSeed\<close> and \<open>GetSeed\<close> of ledger/chain/snapshot_block.go and
  \<open>VMGlobalStatus\<close> of ledger/generator/utils.go, the only implementation of util.GlobalStatus.  The two
  queries of the chain database that \<open>GetRandomSeed\<close> makes are the fields of \<open>SeedChain\<close>.

  The lemmas show what \<open>GetRandomSeed\<close> sums, that \<open>GetSeed\<close> returns a number that does not depend on that
  sum, and that the answers of a \<open>VMGlobalStatus\<close> are the first, second, ... numbers of one source.
\<close>

section \<open>Definitions\<close>

subsection \<open>ledger/chain/snapshot_block.go\<close>

record SeedChain =
  sc_GetSnapshotHeightByHash :: "Hash \<Rightarrow> vm_error + u64"
  sc_GetSnapshotHeaderByHeight :: "u64 \<Rightarrow> vm_error + SnapshotBlock option"

text \<open>The loop from the head height down to the tail height, over the list of these heights.\<close>

fun seedLoop ::
    "crypto \<Rightarrow> SeedChain \<Rightarrow> nat \<Rightarrow> u64 list \<Rightarrow> Hash option \<Rightarrow> Address list \<Rightarrow> nat \<Rightarrow> u64 \<Rightarrow> u64 go" where
  "seedLoop c ch n [] prevHash producerMap seedCount randomSeed = Ret randomSeed"
| "seedLoop c ch n (h # hs) prevHash producerMap seedCount randomSeed =
     (if \<not> seedCount < n then Ret randomSeed
      else case sc_GetSnapshotHeaderByHeight ch h of
        Inl err \<Rightarrow> Ret 0
      | Inr None \<Rightarrow> Ret 0
      | Inr (Some snapshotHeader) \<Rightarrow>
          if prevHash \<noteq> None \<and> prevHash \<noteq> Some (sb_Hash snapshotHeader) then Ret 0
          else let prevHash' = Some (sb_PrevHash snapshotHeader)
          in if sb_Seed snapshotHeader \<le> 0
             then seedLoop c ch n hs prevHash' producerMap seedCount randomSeed
             else go_bind (sb_Producer c snapshotHeader) (\<lambda>producer.
               if List.member producerMap producer
               then seedLoop c ch n hs prevHash' producerMap seedCount randomSeed
               else seedLoop c ch n hs prevHash' (producer # producerMap) (seedCount + 1)
                      (randomSeed + sb_Seed snapshotHeader)))"

definition GetRandomSeed :: "crypto \<Rightarrow> SeedChain \<Rightarrow> Hash \<Rightarrow> nat \<Rightarrow> u64 go" where
  "GetRandomSeed c ch snapshotHash n =
     (case sc_GetSnapshotHeightByHash ch snapshotHash of
        Inl err \<Rightarrow> Ret 0
      | Inr headHeight \<Rightarrow>
          let count = 10 * 60 :: u64;
              tailHeight = (if headHeight > count then headHeight - count else 1)
          in seedLoop c ch n (map of_nat (rev [unat tailHeight ..< Suc (unat headHeight)])) None [] 0 0)"

abbreviation (input) DefaultSeedRangeCount :: nat where "DefaultSeedRangeCount \<equiv> 25"

definition GetSeed :: "crypto \<Rightarrow> SeedChain \<Rightarrow> SnapshotBlock option \<Rightarrow> Hash \<Rightarrow> (vm_error + u64) go" where
  "GetSeed c ch limitSb fromHash =
     (case limitSb of
        None \<Rightarrow> Panics PanicNil
      | Some sb \<Rightarrow>
          go_bind (GetRandomSeed c ch (sb_Hash sb) DefaultSeedRangeCount) (\<lambda>seed.
            let seedByte = LeftPadBytes (big_Bytes (uint seed)) 32;
                resultSeed = map2 (\<lambda>a b. a XOR b) seedByte fromHash
            in Ret (Inr (BytesToU64 resultSeed))))"

subsection \<open>ledger/generator/utils.go\<close>

record VMGlobalStatus =
  gs_sb :: "SnapshotBlock option"
  gs_fromHash :: Hash
  gs_seed :: u64
  gs_setSeed :: bool
  gs_randSource :: "rngSource option"
  gs_setRandSeed :: bool

definition NewVMGlobalStatus :: "SnapshotBlock option \<Rightarrow> Hash \<Rightarrow> VMGlobalStatus" where
  "NewVMGlobalStatus sb fromHash =
     \<lparr>gs_sb = sb, gs_fromHash = fromHash, gs_seed = 0, gs_setSeed = False, gs_randSource = None,
      gs_setRandSeed = False\<rparr>"

definition gs_Seed :: "crypto \<Rightarrow> SeedChain \<Rightarrow> VMGlobalStatus \<Rightarrow> (VMGlobalStatus \<times> (vm_error + u64)) go" where
  "gs_Seed c ch g =
     (if gs_setSeed g then Ret (g, Inr (gs_seed g))
      else go_bind (GetSeed c ch (gs_sb g) (gs_fromHash g)) (\<lambda>r.
        case r of
          Inl err \<Rightarrow> Ret (g, Inl err)
        | Inr s \<Rightarrow> Ret (g\<lparr>gs_seed := s, gs_setSeed := True\<rparr>, Inr s)))"

text \<open>\<open>g.randSource.Uint64()\<close> of an interface value.\<close>

definition gs_next :: "VMGlobalStatus \<Rightarrow> (VMGlobalStatus \<times> (vm_error + u64)) go" where
  "gs_next g =
     (case gs_randSource g of
        None \<Rightarrow> Panics PanicNil
      | Some rng \<Rightarrow> go_bind (rng_Uint64 rng) (\<lambda>(x, rng'). Ret (g\<lparr>gs_randSource := Some rng'\<rparr>, Inr x)))"

definition gs_Random :: "crypto \<Rightarrow> SeedChain \<Rightarrow> VMGlobalStatus \<Rightarrow> (VMGlobalStatus \<times> (vm_error + u64)) go" where
  "gs_Random c ch g =
     (if gs_setRandSeed g then gs_next g
      else go_bind (GetSeed c ch (gs_sb g) (gs_fromHash g)) (\<lambda>r.
        case r of
          Inl err \<Rightarrow> Ret (g, Inl err)
        | Inr s \<Rightarrow> gs_next (g\<lparr>gs_randSource := Some (NewSource64 (sint s)), gs_setRandSeed := True\<rparr>)))"

definition gs_SnapshotBlock :: "VMGlobalStatus \<Rightarrow> SnapshotBlock option" where
  "gs_SnapshotBlock g = gs_sb g"

section \<open>Seeds of the snapshot chain\<close>

text \<open>What the loop adds: the seeds of a list of headers with pairwise distinct producers.\<close>

lemma seedLoop_sum:
  assumes "seedLoop c ch n hs prev producers k acc = Ret r" "r \<noteq> 0" "distinct producers" "length producers = k" "k \<le> n"
  shows "\<exists>bs ps. r = acc + sum_list (map sb_Seed bs) \<and> map (sb_Producer c) bs = map Ret ps \<and>
    distinct (rev ps @ producers) \<and> k + length bs \<le> n \<and>
    (\<forall>b \<in> set bs. \<exists>h \<in> set hs. sc_GetSnapshotHeaderByHeight ch h = Inr (Some b) \<and> 0 < sb_Seed b)"
  using assms
proof (induction c ch n hs prev producers k acc rule: seedLoop.induct)
  case (1 c ch n prev producers k acc)
  then show ?case by (intro exI [of _ "[]"]) auto
next
  case (2 c ch n h hs prev producers k acc)
  show ?case
  proof (cases "k < n")
    case False
    with "2.prems" show ?thesis by (intro exI [of _ "[]"]) auto
  next
    case kn: True
    with "2.prems" obtain b where b: "sc_GetSnapshotHeaderByHeight ch h = Inr (Some b)"
      and prev: "\<not> (prev \<noteq> None \<and> prev \<noteq> Some (sb_Hash b))"
      by (auto split: sum.splits option.splits if_splits)
    show ?thesis
    proof (cases "sb_Seed b \<le> 0")
      case True
      with "2.prems" kn b prev have "seedLoop c ch n hs (Some (sb_PrevHash b)) producers k acc = Ret r"
        by (auto simp: Let_def split: if_splits)
      from "2.IH"(1) [OF _ b refl prev refl True this] kn "2.prems" show ?thesis by auto blast
    next
      case False
      then obtain p where p: "sb_Producer c b = Ret p"
        using "2.prems" kn b prev by (auto simp: Let_def go_bind_eq_Ret split: if_splits)
      show ?thesis
      proof (cases "List.member producers p")
        case True
        with "2.prems" kn b prev False p have "seedLoop c ch n hs (Some (sb_PrevHash b)) producers k acc = Ret r"
          by (auto simp: Let_def split: if_splits)
        from "2.IH"(2) [OF _ b refl prev refl False True this] kn "2.prems" show ?thesis by auto blast
      next
        case new: False
        have run: "seedLoop c ch n hs (Some (sb_PrevHash b)) (p # producers) (k + 1) (acc + sb_Seed b) = Ret r"
          using "2.prems" kn b prev False p new by (auto simp: Let_def split: if_splits)
        have "distinct (p # producers)" using new "2.prems" by (simp add: List.member_iff)
        with "2.IH"(3) [OF _ b refl prev refl False new run] kn "2.prems"
        obtain bs ps where r: "r = acc + sb_Seed b + sum_list (map sb_Seed bs)"
          "map (sb_Producer c) bs = map Ret ps" "distinct (rev ps @ p # producers)" "k + 1 + length bs \<le> n"
          "\<forall>x \<in> set bs. \<exists>h \<in> set hs. sc_GetSnapshotHeaderByHeight ch h = Inr (Some x) \<and> 0 < sb_Seed x"
          by auto
        show ?thesis
          by (intro exI [of _ "b # bs"] exI [of _ "p # ps"])
             (use r p b False in \<open>auto simp: add.assoc word_neq_0_conv\<close>)
      qed
    qed
  qed
qed

lemma GetRandomSeed_sum:
  assumes "GetRandomSeed c ch snapshotHash n = Ret r" "r \<noteq> 0"
  shows "\<exists>bs ps. r = sum_list (map sb_Seed bs) \<and> map (sb_Producer c) bs = map Ret ps \<and> distinct ps \<and>
    length bs \<le> n \<and> (\<forall>b \<in> set bs. \<exists>h. sc_GetSnapshotHeaderByHeight ch h = Inr (Some b) \<and> 0 < sb_Seed b)"
proof -
  from assms obtain hs where "seedLoop c ch n hs None [] 0 0 = Ret r"
    by (auto simp: GetRandomSeed_def Let_def split: sum.splits)
  from seedLoop_sum [OF this assms(2)] show ?thesis by fastforce
qed

text \<open>The seed occupies the last eight of the 32 bytes, the number is read from the first eight.\<close>

lemma GetSeed_value:
  assumes "GetSeed c ch limitSb fromHash = Ret r" "length fromHash = 32"
  shows "r = Inr (BytesToU64 fromHash)"
proof -
  from assms obtain seed :: u64 where
    r: "r = Inr (BytesToU64 (map2 (\<lambda>a b. a XOR b) (LeftPadBytes (big_Bytes (uint seed)) 32) fromHash))"
    by (auto simp: GetSeed_def Let_def go_bind_eq_Ret split: option.splits)
  have "length (big_Bytes (uint seed)) \<le> 8"
    by (auto simp: big_Bytes_def intro!: length_nat_bytes_le)
  then have "take 8 (LeftPadBytes (big_Bytes (uint seed)) 32) = replicate 8 (0 :: byte)"
    and len: "length (LeftPadBytes (big_Bytes (uint seed)) 32) = 32"
    by (simp_all add: LeftPadBytes_eq)
  then have "take 8 (map2 (\<lambda>a b. a XOR b) (LeftPadBytes (big_Bytes (uint seed)) 32) fromHash) =
    map2 (\<lambda>a b. a XOR b) (replicate 8 0) (take 8 fromHash)"
    by (simp add: take_map take_zip)
  also have "\<dots> = take 8 fromHash"
    using assms by (intro nth_equalityI) auto
  finally show ?thesis using len assms by (simp add: r BytesToU64_def)
qed

section \<open>The status of a run\<close>

primrec randoms :: "crypto \<Rightarrow> SeedChain \<Rightarrow> nat \<Rightarrow> VMGlobalStatus \<Rightarrow> (VMGlobalStatus \<times> u64 list) go" where
  "randoms c ch 0 g = Ret (g, [])"
| "randoms c ch (Suc n) g =
     go_bind (randoms c ch n g) (\<lambda>(g', xs).
       go_bind (gs_Random c ch g') (\<lambda>(g'', r). go_bind (DealWithErr r) (\<lambda>x. Ret (g'', xs @ [x]))))"

lemma randoms_source:
  assumes seed: "GetSeed c ch sb fromHash = Ret (Inr s)"
  shows "\<exists>xs rng. outputs (Suc n) (NewSource64 (sint s)) = Ret (xs, rng) \<and>
    randoms c ch (Suc n) (NewVMGlobalStatus sb fromHash) =
      Ret ((NewVMGlobalStatus sb fromHash)\<lparr>gs_randSource := Some rng, gs_setRandSeed := True\<rparr>, xs)"
proof (induction n)
  case 0
  have "rng_Uint64 (NewSource64 (sint s)) = Ret (nextOut (NewSource64 (sint s)), nextState (NewSource64 (sint s)))"
    by (simp add: rng_Uint64_next)
  with seed show ?case by (simp add: gs_Random_def NewVMGlobalStatus_def gs_next_def)
next
  case (Suc n)
  then obtain xs rng where o: "outputs (Suc n) (NewSource64 (sint s)) = Ret (xs, rng)"
    and r: "randoms c ch (Suc n) (NewVMGlobalStatus sb fromHash) =
      Ret ((NewVMGlobalStatus sb fromHash)\<lparr>gs_randSource := Some rng, gs_setRandSeed := True\<rparr>, xs)"
    by blast
  have "wf_rng rng" using o outputs_next [of "NewSource64 (sint s)" "Suc n"] by (auto simp del: outputs.simps)
  then have "rng_Uint64 rng = Ret (nextOut rng, nextState rng)" by (rule rng_Uint64_next)
  with o r show ?case
    by (simp add: gs_Random_def gs_next_def NewVMGlobalStatus_def del: outputs.simps(2) randoms.simps(2))
       (simp add: outputs.simps(2) [of "Suc n"] randoms.simps(2) [of c ch "Suc n"] gs_Random_def gs_next_def
          del: outputs.simps randoms.simps)
qed

section \<open>Properties\<close>

text \<open>A snapshot chain of one block, for the examples.\<close>

definition sampleSeedChain :: SeedChain where
  "sampleSeedChain = \<lparr>sc_GetSnapshotHeightByHash = (\<lambda>_. Inr 1),
     sc_GetSnapshotHeaderByHeight = (\<lambda>h. if h = 1 then Inr (Some sampleSnapshot) else Inr None)\<rparr>"

lemma sample_GetRandomSeed: "GetRandomSeed pad_crypto sampleSeedChain h (Suc n) = Ret 5"
proof -
  have "\<exists>p. sb_Producer pad_crypto sampleSnapshot = Ret p"
    by (simp add: sb_Producer_def PubkeyToAddress_def GenUserAddress_def BytesToAddress_id)
  then show ?thesis
    by (auto simp: GetRandomSeed_def sampleSeedChain_def sampleSnapshot_def List.member_iff)
qed

text \<open>C37: \<open>GetSeed\<close> combines the seeds published by the snapshot producers with the hash of the send block
  and then reads the eight bytes that the seeds do not reach: whatever \<open>GetRandomSeed\<close> computed, the
  result is the first eight bytes of the hash of the send block.\<close>

theorem GetSeed_ignores_random_seed:
  assumes "length fromHash = 32" "GetRandomSeed c ch (sb_Hash sb) 25 = Ret seed"
  shows "GetSeed c ch (Some sb) fromHash = Ret (Inr (of_nat (be_val (take 8 fromHash))))"
proof -
  from assms(2) obtain r where r: "GetSeed c ch (Some sb) fromHash = Ret r"
    by (simp add: GetSeed_def Let_def)
  with GetSeed_value [OF r assms(1)] assms(1) show ?thesis by (simp add: BytesToU64_def)
qed

theorem GetSeed_ignores_random_seed_witness:
  "GetRandomSeed pad_crypto sampleSeedChain ZERO_HASH 25 = Ret 5 \<and>
   GetSeed pad_crypto sampleSeedChain (Some sampleSnapshot) (replicate 32 1) = Ret (Inr 0x0101010101010101)"
proof -
  have "take 8 (replicate 32 1) = [1, 1, 1, 1, 1, 1, 1, 1 :: byte]" by (simp add: eval_nat_numeral)
  then have v: "be_val (take 8 (replicate 32 1)) = 0x0101010101010101" by simp
  have r: "GetRandomSeed pad_crypto sampleSeedChain h 25 = Ret 5" for h
    using sample_GetRandomSeed [of h 24] by simp
  have "GetSeed pad_crypto sampleSeedChain (Some sampleSnapshot) (replicate 32 1) =
    Ret (Inr (of_nat (be_val (take 8 (replicate 32 1)))))"
    by (rule GetSeed_ignores_random_seed [OF _ r]) simp
  with r show ?thesis unfolding v by simp
qed

text \<open>C36: the numbers of the RANDOM instruction in one run are the consecutive outputs of the source that
  is started with the seed of the run, and none of the calls panics or fails.\<close>

theorem Random_is_source_sequence:
  assumes "GetSeed c ch sb fromHash = Ret (Inr s)"
  shows "\<exists>g xs rng. randoms c ch (Suc n) (NewVMGlobalStatus sb fromHash) = Ret (g, xs) \<and>
    outputs (Suc n) (NewSource64 (sint s)) = Ret (xs, rng)"
  using randoms_source [OF assms] by blast

theorem Random_is_source_sequence_witness:
  "\<exists>g xs rng. randoms pad_crypto sampleSeedChain 3 (NewVMGlobalStatus (Some sampleSnapshot) ZERO_HASH) = Ret (g, xs) \<and>
     outputs 3 (NewSource64 0) = Ret (xs, rng)"
proof -
  have "GetSeed pad_crypto sampleSeedChain (Some sampleSnapshot) ZERO_HASH = Ret (Inr 0)"
    using sample_GetRandomSeed [of "sb_Hash sampleSnapshot" 24]
      GetSeed_value [of pad_crypto sampleSeedChain "Some sampleSnapshot" ZERO_HASH]
    by (auto simp: GetSeed_def Let_def ZERO_HASH_def BytesToU64_def)
  from Random_is_source_sequence [OF this, of 2] show ?thesis by (simp only: numeral_2_eq_2 numeral_3_eq_3) simp
qed

text \<open>A random seed of the snapshot chain sums the seeds of at most \<open>n\<close> snapshot blocks, no two of them
  by the same producer, or is 0.\<close>

theorem GetRandomSeed_one_seed_per_producer:
  assumes "GetRandomSeed c ch snapshotHash n = Ret r" "r \<noteq> 0"
  shows "\<exists>bs ps. r = sum_list (map sb_Seed bs) \<and> map (sb_Producer c) bs = map Ret ps \<and> distinct ps \<and>
    length bs \<le> n \<and> (\<forall>b \<in> set bs. \<exists>h. sc_GetSnapshotHeaderByHeight ch h = Inr (Some b) \<and> 0 < sb_Seed b)"
  using assms by (rule GetRandomSeed_sum)

theorem GetRandomSeed_one_seed_per_producer_witness:
  "\<exists>bs. sum_list (map sb_Seed bs) = 5 \<and> length bs \<le> 25 \<and>
     (\<forall>b \<in> set bs. \<exists>h. sc_GetSnapshotHeaderByHeight sampleSeedChain h = Inr (Some b))"
  using GetRandomSeed_one_seed_per_producer [OF sample_GetRandomSeed [of ZERO_HASH 24]] by fastforce

end
