(* ===== verification/Vm_State.thy ===== *)
theory Vm_State
  imports Quota_Table Vm_Db Vm_Memory Destination Global_Status
begin

text \<open>
  The state of a VM run.  vm/util/common.go: request blocks and the data of a create-contract request;
  vm/vm.go and vm/contract.go: the \<open>VM\<close> and the \<open>contract\<close>; and the frame an instruction works on.

  \<open>env\<close> holds what a run reads and does not change: the fork points, the hash functions, the ledger, the
  growth policy of \<open>append\<close>, the snapshot chain of the random seeds, the abort flag as each iteration of
  the loop sees it, and the built-in contracts (vm/contracts), which the VM only calls through the
  interface \<open>BuiltinContractMethod\<close>.  A \<open>DoSend\<close> may rewrite the block, a \<open>DoReceive\<close> returns the blocks to
  send; both may write to the database.
\<close>

section \<open>Definitions\<close>

subsection \<open>vm/util/common.go, interfaces/core/token.go\<close>

definition ViteTokenId :: TokenTypeId where
  "ViteTokenId = [86, 73, 84, 69, 32, 84, 79, 75, 69, 78]"

definition AttovPerVite :: int where "AttovPerVite = 1000000000000000000"
definition CreateContractDataLengthMin :: nat where "CreateContractDataLengthMin = 13"
definition CreateContractDataLengthMinRand :: nat where "CreateContractDataLengthMinRand = 14"

definition IsViteToken :: "TokenTypeId \<Rightarrow> bool" where "IsViteToken tokenID \<longleftrightarrow> tokenID = ViteTokenId"
definition IsSnapshotGid :: "Gid \<Rightarrow> bool" where "IsSnapshotGid gid \<longleftrightarrow> gid = SNAPSHOT_GID"
definition IsDelegateGid :: "Gid \<Rightarrow> bool" where "IsDelegateGid gid \<longleftrightarrow> gid = DELEGATE_GID"

definition MakeRequestBlock ::
    "Address \<Rightarrow> Address \<Rightarrow> byte \<Rightarrow> int \<Rightarrow> TokenTypeId \<Rightarrow> bytes \<Rightarrow> AccountBlock" where
  "MakeRequestBlock fromAddress toAddress blockType amount tokenID data =
     AccountBlock (zeroFields\<lparr>f_AccountAddress := fromAddress, f_ToAddress := toAddress,
       f_BlockType := blockType, f_Amount := amount, f_TokenId := tokenID, f_Data := data, f_Fee := 0\<rparr>) []"

definition SolidityPPContractType :: byte where "SolidityPPContractType = 1"

definition GetCreateContractData :: "bytes \<Rightarrow> byte \<Rightarrow> byte \<Rightarrow> byte \<Rightarrow> byte \<Rightarrow> Gid \<Rightarrow> bytes" where
  "GetCreateContractData bytecode contractType snapshotCount snapshotWithSeedCount quotaMultiplier gid =
     JoinBytes [gid, [contractType], [snapshotCount], [snapshotWithSeedCount], [quotaMultiplier], bytecode]"

text \<open>\<open>data[i]\<close> and \<open>data[i:]\<close>.\<close>

definition byteAt :: "bytes \<Rightarrow> nat \<Rightarrow> byte go" where
  "byteAt data i = (if i < length data then Ret (data ! i) else Panics PanicIndex)"

definition bytesFrom :: "bytes \<Rightarrow> nat \<Rightarrow> bytes go" where
  "bytesFrom data i = (if i \<le> length data then Ret (drop i data) else Panics PanicIndex)"

definition GetGidFromCreateContractData :: "bytes \<Rightarrow> Gid go" where
  "GetGidFromCreateContractData data =
     (if length data < 10 then Panics PanicIndex else Ret (fst (BytesToGid (take 10 data))))"

definition GetContractTypeFromCreateContractData :: "bytes \<Rightarrow> byte go" where
  "GetContractTypeFromCreateContractData data = byteAt data 10"

definition IsExistContractType :: "byte \<Rightarrow> bool" where
  "IsExistContractType contractType \<longleftrightarrow> contractType = SolidityPPContractType"

definition GetSnapshotCountFromCreateContractData :: "bytes \<Rightarrow> byte go" where
  "GetSnapshotCountFromCreateContractData data = byteAt data 11"

definition GetSnapshotWithSeedCountCountFromCreateContractData :: "bytes \<Rightarrow> byte go" where
  "GetSnapshotWithSeedCountCountFromCreateContractData data = byteAt data 12"

definition GetQuotaMultiplierFromCreateContractData :: "upgradeBox \<Rightarrow> bytes \<Rightarrow> u64 \<Rightarrow> byte go" where
  "GetQuotaMultiplierFromCreateContractData upgrade data snapshotHeight =
     (if \<not> IsSeedUpgrade upgrade snapshotHeight then byteAt data 12 else byteAt data 13)"

definition GetCodeFromCreateContractData :: "upgradeBox \<Rightarrow> bytes \<Rightarrow> u64 \<Rightarrow> bytes go" where
  "GetCodeFromCreateContractData upgrade data snapshotHeight =
     (if \<not> IsSeedUpgrade upgrade snapshotHeight then bytesFrom data 13 else bytesFrom data 14)"

definition PackContractCode :: "byte \<Rightarrow> bytes \<Rightarrow> bytes" where
  "PackContractCode contractType code = JoinBytes [[contractType], code]"

definition NewContractAddress :: "crypto \<Rightarrow> Address \<Rightarrow> u64 \<Rightarrow> Hash \<Rightarrow> Address" where
  "NewContractAddress c accountAddress accountBlockHeight prevBlockHash =
     CreateContractAddress c [accountAddress, LeftPadBytes (big_Bytes (uint accountBlockHeight)) 8, prevBlockHash]"

definition CheckFork :: "Chain \<Rightarrow> vmDb \<Rightarrow> (u64 \<Rightarrow> bool) \<Rightarrow> bool go" where
  "CheckFork chain db f = go_bind (DealWithErr (vdb_LatestSnapshotBlock chain db)) (\<lambda>sb. Ret (f (sb_Height sb)))"

definition ComputeSendBlockHash :: "crypto \<Rightarrow> AccountBlock \<Rightarrow> AccountBlock \<Rightarrow> byte \<Rightarrow> Hash" where
  "ComputeSendBlockHash c receiveBlock sendBlock index = ComputeSendHash c sendBlock receiveBlock index"

subsection \<open>vm/vm.go, vm/contract.go\<close>

datatype interpreter =
    simpleInterpreter | offchainSimpleInterpreter | randInterpreter | offchainRandInterpreter
  | earthInterpreter | offchainEarthInterpreter

record VM =
  vm_sendBlockList :: "AccountBlock list"
  vm_i :: interpreter
  vm_globalStatus :: "VMGlobalStatus option"
  vm_latestSnapshotHeight :: u64
  vm_gasTable :: QuotaTable

definition AppendBlock :: "AccountBlock \<Rightarrow> VM \<Rightarrow> VM" where
  "AppendBlock block vm = vm\<lparr>vm_sendBlockList := vm_sendBlockList vm @ [block]\<rparr>"

record BuiltinContractMethod =
  GetFee :: "AccountBlock \<Rightarrow> vm_error + int"
  DoSend :: "vmDb \<Rightarrow> AccountBlock \<Rightarrow> (vmDb \<times> AccountBlock \<times> vm_error option) go"
  GetSendQuota :: "bytes \<Rightarrow> QuotaTable \<Rightarrow> vm_error + u64"
  DoReceive :: "vmDb \<Rightarrow> AccountBlock \<Rightarrow> AccountBlock \<Rightarrow> VM \<Rightarrow> (vmDb \<times> (vm_error + AccountBlock list)) go"
  GetReceiveQuota :: "QuotaTable \<Rightarrow> u64"
  GetRefundData :: "AccountBlock \<Rightarrow> u64 \<Rightarrow> bytes \<times> bool"

text \<open>\<open>GetBuiltinContractMethod\<close> answers None for an address without a built-in contract, an error for an
  unknown method, and the method otherwise.\<close>

record env =
  e_upgrade :: upgradeBox
  e_crypto :: crypto
  e_chain :: Chain
  e_growCap :: "nat \<Rightarrow> nat \<Rightarrow> nat"
  e_seedChain :: SeedChain
  e_abort :: "nat \<Rightarrow> bool"
  e_GetBuiltinContractMethod :: "Address \<Rightarrow> bytes \<Rightarrow> u64 \<Rightarrow> (vm_error + BuiltinContractMethod) option"

record contract =
  c_jumpdests :: destinations
  c_data :: bytes
  c_code :: bytes
  c_codeAddr :: Address
  c_block :: AccountBlock
  c_db :: vmDb
  c_sendBlock :: AccountBlock
  c_quotaLeft :: u64
  c_returnData :: bytes
  c_storageModified :: "int list"

definition newContract :: "AccountBlock \<Rightarrow> vmDb \<Rightarrow> AccountBlock \<Rightarrow> bytes \<Rightarrow> u64 \<Rightarrow> contract" where
  "newContract block db sendBlock data quotaLeft =
     \<lparr>c_jumpdests = [], c_data = data, c_code = [], c_codeAddr = ZERO_ADDRESS, c_block = block, c_db = db,
      c_sendBlock = sendBlock, c_quotaLeft = quotaLeft, c_returnData = [], c_storageModified = []\<rparr>"

definition getByte :: "contract \<Rightarrow> u64 \<Rightarrow> byte" where
  "getByte c n = (if unat n < length (c_code c) then c_code c ! unat n else 0)"

definition getOp :: "contract \<Rightarrow> u64 \<Rightarrow> opCode" where
  "getOp c n = getByte c n"

definition setCallCode :: "Address \<Rightarrow> bytes \<Rightarrow> contract \<Rightarrow> contract" where
  "setCallCode addr code c = c\<lparr>c_code := code, c_codeAddr := addr\<rparr>"

subsection \<open>The arguments of an instruction\<close>

record frame =
  f_pc :: u64
  f_vm :: VM
  f_c :: contract
  f_mem :: memory
  f_stack :: stack

type_synonym executionFunc = "env \<Rightarrow> frame \<Rightarrow> (frame \<times> bytes \<times> vm_error option) go"
type_synonym gasFunc = "env \<Rightarrow> frame \<Rightarrow> u64 \<Rightarrow> (frame \<times> (vm_error + u64 \<times> bool)) go"

text \<open>\<open>stack.pop()\<close>, \<open>stack.peek()\<close> and \<open>stack.back(n)\<close> of the frame's stack, the writes through the pointer
  that \<open>peek\<close> returned and through \<open>stack.push\<close>, and the statement \<open>return nil, nil\<close>.\<close>

definition popF :: "frame \<Rightarrow> (int \<Rightarrow> frame \<Rightarrow> 'a go) \<Rightarrow> 'a go" where
  "popF f k = go_bind (pop (f_stack f)) (\<lambda>(x, st). k x (f\<lparr>f_stack := st\<rparr>))"

definition peekF :: "frame \<Rightarrow> (int \<Rightarrow> 'a go) \<Rightarrow> 'a go" where
  "peekF f k = go_bind (peek (f_stack f)) k"

definition backF :: "nat \<Rightarrow> frame \<Rightarrow> (int \<Rightarrow> 'a go) \<Rightarrow> 'a go" where
  "backF n f k = go_bind (stack_back n (f_stack f)) k"

definition pokeF :: "int \<Rightarrow> frame \<Rightarrow> frame" where
  "pokeF v f = f\<lparr>f_stack := poke v (f_stack f)\<rparr>"

definition pushF :: "int \<Rightarrow> frame \<Rightarrow> frame" where
  "pushF v f = f\<lparr>f_stack := push v (f_stack f)\<rparr>"

definition ret0 :: "frame \<Rightarrow> (frame \<times> bytes \<times> vm_error option) go" where
  "ret0 f = Ret (f, [], None)"

section \<open>Lemmas\<close>

lemma popF_Cons [simp]: "f_stack f = x # st \<Longrightarrow> popF f k = k x (f\<lparr>f_stack := st\<rparr>)"
  by (simp add: popF_def)

lemma peekF_Cons [simp]: "f_stack f = x # st \<Longrightarrow> peekF f k = k x"
  by (simp add: peekF_def)

lemma backF_nth [simp]: "n < length (f_stack f) \<Longrightarrow> backF n f k = k (f_stack f ! n)"
  by (simp add: backF_def stack_back_def)

lemma pushF_stack [simp]: "pushF v f = f\<lparr>f_stack := v # f_stack f\<rparr>"
  by (simp add: pushF_def push_def)

lemma pokeF_Cons [simp]: "f_stack f = x # st \<Longrightarrow> pokeF v f = f\<lparr>f_stack := v # st\<rparr>"
  by (simp add: pokeF_def)

lemma length_ViteTokenId [simp]: "length ViteTokenId = 10"
  by (simp add: ViteTokenId_def)

text \<open>The fields of a request block.\<close>

lemma MakeRequestBlock_fields [simp]:
  "ab_AccountAddress (MakeRequestBlock from to t a tok d) = from"
  "ab_ToAddress (MakeRequestBlock from to t a tok d) = to"
  "ab_BlockType (MakeRequestBlock from to t a tok d) = t"
  "ab_Amount (MakeRequestBlock from to t a tok d) = a"
  "ab_TokenId (MakeRequestBlock from to t a tok d) = tok"
  "ab_Data (MakeRequestBlock from to t a tok d) = d"
  "ab_Fee (MakeRequestBlock from to t a tok d) = 0"
  "ab_SendBlockList (MakeRequestBlock from to t a tok d) = []"
  by (simp_all add: MakeRequestBlock_def)

text \<open>The decoders of the create-contract data, after the seed fork, on what the encoder wrote.\<close>

lemma create_data_decode:
  assumes "length gid = 10" "IsSeedUpgrade upgrade h" "data = GetCreateContractData code ctype n seedN q gid"
  shows "GetGidFromCreateContractData data = Ret gid"
    "GetContractTypeFromCreateContractData data = Ret ctype"
    "GetSnapshotCountFromCreateContractData data = Ret n"
    "GetSnapshotWithSeedCountCountFromCreateContractData data = Ret seedN"
    "GetQuotaMultiplierFromCreateContractData upgrade data h = Ret q"
    "GetCodeFromCreateContractData upgrade data h = Ret code"
  using assms
  by (simp_all add: GetCreateContractData_def JoinBytes_def GetGidFromCreateContractData_def
      GetContractTypeFromCreateContractData_def GetSnapshotCountFromCreateContractData_def
      GetSnapshotWithSeedCountCountFromCreateContractData_def GetQuotaMultiplierFromCreateContractData_def
      GetCodeFromCreateContractData_def byteAt_def bytesFrom_def nth_append)

section \<open>Properties\<close>



end
