(* ===== verification/Gas_Table.thy ===== *)
theory Gas_Table
  imports Vm_State
begin

text \<open>
  vm/gas_table.go: the price of every instruction and of a block.  A gas function may also change the frame:
  \<open>memoryGasCost\<close> remembers the fee of the memory in \<open>lastGasCost\<close> and \<open>gasSStore\<close> collects the modified
  keys.  It returns the quota and a flag, True to charge it and False to give it back, or an error.

  The lemmas give a lower bound for every price (nothing that keeps the program running is free, except a
  write to storage and a call), what a gas function may change of the frame, and the bound on the memory
  that \<open>memoryGasCost\<close> admits.
\<close>

section \<open>Definitions\<close>

definition tableGas :: "(QuotaTable \<Rightarrow> u64) \<Rightarrow> frame \<Rightarrow> (frame \<times> (vm_error + u64 \<times> bool)) go" where
  "tableGas q f = Ret (f, Inr (q (vm_gasTable (f_vm f)), True))"

definition memoryGasCost :: "frame \<Rightarrow> u64 \<Rightarrow> (frame \<times> (vm_error + u64 \<times> bool)) go" where
  "memoryGasCost f newMemSize =
     (if newMemSize = 0 then Ret (f, Inr (0, True))
      else if newMemSize > 0xffffffffe0 then Ret (f, Inl ErrGasUintOverflow)
      else
        let newMemSizeWords = ToWordSize newMemSize;
            newMemSize = newMemSizeWords * 32
        in if unat newMemSize > mem_len (f_mem f)
           then if MemQuotaDivision (vm_gasTable (f_vm f)) = 0 then Panics PanicDivide
                else
                  let square = newMemSizeWords * newMemSizeWords;
                      linCoef = newMemSizeWords * MemQuota (vm_gasTable (f_vm f));
                      quadCoef = square div MemQuotaDivision (vm_gasTable (f_vm f));
                      newTotalFee = linCoef + quadCoef;
                      fee = newTotalFee - lastGasCost (f_mem f)
                  in Ret (f\<lparr>f_mem := (f_mem f)\<lparr>lastGasCost := newTotalFee\<rparr>\<rparr>, Inr (fee, True))
           else Ret (f, Inr (0, True)))"

text \<open>\<open>gas, _, err := memoryGasCost(...)\<close> with the error returned, and a \<open>SafeAdd\<close>, \<open>SafeMul\<close> or \<open>BigUint64\<close>
  whose overflow is \<open>ErrGasUintOverflow\<close>.\<close>

definition withMemGas ::
    "frame \<Rightarrow> u64 \<Rightarrow> (frame \<Rightarrow> u64 \<Rightarrow> (frame \<times> (vm_error + u64 \<times> bool)) go) \<Rightarrow>
     (frame \<times> (vm_error + u64 \<times> bool)) go" where
  "withMemGas f memorySize k =
     go_bind (memoryGasCost f memorySize) (\<lambda>(f', r).
       case r of Inl err \<Rightarrow> Ret (f', Inl err) | Inr (gas, _) \<Rightarrow> k f' gas)"

definition noOverflow ::
    "frame \<Rightarrow> u64 \<times> bool \<Rightarrow> (u64 \<Rightarrow> (frame \<times> (vm_error + u64 \<times> bool)) go) \<Rightarrow>
     (frame \<times> (vm_error + u64 \<times> bool)) go" where
  "noOverflow f r k = (let (v, overflow) = r in if overflow then Ret (f, Inl ErrGasUintOverflow) else k v)"

definition charge :: "frame \<Rightarrow> u64 \<Rightarrow> (frame \<times> (vm_error + u64 \<times> bool)) go" where
  "charge f gas = Ret (f, Inr (gas, True))"

definition constGasFunc :: "u64 \<Rightarrow> gasFunc" where
  "constGasFunc gas env f memorySize = charge f gas"

definition gasAdd :: gasFunc where "gasAdd env f memorySize = tableGas AddQuota f"
definition gasMul :: gasFunc where "gasMul env f memorySize = tableGas MulQuota f"
definition gasSub :: gasFunc where "gasSub env f memorySize = tableGas SubQuota f"
definition gasDiv :: gasFunc where "gasDiv env f memorySize = tableGas DivQuota f"
definition gasSdiv :: gasFunc where "gasSdiv env f memorySize = tableGas SDivQuota f"
definition gasMod :: gasFunc where "gasMod env f memorySize = tableGas ModQuota f"
definition gasSmod :: gasFunc where "gasSmod env f memorySize = tableGas SModQuota f"
definition gasAddmod :: gasFunc where "gasAddmod env f memorySize = tableGas AddModQuota f"
definition gasMulmod :: gasFunc where "gasMulmod env f memorySize = tableGas MulModQuota f"
definition gasSignextend :: gasFunc where "gasSignextend env f memorySize = tableGas SignExtendQuota f"
definition gasLt :: gasFunc where "gasLt env f memorySize = tableGas LtQuota f"
definition gasGt :: gasFunc where "gasGt env f memorySize = tableGas GtQuota f"
definition gasSlt :: gasFunc where "gasSlt env f memorySize = tableGas SltQuota f"
definition gasSgt :: gasFunc where "gasSgt env f memorySize = tableGas SgtQuota f"
definition gasEq :: gasFunc where "gasEq env f memorySize = tableGas EqQuota f"
definition gasIszero :: gasFunc where "gasIszero env f memorySize = tableGas IsZeroQuota f"
definition gasAnd :: gasFunc where "gasAnd env f memorySize = tableGas AndQuota f"
definition gasOr :: gasFunc where "gasOr env f memorySize = tableGas OrQuota f"
definition gasXor :: gasFunc where "gasXor env f memorySize = tableGas XorQuota f"
definition gasNot :: gasFunc where "gasNot env f memorySize = tableGas NotQuota f"
definition gasByte :: gasFunc where "gasByte env f memorySize = tableGas ByteQuota f"
definition gasShl :: gasFunc where "gasShl env f memorySize = tableGas ShlQuota f"
definition gasShr :: gasFunc where "gasShr env f memorySize = tableGas ShrQuota f"
definition gasSar :: gasFunc where "gasSar env f memorySize = tableGas SarQuota f"
definition gasAddress :: gasFunc where "gasAddress env f memorySize = tableGas AddressOpQuota f"
definition gasBalance :: gasFunc where "gasBalance env f memorySize = tableGas BalanceQuota f"
definition gasCaller :: gasFunc where "gasCaller env f memorySize = tableGas CallerQuota f"
definition gasCallvalue :: gasFunc where "gasCallvalue env f memorySize = tableGas CallValueQuota f"
definition gasCalldataload :: gasFunc where "gasCalldataload env f memorySize = tableGas CallDataLoadQuota f"
definition gasCalldatasize :: gasFunc where "gasCalldatasize env f memorySize = tableGas CallDataSizeQuota f"
definition gasCodesize :: gasFunc where "gasCodesize env f memorySize = tableGas CodeSizeQuota f"
definition gasReturndatasize :: gasFunc where "gasReturndatasize env f memorySize = tableGas ReturnDataSizeQuota f"
definition gasTimestamp :: gasFunc where "gasTimestamp env f memorySize = tableGas TimestampQuota f"
definition gasHeight :: gasFunc where "gasHeight env f memorySize = tableGas HeightQuota f"
definition gasTokenid :: gasFunc where "gasTokenid env f memorySize = tableGas TokenIDQuota f"
definition gasAccountheight :: gasFunc where "gasAccountheight env f memorySize = tableGas AccountHeightQuota f"
definition gasPrevhash :: gasFunc where "gasPrevhash env f memorySize = tableGas PreviousHashQuota f"
definition gasFromhash :: gasFunc where "gasFromhash env f memorySize = tableGas FromBlockHashQuota f"
definition gasSeed :: gasFunc where "gasSeed env f memorySize = tableGas SeedQuota f"
definition gasRandom :: gasFunc where "gasRandom env f memorySize = tableGas RandomQuota f"
definition gasPop :: gasFunc where "gasPop env f memorySize = tableGas PopQuota f"
definition gasSload :: gasFunc where "gasSload env f memorySize = tableGas SloadQuota f"
definition gasJump :: gasFunc where "gasJump env f memorySize = tableGas JumpQuota f"
definition gasJumpi :: gasFunc where "gasJumpi env f memorySize = tableGas JumpiQuota f"
definition gasPc :: gasFunc where "gasPc env f memorySize = tableGas PcQuota f"
definition gasMsize :: gasFunc where "gasMsize env f memorySize = tableGas MsizeQuota f"
definition gasJumpdest :: gasFunc where "gasJumpdest env f memorySize = tableGas JumpdestQuota f"
definition gasExp :: gasFunc where
  "gasExp env f memorySize =
     backF 1 f (\<lambda>exponent.
       let expByteLen = of_nat ((big_BitLen exponent + 7) div 8);
           gas = expByteLen * ExpByteQuota (vm_gasTable (f_vm f))
       in noOverflow f (SafeAdd gas (ExpQuota (vm_gasTable (f_vm f)))) (charge f))"

definition gasBlake2b :: gasFunc where
  "gasBlake2b env f memorySize =
     withMemGas f memorySize (\<lambda>f gas.
     noOverflow f (SafeAdd gas (Blake2bQuota (vm_gasTable (f_vm f)))) (\<lambda>gas.
     backF 1 f (\<lambda>len.
     noOverflow f (BigUint64 len) (\<lambda>wordGas.
     noOverflow f (SafeMul (ToWordSize wordGas) (Blake2bWordQuota (vm_gasTable (f_vm f)))) (\<lambda>wordGas.
     noOverflow f (SafeAdd gas wordGas) (charge f))))))"

definition gasCallDataCopy :: gasFunc where
  "gasCallDataCopy env f memorySize =
     withMemGas f memorySize (\<lambda>f gas.
     noOverflow f (SafeAdd gas (CallDataCopyQuota (vm_gasTable (f_vm f)))) (\<lambda>gas.
     backF 2 f (\<lambda>len.
     noOverflow f (BigUint64 len) (\<lambda>words.
     noOverflow f (SafeMul (ToWordSize words) (MemCopyWordQuota (vm_gasTable (f_vm f)))) (\<lambda>words.
     noOverflow f (SafeAdd gas words) (charge f))))))"

definition gasCodeCopy :: gasFunc where
  "gasCodeCopy env f memorySize =
     withMemGas f memorySize (\<lambda>f gas.
     noOverflow f (SafeAdd gas (CodeCopyQuota (vm_gasTable (f_vm f)))) (\<lambda>gas.
     backF 2 f (\<lambda>len.
     noOverflow f (BigUint64 len) (\<lambda>wordGas.
     noOverflow f (SafeMul (ToWordSize wordGas) (MemCopyWordQuota (vm_gasTable (f_vm f)))) (\<lambda>wordGas.
     noOverflow f (SafeAdd gas wordGas) (charge f))))))"

definition gasReturnDataCopy :: gasFunc where
  "gasReturnDataCopy env f memorySize =
     withMemGas f memorySize (\<lambda>f gas.
     noOverflow f (SafeAdd gas (ReturnDataCopyQuota (vm_gasTable (f_vm f)))) (\<lambda>gas.
     backF 2 f (\<lambda>len.
     noOverflow f (BigUint64 len) (\<lambda>words.
     noOverflow f (SafeMul (ToWordSize words) (MemCopyWordQuota (vm_gasTable (f_vm f)))) (\<lambda>words.
     noOverflow f (SafeAdd gas words) (charge f))))))"

text \<open>The only error of \<open>memoryGasCost\<close> is the one these three return.\<close>

definition gasMLoad :: gasFunc where
  "gasMLoad env f memorySize =
     withMemGas f memorySize (\<lambda>f gas. noOverflow f (SafeAdd gas (MloadQuota (vm_gasTable (f_vm f)))) (charge f))"

definition gasMStore :: gasFunc where
  "gasMStore env f memorySize =
     withMemGas f memorySize (\<lambda>f gas. noOverflow f (SafeAdd gas (MstoreQuota (vm_gasTable (f_vm f)))) (charge f))"

definition gasMStore8 :: gasFunc where
  "gasMStore8 env f memorySize =
     withMemGas f memorySize (\<lambda>f gas. noOverflow f (SafeAdd gas (Mstore8Quota (vm_gasTable (f_vm f)))) (charge f))"

definition contractModifyStorageMax :: nat where "contractModifyStorageMax = 100"

text \<open>The price of a storage write from the original, the current and the new value of the key; the flag is
  False when the difference is refunded.\<close>

definition sstoreGas :: "QuotaTable \<Rightarrow> bytes \<Rightarrow> bytes \<Rightarrow> int \<Rightarrow> u64 \<times> bool" where
  "sstoreGas qt originalValue currentValue newValue =
     (if originalValue = currentValue
      then if length originalValue = 0 then (SstoreInitQuota qt, True)
           else if newValue = 0 then (SstoreCleanQuota qt, True)
           else (SstoreResetQuota qt, True)
      else if originalValue = big_Bytes newValue
      then if length originalValue = 0
           then (SstoreInitQuota qt - SstoreMemQuota qt - SstoreNoopQuota qt, False)
           else if length currentValue = 0
           then (SstoreNoopQuota qt + SstoreMemQuota qt - SstoreCleanQuota qt, True)
           else (SstoreResetQuota qt - SstoreMemQuota qt - SstoreNoopQuota qt, False)
      else if length originalValue > 0 \<and> length currentValue = 0 \<and> newValue > 0
      then (SstoreResetQuota qt + SstoreMemQuota qt - SstoreCleanQuota qt, True)
      else if length originalValue > 0 \<and> length currentValue > 0 \<and> newValue = 0
      then (SstoreResetQuota qt - SstoreMemQuota qt - SstoreCleanQuota qt, False)
      else (SstoreMemQuota qt, True))"

definition gasSStore :: gasFunc where
  "gasSStore env f memorySize =
     backF 1 f (\<lambda>newValue. backF 0 f (\<lambda>loc.
       let locHash = fst (BigToHash loc);
           earth = IsEarthUpgrade (e_upgrade env) (vm_latestSnapshotHeight (f_vm f));
           f = (if earth
                then f\<lparr>f_c := (f_c f)\<lparr>c_storageModified := List.insert loc (c_storageModified (f_c f))\<rparr>\<rparr> else f)
       in if earth \<and> length (c_storageModified (f_c f)) > contractModifyStorageMax
          then Ret (f, Inl ErrStorageModifyLimitReached)
          else
            go_bind (util_GetValue (e_chain env) (c_db (f_c f)) locHash) (\<lambda>currentValue.
              if currentValue = big_Bytes newValue then charge f (SstoreNoopQuota (vm_gasTable (f_vm f)))
              else
                go_bind (go_bind (vdb_GetOriginalValue (e_chain env) (c_db (f_c f)) locHash) DealWithErr)
                  (\<lambda>originalValue.
                     Ret (f, Inr (sstoreGas (vm_gasTable (f_vm f)) originalValue currentValue newValue))))))"

definition gasPush :: gasFunc where "gasPush env f memorySize = tableGas PushQuota f"
definition gasDup :: gasFunc where "gasDup env f memorySize = tableGas DupQuota f"
definition gasSwap :: gasFunc where "gasSwap env f memorySize = tableGas SwapQuota f"
definition makeGasLog :: "nat \<Rightarrow> gasFunc" where
  "makeGasLog n env f memorySize =
     backF 1 f (\<lambda>len.
     noOverflow f (BigUint64 len) (\<lambda>requestedSize.
     withMemGas f memorySize (\<lambda>f gas.
     noOverflow f (SafeAdd gas (LogQuota (vm_gasTable (f_vm f)))) (\<lambda>gas.
     noOverflow f (SafeAdd gas (of_nat n * LogTopicQuota (vm_gasTable (f_vm f)))) (\<lambda>gas.
     noOverflow f (SafeMul requestedSize (LogDataQuota (vm_gasTable (f_vm f)))) (\<lambda>memorySizeGas.
     noOverflow f (SafeAdd gas memorySizeGas) (charge f)))))))"

definition gasSendCreate :: "AccountBlock \<Rightarrow> QuotaTable \<Rightarrow> vm_error + u64" where
  "gasSendCreate block gasTable = BlockGasCost (ab_Data block) (CreateTxRequestQuota gasTable) 0 gasTable"

definition gasReceiveCreate :: "AccountBlock \<Rightarrow> ContractMeta option \<Rightarrow> QuotaTable \<Rightarrow> vm_error + u64" where
  "gasReceiveCreate block meta gasTable =
     (let snapshotCount = (case meta of None \<Rightarrow> 0 | Some m \<Rightarrow> cm_SendConfirmedTimes m)
      in BlockGasCost [] (CreateTxResponseQuota gasTable) snapshotCount gasTable)"

definition gasReceive :: "AccountBlock \<Rightarrow> ContractMeta option \<Rightarrow> QuotaTable \<Rightarrow> vm_error + u64" where
  "gasReceive block meta gasTable =
     (let snapshotCount = (case meta of None \<Rightarrow> 0 | Some m \<Rightarrow> cm_SendConfirmedTimes m)
      in BlockGasCost [] (TxQuota gasTable) snapshotCount gasTable)"

definition gasSendCall :: "AccountBlock \<Rightarrow> QuotaTable \<Rightarrow> vm_error + u64" where
  "gasSendCall block gasTable = BlockGasCost (ab_Data block) (TxQuota gasTable) 0 gasTable"

definition gasUserSendCall :: "env \<Rightarrow> AccountBlock \<Rightarrow> QuotaTable \<Rightarrow> u64 \<Rightarrow> vm_error + u64" where
  "gasUserSendCall env block gasTable sbHeight =
     (if IsBuiltinContractAddrInUse (ab_ToAddress block)
      then case e_GetBuiltinContractMethod env (ab_ToAddress block) (ab_Data block) sbHeight of
             Some (Inr method) \<Rightarrow> GetSendQuota method (ab_Data block) gasTable
           | _ \<Rightarrow> Inl ErrAbiMethodNotFound
      else gasSendCall block gasTable)"

definition gasRequiredForSendBlock :: "env \<Rightarrow> AccountBlock \<Rightarrow> QuotaTable \<Rightarrow> u64 \<Rightarrow> vm_error + u64" where
  "gasRequiredForSendBlock env block gasTable sbHeight =
     (if ab_BlockType block = BlockTypeSendCreate then gasSendCreate block gasTable
      else if ab_BlockType block = BlockTypeSendCall then gasUserSendCall env block gasTable sbHeight
      else Inl ErrBlockTypeNotSupported)"

definition getQuotaMultiplierBySnapshotBlock ::
    "env \<Rightarrow> vmDb \<Rightarrow> Address \<Rightarrow> SnapshotBlock \<Rightarrow> (vm_error + byte) go" where
  "getQuotaMultiplierBySnapshotBlock env db toAddr snapshotBlock =
     go_bind (DealWithErr (vdb_GetContractMetaInSnapshot (e_chain env) db toAddr snapshotBlock)) (\<lambda>meta.
       case meta of None \<Rightarrow> Ret (Inl ErrContractNotExists) | Some m \<Rightarrow> Ret (Inr (cm_QuotaRatio m)))"

definition getQuotaMultiplierForS :: "env \<Rightarrow> vmDb \<Rightarrow> Address \<Rightarrow> (vm_error + byte) go" where
  "getQuotaMultiplierForS env db toAddr =
     (if \<not> IsContractAddr toAddr then Ret (Inr CommonQuotaMultiplier)
      else go_bind (DealWithErr (vdb_LatestSnapshotBlock (e_chain env) db)) (\<lambda>sb.
             getQuotaMultiplierBySnapshotBlock env db toAddr sb))"

definition statusSnapshotBlock :: "VMGlobalStatus option \<Rightarrow> SnapshotBlock option" where
  "statusSnapshotBlock status = (case status of None \<Rightarrow> None | Some g \<Rightarrow> gs_SnapshotBlock g)"

definition getQuotaMultiplierForRS ::
    "env \<Rightarrow> vmDb \<Rightarrow> Address \<Rightarrow> AccountBlock \<Rightarrow> VMGlobalStatus option \<Rightarrow> (vm_error + byte) go" where
  "getQuotaMultiplierForRS env db toAddr sendBlock status =
     (if \<not> IsContractAddr toAddr then Ret (Inr CommonQuotaMultiplier)
      else case statusSnapshotBlock status of
        Some sb \<Rightarrow> getQuotaMultiplierBySnapshotBlock env db toAddr sb
      | None \<Rightarrow>
          go_bind (DealWithErr (vdb_GetConfirmSnapshotHeader (e_chain env) db (ab_Hash sendBlock))) (\<lambda>confirmSb.
            case confirmSb of
              Some sb \<Rightarrow> getQuotaMultiplierBySnapshotBlock env db toAddr sb
            | None \<Rightarrow>
                go_bind (DealWithErr (vdb_LatestSnapshotBlock (e_chain env) db)) (\<lambda>sb.
                go_bind (DealWithErr (vdb_GetContractMetaInSnapshot (e_chain env) db toAddr sb)) (\<lambda>meta.
                  case meta of
                    Some m \<Rightarrow> Ret (Inr (cm_QuotaRatio m))
                  | None \<Rightarrow> Ret (Inl ErrNoReliableStatus)))))"

definition GasRequiredForBlock :: "env \<Rightarrow> vmDb \<Rightarrow> AccountBlock \<Rightarrow> QuotaTable \<Rightarrow> u64 \<Rightarrow> (vm_error + u64) go" where
  "GasRequiredForBlock env db block gasTable sbHeight =
     (if ab_BlockType block = BlockTypeReceive then Ret (gasReceive block None gasTable)
      else case gasRequiredForSendBlock env block gasTable sbHeight of
        Inl err \<Rightarrow> Ret (Inl err)
      | Inr cost \<Rightarrow>
          if ab_BlockType block \<noteq> BlockTypeSendCall then Ret (Inr cost)
          else go_bind (getQuotaMultiplierForS env db (ab_ToAddress block)) (\<lambda>r.
                 case r of
                   Inl err \<Rightarrow> Ret (Inl err)
                 | Inr quotaMultiplier \<Rightarrow> Ret (MultipleCost cost quotaMultiplier)))"

text \<open>The last part of \<open>gasCall\<close>: the price of the send block beyond \<open>CallMinusQuota\<close>.\<close>

definition callGas :: "frame \<Rightarrow> u64 \<Rightarrow> u64 \<Rightarrow> (frame \<times> (vm_error + u64 \<times> bool)) go" where
  "callGas f gas cost =
     (if cost > CallMinusQuota (vm_gasTable (f_vm f))
      then noOverflow f (SafeAdd gas (cost - CallMinusQuota (vm_gasTable (f_vm f)))) (charge f)
      else charge f gas)"

text \<open>The price of the request block, scaled by the quota multiplier of the callee.\<close>

definition callBlockGas :: "env \<Rightarrow> frame \<Rightarrow> u64 \<Rightarrow> Address \<Rightarrow> AccountBlock \<Rightarrow> (frame \<times> (vm_error + u64 \<times> bool)) go" where
  "callBlockGas env f gas toAddress block =
     (case gasRequiredForSendBlock env block (vm_gasTable (f_vm f)) (vm_latestSnapshotHeight (f_vm f)) of
        Inl err \<Rightarrow> Ret (f, Inl err)
      | Inr cost \<Rightarrow>
          go_bind (getQuotaMultiplierForRS env (c_db (f_c f)) toAddress (c_sendBlock (f_c f))
                     (vm_globalStatus (f_vm f))) (\<lambda>r.
            case r of
              Inl err \<Rightarrow> Ret (f, Inl err)
            | Inr quotaMultiplier \<Rightarrow>
                (case MultipleCost cost quotaMultiplier of
                   Inl err \<Rightarrow> Ret (f, Inl err)
                 | Inr cost \<Rightarrow> callGas f gas cost)))"

definition gasCall :: gasFunc where
  "gasCall env f memorySize =
     withMemGas f memorySize (\<lambda>f gas.
     backF 0 f (\<lambda>toAddrBig. backF 1 f (\<lambda>tokenIDBig. backF 2 f (\<lambda>amount.
     backF 3 f (\<lambda>inOffset. backF 4 f (\<lambda>inSize.
       let toAddress = fst (BigToAddress toAddrBig);
           tokenID = fst (BigToTokenTypeId tokenIDBig)
       in go_bind (mem_get (f_mem f) (big_Int64 inOffset) (big_Int64 inSize)) (\<lambda>data.
            callBlockGas env f gas toAddress
              (MakeRequestBlock (ab_AccountAddress (c_block (f_c f))) toAddress BlockTypeSendCall amount tokenID data))))))))"

definition gasCall2 :: gasFunc where
  "gasCall2 env f memorySize = gasCall env f memorySize"

definition gasReturn :: gasFunc where
  "gasReturn env f memorySize = memoryGasCost f memorySize"

definition gasRevert :: gasFunc where
  "gasRevert env f memorySize = memoryGasCost f memorySize"

section \<open>What a gas function does to the frame\<close>

definition gas_frame :: "frame \<Rightarrow> frame \<Rightarrow> bool" where
  "gas_frame f f' \<longleftrightarrow> f' = f\<lparr>f_mem := (f_mem f)\<lparr>lastGasCost := lastGasCost (f_mem f')\<rparr>,
     f_c := (f_c f)\<lparr>c_storageModified := c_storageModified (f_c f')\<rparr>\<rparr> \<and>
     set (c_storageModified (f_c f)) \<subseteq> set (c_storageModified (f_c f'))"

lemma gas_frame_refl [simp]: "gas_frame f f"
  by (simp add: gas_frame_def)

lemma gas_frame_mem [simp]: "gas_frame f (f\<lparr>f_mem := (f_mem f)\<lparr>lastGasCost := x\<rparr>\<rparr>)"
  by (simp add: gas_frame_def)

lemma gas_frame_modified [simp]:
  "gas_frame f (f\<lparr>f_c := (f_c f)\<lparr>c_storageModified := List.insert loc (c_storageModified (f_c f))\<rparr>\<rparr>)"
  by (auto simp: gas_frame_def)

lemma gas_frame_same:
  assumes "gas_frame f f'"
  shows "f_pc f' = f_pc f" "f_vm f' = f_vm f" "f_stack f' = f_stack f" "mem_store (f_mem f') = mem_store (f_mem f)"
    "mem_cap (f_mem f') = mem_cap (f_mem f)" "c_jumpdests (f_c f') = c_jumpdests (f_c f)"
    "c_data (f_c f') = c_data (f_c f)" "c_code (f_c f') = c_code (f_c f)" "c_codeAddr (f_c f') = c_codeAddr (f_c f)"
    "c_block (f_c f') = c_block (f_c f)" "c_db (f_c f') = c_db (f_c f)" "c_sendBlock (f_c f') = c_sendBlock (f_c f)"
    "c_quotaLeft (f_c f') = c_quotaLeft (f_c f)" "c_returnData (f_c f') = c_returnData (f_c f)"
  by (subst assms [unfolded gas_frame_def, THEN conjunct1], simp)+

lemma gas_frame_subset: "gas_frame f f' \<Longrightarrow> set (c_storageModified (f_c f)) \<subseteq> set (c_storageModified (f_c f'))"
  by (simp add: gas_frame_def)

text \<open>The result of a gas function: no panic, only the two fields change, and \<open>P\<close> holds of the price.\<close>

definition gas_post :: "frame \<Rightarrow> (u64 \<Rightarrow> bool \<Rightarrow> bool) \<Rightarrow> (frame \<times> (vm_error + u64 \<times> bool)) go \<Rightarrow> bool" where
  "gas_post f0 P m \<longleftrightarrow> (\<exists>f' r. m = Ret (f', r) \<and> gas_frame f0 f' \<and> (\<forall>c fl. r = Inr (c, fl) \<longrightarrow> P c fl))"

named_theorems gas_rules "rules that decompose a gas function"

lemma gas_post_charge [gas_rules]: "gas_frame f0 f \<Longrightarrow> P g True \<Longrightarrow> gas_post f0 P (charge f g)"
  by (simp add: gas_post_def charge_def)

lemma gas_post_noOverflow [gas_rules]:
  assumes "gas_frame f0 f" "\<And>v. r = (v, False) \<Longrightarrow> gas_post f0 P (k v)"
  shows "gas_post f0 P (noOverflow f r k)"
proof (cases r)
  case (Pair v b)
  with assms show ?thesis by (cases b) (simp_all add: noOverflow_def gas_post_def)
qed

lemma gas_post_backF [gas_rules]:
  "n < length (f_stack f) \<Longrightarrow> gas_post f0 P (k (f_stack f ! n)) \<Longrightarrow> gas_post f0 P (backF n f k)"
  by simp

lemma memoryGasCost_post:
  assumes "quota_table (vm_gasTable (f_vm f))"
  shows "gas_post f (\<lambda>c fl. fl \<and> unat ms \<le> 0xffffffffe0) (memoryGasCost f ms)"
proof -
  have "0 < MemQuotaDivision (vm_gasTable (f_vm f))"
    using assms by (rule quota_table.positive) (simp add: positiveCosts_def)
  then have "MemQuotaDivision (vm_gasTable (f_vm f)) \<noteq> 0" by auto
  moreover have "\<not> ms > 0xffffffffe0 \<Longrightarrow> unat ms \<le> 0xffffffffe0" by (simp add: word_less_nat_alt)
  ultimately show ?thesis
    by (auto simp: gas_post_def memoryGasCost_def Let_def)
qed

lemma gas_post_withMemGas [gas_rules]:
  assumes "quota_table (vm_gasTable (f_vm f))"
    and "\<And>f' g. gas_frame f f' \<Longrightarrow> unat ms \<le> 0xffffffffe0 \<Longrightarrow> gas_post f P (k f' g)"
  shows "gas_post f P (withMemGas f ms k)"
proof -
  from memoryGasCost_post [OF assms(1), of ms] obtain f' r where m: "memoryGasCost f ms = Ret (f', r)" "gas_frame f f'"
    "\<And>c fl. r = Inr (c, fl) \<Longrightarrow> fl \<and> unat ms \<le> 0xffffffffe0"
    by (auto simp: gas_post_def)
  show ?thesis
  proof (cases r)
    case (Inl e)
    with m show ?thesis by (simp add: withMemGas_def gas_post_def)
  next
    case (Inr p)
    with m assms(2) [of f'] show ?thesis by (cases p) (auto simp: withMemGas_def)
  qed
qed

lemma SafeAdd_Pair: "SafeAdd x y = (v, False) \<Longrightarrow> unat v = unat x + unat y"
  using SafeAdd_exact [of x y] by simp

text \<open>A price that is positive, for an instruction with \<open>n\<close> operands.\<close>

definition priced :: "gasFunc \<Rightarrow> nat \<Rightarrow> bool" where
  "priced g n \<longleftrightarrow> (\<forall>env f ms. quota_table (vm_gasTable (f_vm f)) \<longrightarrow> n \<le> length (f_stack f) \<longrightarrow>
     gas_post f (\<lambda>c fl. fl \<and> c \<noteq> 0) (g env f ms))"

lemma tableGas_post:
  "q \<in> set positiveCosts \<Longrightarrow> quota_table (vm_gasTable (f_vm f)) \<Longrightarrow> gas_post f (\<lambda>c fl. fl \<and> c \<noteq> 0) (tableGas q f)"
  using quota_table.positive [of "vm_gasTable (f_vm f)" q]
  by (auto simp: gas_post_def tableGas_def)

lemma priced_table:
  "priced gasAdd n"
  "priced gasMul n"
  "priced gasSub n"
  "priced gasDiv n"
  "priced gasSdiv n"
  "priced gasMod n"
  "priced gasSmod n"
  "priced gasAddmod n"
  "priced gasMulmod n"
  "priced gasSignextend n"
  "priced gasLt n"
  "priced gasGt n"
  "priced gasSlt n"
  "priced gasSgt n"
  "priced gasEq n"
  "priced gasIszero n"
  "priced gasAnd n"
  "priced gasOr n"
  "priced gasXor n"
  "priced gasNot n"
  "priced gasByte n"
  "priced gasShl n"
  "priced gasShr n"
  "priced gasSar n"
  "priced gasAddress n"
  "priced gasBalance n"
  "priced gasCaller n"
  "priced gasCallvalue n"
  "priced gasCalldataload n"
  "priced gasCalldatasize n"
  "priced gasCodesize n"
  "priced gasReturndatasize n"
  "priced gasTimestamp n"
  "priced gasHeight n"
  "priced gasTokenid n"
  "priced gasAccountheight n"
  "priced gasPrevhash n"
  "priced gasFromhash n"
  "priced gasSeed n"
  "priced gasRandom n"
  "priced gasPop n"
  "priced gasSload n"
  "priced gasJump n"
  "priced gasJumpi n"
  "priced gasPc n"
  "priced gasMsize n"
  "priced gasJumpdest n"
  "priced gasPush n"
  "priced gasDup n"
  "priced gasSwap n"
  by (simp_all add: priced_def tableGas_post positiveCosts_def
      gasAdd_def gasMul_def gasSub_def gasDiv_def gasSdiv_def gasMod_def gasSmod_def gasAddmod_def
      gasMulmod_def gasSignextend_def gasLt_def gasGt_def gasSlt_def gasSgt_def gasEq_def gasIszero_def
      gasAnd_def gasOr_def gasXor_def gasNot_def gasByte_def gasShl_def gasShr_def gasSar_def
      gasAddress_def gasBalance_def gasCaller_def gasCallvalue_def gasCalldataload_def gasCalldatasize_def
      gasCodesize_def gasReturndatasize_def gasTimestamp_def gasHeight_def gasTokenid_def
      gasAccountheight_def gasPrevhash_def gasFromhash_def gasSeed_def gasRandom_def gasPop_def
      gasSload_def gasJump_def gasJumpi_def gasPc_def gasMsize_def gasJumpdest_def gasPush_def gasDup_def
      gasSwap_def)

lemma SafeAdd_zero: "SafeAdd x y = (0, False) \<Longrightarrow> x = 0 \<and> y = 0"
  using SafeAdd_Pair [of x y 0] by (auto simp: word_unat_eq_iff)

lemma positive_price: "quota_table qt \<Longrightarrow> q \<in> set positiveCosts \<Longrightarrow> q qt \<noteq> 0"
  using quota_table.positive [of qt q] by auto

text \<open>The instructions that pay for memory: they fail above the bound.\<close>

definition priced_mem :: "gasFunc \<Rightarrow> nat \<Rightarrow> bool" where
  "priced_mem g n \<longleftrightarrow> (\<forall>env f ms. quota_table (vm_gasTable (f_vm f)) \<longrightarrow> n \<le> length (f_stack f) \<longrightarrow>
     gas_post f (\<lambda>c fl. fl \<and> c \<noteq> 0 \<and> unat ms \<le> 0xffffffffe0) (g env f ms))"

lemma gas_post_mono: "gas_post f P m \<Longrightarrow> (\<And>c fl. P c fl \<Longrightarrow> Q c fl) \<Longrightarrow> gas_post f Q m"
  by (force simp: gas_post_def)

lemma priced_mem_priced: "priced_mem g n \<Longrightarrow> priced g n"
  unfolding priced_mem_def priced_def by (blast intro: gas_post_mono)

lemma priced_gasExp: "priced gasExp 2"
proof -
  have "gas_post f (\<lambda>c fl. fl \<and> c \<noteq> 0) (gasExp env f ms)"
    if "quota_table (vm_gasTable (f_vm f))" "2 \<le> length (f_stack f)" for env f ms
  proof -
    have "ExpQuota (vm_gasTable (f_vm f)) \<noteq> 0" using that(1) by (rule positive_price) (simp add: positiveCosts_def)
    with that show ?thesis
      unfolding gasExp_def Let_def by (intro gas_rules) (auto dest: SafeAdd_zero)
  qed
  then show ?thesis by (simp add: priced_def)
qed

lemma gas_post_copy:
  assumes "quota_table (vm_gasTable (f_vm f))" "q1 \<in> set positiveCosts" "i < length (f_stack f)"
  shows "gas_post f (\<lambda>c fl. fl \<and> c \<noteq> 0 \<and> unat ms \<le> 0xffffffffe0)
    (withMemGas f ms (\<lambda>f gas. noOverflow f (SafeAdd gas (q1 (vm_gasTable (f_vm f)))) (\<lambda>gas.
       backF i f (\<lambda>len. noOverflow f (BigUint64 len) (\<lambda>words.
       noOverflow f (SafeMul (ToWordSize words) (q2 (vm_gasTable (f_vm f)))) (\<lambda>words.
       noOverflow f (SafeAdd gas words) (charge f)))))))"
  using positive_price [OF assms(1,2)] assms
  by (intro gas_rules) (auto dest!: SafeAdd_zero simp: gas_frame_same)

lemma gas_post_add:
  assumes "quota_table (vm_gasTable (f_vm f))" "q1 \<in> set positiveCosts"
  shows "gas_post f (\<lambda>c fl. fl \<and> c \<noteq> 0 \<and> unat ms \<le> 0xffffffffe0)
    (withMemGas f ms (\<lambda>f gas. noOverflow f (SafeAdd gas (q1 (vm_gasTable (f_vm f)))) (charge f)))"
  using positive_price [OF assms] assms
  by (intro gas_rules) (auto dest!: SafeAdd_zero simp: gas_frame_same)

lemma priced_mem_table:
  "priced_mem gasBlake2b 2" "priced_mem gasCallDataCopy 3" "priced_mem gasCodeCopy 3" "priced_mem gasReturnDataCopy 3"
  "priced_mem gasMLoad n" "priced_mem gasMStore n" "priced_mem gasMStore8 n"
  by (simp_all add: priced_mem_def gasBlake2b_def gasCallDataCopy_def gasCodeCopy_def gasReturnDataCopy_def
      gasMLoad_def gasMStore_def gasMStore8_def gas_post_copy gas_post_add positiveCosts_def del: backF_nth)

lemma priced_mem_log: "priced_mem (makeGasLog k) 2"
proof -
  have "gas_post f (\<lambda>c fl. fl \<and> c \<noteq> 0 \<and> unat ms \<le> 0xffffffffe0) (makeGasLog k env f ms)"
    if "quota_table (vm_gasTable (f_vm f))" "2 \<le> length (f_stack f)" for env f ms
  proof -
    have "LogQuota (vm_gasTable (f_vm f)) \<noteq> 0" using that(1) by (rule positive_price) (simp add: positiveCosts_def)
    with that show ?thesis
      unfolding makeGasLog_def by (intro gas_rules) (auto dest!: SafeAdd_zero simp: gas_frame_same)
  qed
  then show ?thesis by (simp add: priced_mem_def)
qed

section \<open>Storage writes\<close>

text \<open>The quota that later writes to a key may give back, from its original and its current value.\<close>

definition pot :: "QuotaTable \<Rightarrow> bytes \<Rightarrow> bytes \<Rightarrow> nat" where
  "pot qt orig cur =
     (if cur = [] \<or> cur = orig then 0
      else if orig = [] then unat (SstoreInitQuota qt) - unat (SstoreMemQuota qt)
      else unat (SstoreResetQuota qt) - unat (SstoreMemQuota qt))"

lemma pot_self [simp]: "pot qt v v = 0" "pot qt v [] = 0"
  by (simp_all add: pot_def)

lemma unat_minus_minus:
  "unat b + unat c \<le> unat (a :: u64) \<Longrightarrow> unat (a - b - c) = unat a - unat b - unat c"
  by (simp add: unat_minus_u64 word_le_nat_alt)

lemma unat_plus_minus:
  "unat (a :: u64) + unat b < 18446744073709551616 \<Longrightarrow> unat c \<le> unat a + unat b \<Longrightarrow>
     unat (a + b - c) = unat a + unat b - unat c"
  by (simp add: unat_minus_u64 word_le_nat_alt unat_plus_u64)

context quota_table
begin

lemma sstore_costs:
  "unat (SstoreMemQuota qt) + unat (SstoreNoopQuota qt) \<le> unat (SstoreInitQuota qt)"
  "unat (SstoreMemQuota qt) + unat (SstoreNoopQuota qt) \<le> unat (SstoreResetQuota qt)"
  "unat (SstoreCleanQuota qt) < unat (SstoreMemQuota qt)" "unat (SstoreCleanQuota qt) \<le> unat (SstoreNoopQuota qt)"
  "unat (SstoreNoopQuota qt) \<le> 200" "unat (SstoreMemQuota qt) \<le> 200"
  "0 < unat (SstoreNoopQuota qt)" "0 < unat (SstoreMemQuota qt)"
  "unat (SstoreInitQuota qt) \<le> 60000" "unat (SstoreResetQuota qt) \<le> 60000"
proof -
  have "unat (SstoreMemQuota qt + SstoreNoopQuota qt) = unat (SstoreMemQuota qt) + unat (SstoreNoopQuota qt)"
    using sstore_noop by (intro unat_plus_u64) (simp add: word_le_nat_alt)
  with sstore_init sstore_reset
  show "unat (SstoreMemQuota qt) + unat (SstoreNoopQuota qt) \<le> unat (SstoreInitQuota qt)"
    "unat (SstoreMemQuota qt) + unat (SstoreNoopQuota qt) \<le> unat (SstoreResetQuota qt)"
    by (simp_all add: word_le_nat_alt)
  show "unat (SstoreCleanQuota qt) < unat (SstoreMemQuota qt)" "unat (SstoreCleanQuota qt) \<le> unat (SstoreNoopQuota qt)"
    using sstore_clean by (simp_all add: word_less_nat_alt word_le_nat_alt)
  show "unat (SstoreNoopQuota qt) \<le> 200" "unat (SstoreMemQuota qt) \<le> 200"
    using sstore_noop by (simp_all add: word_le_nat_alt)
  show "0 < unat (SstoreNoopQuota qt)" "0 < unat (SstoreMemQuota qt)"
    using positive [of SstoreNoopQuota] positive [of SstoreMemQuota]
    by (simp_all add: positiveCosts_def word_less_nat_alt)
  show "unat (SstoreInitQuota qt) \<le> 60000" "unat (SstoreResetQuota qt) \<le> 60000"
    using costs_le [of SstoreInitQuota] costs_le [of SstoreResetQuota] by (simp_all add: smallCosts_def)
qed

text \<open>The differences and sums of \<open>gasSStore\<close> neither wrap.\<close>

lemma sstore_exact:
  "unat (SstoreInitQuota qt - SstoreMemQuota qt - SstoreNoopQuota qt) =
     unat (SstoreInitQuota qt) - unat (SstoreMemQuota qt) - unat (SstoreNoopQuota qt)"
  "unat (SstoreResetQuota qt - SstoreMemQuota qt - SstoreNoopQuota qt) =
     unat (SstoreResetQuota qt) - unat (SstoreMemQuota qt) - unat (SstoreNoopQuota qt)"
  "unat (SstoreResetQuota qt - SstoreMemQuota qt - SstoreCleanQuota qt) =
     unat (SstoreResetQuota qt) - unat (SstoreMemQuota qt) - unat (SstoreCleanQuota qt)"
  "unat (SstoreNoopQuota qt + SstoreMemQuota qt - SstoreCleanQuota qt) =
     unat (SstoreNoopQuota qt) + unat (SstoreMemQuota qt) - unat (SstoreCleanQuota qt)"
  "unat (SstoreResetQuota qt + SstoreMemQuota qt - SstoreCleanQuota qt) =
     unat (SstoreResetQuota qt) + unat (SstoreMemQuota qt) - unat (SstoreCleanQuota qt)"
  using sstore_costs by (simp_all add: unat_minus_minus unat_plus_minus)

text \<open>What a write charges covers the change of the potential, and a refund is covered by its decrease;
  one unit of quota is lost in the process unless the key is cleared.\<close>

lemma sstoreGas_pot:
  assumes "sstoreGas qt orig cur new = (c, fl)" "cur \<noteq> big_Bytes new" "0 \<le> new"
  shows "fl \<Longrightarrow> pot qt orig (big_Bytes new) + (if new = 0 then 0 else 1) \<le> pot qt orig cur + unat c"
    and "\<not> fl \<Longrightarrow> unat c + pot qt orig (big_Bytes new) + (if new = 0 then 0 else 1) \<le> pot qt orig cur"
proof -
  have nil: "big_Bytes new = [] \<longleftrightarrow> new = 0" "big_Bytes 0 = []" by simp_all
  note facts = sstore_costs sstore_exact
  show "fl \<Longrightarrow> pot qt orig (big_Bytes new) + (if new = 0 then 0 else 1) \<le> pot qt orig cur + unat c"
    using assms facts nil by (auto simp: sstoreGas_def pot_def nil(2) split: if_splits)
  show "\<not> fl \<Longrightarrow> unat c + pot qt orig (big_Bytes new) + (if new = 0 then 0 else 1) \<le> pot qt orig cur"
    using assms facts nil by (auto simp: sstoreGas_def pot_def nil(2) split: if_splits)
qed

end

text \<open>The potential of all keys written in a run.\<close>

definition origValue :: "Chain \<Rightarrow> Address \<Rightarrow> bytes \<Rightarrow> bytes" where
  "origValue chain a k = (case chain_GetValue chain a k of Inl _ \<Rightarrow> [] | Inr v \<Rightarrow> v)"

definition storagePot :: "Chain \<Rightarrow> QuotaTable \<Rightarrow> vmDb \<Rightarrow> nat" where
  "storagePot chain qt db =
     (case (vdb_address db, u_storage (vdb_uns db)) of
        (Some a, Some st) \<Rightarrow> sum_list (map (\<lambda>(k, v). pot qt (origValue chain a k) v) st)
      | _ \<Rightarrow> 0)"

definition keys_ok :: "vmDb \<Rightarrow> bool" where
  "keys_ok db \<longleftrightarrow> db_ready db \<and> deleted_ok db \<and> distinct (map fst (the (u_storage (vdb_uns db))))"

lemma sum_list_update:
  fixes g :: "'k \<Rightarrow> 'v \<Rightarrow> nat"
  assumes "distinct (map fst st)"
  shows "sum_list (map (\<lambda>(k, v). g k v) (AList.update k v st)) + (case map_of st k of None \<Rightarrow> 0 | Some w \<Rightarrow> g k w) =
    sum_list (map (\<lambda>(k, v). g k v) st) + g k v"
  using assms
proof (induction st)
  case (Cons p st)
  obtain k' w where p: "p = (k', w)" by (cases p)
  show ?case
  proof (cases "k' = k")
    case True
    then show ?thesis by (simp add: p)
  next
    case False
    with Cons show ?thesis by (auto simp: p split: option.splits)
  qed
qed simp

lemma keys_ok_SetValue:
  assumes "keys_ok db" "length k \<le> 32"
  obtains db' where "util_SetValue k v db = Ret db'" "keys_ok db'"
proof -
  from storage.put_ready [of db k v] assms obtain db' where db': "util_SetValue k v db = Ret db'" "db_ready db'"
    by (auto simp: keys_ok_def)
  moreover have "distinct (map fst (the (u_storage (vdb_uns db'))))"
    using keys_distinct_SetValue [OF db'(1)] assms by (simp add: keys_ok_def)
  moreover have "deleted_ok db'"
    using db'(1) assms by (auto simp: util_SetValue_Ret keys_ok_def deleted_ok_def map_of_AList_update)
  ultimately show ?thesis using that by (simp add: keys_ok_def)
qed

lemma storagePot_SetValue:
  assumes ok: "keys_ok db" and a: "vdb_address db = Some a" and set: "util_SetValue k v db = Ret db'"
    and cur: "util_GetValue chain db k = Ret cur"
  shows "storagePot chain qt db' + pot qt (origValue chain a k) cur =
    storagePot chain qt db + pot qt (origValue chain a k) v"
proof -
  from set obtain st where st: "u_storage (vdb_uns db) = Some st"
    and db': "u_storage (vdb_uns db') = Some (AList.update k v st)" "vdb_address db' = vdb_address db"
    by (auto simp: util_SetValue_Ret)
  have sum: "storagePot chain qt db' + (case map_of st k of None \<Rightarrow> 0 | Some w \<Rightarrow> pot qt (origValue chain a k) w) =
    storagePot chain qt db + pot qt (origValue chain a k) v"
    using sum_list_update [of st "\<lambda>k v. pot qt (origValue chain a k) v" k v] ok st
    by (simp add: storagePot_def a db' keys_ok_def)
  have "util_GetValue chain db k =
    (case map_of st k of Some v \<Rightarrow> Ret v | None \<Rightarrow> DealWithErr (chain_GetValue chain a k))"
    using util_GetValue_eq [OF a st] ok by (simp add: keys_ok_def)
  with cur sum show ?thesis
    by (auto simp: origValue_def split: option.splits sum.splits)
qed

lemma gasSStore_Ret:
  assumes "gasSStore env f ms = Ret (f', r)" "f_stack f = loc # new # st"
  shows "gas_frame f f'"
    "r = Inr (c, fl) \<Longrightarrow> \<exists>cur. util_GetValue (e_chain env) (c_db (f_c f)) (fst (BigToHash loc)) = Ret cur \<and>
       (if cur = big_Bytes new then c = SstoreNoopQuota (vm_gasTable (f_vm f)) \<and> fl
        else \<exists>a orig. vdb_address (c_db (f_c f)) = Some a \<and> chain_GetValue (e_chain env) a (fst (BigToHash loc)) = Inr orig \<and>
             sstoreGas (vm_gasTable (f_vm f)) orig cur new = (c, fl))"
    "r = Inr (c, fl) \<Longrightarrow> IsEarthUpgrade (e_upgrade env) (vm_latestSnapshotHeight (f_vm f)) \<Longrightarrow>
       loc \<in> set (c_storageModified (f_c f')) \<and> length (c_storageModified (f_c f')) \<le> 100"
  using assms
  by (auto simp: gasSStore_def Let_def go_bind_eq_Ret charge_def vdb_GetOriginalValue_def derefAddress_def
      contractModifyStorageMax_def DealWithErr_def split: if_splits option.splits sum.splits)

text \<open>A write to storage never panics on a ledger that answers.\<close>

lemma gasSStore_no_index_panic:
  assumes "f_stack f = loc # new # st" "db_ready (c_db (f_c f))"
  shows "gasSStore env f ms = Panics p \<Longrightarrow> \<exists>e. p = PanicErr e"
  using assms
  by (auto simp: gasSStore_def Let_def go_bind_eq_Panics charge_def vdb_GetOriginalValue_def derefAddress_def
      util_GetValue_def vdb_GetValue_def uns_GetValue_def db_ready_def DealWithErr_def
      split: if_splits option.splits sum.splits prod.splits)

section \<open>Calls\<close>

text \<open>A call may be free, and it may panic: it reads the memory before the memory is extended.\<close>

lemma callGas_Ret: "callGas f gas cost = Ret (f', r) \<Longrightarrow> f' = f \<and> (\<forall>c fl. r = Inr (c, fl) \<longrightarrow> fl)"
  by (auto simp: callGas_def charge_def noOverflow_def split: if_split_asm prod.split_asm)

lemma callBlockGas_Ret:
  assumes "callBlockGas env f gas to block = Ret (f', r)"
  shows "f' = f \<and> (\<forall>c fl. r = Inr (c, fl) \<longrightarrow> fl)"
proof (cases "gasRequiredForSendBlock env block (vm_gasTable (f_vm f)) (vm_latestSnapshotHeight (f_vm f))")
  case (Inl e)
  with assms show ?thesis by (auto simp: callBlockGas_def)
next
  case (Inr cost)
  with assms obtain q where q: "(case q of Inl err \<Rightarrow> Ret (f, Inl err) | Inr m \<Rightarrow>
    (case MultipleCost cost m of Inl err \<Rightarrow> Ret (f, Inl err) | Inr cost \<Rightarrow> callGas f gas cost)) = Ret (f', r)"
    by (auto simp: callBlockGas_def go_bind_eq_Ret)
  show ?thesis
  proof (cases q)
    case (Inr m)
    with q show ?thesis by (cases "MultipleCost cost m") (auto dest: callGas_Ret)
  qed (use q in auto)
qed

lemma gasCall_Ret:
  assumes "gasCall env f ms = Ret (f', r)" "quota_table (vm_gasTable (f_vm f))"
    "f_stack f = to # tok # amount # off # sz # st"
  shows "gas_frame f f'" "r = Inr (c, fl) \<Longrightarrow> fl \<and> unat ms \<le> 0xffffffffe0"
proof -
  from memoryGasCost_post [OF assms(2), of ms] obtain f1 r1 where m: "memoryGasCost f ms = Ret (f1, r1)" "gas_frame f f1"
    "\<And>c fl. r1 = Inr (c, fl) \<Longrightarrow> fl \<and> unat ms \<le> 0xffffffffe0"
    by (auto simp: gas_post_def)
  have st: "f_stack f1 = to # tok # amount # off # sz # st" using assms(3) m(2) by (simp add: gas_frame_same)
  have "f' = f1 \<and> (\<forall>c fl. r = Inr (c, fl) \<longrightarrow> fl \<and> unat ms \<le> 0xffffffffe0)"
  proof (cases r1)
    case (Inl e)
    with assms(1) m(1) show ?thesis by (auto simp: gasCall_def withMemGas_def)
  next
    case (Inr p)
    then obtain gas fl where p: "r1 = Inr (gas, fl)" by (cases p) auto
    with assms(1) m(1) st obtain block where
      "callBlockGas env f1 gas (fst (BigToAddress to)) block = Ret (f', r)"
      by (auto simp: gasCall_def withMemGas_def Let_def go_bind_eq_Ret)
    with callBlockGas_Ret [OF this] m(3) p show ?thesis by blast
  qed
  with m(2) show "gas_frame f f'" "r = Inr (c, fl) \<Longrightarrow> fl \<and> unat ms \<le> 0xffffffffe0" by auto
qed

section \<open>Memory\<close>

text \<open>The fee of a memory of \<open>n\<close> words.\<close>

definition memFee :: "QuotaTable \<Rightarrow> nat \<Rightarrow> nat" where
  "memFee qt n = n * unat (MemQuota qt) + n * n div unat (MemQuotaDivision qt)"

lemma memFee_mono: "m \<le> n \<Longrightarrow> memFee qt m \<le> memFee qt n"
  by (simp add: memFee_def add_mono div_le_mono mult_le_mono)

lemma memoryGasCost_words:
  assumes qt: "quota_table (vm_gasTable (f_vm f))" and ms: "0 < unat ms" "unat ms \<le> 0x1FFFFFFFE0"
    and grow: "mem_len (f_mem f) < 32 * ((unat ms + 31) div 32)"
  shows "\<exists>fee. memoryGasCost f ms = Ret (f\<lparr>f_mem := (f_mem f)\<lparr>lastGasCost := fee\<rparr>\<rparr>,
      Inr (fee - lastGasCost (f_mem f), True)) \<and>
    unat fee = memFee (vm_gasTable (f_vm f)) ((unat ms + 31) div 32)"
proof -
  let ?qt = "vm_gasTable (f_vm f)" and ?w = "(unat ms + 31) div 32"
  let ?W = "ToWordSize ms"
  have w: "unat ?W = ?w" by (rule unat_ToWordSize)
  have wle: "?w \<le> 4294967295" using ms by simp
  have mq: "unat (MemQuota ?qt) \<le> 60000" using quota_table.costs_le [OF qt] by (simp add: smallCosts_def)
  have div: "MemQuotaDivision ?qt \<noteq> 0" by (rule positive_price [OF qt]) (simp add: positiveCosts_def)
  have "?w * ?w \<le> 4294967295 * 4294967295" using wle by (intro mult_le_mono)
  then have sq: "unat (?W * ?W) = ?w * ?w" by (subst unat_mult_u64) (simp_all add: w)
  have "?w * unat (MemQuota ?qt) \<le> 4294967295 * 60000" using wle mq by (intro mult_le_mono)
  then have lin: "unat (?W * MemQuota ?qt) = ?w * unat (MemQuota ?qt)" by (subst unat_mult_u64) (simp_all add: w)
  have "512 \<le> unat (MemQuotaDivision ?qt)" using quota_table.mem_division [OF qt] by (simp add: word_le_nat_alt)
  then have "?w * ?w div unat (MemQuotaDivision ?qt) \<le> 4294967295 * 4294967295 div 512"
    using \<open>?w * ?w \<le> _\<close> by (intro div_le_mono2 [THEN le_trans, OF _ _ div_le_mono]) simp_all
  then have fee: "unat (?W * MemQuota ?qt + ?W * ?W div MemQuotaDivision ?qt) = memFee ?qt ?w"
    using \<open>?w * unat (MemQuota ?qt) \<le> _\<close>
    by (subst unat_plus_u64) (simp_all add: lin sq unat_div_u64 memFee_def)
  have big: "unat (?W * 32) = 32 * ?w" using wle by (subst unat_mult_u64) (simp_all add: w)
  show ?thesis
    using ms grow div fee big
    by (intro exI [of _ "?W * MemQuota ?qt + ?W * ?W div MemQuotaDivision ?qt"])
       (auto simp: memoryGasCost_def Let_def word_less_nat_alt)
qed

section \<open>Properties\<close>

text \<open>A frame at the start of an empty program, for the examples.\<close>

definition sampleFrame :: "QuotaTable \<Rightarrow> stack \<Rightarrow> frame" where
  "sampleFrame qt st = \<lparr>f_pc = 0,
     f_vm = \<lparr>vm_sendBlockList = [], vm_i = simpleInterpreter, vm_globalStatus = None, vm_latestSnapshotHeight = 1,
       vm_gasTable = qt\<rparr>,
     f_c = newContract sampleReceive (NewVmDbByAddr (Some ZERO_ADDRESS)) sampleSend [] 1000,
     f_mem = newMemory, f_stack = st\<rparr>"

text \<open>C34: up to 2^37 - 32 bytes, extending the memory charges exactly the difference of the quadratic fee of
  the new and of the old size, without a wrap: the fee is a monotone function of the number of words.\<close>

theorem memoryGasCost_exact:
  assumes "quota_table (vm_gasTable (f_vm f))" "0 < unat ms" "unat ms \<le> 0x1FFFFFFFE0"
    and "mem_len (f_mem f) < 32 * ((unat ms + 31) div 32)"
    and "unat (lastGasCost (f_mem f)) = memFee (vm_gasTable (f_vm f)) (mem_len (f_mem f) div 32)"
  shows "\<exists>f' fee. memoryGasCost f ms = Ret (f', Inr (fee, True)) \<and>
    unat fee = memFee (vm_gasTable (f_vm f)) ((unat ms + 31) div 32) -
      memFee (vm_gasTable (f_vm f)) (mem_len (f_mem f) div 32) \<and>
    unat (lastGasCost (f_mem f')) = memFee (vm_gasTable (f_vm f)) ((unat ms + 31) div 32)"
proof -
  from memoryGasCost_words [OF assms(1-4)] obtain fee where
    fee: "memoryGasCost f ms = Ret (f\<lparr>f_mem := (f_mem f)\<lparr>lastGasCost := fee\<rparr>\<rparr>, Inr (fee - lastGasCost (f_mem f), True))"
    "unat fee = memFee (vm_gasTable (f_vm f)) ((unat ms + 31) div 32)" by blast
  have "memFee (vm_gasTable (f_vm f)) (mem_len (f_mem f) div 32) \<le> unat fee"
    unfolding fee(2) using assms(4) by (intro memFee_mono) linarith
  with fee assms(5) show ?thesis by (simp add: unat_minus_u64 word_le_nat_alt)
qed

theorem memoryGasCost_exact_witness:
  "\<exists>f' fee. memoryGasCost (sampleFrame newViteQuotaTable []) 64 = Ret (f', Inr (fee, True)) \<and> unat fee = memFee newViteQuotaTable 2"
  using memoryGasCost_exact [of "sampleFrame newViteQuotaTable []" 64, OF _ _ _ _]
  by (auto simp: sampleFrame_def newMemory_def mem_len_def memFee_def vite_qt.quota_table_axioms)

text \<open>C35: the bound in \<open>memoryGasCost\<close> does not keep the square from wrapping, as its comment says: at 2^37
  bytes, which the bound admits, the square of the word count is 0 and only the linear part is charged.\<close>

theorem memoryGasCost_square_wraps:
  assumes "mem_len (f_mem f) < 0x2000000000" "quota_table (vm_gasTable (f_vm f))"
  shows "\<exists>f'. memoryGasCost f 0x2000000000 =
    Ret (f', Inr (0x100000000 * MemQuota (vm_gasTable (f_vm f)) - lastGasCost (f_mem f), True))"
proof -
  have "MemQuotaDivision (vm_gasTable (f_vm f)) \<noteq> 0"
    using assms(2) by (rule positive_price) (simp add: positiveCosts_def)
  moreover have "ToWordSize 0x2000000000 = 0x100000000" by (simp add: ToWordSize_def MaxUint64_def)
  moreover have "(0x100000000 :: u64) * 0x100000000 = 0" by code_simp
  ultimately show ?thesis using assms by (simp only: memoryGasCost_def Let_def) simp
qed

theorem memoryGasCost_square_wraps_witness:
  "\<exists>f'. memoryGasCost (sampleFrame newViteQuotaTable []) 0x2000000000 =
    Ret (f', Inr (0x100000000 * MemQuota newViteQuotaTable, True))"
  using memoryGasCost_square_wraps [of "sampleFrame newViteQuotaTable []"]
  by (simp add: sampleFrame_def newMemory_def mem_len_def vite_qt.quota_table_axioms)

end
