(* ===== verification/Instructions.thy ===== *)
theory Instructions
  imports Gas_Table
begin

unbundle bit_operations_syntax

text \<open>
  vm/instructions.go: one definition per instruction.  The integer pool only recycles big.Int objects and the
  debug output of \<open>makeLog\<close> has no effect on the frame; both are left out.  \<open>opDelegateCall\<close> is in no
  instruction set and is left out as well.

  The lemmas say what every instruction does to the stack, that the arithmetic instructions are the
  operations of 256-bit machine words, and that an instruction whose memory has been extended accesses it
  inside its bounds.
\<close>

section \<open>Definitions\<close>

subsection \<open>Arithmetic\<close>

definition opStop :: executionFunc where "opStop env f = ret0 f"

definition opAdd :: executionFunc where
  "opAdd env f = popF f (\<lambda>x f. peekF f (\<lambda>y. ret0 (pokeF (U256 (x + y)) f)))"

definition opMul :: executionFunc where
  "opMul env f = popF f (\<lambda>x f. peekF f (\<lambda>y. ret0 (pokeF (U256 (x * y)) f)))"

definition opSub :: executionFunc where
  "opSub env f = popF f (\<lambda>x f. peekF f (\<lambda>y. ret0 (pokeF (U256 (x - y)) f)))"

definition opDiv :: executionFunc where
  "opDiv env f = popF f (\<lambda>x f. peekF f (\<lambda>y.
     if y \<noteq> 0 then ret0 (pokeF (U256 (x div y)) f) else ret0 (pokeF 0 f)))"

definition opSdiv :: executionFunc where
  "opSdiv env f = popF f (\<lambda>a f. popF f (\<lambda>b f.
     let x = S256 a; y = S256 b
     in if y = 0 \<or> x = 0 then ret0 (pushF 0 f)
        else if sgn x \<noteq> sgn y then ret0 (pushF (U256 (- (\<bar>x\<bar> div \<bar>y\<bar>))) f)
        else ret0 (pushF (U256 (\<bar>x\<bar> div \<bar>y\<bar>)) f)))"

definition opMod :: executionFunc where
  "opMod env f = popF f (\<lambda>x f. popF f (\<lambda>y f.
     if y = 0 then ret0 (pushF 0 f) else ret0 (pushF (U256 (x mod y)) f)))"

definition opSmod :: executionFunc where
  "opSmod env f = popF f (\<lambda>a f. popF f (\<lambda>b f.
     let x = S256 a; y = S256 b
     in if y = 0 then ret0 (pushF 0 f)
        else if x < 0 then ret0 (pushF (U256 (- (\<bar>x\<bar> mod \<bar>y\<bar>))) f)
        else ret0 (pushF (U256 (\<bar>x\<bar> mod \<bar>y\<bar>)) f)))"

definition opAddmod :: executionFunc where
  "opAddmod env f = popF f (\<lambda>x f. popF f (\<lambda>y f. popF f (\<lambda>z f.
     if z > 0 then ret0 (pushF (U256 ((x + y) mod z)) f) else ret0 (pushF 0 f))))"

definition opMulmod :: executionFunc where
  "opMulmod env f = popF f (\<lambda>x f. popF f (\<lambda>y f. popF f (\<lambda>z f.
     if z > 0 then ret0 (pushF (U256 ((x * y) mod z)) f) else ret0 (pushF 0 f))))"

definition opExp :: executionFunc where
  "opExp env f = popF f (\<lambda>base f. popF f (\<lambda>exponent f. ret0 (pushF (Exp base exponent) f)))"

definition opSignExtend :: executionFunc where
  "opSignExtend env f = popF f (\<lambda>back f.
     if back < 31
     then popF f (\<lambda>num f.
       let bitn = unat (big_Uint64 back * 8 + 7);
           mask = push_bit bitn 1 - 1
       in if bit num bitn then ret0 (pushF (U256 (num OR NOT mask)) f)
          else ret0 (pushF (U256 (num AND mask)) f))
     else ret0 f)"

subsection \<open>Comparison and bits\<close>

definition opLt :: executionFunc where
  "opLt env f = popF f (\<lambda>x f. peekF f (\<lambda>y. ret0 (pokeF (if x < y then 1 else 0) f)))"

definition opGt :: executionFunc where
  "opGt env f = popF f (\<lambda>x f. peekF f (\<lambda>y. ret0 (pokeF (if x > y then 1 else 0) f)))"

definition opSlt :: executionFunc where
  "opSlt env f = popF f (\<lambda>x f. peekF f (\<lambda>y.
     if x \<ge> Tt255 \<and> y < Tt255 then ret0 (pokeF 1 f)
     else if x < Tt255 \<and> y \<ge> Tt255 then ret0 (pokeF 0 f)
     else ret0 (pokeF (if x < y then 1 else 0) f)))"

definition opSgt :: executionFunc where
  "opSgt env f = popF f (\<lambda>x f. peekF f (\<lambda>y.
     if x \<ge> Tt255 \<and> y < Tt255 then ret0 (pokeF 0 f)
     else if x < Tt255 \<and> y \<ge> Tt255 then ret0 (pokeF 1 f)
     else ret0 (pokeF (if x > y then 1 else 0) f)))"

definition opEq :: executionFunc where
  "opEq env f = popF f (\<lambda>x f. peekF f (\<lambda>y. ret0 (pokeF (if x = y then 1 else 0) f)))"

definition opIszero :: executionFunc where
  "opIszero env f = peekF f (\<lambda>x. ret0 (pokeF (if x > 0 then 0 else 1) f))"

definition opAnd :: executionFunc where
  "opAnd env f = popF f (\<lambda>x f. peekF f (\<lambda>y. ret0 (pokeF (x AND y) f)))"

definition opOr :: executionFunc where
  "opOr env f = popF f (\<lambda>x f. peekF f (\<lambda>y. ret0 (pokeF (x OR y) f)))"

definition opXor :: executionFunc where
  "opXor env f = popF f (\<lambda>x f. peekF f (\<lambda>y. ret0 (pokeF (x XOR y) f)))"

definition opNot :: executionFunc where
  "opNot env f = peekF f (\<lambda>x. ret0 (pokeF (U256 (NOT x)) f))"

definition opByte :: executionFunc where
  "opByte env f = popF f (\<lambda>th f. peekF f (\<lambda>val.
     if th < 32 then ret0 (pokeF (int (unat (Byte val WordSize (nat (big_Int64 th))))) f)
     else ret0 (pokeF 0 f)))"

definition opSHL :: executionFunc where
  "opSHL env f = popF f (\<lambda>s f. peekF f (\<lambda>v.
     let shift = U256 s; value = U256 v
     in if shift \<ge> 256 then ret0 (pokeF 0 f)
        else ret0 (pokeF (U256 (push_bit (unat (big_Uint64 shift)) value)) f)))"

definition opSHR :: executionFunc where
  "opSHR env f = popF f (\<lambda>s f. peekF f (\<lambda>v.
     let shift = U256 s; value = U256 v
     in if shift \<ge> 256 then ret0 (pokeF 0 f)
        else ret0 (pokeF (U256 (drop_bit (unat (big_Uint64 shift)) value)) f)))"

definition opSAR :: executionFunc where
  "opSAR env f = popF f (\<lambda>s f. popF f (\<lambda>v f.
     let shift = U256 s; value = S256 v
     in if shift \<ge> 256 then ret0 (pushF (U256 (if value > 0 then 0 else - 1)) f)
        else ret0 (pushF (U256 (drop_bit (unat (big_Uint64 shift)) value)) f)))"

subsection \<open>Environment\<close>

definition opSha3 :: executionFunc where
  "opSha3 env f = popF f (\<lambda>offset f. popF f (\<lambda>sz f.
     go_bind (mem_get (f_mem f) (big_Int64 offset) (big_Int64 sz)) (\<lambda>data.
       ret0 (pushF (big_SetBytes (Keccak256 (e_crypto env) [data])) f))))"

definition opBlake2b :: executionFunc where
  "opBlake2b env f = popF f (\<lambda>offset f. popF f (\<lambda>sz f.
     go_bind (mem_get (f_mem f) (big_Int64 offset) (big_Int64 sz)) (\<lambda>data.
       ret0 (pushF (big_SetBytes (Hash256 (e_crypto env) [data])) f))))"

definition opAddress :: executionFunc where
  "opAddress env f = ret0 (pushF (big_SetBytes (ab_AccountAddress (c_block (f_c f)))) f)"

definition opBalance :: executionFunc where
  "opBalance env f = popF f (\<lambda>tokenTypeIDBig f.
     go_bind (util_GetBalance (e_chain env) (c_db (f_c f)) (fst (BigToTokenTypeId tokenTypeIDBig))) (\<lambda>b.
       ret0 (pushF b f)))"

definition opOffchainBalance :: executionFunc where
  "opOffchainBalance env f = popF f (\<lambda>_ f. ret0 (pushF 0 f))"

definition opCaller :: executionFunc where
  "opCaller env f = ret0 (pushF (big_SetBytes (ab_AccountAddress (c_sendBlock (f_c f)))) f)"

definition opOffchainCaller :: executionFunc where "opOffchainCaller env f = ret0 (pushF 0 f)"

definition opCallValue :: executionFunc where
  "opCallValue env f = ret0 (pushF (ab_Amount (c_sendBlock (f_c f))) f)"

definition opOffchainCallValue :: executionFunc where "opOffchainCallValue env f = ret0 (pushF 0 f)"

definition opCallDataLoad :: executionFunc where
  "opCallDataLoad env f = popF f (\<lambda>offset f.
     ret0 (pushF (big_SetBytes (GetDataBig (c_data (f_c f)) offset 32)) f))"

definition opCallDataSize :: executionFunc where
  "opCallDataSize env f = ret0 (pushF (int (length (c_data (f_c f)))) f)"

definition opCallDataCopy :: executionFunc where
  "opCallDataCopy env f = popF f (\<lambda>memOffset f. popF f (\<lambda>dataOffset f. popF f (\<lambda>len f.
     go_bind (mem_set (big_Uint64 memOffset) (big_Uint64 len) (GetDataBig (c_data (f_c f)) dataOffset len) (f_mem f))
       (\<lambda>m. ret0 (f\<lparr>f_mem := m\<rparr>)))))"

definition opCodeSize :: executionFunc where
  "opCodeSize env f = ret0 (pushF (int (length (c_code (f_c f)))) f)"

definition opCodeCopy :: executionFunc where
  "opCodeCopy env f = popF f (\<lambda>memOffset f. popF f (\<lambda>codeOffset f. popF f (\<lambda>len f.
     go_bind (mem_set (big_Uint64 memOffset) (big_Uint64 len) (GetDataBig (c_code (f_c f)) codeOffset len) (f_mem f))
       (\<lambda>m. ret0 (f\<lparr>f_mem := m\<rparr>)))))"

text \<open>\<open>util.GetContractCode(c.db, &addr, vm.globalStatus)\<close>: the status is only asked for another account's code.\<close>

definition extCode :: "env \<Rightarrow> frame \<Rightarrow> Address \<Rightarrow> bytes go" where
  "extCode env f addr =
     (if vm_globalStatus (f_vm f) = None \<and> vdb_address (c_db (f_c f)) \<noteq> Some addr then Panics PanicNil
      else go_bind (util_GetContractCode (e_chain env) (c_db (f_c f)) addr (statusSnapshotBlock (vm_globalStatus (f_vm f))))
             (\<lambda>(_, code). Ret code))"

definition opExtCodeSize :: executionFunc where
  "opExtCodeSize env f = peekF f (\<lambda>addrBig.
     go_bind (extCode env f (fst (BigToAddress addrBig))) (\<lambda>code. ret0 (pokeF (int (length code)) f)))"

definition opExtCodeCopy :: executionFunc where
  "opExtCodeCopy env f = popF f (\<lambda>addrBig f. popF f (\<lambda>memOffset f. popF f (\<lambda>codeOffset f. popF f (\<lambda>len f.
     go_bind (extCode env f (fst (BigToAddress addrBig))) (\<lambda>code.
     go_bind (mem_set (big_Uint64 memOffset) (big_Uint64 len) (GetDataBig code codeOffset len) (f_mem f))
       (\<lambda>m. ret0 (f\<lparr>f_mem := m\<rparr>)))))))"

definition opReturnDataSize :: executionFunc where
  "opReturnDataSize env f = ret0 (pushF (uint (u64_len (c_returnData (f_c f)))) f)"

definition opReturnDataCopy :: executionFunc where
  "opReturnDataCopy env f = popF f (\<lambda>memOffset f. popF f (\<lambda>dataOffset f. popF f (\<lambda>len f.
     let stop = dataOffset + len
     in if big_BitLen stop > 64 \<or> u64_len (c_returnData (f_c f)) < big_Uint64 stop
        then Ret (f, [], Some ErrReturnDataOutOfBounds)
        else go_bind (mem_set (big_Uint64 memOffset) (big_Uint64 len)
                       (slice (c_returnData (f_c f)) (unat (big_Uint64 dataOffset)) (unat (big_Uint64 stop))) (f_mem f))
               (\<lambda>m. ret0 (f\<lparr>f_mem := m\<rparr>)))))"

text \<open>\<open>vm.globalStatus.SnapshotBlock()\<close> and a field of it.\<close>

definition statusBlock :: "frame \<Rightarrow> SnapshotBlock go" where
  "statusBlock f = (case statusSnapshotBlock (vm_globalStatus (f_vm f)) of None \<Rightarrow> Panics PanicNil | Some sb \<Rightarrow> Ret sb)"

definition opTimestamp :: executionFunc where
  "opTimestamp env f = go_bind (statusBlock f) (\<lambda>sb. ret0 (pushF (U256 (time_Unix (sb_Timestamp sb))) f))"

definition opOffchainTimestamp :: executionFunc where "opOffchainTimestamp env f = ret0 (pushF 0 f)"

definition opHeight :: executionFunc where
  "opHeight env f = go_bind (statusBlock f) (\<lambda>sb. ret0 (pushF (U256 (uint (sb_Height sb))) f))"

definition opOffchainHeight :: executionFunc where "opOffchainHeight env f = ret0 (pushF 0 f)"

definition opTokenID :: executionFunc where
  "opTokenID env f = ret0 (pushF (big_SetBytes (ab_TokenId (c_sendBlock (f_c f)))) f)"

definition opOffchainTokenID :: executionFunc where "opOffchainTokenID env f = ret0 (pushF 0 f)"

definition opAccountHeight :: executionFunc where
  "opAccountHeight env f =
     go_bind (DealWithErr (vdb_PrevAccountBlock (e_chain env) (c_db (f_c f)))) (\<lambda>ab.
       case ab of
         Some b \<Rightarrow> ret0 (pushF (U256 (uint (ab_Height b))) f)
       | None \<Rightarrow> ret0 (pushF 0 f))"

definition opOffchainAccountHeight :: executionFunc where "opOffchainAccountHeight env f = ret0 (pushF 0 f)"

definition opAccountHash :: executionFunc where
  "opAccountHash env f =
     go_bind (DealWithErr (vdb_PrevAccountBlock (e_chain env) (c_db (f_c f)))) (\<lambda>prevAccountBlock.
       case prevAccountBlock of
         None \<Rightarrow> ret0 (pushF 0 f)
       | Some b \<Rightarrow> ret0 (pushF (big_SetBytes (ab_Hash b)) f))"

definition opOffchainAccountHash :: executionFunc where
  "opOffchainAccountHash env f = popF f (\<lambda>_ f. ret0 (pushF 0 f))"

definition opFromHash :: executionFunc where
  "opFromHash env f = ret0 (pushF (big_SetBytes (ab_FromBlockHash (c_block (f_c f)))) f)"

definition opOffchainFromHash :: executionFunc where "opOffchainFromHash env f = ret0 (pushF 0 f)"

definition withStatus ::
    "(VMGlobalStatus \<Rightarrow> (VMGlobalStatus \<times> (vm_error + u64)) go) \<Rightarrow> frame \<Rightarrow> (frame \<times> bytes \<times> vm_error option) go" where
  "withStatus call f =
     (case vm_globalStatus (f_vm f) of
        None \<Rightarrow> Panics PanicNil
      | Some g \<Rightarrow>
          go_bind (call g) (\<lambda>(g', r).
          go_bind (DealWithErr r) (\<lambda>seed.
            ret0 (pushF (uint seed) (f\<lparr>f_vm := (f_vm f)\<lparr>vm_globalStatus := Some g'\<rparr>\<rparr>)))))"

definition opSeed :: executionFunc where
  "opSeed env f = withStatus (gs_Seed (e_crypto env) (e_seedChain env)) f"

definition opOffchainSeed :: executionFunc where "opOffchainSeed env f = ret0 (pushF 0 f)"

definition opRandom :: executionFunc where
  "opRandom env f = withStatus (gs_Random (e_crypto env) (e_seedChain env)) f"

definition opOffchainRandom :: executionFunc where "opOffchainRandom env f = ret0 (pushF 0 f)"

subsection \<open>Stack, memory, storage and flow\<close>

definition opPop :: executionFunc where "opPop env f = popF f (\<lambda>_ f. ret0 f)"

definition opMload :: executionFunc where
  "opMload env f = popF f (\<lambda>offset f.
     go_bind (mem_get (f_mem f) (big_Int64 offset) (int WordSize)) (\<lambda>val. ret0 (pushF (big_SetBytes val) f)))"

definition opMstore :: executionFunc where
  "opMstore env f = popF f (\<lambda>mStart f. popF f (\<lambda>val f.
     go_bind (mem_set32 (big_Uint64 mStart) val (f_mem f)) (\<lambda>m. ret0 (f\<lparr>f_mem := m\<rparr>))))"

definition opMstore8 :: executionFunc where
  "opMstore8 env f = popF f (\<lambda>off f. popF f (\<lambda>val f.
     go_bind (mem_setByte (big_Int64 off) (word_of_int (big_Int64 val AND 0xff)) (f_mem f)) (\<lambda>m.
       ret0 (f\<lparr>f_mem := m\<rparr>))))"

definition opSLoad :: executionFunc where
  "opSLoad env f = peekF f (\<lambda>loc.
     go_bind (util_GetValue (e_chain env) (c_db (f_c f)) (fst (BigToHash loc))) (\<lambda>val.
       ret0 (pokeF (big_SetBytes val) f)))"

definition opSStore :: executionFunc where
  "opSStore env f = popF f (\<lambda>loc f. popF f (\<lambda>val f.
     go_bind (util_SetValue (fst (BigToHash loc)) (big_Bytes val) (c_db (f_c f))) (\<lambda>db.
       ret0 (f\<lparr>f_c := (f_c f)\<lparr>c_db := db\<rparr>\<rparr>))))"

definition opOffchainSStore :: executionFunc where
  "opOffchainSStore env f = popF f (\<lambda>_ f. popF f (\<lambda>_ f. ret0 f))"

text \<open>\<open>c.jumpdests.has(c.codeAddr, c.code, pos)\<close> and the jump.\<close>

definition jumpTo :: "int \<Rightarrow> frame \<Rightarrow> (frame \<times> bytes \<times> vm_error option) go" where
  "jumpTo pos f =
     go_bind (dests_has (c_codeAddr (f_c f)) (c_code (f_c f)) pos (c_jumpdests (f_c f))) (\<lambda>(ok, d).
       let f = f\<lparr>f_c := (f_c f)\<lparr>c_jumpdests := d\<rparr>\<rparr>
       in if \<not> ok then Ret (f, [], Some ErrInvalidJumpDestination)
          else ret0 (f\<lparr>f_pc := big_Uint64 pos\<rparr>))"

definition opJump :: executionFunc where
  "opJump env f = popF f (\<lambda>pos f. jumpTo pos f)"

definition opJumpi :: executionFunc where
  "opJumpi env f = popF f (\<lambda>pos f. popF f (\<lambda>cond f.
     if cond \<noteq> 0 then jumpTo pos f else ret0 (f\<lparr>f_pc := f_pc f + 1\<rparr>)))"

definition opPc :: executionFunc where "opPc env f = ret0 (pushF (uint (f_pc f)) f)"

definition opMsize :: executionFunc where "opMsize env f = ret0 (pushF (int (mem_len (f_mem f))) f)"

definition opJumpdest :: executionFunc where "opJumpdest env f = ret0 f"

definition makePush :: "nat \<Rightarrow> nat \<Rightarrow> executionFunc" where
  "makePush sz pushByteSize env f =
     (let code = c_code (f_c f);
          codeLen = int (length code);
          pc1 = sint (f_pc f + 1);
          startMin = (if codeLen < pc1 then codeLen else pc1);
          e = startMin + int pushByteSize;
          endMin = (if codeLen < e then codeLen else e)
      in if startMin < 0 \<or> endMin < startMin then Panics PanicIndex
         else ret0 ((pushF (big_SetBytes (RightPadBytes (slice code (nat startMin) (nat endMin)) (int pushByteSize))) f)
                      \<lparr>f_pc := f_pc f + of_nat sz\<rparr>))"

definition makeDup :: "nat \<Rightarrow> executionFunc" where
  "makeDup sz env f = go_bind (dup sz (f_stack f)) (\<lambda>st. ret0 (f\<lparr>f_stack := st\<rparr>))"

definition makeSwap :: "nat \<Rightarrow> executionFunc" where
  "makeSwap sz env f = go_bind (swap (sz + 1) (f_stack f)) (\<lambda>st. ret0 (f\<lparr>f_stack := st\<rparr>))"

text \<open>The loop that pops the topics.\<close>

fun popN :: "nat \<Rightarrow> frame \<Rightarrow> (int list \<Rightarrow> frame \<Rightarrow> 'a go) \<Rightarrow> 'a go" where
  "popN 0 f k = k [] f"
| "popN (Suc n) f k = popF f (\<lambda>x f. popN n f (\<lambda>xs f. k (x # xs) f))"

definition makeLog :: "nat \<Rightarrow> executionFunc" where
  "makeLog sz env f = popF f (\<lambda>mStart f. popF f (\<lambda>mSize f. popN sz f (\<lambda>topics f.
     go_bind (mem_get (f_mem f) (big_Int64 mStart) (big_Int64 mSize)) (\<lambda>d.
       ret0 (f\<lparr>f_c := (f_c f)\<lparr>c_db :=
         vdb_AddLog \<lparr>vl_Topics = map (\<lambda>t. fst (BigToHash t)) topics, vl_Data = d\<rparr> (c_db (f_c f))\<rparr>\<rparr>)))))"

definition makeOffchainLog :: "nat \<Rightarrow> executionFunc" where
  "makeOffchainLog sz env f = popF f (\<lambda>_ f. popF f (\<lambda>_ f. popN sz f (\<lambda>_ f. ret0 f)))"

subsection \<open>Calls and the end of a program\<close>

definition opCall :: executionFunc where
  "opCall env f =
     popF f (\<lambda>toAddrBig f. popF f (\<lambda>tokenIDBig f. popF f (\<lambda>amount f. popF f (\<lambda>inOffset f. popF f (\<lambda>inSize f.
       go_bind (mem_get (f_mem f) (big_Int64 inOffset) (big_Int64 inSize)) (\<lambda>data.
         ret0 (f\<lparr>f_vm := AppendBlock
           (MakeRequestBlock (ab_AccountAddress (c_block (f_c f))) (fst (BigToAddress toAddrBig)) BlockTypeSendCall
              amount (fst (BigToTokenTypeId tokenIDBig)) data) (f_vm f)\<rparr>)))))))"

definition opOffchainCall :: executionFunc where
  "opOffchainCall env f =
     popF f (\<lambda>_ f. popF f (\<lambda>_ f. popF f (\<lambda>_ f. popF f (\<lambda>_ f. popF f (\<lambda>_ f. ret0 f)))))"

definition opCall2 :: executionFunc where
  "opCall2 env f =
     go_bind (opCall env f) (\<lambda>(f, returnData, err).
       if err \<noteq> None then Ret (f, returnData, err)
       else
         let l = vm_sendBlockList (f_vm f)
         in if l = [] then Panics PanicIndex
            else
              let h = ComputeSendBlockHash (e_crypto env) (c_block (f_c f)) (last l) (of_nat (length l - 1))
              in Ret (pushF (big_SetBytes h) f, returnData, None))"

definition opOffchainCall2 :: executionFunc where
  "opOffchainCall2 env f = go_bind (opOffchainCall env f) (\<lambda>(f, _, _). ret0 (pushF 0 f))"

definition opReturn :: executionFunc where
  "opReturn env f = popF f (\<lambda>offset f. popF f (\<lambda>sz f.
     go_bind (mem_getPtr (f_mem f) (big_Int64 offset) (big_Int64 sz)) (\<lambda>ret. Ret (f, ret, None))))"

definition opRevert :: executionFunc where
  "opRevert env f = popF f (\<lambda>offset f. popF f (\<lambda>sz f.
     go_bind (mem_getPtr (f_mem f) (big_Int64 offset) (big_Int64 sz)) (\<lambda>ret. Ret (f, ret, None))))"

definition opOffchainRevert :: executionFunc where
  "opOffchainRevert env f = popF f (\<lambda>_ f. popF f (\<lambda>_ f. ret0 f))"

end
