(* ===== verification/Alu.thy ===== *)
theory Alu
  imports Instructions "HOL-Library.Signed_Division"
begin

unbundle bit_operations_syntax

text \<open>
  The arithmetic, comparison and bit instructions as operations of 256-bit machine words.  The program works
  on big.Int values; the tables below are the abstract specification, and the lemmas show that every
  instruction on values in range computes its word operation.
\<close>

section \<open>The specification\<close>

type_synonym w256 = "256 word"

definition w256_of_bool :: "bool \<Rightarrow> w256" where
  "w256_of_bool b = (if b then 1 else 0)"

definition alu1 :: "(opCode \<times> (w256 \<Rightarrow> w256)) list" where
  "alu1 = [(ISZERO, \<lambda>a. w256_of_bool (a = 0)), (NOT_OP, \<lambda>a. NOT a)]"

definition alu2 :: "(opCode \<times> (w256 \<Rightarrow> w256 \<Rightarrow> w256)) list" where
  "alu2 =
     [(ADD, \<lambda>a b. a + b),
      (MUL, \<lambda>a b. a * b),
      (SUB, \<lambda>a b. a - b),
      (DIV, \<lambda>a b. a div b),
      (SDIV, \<lambda>a b. word_of_int (sint a sdiv sint b)),
      (MOD, \<lambda>a b. if b = 0 then 0 else a mod b),
      (SMOD, \<lambda>a b. if b = 0 then 0 else word_of_int (sint a smod sint b)),
      (EXP, \<lambda>a b. a ^ unat b),
      (SIGNEXTEND, \<lambda>a b. if a < 31 then signed_take_bit (8 * unat a + 7) b else b),
      (LT, \<lambda>a b. w256_of_bool (a < b)),
      (GT, \<lambda>a b. w256_of_bool (b < a)),
      (SLT, \<lambda>a b. w256_of_bool (a <s b)),
      (SGT, \<lambda>a b. w256_of_bool (b <s a)),
      (EQ, \<lambda>a b. w256_of_bool (a = b)),
      (AND_OP, \<lambda>a b. a AND b),
      (OR_OP, \<lambda>a b. a OR b),
      (XOR_OP, \<lambda>a b. a XOR b),
      (BYTE, \<lambda>a b. if a < 32 then take_bit 8 (drop_bit (8 * (31 - unat a)) b) else 0),
      (SHL, \<lambda>a b. push_bit (unat a) b),
      (SHR, \<lambda>a b. drop_bit (unat a) b)]"

definition alu3 :: "(opCode \<times> (w256 \<Rightarrow> w256 \<Rightarrow> w256 \<Rightarrow> w256)) list" where
  "alu3 =
     [(ADDMOD, \<lambda>a b c. if c = 0 then 0 else word_of_int ((uint a + uint b) mod uint c)),
      (MULMOD, \<lambda>a b c. if c = 0 then 0 else word_of_int ((uint a * uint b) mod uint c))]"

section \<open>Values and words\<close>

lemma wf_val_uint [simp]: "wf_val (uint (a :: w256))"
  using unsigned_less [where 'a = int, of a] by (simp add: wf_val_def)

lemma wf_val_obtain: "wf_val x \<Longrightarrow> \<exists>a :: w256. x = uint a"
  by (intro exI [of _ "word_of_int x"]) (simp add: wf_val_def uint_word_of_int)

lemma U256_uint: "U256 x = uint (word_of_int x :: w256)"
  by (simp add: U256_mod uint_word_of_int)

lemma bit_U256: "bit (U256 x) k \<longleftrightarrow> k < 256 \<and> bit x k"
  by (simp only: U256_mod bit_take_bit_iff flip: take_bit_eq_mod)

lemma S256_uint: "S256 (uint (a :: w256)) = sint a"
  by (simp add: S256_sint)

lemma uint_w256_of_bool: "uint (w256_of_bool b) = (if b then 1 else 0)"
  by (simp add: w256_of_bool_def)

section \<open>Arithmetic\<close>

lemma ops_plain:
  fixes a b :: w256
  assumes "f_stack f = uint a # uint b # st"
  shows "opAdd env f = ret0 (f\<lparr>f_stack := uint (a + b) # st\<rparr>)"
    "opMul env f = ret0 (f\<lparr>f_stack := uint (a * b) # st\<rparr>)"
    "opSub env f = ret0 (f\<lparr>f_stack := uint (a - b) # st\<rparr>)"
    "opLt env f = ret0 (f\<lparr>f_stack := uint (w256_of_bool (a < b)) # st\<rparr>)"
    "opGt env f = ret0 (f\<lparr>f_stack := uint (w256_of_bool (b < a)) # st\<rparr>)"
    "opEq env f = ret0 (f\<lparr>f_stack := uint (w256_of_bool (a = b)) # st\<rparr>)"
    "opAnd env f = ret0 (f\<lparr>f_stack := uint (a AND b) # st\<rparr>)"
    "opOr env f = ret0 (f\<lparr>f_stack := uint (a OR b) # st\<rparr>)"
    "opXor env f = ret0 (f\<lparr>f_stack := uint (a XOR b) # st\<rparr>)"
  using assms
  by (simp_all add: opAdd_def opMul_def opSub_def opLt_def opGt_def opEq_def opAnd_def opOr_def opXor_def U256_uint
      wi_hom_syms uint_w256_of_bool word_less_def uint_and uint_or uint_xor word_uint_eq_iff)

lemma ops_div:
  fixes a b :: w256
  assumes "f_stack f = uint a # uint b # st"
  shows "opDiv env f = ret0 (f\<lparr>f_stack := uint (a div b) # st\<rparr>)"
    "opMod env f = ret0 (f\<lparr>f_stack := uint (if b = 0 then 0 else a mod b) # st\<rparr>)"
  using assms
  by (auto simp add: opDiv_def opMod_def U256_uint word_div_def word_mod_def uint_0_iff)

lemma ops_signed_div:
  fixes a b :: w256
  assumes "f_stack f = uint a # uint b # st"
  shows "opSdiv env f = ret0 (f\<lparr>f_stack := uint (word_of_int (sint a sdiv sint b) :: w256) # st\<rparr>)"
    "opSmod env f = ret0 (f\<lparr>f_stack := uint (if b = 0 then 0 else word_of_int (sint a smod sint b) :: w256) # st\<rparr>)"
proof -
  have b: "sint b = 0 \<longleftrightarrow> b = 0" using signed_word_eqI [of b 0] by auto
  show "opSdiv env f = ret0 (f\<lparr>f_stack := uint (word_of_int (sint a sdiv sint b) :: w256) # st\<rparr>)"
    "opSmod env f = ret0 (f\<lparr>f_stack := uint (if b = 0 then 0 else word_of_int (sint a smod sint b) :: w256) # st\<rparr>)"
    using assms b
    by (auto simp add: opSdiv_def opSmod_def U256_uint S256_uint signed_divide_int_def signed_modulo_int_def
        sgn_if Let_def)
qed

lemma ops_mod3:
  fixes a b c :: w256
  assumes "f_stack f = uint a # uint b # uint c # st"
  shows "opAddmod env f = ret0 (f\<lparr>f_stack := uint (if c = 0 then 0 else word_of_int ((uint a + uint b) mod uint c) :: w256) # st\<rparr>)"
    "opMulmod env f = ret0 (f\<lparr>f_stack := uint (if c = 0 then 0 else word_of_int ((uint a * uint b) mod uint c) :: w256) # st\<rparr>)"
proof -
  have c: "uint c > 0 \<longleftrightarrow> c \<noteq> 0" using uint_0_iff [of c] by (simp add: less_le)
  show "opAddmod env f = ret0 (f\<lparr>f_stack := uint (if c = 0 then 0 else word_of_int ((uint a + uint b) mod uint c) :: w256) # st\<rparr>)"
    "opMulmod env f = ret0 (f\<lparr>f_stack := uint (if c = 0 then 0 else word_of_int ((uint a * uint b) mod uint c) :: w256) # st\<rparr>)"
    using assms c by (auto simp add: opAddmod_def opMulmod_def U256_uint)
qed

lemma ops_exp:
  fixes a b :: w256
  assumes "f_stack f = uint a # uint b # st"
  shows "opExp env f = ret0 (f\<lparr>f_stack := uint (a ^ unat b) # st\<rparr>)"
proof -
  have "a ^ unat b = word_of_int (uint a ^ unat b)"
    by (metis word_of_int_power_hom word_of_int_uint)
  then have "Exp (uint a) (uint b) = uint (a ^ unat b)"
    by (simp only: Exp_correct uint_ge_0 uint_word_of_int unat_eq_nat_uint) simp
  with assms show ?thesis by (simp add: opExp_def)
qed

section \<open>Bits\<close>

lemma ops_signed_compare:
  fixes a b :: w256
  assumes "f_stack f = uint a # uint b # st"
  shows "opSlt env f = ret0 (f\<lparr>f_stack := uint (w256_of_bool (a <s b)) # st\<rparr>)"
    "opSgt env f = ret0 (f\<lparr>f_stack := uint (w256_of_bool (b <s a)) # st\<rparr>)"
proof -
  have s: "sint x = (if uint x < Tt255 then uint x else uint x - Tt256)" for x :: w256
    using S256_uint [of x] by (simp add: S256_def)
  have r: "uint x - Tt256 < uint y" for x y :: w256
  proof -
    have "uint x < Tt256" using wf_val_uint [of x] by (simp add: Tt_simps wf_val_def)
    with uint_ge_0 [of y] show ?thesis by linarith
  qed
  show "opSlt env f = ret0 (f\<lparr>f_stack := uint (w256_of_bool (a <s b)) # st\<rparr>)"
    "opSgt env f = ret0 (f\<lparr>f_stack := uint (w256_of_bool (b <s a)) # st\<rparr>)"
    using assms r [of a b] r [of b a]
    by (auto simp: opSlt_def opSgt_def uint_w256_of_bool word_sless_alt s split: if_splits)
qed

lemma ops_unary:
  fixes a :: w256
  assumes "f_stack f = uint a # st"
  shows "opIszero env f = ret0 (f\<lparr>f_stack := uint (w256_of_bool (a = 0)) # st\<rparr>)"
    "opNot env f = ret0 (f\<lparr>f_stack := uint (NOT a) # st\<rparr>)"
proof -
  have "uint a > 0 \<longleftrightarrow> a \<noteq> 0" using uint_0_iff [of a] by (simp add: less_le)
  with assms show "opIszero env f = ret0 (f\<lparr>f_stack := uint (w256_of_bool (a = 0)) # st\<rparr>)"
    by (simp add: opIszero_def uint_w256_of_bool)
  have "(word_of_int (NOT (uint a)) :: w256) = NOT a" by (simp add: word_not_def)
  with assms show "opNot env f = ret0 (f\<lparr>f_stack := uint (NOT a) # st\<rparr>)"
    by (simp add: opNot_def U256_uint)
qed

lemma ops_shift:
  fixes a b :: w256
  assumes "f_stack f = uint a # uint b # st"
  shows "opSHL env f = ret0 (f\<lparr>f_stack := uint (push_bit (unat a) b) # st\<rparr>)"
    "opSHR env f = ret0 (f\<lparr>f_stack := uint (drop_bit (unat a) b) # st\<rparr>)"
proof -
  have u: "uint a < 256 \<Longrightarrow> unat (big_Uint64 (uint a)) = unat a"
    by (simp add: unat_big_Uint64)
  have big: "\<not> uint a < 256 \<Longrightarrow> 256 \<le> unat a" by (simp only: unat_eq_nat_uint nat_le_iff)
  have l: "uint (push_bit n b) = U256 (push_bit n (uint b))" for n
    by (intro bit_eqI) (auto simp: bit_U256 bit_uint_iff bit_push_bit_iff)
  have r: "uint (drop_bit n b) = U256 (drop_bit n (uint b))" for n
    by (intro bit_eqI) (auto simp: bit_U256 bit_uint_iff bit_drop_bit_eq dest: bit_imp_le_length)
  have 0: "256 \<le> n \<Longrightarrow> push_bit n b = 0" "256 \<le> n \<Longrightarrow> drop_bit n b = 0" for n
    by (auto intro!: bit_eqI simp: bit_push_bit_iff bit_drop_bit_eq dest: bit_imp_le_length)
  show "opSHL env f = ret0 (f\<lparr>f_stack := uint (push_bit (unat a) b) # st\<rparr>)"
    using assms u 0(1) [OF big] l by (cases "uint a < 256") (simp_all add: opSHL_def Let_def)
  show "opSHR env f = ret0 (f\<lparr>f_stack := uint (drop_bit (unat a) b) # st\<rparr>)"
    using assms u 0(2) [OF big] r by (cases "uint a < 256") (simp_all add: opSHR_def Let_def)
qed

lemma ops_byte:
  fixes a b :: w256
  assumes "f_stack f = uint a # uint b # st"
  shows "opByte env f = ret0 (f\<lparr>f_stack :=
    uint (if a < 32 then take_bit 8 (drop_bit (8 * (31 - unat a)) b) else 0) # st\<rparr>)"
proof (cases "a < 32")
  case True
  then have a: "uint a < 32" "unat a < 32" by (simp add: word_less_def, simp add: word_less_nat_alt)
  have "big_Int64 (uint a) = uint a"
    using a by (intro big_Int64_small order_trans [OF _ uint_ge_0]) simp_all
  then have i: "nat (big_Int64 (uint a)) = unat a" by simp
  have "uint (take_bit 8 (drop_bit n b)) = uint b div 2 ^ n mod 256" for n
  proof -
    have "uint (take_bit 8 (drop_bit n b)) = take_bit 8 (drop_bit n (uint b))"
      by (intro bit_eqI) (auto simp: bit_uint_iff bit_take_bit_iff bit_drop_bit_eq dest: bit_imp_le_length)
    then show ?thesis by (simp add: take_bit_eq_mod drop_bit_eq_div)
  qed
  moreover have "int (unat (bigEndianByteAt (uint b) n)) = uint b div 2 ^ (8 * n) mod 256" for n
    by (simp add: unat_bigEndianByteAt power_mult zdiv_int zmod_int)
  ultimately show ?thesis
    using assms a i True by (simp add: opByte_def Byte_def WordSize_def)
next
  case False
  then show ?thesis using assms by (simp add: opByte_def word_less_def)
qed

lemma ops_signextend:
  fixes a b :: w256
  assumes "f_stack f = uint a # uint b # st"
  shows "opSignExtend env f = ret0 (f\<lparr>f_stack :=
    uint (if a < 31 then signed_take_bit (8 * unat a + 7) b else b) # st\<rparr>)"
proof (cases "a < 31")
  case True
  then have a: "uint a < 31" "unat a < 31" by (simp add: word_less_def, simp add: word_less_nat_alt)
  let ?n = "8 * unat a + 7"
  have "unat (big_Uint64 (uint a) * 8 + 7) = ?n"
    using a unat_big_Uint64 [of "uint a"] by (simp add: unat_plus_u64 unat_mult_u64)
  moreover have "uint (signed_take_bit ?n b) =
    U256 (if bit (uint b) ?n then uint b OR NOT (push_bit ?n 1 - 1) else uint b AND (push_bit ?n 1 - 1))"
    using a by (intro bit_eqI)
      (auto simp: bit_U256 bit_uint_iff bit_signed_take_bit_iff bit_or_iff bit_not_iff bit_and_iff
        bit_mask_iff min_def not_less not_le simp flip: mask_eq_exp_minus_1)
  ultimately show ?thesis
    using assms a True by (simp add: opSignExtend_def Let_def)
next
  case False
  then show ?thesis using assms by (simp add: opSignExtend_def word_less_def)
qed

text \<open>The arithmetic shift: by less than 256 it is the word operation; from 256 on the code answers 0 for a
  positive value and all ones otherwise.\<close>

lemma ops_sar:
  fixes a b :: w256
  assumes "f_stack f = uint a # uint b # st"
  shows "opSAR env f = ret0 (f\<lparr>f_stack :=
    uint (if a < 256 then signed_drop_bit (unat a) b else if 0 <s b then 0 else - 1) # st\<rparr>)"
proof (cases "a < 256")
  case True
  then have a: "uint a < 256" by (simp add: word_less_def)
  have "uint (signed_drop_bit n b) = U256 (drop_bit n (sint b))" for n
    by (simp add: U256_uint flip: sint_signed_drop_bit_eq)
  with assms a True show ?thesis
    by (simp add: opSAR_def Let_def S256_uint unat_big_Uint64)
next
  case False
  then have a: "\<not> uint a < 256" by (simp add: word_less_def)
  have "uint (- 1 :: w256) = U256 (- 1)" by (simp add: U256_uint)
  with assms a False show ?thesis
    by (simp add: opSAR_def Let_def S256_uint word_sless_alt)
qed

lemma signed_drop_bit_all:
  fixes b :: w256
  assumes "256 \<le> n"
  shows "signed_drop_bit n b = (if b <s 0 then - 1 else 0)"
proof -
  have r: "- (2 ^ 255) \<le> sint b" "sint b < 2 ^ 255" using sint_greater_eq [of b] sint_less [of b] by simp_all
  have p: "(2 :: int) ^ 255 \<le> 2 ^ n" using assms by (intro power_increasing) simp_all
  have "sint (signed_drop_bit n b) = sint b div 2 ^ n" by (simp add: sint_signed_drop_bit_eq drop_bit_eq_div)
  also have "\<dots> = (if sint b < 0 then - 1 else 0)"
  proof (cases "sint b < 0")
    case True
    have "sint b div 2 ^ n = - 1"
      by (rule int_div_pos_eq [where r = "sint b + 2 ^ n"]) (use True r p in simp_all)
    with True show ?thesis by simp
  next
    case False
    with r p have "sint b < 2 ^ n" by linarith
    with False show ?thesis by simp
  qed
  also have "\<dots> = sint (if b <s 0 then - 1 else 0 :: w256)" by (simp add: word_sless_alt)
  finally show ?thesis by (rule signed_word_eqI)
qed

section \<open>Properties\<close>

text \<open>C12: \<open>SAR\<close> is the arithmetic shift of signed 256-bit words, with one exception: shifting zero by 256 or more
  gives minus one where the arithmetic shift gives zero.\<close>

theorem opSAR_except_zero:
  fixes a b :: w256
  assumes "f_stack f = uint a # uint b # st"
  shows "opSAR env f = ret0 (f\<lparr>f_stack := uint (if b = 0 \<and> 256 \<le> a then - 1 else signed_drop_bit (unat a) b) # st\<rparr>)"
proof (cases "a < 256")
  case False
  then have "256 \<le> unat a" by (simp add: word_less_nat_alt)
  moreover have "sint b = 0 \<longleftrightarrow> b = 0" by (metis signed_0 signed_word_eqI)
  ultimately show ?thesis using signed_drop_bit_all [of "unat a" b] False ops_sar [OF assms, of env]
    by (auto simp: word_sless_alt not_less)
qed (use ops_sar [OF assms, of env] in auto)

theorem opSAR_except_zero_witness:
  "\<forall>env. opSAR env (sampleFrame newViteQuotaTable [256, 0]) = ret0 (sampleFrame newViteQuotaTable [2 ^ 256 - 1])"
  using opSAR_except_zero [of "sampleFrame newViteQuotaTable [256, 0]" 256 0 "[]"]
  by (simp add: sampleFrame_def unsigned_minus_1_eq_mask mask_eq_exp_minus_1)

end
