(* ===== verification/Frame_Rules.thy ===== *)
theory Frame_Rules
  imports Alu
begin

unbundle bit_operations_syntax

text \<open>
  The invariant of the frame of a running contract and the contract of every instruction against it: on a
  frame that satisfies the invariant, with the operands that \<open>validateStack\<close> checked and the memory that the
  interpreter has extended, an instruction keeps the invariant, changes the height of the stack by what its
  table entry declares, and does not read outside a slice.
\<close>

section \<open>The invariant\<close>

text \<open>What the code relies on of its environment: digests have their length, and the ledger answers with
  balances, storage values and block hashes that fit in a VM word.\<close>

definition env_ok :: "env \<Rightarrow> bool" where
  "env_ok env \<longleftrightarrow> crypto_ok (e_crypto env) \<and>
     (\<forall>a t b. chain_GetBalance (e_chain env) a t = Inr b \<longrightarrow> wf_val b) \<and>
     (\<forall>a k v. chain_GetValue (e_chain env) a k = Inr v \<longrightarrow> length v \<le> 32) \<and>
     (\<forall>h b. chain_GetAccountBlockByHash (e_chain env) h = Inr (Some b) \<longrightarrow> length (ab_Hash b) \<le> 32)"

definition db_ok :: "vmDb \<Rightarrow> bool" where
  "db_ok db \<longleftrightarrow> keys_ok db \<and> (\<forall>(t, b) \<in> set (balanceMap (vdb_uns db)). wf_val b) \<and>
     (\<forall>(k, v) \<in> set (the (u_storage (vdb_uns db))). length v \<le> 32)"

definition blocks_ok :: "contract \<Rightarrow> bool" where
  "blocks_ok c \<longleftrightarrow> length (ab_AccountAddress (c_block c)) \<le> 32 \<and> length (ab_FromBlockHash (c_block c)) \<le> 32 \<and>
     length (ab_AccountAddress (c_sendBlock c)) \<le> 32 \<and> length (ab_TokenId (c_sendBlock c)) \<le> 32 \<and>
     wf_val (ab_Amount (c_sendBlock c)) \<and> length (c_code c) < 2 ^ 62 \<and> length (c_data c) < 2 ^ 62"

definition status_ok :: "VMGlobalStatus option \<Rightarrow> bool" where
  "status_ok s \<longleftrightarrow> (\<forall>g r. s = Some g \<longrightarrow> gs_randSource g = Some r \<longrightarrow> wf_rng r)"

abbreviation (input) memBound :: nat where "memBound \<equiv> 1099511627776"

definition frame_ok :: "frame \<Rightarrow> bool" where
  "frame_ok f \<longleftrightarrow> wf_stack (f_stack f) \<and> wf_mem (f_mem f) \<and> mem_len (f_mem f) \<le> memBound \<and>
     dests_ok (c_codeAddr (f_c f)) (c_code (f_c f)) (c_jumpdests (f_c f)) \<and> db_ok (c_db (f_c f)) \<and>
     blocks_ok (f_c f) \<and> status_ok (vm_globalStatus (f_vm f)) \<and> quota_table (vm_gasTable (f_vm f)) \<and>
     c_returnData (f_c f) = []"

lemma frame_okD:
  assumes "frame_ok f"
  shows "wf_stack (f_stack f)" "wf_mem (f_mem f)" "mem_len (f_mem f) \<le> memBound"
    "dests_ok (c_codeAddr (f_c f)) (c_code (f_c f)) (c_jumpdests (f_c f))" "db_ok (c_db (f_c f))"
    "blocks_ok (f_c f)" "status_ok (vm_globalStatus (f_vm f))" "quota_table (vm_gasTable (f_vm f))"
    "c_returnData (f_c f) = []"
  using assms by (simp_all add: frame_ok_def)

lemma frame_ok_stack: "frame_ok f \<Longrightarrow> wf_stack st \<Longrightarrow> frame_ok (f\<lparr>f_stack := st\<rparr>)"
  by (simp add: frame_ok_def)

section \<open>Contracts\<close>

text \<open>An instruction writes storage and logs; of the database it leaves the rest alone.\<close>

definition db_kept :: "vmDb \<Rightarrow> vmDb \<Rightarrow> bool" where
  "db_kept db db' \<longleftrightarrow> db'\<lparr>vdb_uns := vdb_uns db\<rparr> = db \<and> balanceMap (vdb_uns db') = balanceMap (vdb_uns db) \<and>
     contractMetaMap (vdb_uns db') = contractMetaMap (vdb_uns db) \<and> u_code (vdb_uns db') = u_code (vdb_uns db)"

lemma db_kept_simps [simp]:
  "db_kept db db" "db_kept db (vdb_AddLog l db)" "util_SetValue k v db = Ret db' \<Longrightarrow> db_kept db db'"
  by (auto simp: db_kept_def vdb_AddLog_def uns_AddLog_def util_SetValue_Ret)

lemma db_kept_trans: "db_kept db db' \<Longrightarrow> db_kept db' db'' \<Longrightarrow> db_kept db db''"
  by (cases db; cases db'; cases db'') (auto simp: db_kept_def)

text \<open>The fields that no instruction changes.\<close>

definition kept :: "frame \<Rightarrow> frame \<Rightarrow> bool" where
  "kept f f' \<longleftrightarrow> vm_gasTable (f_vm f') = vm_gasTable (f_vm f) \<and> vm_i (f_vm f') = vm_i (f_vm f) \<and>
     vm_latestSnapshotHeight (f_vm f') = vm_latestSnapshotHeight (f_vm f) \<and>
     c_code (f_c f') = c_code (f_c f) \<and> c_codeAddr (f_c f') = c_codeAddr (f_c f) \<and>
     c_data (f_c f') = c_data (f_c f) \<and> c_block (f_c f') = c_block (f_c f) \<and> c_sendBlock (f_c f') = c_sendBlock (f_c f) \<and>
     c_quotaLeft (f_c f') = c_quotaLeft (f_c f) \<and> c_returnData (f_c f') = c_returnData (f_c f) \<and>
     c_storageModified (f_c f') = c_storageModified (f_c f) \<and>
     vdb_address (c_db (f_c f')) = vdb_address (c_db (f_c f)) \<and> db_kept (c_db (f_c f)) (c_db (f_c f')) \<and>
     mem_len (f_mem f') = mem_len (f_mem f)"

text \<open>The storage is untouched and the program counter advances by \<open>n\<close> (before the increment of the loop).\<close>

definition advance :: "nat \<Rightarrow> frame \<Rightarrow> frame \<Rightarrow> bool" where
  "advance n f f' \<longleftrightarrow> u_storage (vdb_uns (c_db (f_c f'))) = u_storage (vdb_uns (c_db (f_c f))) \<and>
     f_pc f' = f_pc f + of_nat n"

definition jumped :: "frame \<Rightarrow> frame \<Rightarrow> bool" where
  "jumped f f' \<longleftrightarrow> u_storage (vdb_uns (c_db (f_c f'))) = u_storage (vdb_uns (c_db (f_c f))) \<and>
     (validJump (c_code (f_c f)) (uint (f_pc f')) \<or> f_pc f' = f_pc f + 1)"

definition stored :: "frame \<Rightarrow> frame \<Rightarrow> bool" where
  "stored f f' \<longleftrightarrow> f_pc f' = f_pc f \<and>
     util_SetValue (fst (BigToHash (f_stack f ! 0))) (big_Bytes (f_stack f ! 1)) (c_db (f_c f)) = Ret (c_db (f_c f'))"

text \<open>An instruction that leaves the database and the send blocks alone is quiet, one that may read outside a slice
  is risky.\<close>

datatype effect = Quiet | Loud | Risky

definition same_world :: "frame \<Rightarrow> frame \<Rightarrow> bool" where
  "same_world f f' \<longleftrightarrow> c_db (f_c f') = c_db (f_c f) \<and> vm_sendBlockList (f_vm f') = vm_sendBlockList (f_vm f)"

text \<open>The outcome of an instruction with \<open>pops\<close> operands and \<open>pushes\<close> results.\<close>

definition exec_post ::
    "effect \<Rightarrow> nat \<Rightarrow> nat \<Rightarrow> (frame \<Rightarrow> frame \<Rightarrow> bool) \<Rightarrow> frame \<Rightarrow> (frame \<times> bytes \<times> vm_error option) go \<Rightarrow> bool" where
  "exec_post e pops pushes Q f r \<longleftrightarrow>
     (case r of
        Panics p \<Rightarrow> p = PanicIndex \<longrightarrow> e = Risky
      | Ret (f', ret, err) \<Rightarrow> kept f f' \<and> frame_ok f' \<and> (e = Quiet \<longrightarrow> same_world f f') \<and> length (f_stack f') + pops = length (f_stack f) + pushes \<and>
          (err = None \<longrightarrow> Q f f'))"

text \<open>The memory that the table entry asks for is there.\<close>

definition covered :: "memorySizeFunc option \<Rightarrow> frame \<Rightarrow> bool" where
  "covered ms f \<longleftrightarrow> (\<forall>g n. ms = Some g \<longrightarrow> g (f_stack f) = Ret n \<longrightarrow> n \<le> int (mem_len (f_mem f)))"

definition exec_ok ::
    "effect \<Rightarrow> memorySizeFunc option \<Rightarrow> nat \<Rightarrow> nat \<Rightarrow> (frame \<Rightarrow> frame \<Rightarrow> bool) \<Rightarrow> executionFunc \<Rightarrow> bool" where
  "exec_ok e ms pops pushes Q op \<longleftrightarrow>
     (\<forall>env f. env_ok env \<longrightarrow> frame_ok f \<longrightarrow> pops \<le> length (f_stack f) \<longrightarrow> covered ms f \<longrightarrow>
        unat (f_pc f) < 2 ^ 63 - 1 \<longrightarrow> exec_post e pops pushes Q f (op env f))"

named_theorems exec_rules "the contracts of the instructions"

text \<open>An instruction that only works on the stack.\<close>

definition pure_op :: "nat \<Rightarrow> nat \<Rightarrow> executionFunc \<Rightarrow> bool" where
  "pure_op pops pushes op \<longleftrightarrow>
     (\<forall>env f. env_ok env \<longrightarrow> frame_ok f \<longrightarrow> pops \<le> length (f_stack f) \<longrightarrow>
        (\<exists>p. op env f = Panics p \<and> p \<noteq> PanicIndex) \<or>
        (\<exists>vs. op env f = ret0 (f\<lparr>f_stack := vs @ drop pops (f_stack f)\<rparr>) \<and> length vs = pushes \<and> wf_stack vs))"

lemma wf_stack_drop: "wf_stack st \<Longrightarrow> wf_stack (drop n st)"
  by (auto simp: wf_stack_def list_all_iff dest: in_set_dropD)

lemma pure_op_exec:
  assumes "pure_op pops pushes op"
  shows "exec_ok e ms pops pushes (advance 0) op"
  unfolding exec_ok_def
proof (intro allI impI)
  fix env f
  assume a: "env_ok env" "frame_ok f" "pops \<le> length (f_stack f)"
  then have drop: "wf_stack (drop pops (f_stack f))" by (simp add: frame_okD wf_stack_drop)
  from assms a consider p where "op env f = Panics p" "p \<noteq> PanicIndex"
    | vs where "op env f = ret0 (f\<lparr>f_stack := vs @ drop pops (f_stack f)\<rparr>)" "length vs = pushes" "wf_stack vs"
    unfolding pure_op_def by blast
  then show "exec_post e pops pushes (advance 0) f (op env f)"
    by cases (use a drop in \<open>auto simp: exec_post_def same_world_def ret0_def kept_def advance_def frame_ok_stack\<close>)
qed

text \<open>Reduction of the contract of a stack instruction to a stack with named operands.\<close>

lemma pure_opI:
  assumes "\<And>env f xs st. env_ok env \<Longrightarrow> frame_ok f \<Longrightarrow> f_stack f = xs @ st \<Longrightarrow> length xs = pops \<Longrightarrow> wf_stack xs \<Longrightarrow>
    (\<exists>p. op env f = Panics p \<and> p \<noteq> PanicIndex) \<or>
    (\<exists>vs. op env f = ret0 (f\<lparr>f_stack := vs @ st\<rparr>) \<and> length vs = pushes \<and> wf_stack vs)"
  shows "pure_op pops pushes op"
  unfolding pure_op_def
proof (intro allI impI)
  fix env f
  assume a: "env_ok env" "frame_ok f" "pops \<le> length (f_stack f)"
  then obtain xs st where st: "f_stack f = xs @ st" "length xs = pops" by (metis stack_split)
  moreover have "wf_stack xs" using frame_okD(1) [OF a(2)] st by simp
  ultimately show "(\<exists>p. op env f = Panics p \<and> p \<noteq> PanicIndex) \<or>
    (\<exists>vs. op env f = ret0 (f\<lparr>f_stack := vs @ drop pops (f_stack f)\<rparr>) \<and> length vs = pushes \<and> wf_stack vs)"
    using assms [OF a(1,2) st] by simp
qed

lemma pure_op0:
  assumes "\<And>env f. env_ok env \<Longrightarrow> frame_ok f \<Longrightarrow>
    (\<exists>p. op env f = Panics p \<and> p \<noteq> PanicIndex) \<or> (\<exists>v. op env f = ret0 (f\<lparr>f_stack := v # f_stack f\<rparr>) \<and> wf_val v)"
  shows "pure_op 0 1 op"
proof (rule pure_opI)
  fix env and f :: frame and xs st
  assume a: "env_ok env" "frame_ok f" "f_stack f = xs @ st" "length xs = 0"
  from assms [OF a(1,2)] show "(\<exists>p. op env f = Panics p \<and> p \<noteq> PanicIndex) \<or>
    (\<exists>vs. op env f = ret0 (f\<lparr>f_stack := vs @ st\<rparr>) \<and> length vs = 1 \<and> wf_stack vs)"
  proof (elim disjE exE conjE)
    fix v assume "op env f = ret0 (f\<lparr>f_stack := v # f_stack f\<rparr>)" "wf_val v"
    with a show ?thesis by (intro disjI2 exI [of _ "[v]"]) simp
  qed blast
qed

lemma pure_op1:
  assumes "\<And>env f x st. env_ok env \<Longrightarrow> frame_ok f \<Longrightarrow> f_stack f = x # st \<Longrightarrow> wf_val x \<Longrightarrow>
    (\<exists>p. op env f = Panics p \<and> p \<noteq> PanicIndex) \<or> (\<exists>v. op env f = ret0 (f\<lparr>f_stack := v # st\<rparr>) \<and> wf_val v)"
  shows "pure_op 1 1 op"
proof (rule pure_opI)
  fix env and f :: frame and xs st
  assume a: "env_ok env" "frame_ok f" "f_stack f = xs @ st" "length xs = 1" "wf_stack xs"
  then obtain x where x: "f_stack f = x # st" "wf_val x" by (auto simp: length_Suc_conv)
  from assms [OF a(1,2) x] show "(\<exists>p. op env f = Panics p \<and> p \<noteq> PanicIndex) \<or>
    (\<exists>vs. op env f = ret0 (f\<lparr>f_stack := vs @ st\<rparr>) \<and> length vs = 1 \<and> wf_stack vs)"
  proof (elim disjE exE conjE)
    fix v assume "op env f = ret0 (f\<lparr>f_stack := v # st\<rparr>)" "wf_val v"
    then show ?thesis by (intro disjI2 exI [of _ "[v]"]) simp
  qed blast
qed

lemma pure_op2:
  assumes "\<And>env f st (a :: w256) (b :: w256). f_stack f = uint a # uint b # st \<Longrightarrow> \<exists>c :: w256. op env f = ret0 (f\<lparr>f_stack := uint c # st\<rparr>)"
  shows "pure_op 2 1 op"
proof (rule pure_opI)
  fix env and f :: frame and xs st
  assume "f_stack f = xs @ st" "length xs = 2" "wf_stack xs"
  then obtain a b where "f_stack f = a # b # st" "wf_val a" "wf_val b"
    by (auto simp: numeral_2_eq_2 length_Suc_conv)
  then obtain a' b' :: w256 where "f_stack f = uint a' # uint b' # st" by (metis wf_val_obtain)
  from assms [OF this, of env] show "(\<exists>p. op env f = Panics p \<and> p \<noteq> PanicIndex) \<or>
    (\<exists>vs. op env f = ret0 (f\<lparr>f_stack := vs @ st\<rparr>) \<and> length vs = 1 \<and> wf_stack vs)"
    by (intro disjI2) (metis One_nat_def append_Cons append_Nil length_Cons list.size(3) wf_stack_simps(1,2) wf_val_uint)
qed

section \<open>Stack instructions\<close>

lemma pure_alu2 [exec_rules]:
  "pure_op 2 1 opAdd" "pure_op 2 1 opMul" "pure_op 2 1 opSub" "pure_op 2 1 opLt" "pure_op 2 1 opGt" "pure_op 2 1 opEq"
  "pure_op 2 1 opAnd" "pure_op 2 1 opOr" "pure_op 2 1 opXor" "pure_op 2 1 opDiv" "pure_op 2 1 opMod"
  "pure_op 2 1 opSdiv" "pure_op 2 1 opSmod" "pure_op 2 1 opExp" "pure_op 2 1 opSignExtend" "pure_op 2 1 opSlt"
  "pure_op 2 1 opSgt" "pure_op 2 1 opByte" "pure_op 2 1 opSHL" "pure_op 2 1 opSHR" "pure_op 2 1 opSAR"
  by (rule pure_op2, blast intro: ops_plain ops_div ops_signed_div ops_exp ops_signextend ops_signed_compare ops_byte
      ops_shift ops_sar)+

lemma pure_alu3 [exec_rules]: "pure_op 3 1 opAddmod" "pure_op 3 1 opMulmod"
proof -
  have "(\<exists>p. op env f = Panics p \<and> p \<noteq> PanicIndex) \<or>
      (\<exists>vs. op env f = ret0 (f\<lparr>f_stack := vs @ st\<rparr>) \<and> length vs = 1 \<and> wf_stack vs)"
    if "op = opAddmod \<or> op = opMulmod" "f_stack f = xs @ st" "length xs = 3" "wf_stack xs" for op env f xs st
  proof -
    from that(2-4) obtain a b c where "f_stack f = a # b # c # st" "wf_val a" "wf_val b" "wf_val c"
      by (auto simp: numeral_3_eq_3 length_Suc_conv)
    then obtain a' b' c' :: w256 where "f_stack f = uint a' # uint b' # uint c' # st" by (metis wf_val_obtain)
    from that(1) ops_mod3 [OF this, of env] obtain r :: w256 where "op env f = ret0 (f\<lparr>f_stack := uint r # st\<rparr>)" by blast
    then show ?thesis by (intro disjI2 exI [of _ "[uint r]"]) simp
  qed
  then show "pure_op 3 1 opAddmod" "pure_op 3 1 opMulmod" by (intro pure_opI, blast)+
qed

lemma pure_alu1 [exec_rules]: "pure_op 1 1 opIszero" "pure_op 1 1 opNot"
  by (rule pure_op1, rule disjI2, force simp: opIszero_def opNot_def)+

text \<open>Values of the context.\<close>

lemma wf_val_int: "n < 2 ^ 64 \<Longrightarrow> wf_val (int n)"
  by (simp add: wf_val_def)

lemma wf_val_uint64 [simp]: "wf_val (uint (w :: u64))"
  using unsigned_less [where 'a = int, of w] by (simp add: wf_val_def)

lemma blocks_ok_vals:
  assumes "frame_ok f"
  shows "wf_val (big_SetBytes (ab_AccountAddress (c_block (f_c f))))"
    "wf_val (big_SetBytes (ab_FromBlockHash (c_block (f_c f))))"
    "wf_val (big_SetBytes (ab_AccountAddress (c_sendBlock (f_c f))))"
    "wf_val (big_SetBytes (ab_TokenId (c_sendBlock (f_c f))))"
    "wf_val (ab_Amount (c_sendBlock (f_c f)))"
    "wf_val (int (length (c_code (f_c f))))" "wf_val (int (length (c_data (f_c f))))"
  using frame_okD(6) [OF assms] by (simp_all add: blocks_ok_def wf_val_SetBytes wf_val_int)

lemma pure_context [exec_rules]:
  "pure_op 0 1 opAddress" "pure_op 0 1 opCaller" "pure_op 0 1 opOffchainCaller" "pure_op 0 1 opCallValue"
  "pure_op 0 1 opOffchainCallValue" "pure_op 0 1 opCallDataSize" "pure_op 0 1 opCodeSize" "pure_op 0 1 opReturnDataSize"
  "pure_op 0 1 opOffchainTimestamp" "pure_op 0 1 opOffchainHeight" "pure_op 0 1 opTokenID" "pure_op 0 1 opOffchainTokenID"
  "pure_op 0 1 opOffchainAccountHeight" "pure_op 0 1 opFromHash" "pure_op 0 1 opOffchainFromHash" "pure_op 0 1 opOffchainSeed"
  "pure_op 0 1 opOffchainRandom" "pure_op 0 1 opPc"
  by (rule pure_op0, rule disjI2, force simp: blocks_ok_vals opAddress_def opCaller_def opOffchainCaller_def opCallValue_def
      opOffchainCallValue_def opCallDataSize_def opCodeSize_def opReturnDataSize_def opOffchainTimestamp_def opOffchainHeight_def
      opTokenID_def opOffchainTokenID_def opOffchainAccountHeight_def opFromHash_def opOffchainFromHash_def opOffchainSeed_def
      opOffchainRandom_def opPc_def)+

lemma statusBlock_no_index: "statusBlock f \<noteq> Panics PanicIndex"
  by (simp add: statusBlock_def split: option.split)

lemma pure_status [exec_rules]: "pure_op 0 1 opTimestamp" "pure_op 0 1 opHeight"
proof -
  have "(\<exists>p. opTimestamp env f = Panics p \<and> p \<noteq> PanicIndex) \<or>
      (\<exists>v. opTimestamp env f = ret0 (f\<lparr>f_stack := v # f_stack f\<rparr>) \<and> wf_val v)"
    "(\<exists>p. opHeight env f = Panics p \<and> p \<noteq> PanicIndex) \<or>
      (\<exists>v. opHeight env f = ret0 (f\<lparr>f_stack := v # f_stack f\<rparr>) \<and> wf_val v)" for env f
    using statusBlock_no_index [of f]
    by (cases "statusBlock f"; auto simp: opTimestamp_def opHeight_def)+
  then show "pure_op 0 1 opTimestamp" "pure_op 0 1 opHeight" by (intro pure_op0; blast)+
qed

lemma pure_prev [exec_rules]: "pure_op 0 1 opAccountHeight" "pure_op 0 1 opAccountHash"
proof -
  have hash: "wf_val (big_SetBytes (ab_Hash b))"
    if "env_ok env" "vdb_PrevAccountBlock (e_chain env) db = Inr (Some b)" for env db b
    using that by (auto simp: vdb_PrevAccountBlock_def env_ok_def intro!: wf_val_SetBytes
        split: option.splits if_splits sum.splits)
  show "pure_op 0 1 opAccountHeight"
    by (rule pure_op0) (auto simp: opAccountHeight_def DealWithErr_def split: sum.splits option.splits)
  show "pure_op 0 1 opAccountHash"
    by (rule pure_op0) (auto simp: opAccountHash_def DealWithErr_def hash split: sum.splits option.splits)
qed

lemma pure_msize [exec_rules]: "pure_op 0 1 opMsize"
  by (rule pure_op0) (auto simp: opMsize_def dest!: frame_okD(3) intro!: wf_val_int)

lemma pure_flow [exec_rules]:
  "pure_op 0 0 opStop" "pure_op 0 0 opJumpdest" "pure_op 1 0 opPop" "pure_op 2 0 opOffchainSStore" "pure_op 2 0 opOffchainRevert"
  by (rule pure_opI, rule disjI2, force simp: opStop_def opJumpdest_def opPop_def opOffchainSStore_def opOffchainRevert_def
      numeral_2_eq_2 length_Suc_conv)+

lemma pure_dup_swap [exec_rules]:
  "0 < n \<Longrightarrow> pure_op n (n + 1) (makeDup n)" "pure_op (n + 1) (n + 1) (makeSwap n)"
proof -
  show "pure_op n (n + 1) (makeDup n)" if "0 < n"
  proof (rule pure_opI)
    fix env and f :: frame and xs st
    assume a: "f_stack f = xs @ st" "length xs = n" "wf_stack xs"
    have "wf_val (xs ! (n - 1))" using a that by (intro wf_stack_nth) auto
    with a that show "(\<exists>p. makeDup n env f = Panics p \<and> p \<noteq> PanicIndex) \<or>
      (\<exists>vs. makeDup n env f = ret0 (f\<lparr>f_stack := vs @ st\<rparr>) \<and> length vs = n + 1 \<and> wf_stack vs)"
      by (intro disjI2 exI [of _ "xs ! (n - 1) # xs"]) (simp add: makeDup_def dup_Ret nth_append)
  qed
  show "pure_op (n + 1) (n + 1) (makeSwap n)"
  proof (rule pure_opI)
    fix env and f :: frame and xs st
    assume a: "f_stack f = xs @ st" "length xs = n + 1" "wf_stack xs"
    let ?ys = "xs[0 := xs ! n, n := xs ! 0]"
    have xs: "swap (n + 1) xs = Ret ?ys" using a by (simp add: swap_def)
    have ne: "xs \<noteq> []" using a by auto
    have "swap (n + 1) (xs @ st) = Ret (?ys @ st)"
      using a ne by (simp add: swap_def nth_append list_update_append)
    with a swap_mset(1) [OF xs] wf_stack_swap [OF xs a(3)]
    show "(\<exists>p. makeSwap n env f = Panics p \<and> p \<noteq> PanicIndex) \<or>
      (\<exists>vs. makeSwap n env f = ret0 (f\<lparr>f_stack := vs @ st\<rparr>) \<and> length vs = n + 1 \<and> wf_stack vs)"
      by (intro disjI2 exI [of _ ?ys]) (simp add: makeSwap_def)
  qed
qed

lemma popN_append: "f_stack f = xs @ st \<Longrightarrow> popN (length xs) f k = k xs (f\<lparr>f_stack := st\<rparr>)"
proof (induction xs arbitrary: f k)
  case Nil
  then have "f\<lparr>f_stack := st\<rparr> = f" by (cases f) simp
  then show ?case by simp
qed simp

lemma popN_eq: "f_stack f = xs @ st \<Longrightarrow> length xs = n \<Longrightarrow> popN n f k = k xs (f\<lparr>f_stack := st\<rparr>)"
  using popN_append by blast

lemma pure_offchain [exec_rules]:
  "pure_op (n + 2) 0 (makeOffchainLog n)" "pure_op 5 0 opOffchainCall" "pure_op 5 1 opOffchainCall2"
proof -
  show "pure_op (n + 2) 0 (makeOffchainLog n)"
  proof (rule pure_opI)
    fix env and f :: frame and xs st
    assume "f_stack f = xs @ st" "length xs = n + 2"
    then obtain a b ys where "f_stack f = a # b # ys @ st" "length ys = n" by (auto simp: length_Suc_conv)
    then show "(\<exists>p. makeOffchainLog n env f = Panics p \<and> p \<noteq> PanicIndex) \<or>
      (\<exists>vs. makeOffchainLog n env f = ret0 (f\<lparr>f_stack := vs @ st\<rparr>) \<and> length vs = 0 \<and> wf_stack vs)"
      by (simp add: makeOffchainLog_def popN_eq [of _ ys st n])
  qed
  have call: "opOffchainCall env f = ret0 (f\<lparr>f_stack := st\<rparr>)" if "f_stack f = xs @ st" "length xs = 5" for env f xs st
  proof -
    from that obtain a b c d e where "f_stack f = a # b # c # d # e # st"
      by (auto simp: length_Suc_conv eval_nat_numeral)
    then show ?thesis by (simp add: opOffchainCall_def)
  qed
  show "pure_op 5 0 opOffchainCall" by (rule pure_opI) (simp add: call)
  show "pure_op 5 1 opOffchainCall2"
    by (rule pure_opI, rule disjI2, rule exI [of _ "[0]"]) (simp add: opOffchainCall2_def call ret0_def)
qed

text \<open>Reads of balances, of the storage and of the call data.\<close>

lemma util_GetBalance_ok:
  assumes "env_ok env" "db_ok db"
  shows "util_GetBalance (e_chain env) db t \<noteq> Panics PanicIndex" "util_GetBalance (e_chain env) db t = Ret b \<Longrightarrow> wf_val b"
  using assms
  by (auto simp: util_GetBalance_def vdb_GetBalance_def uns_GetBalance_def derefAddress_def DealWithErr_def env_ok_def
      db_ok_def dest: map_of_SomeD split: option.splits sum.splits)

lemma util_GetValue_ok:
  assumes "env_ok env" "db_ok db"
  shows "util_GetValue (e_chain env) db k \<noteq> Panics PanicIndex"
    "util_GetValue (e_chain env) db k = Ret v \<Longrightarrow> length v \<le> 32"
proof -
  from assms obtain a st where a: "vdb_address db = Some a" "u_storage (vdb_uns db) = Some st"
    by (auto simp: db_ok_def keys_ok_def db_ready_def)
  have eq: "util_GetValue (e_chain env) db k =
    (case map_of st k of Some v \<Rightarrow> Ret v | None \<Rightarrow> DealWithErr (chain_GetValue (e_chain env) a k))"
    using util_GetValue_eq [OF a] assms by (simp add: db_ok_def keys_ok_def)
  show "util_GetValue (e_chain env) db k \<noteq> Panics PanicIndex"
    by (auto simp: eq DealWithErr_def split: option.splits sum.splits)
  show "util_GetValue (e_chain env) db k = Ret v \<Longrightarrow> length v \<le> 32"
    using assms a by (auto simp: eq DealWithErr_def env_ok_def db_ok_def dest: map_of_SomeD split: option.splits sum.splits)
qed

lemma pure_reads [exec_rules]:
  "pure_op 1 1 opBalance" "pure_op 1 1 opOffchainBalance" "pure_op 1 1 opSLoad" "pure_op 1 1 opCallDataLoad"
proof -
  show "pure_op 1 1 opBalance"
  proof (rule pure_op1)
    fix env and f :: frame and x st
    assume a: "env_ok env" "frame_ok f" "f_stack f = x # st"
    then show "(\<exists>p. opBalance env f = Panics p \<and> p \<noteq> PanicIndex) \<or>
      (\<exists>v. opBalance env f = ret0 (f\<lparr>f_stack := v # st\<rparr>) \<and> wf_val v)"
      using util_GetBalance_ok [OF a(1) frame_okD(5) [OF a(2)], of "fst (BigToTokenTypeId x)"]
      by (cases "util_GetBalance (e_chain env) (c_db (f_c f)) (fst (BigToTokenTypeId x))") (auto simp: opBalance_def)
  qed
  show "pure_op 1 1 opOffchainBalance"
    by (rule pure_op1) (auto simp: opOffchainBalance_def)
  show "pure_op 1 1 opSLoad"
  proof (rule pure_op1)
    fix env and f :: frame and x st
    assume a: "env_ok env" "frame_ok f" "f_stack f = x # st"
    then show "(\<exists>p. opSLoad env f = Panics p \<and> p \<noteq> PanicIndex) \<or>
      (\<exists>v. opSLoad env f = ret0 (f\<lparr>f_stack := v # st\<rparr>) \<and> wf_val v)"
      using util_GetValue_ok [OF a(1) frame_okD(5) [OF a(2)], of "fst (BigToHash x)"]
      by (cases "util_GetValue (e_chain env) (c_db (f_c f)) (fst (BigToHash x))")
         (auto simp: opSLoad_def intro!: wf_val_SetBytes)
  qed
  show "pure_op 1 1 opCallDataLoad"
  proof (rule pure_op1)
    fix env and f :: frame and x st
    assume a: "frame_ok f" "f_stack f = x # st" "wf_val x"
    then have "length (GetDataBig (c_data (f_c f)) x 32) = 32"
      using frame_okD(6) [OF a(1)] by (subst length_GetDataBig) (auto simp: wf_val_def blocks_ok_def)
    with a show "(\<exists>p. opCallDataLoad env f = Panics p \<and> p \<noteq> PanicIndex) \<or>
      (\<exists>v. opCallDataLoad env f = ret0 (f\<lparr>f_stack := v # st\<rparr>) \<and> wf_val v)"
      by (auto simp: opCallDataLoad_def intro!: wf_val_SetBytes)
  qed
qed

section \<open>Memory\<close>

text \<open>Accesses inside the memory that \<open>calcMemSize\<close> asked for.\<close>

lemma calcMemSize_covered:
  assumes "wf_val off" "wf_val sz" "calcMemSize off sz \<le> int (mem_len m)" "mem_len m \<le> memBound" "sz \<noteq> 0"
  shows "big_Int64 off = off" "big_Int64 sz = sz" "unat (big_Uint64 off) = nat off" "unat (big_Uint64 sz) = nat sz"
    "nat off + nat sz \<le> mem_len m"
  using assms by (auto simp: calcMemSize_def wf_val_def big_Int64_small unat_big_Uint64)

lemma mem_get_covered:
  assumes "wf_mem m" "wf_val off" "wf_val sz" "calcMemSize off sz \<le> int (mem_len m)" "mem_len m \<le> memBound"
  obtains d where "mem_get m (big_Int64 off) (big_Int64 sz) = Ret d" "mem_getPtr m (big_Int64 off) (big_Int64 sz) = Ret d"
    "length d = nat sz"
proof (cases "sz = 0")
  case True
  then show ?thesis using that [of "[]"] by (simp add: mem_get_def mem_getPtr_def big_Int64_small)
next
  case False
  note c = calcMemSize_covered [OF assms(2-5) False]
  have "off = int (nat off)" "sz = int (nat sz)" using assms by (simp_all add: wf_val_def)
  with mem_get_inside [OF assms(1) c(5)] mem_getPtr_inside [OF assms(1) c(5)] assms(5) c
  have "mem_get m (big_Int64 off) (big_Int64 sz) = Ret (mem_bytes m (nat off) (nat sz))"
    "mem_getPtr m (big_Int64 off) (big_Int64 sz) = Ret (mem_bytes m (nat off) (nat sz))" by simp_all
  moreover have "length (mem_bytes m (nat off) (nat sz)) = nat sz"
    using c(5) by (simp add: mem_bytes_def mem_len_def)
  ultimately show ?thesis using that by blast
qed

lemma mem_set_covered:
  assumes "wf_val off" "wf_val sz" "calcMemSize off sz \<le> int (mem_len m)" "mem_len m \<le> memBound"
  obtains m' where "mem_set (big_Uint64 off) (big_Uint64 sz) val m = Ret m'"
proof (cases "sz = 0")
  case True
  then show ?thesis using that by (simp add: mem_set_def big_Uint64_def)
next
  case False
  note c = calcMemSize_covered [OF assms False]
  then have "unat (big_Uint64 off + big_Uint64 sz) = nat off + nat sz"
    using assms(4) by (subst unat_plus_u64) simp_all
  with c have "\<exists>m'. mem_set (big_Uint64 off) (big_Uint64 sz) val m = Ret m'"
    by (simp add: mem_set_def word_less_nat_alt)
  with that show ?thesis by blast
qed

text \<open>The frame after a write to the memory or a change of the memory's contents.\<close>

lemma exec_post_mem:
  assumes "frame_ok f" "f_stack f = xs @ st" "wf_stack ys" "wf_mem m" "mem_len m = mem_len (f_mem f)"
    "length xs = pops" "length ys = pushes"
  shows "exec_post e pops pushes (advance 0) f (ret0 (f\<lparr>f_stack := ys @ st, f_mem := m\<rparr>))"
  using assms frame_okD [OF assms(1)]
  by (simp add: exec_post_def same_world_def ret0_def kept_def advance_def frame_ok_def)

lemma frame_stackD: "frame_ok f \<Longrightarrow> f_stack f = xs @ st \<Longrightarrow> wf_stack xs \<and> wf_stack st"
  using frame_okD(1) [of f] by simp

lemma exec_okI:
  assumes "\<And>env f xs st. env_ok env \<Longrightarrow> frame_ok f \<Longrightarrow> covered ms f \<Longrightarrow> f_stack f = xs @ st \<Longrightarrow> length xs = pops \<Longrightarrow>
    wf_stack xs \<Longrightarrow> wf_stack st \<Longrightarrow> unat (f_pc f) < 2 ^ 63 - 1 \<Longrightarrow> exec_post e pops pushes Q f (op env f)"
  shows "exec_ok e ms pops pushes Q op"
  unfolding exec_ok_def
proof (intro allI impI)
  fix env f
  assume a: "env_ok env" "frame_ok f" "pops \<le> length (f_stack f)" "covered ms f" "unat (f_pc f) < 2 ^ 63 - 1"
  then obtain xs st where st: "f_stack f = xs @ st" "length xs = pops" by (metis stack_split)
  with assms [OF a(1,2,4) st _ _ a(5)] frame_stackD [OF a(2) st(1)] show "exec_post e pops pushes Q f (op env f)" by blast
qed

lemma covered_memAt:
  assumes "covered (Some (memAt i j)) f" "i < length (f_stack f)" "j < length (f_stack f)"
  shows "calcMemSize (f_stack f ! i) (f_stack f ! j) \<le> int (mem_len (f_mem f))"
  using assms by (simp add: covered_def memAt_def stack_back_def)

lemma stack_operands:
  "length xs = 2 \<Longrightarrow> \<exists>a b. xs = [a, b]" "length xs = 3 \<Longrightarrow> \<exists>a b c. xs = [a, b, c]"
  "length xs = 5 \<Longrightarrow> \<exists>a b c d e. xs = [a, b, c, d, e]"
  by (auto simp: length_Suc_conv eval_nat_numeral)

lemma exec_hash [exec_rules]:
  "exec_ok Quiet (Some memorySha3) 2 1 (advance 0) opSha3" "exec_ok Quiet (Some memoryBlake2b) 2 1 (advance 0) opBlake2b"
proof -
  have "exec_post Quiet 2 1 (advance 0) f (op env f)"
    if op: "op = opSha3 \<or> op = opBlake2b" and a: "env_ok env" "frame_ok f" "covered (Some (memAt 0 1)) f" "f_stack f = xs @ st"
      "length xs = 2" "wf_stack xs" for op env f xs st
  proof -
    obtain off sz where xs: "xs = [off, sz]" using stack_operands(1) a(5) by blast
    then have "calcMemSize off sz \<le> int (mem_len (f_mem f))" using covered_memAt [OF a(3)] a(4) by simp
    with xs a(6) obtain d where d: "mem_get (f_mem f) (big_Int64 off) (big_Int64 sz) = Ret d"
      using mem_get_covered [OF frame_okD(2) [OF a(2)] _ _ _ frame_okD(3) [OF a(2)]] by (metis wf_stack_simps(2))
    have "wf_val (big_SetBytes (Keccak256 (e_crypto env) [d]))" "wf_val (big_SetBytes (Hash256 (e_crypto env) [d]))"
      using a(1) by (auto simp: env_ok_def Keccak256_def crypto_ok_def intro!: wf_val_SetBytes)
    with op d a(4) xs exec_post_mem [OF a(2,4) _ frame_okD(2) [OF a(2)] refl a(5), of "[v]" 1 Quiet for v]
    show ?thesis by (auto simp: opSha3_def opBlake2b_def)
  qed
  then show "exec_ok Quiet (Some memorySha3) 2 1 (advance 0) opSha3" "exec_ok Quiet (Some memoryBlake2b) 2 1 (advance 0) opBlake2b"
    unfolding memorySha3_def memoryBlake2b_def by (intro exec_okI; blast)+
qed

lemma exec_copy [exec_rules]:
  "exec_ok Quiet (Some memoryCallDataCopy) 3 0 (advance 0) opCallDataCopy"
  "exec_ok Quiet (Some memoryCodeCopy) 3 0 (advance 0) opCodeCopy"
  "exec_ok Quiet (Some memoryReturnDataCopy) 3 0 (advance 0) opReturnDataCopy"
proof -
  have "exec_post Quiet 3 0 (advance 0) f (op env f)"
    if op: "op = opCallDataCopy \<or> op = opCodeCopy \<or> op = opReturnDataCopy"
      and a: "frame_ok f" "covered (Some (memAt 0 2)) f" "f_stack f = xs @ st" "length xs = 3" "wf_stack xs" for op env f xs st
  proof -
    obtain off dataOff len where xs: "xs = [off, dataOff, len]" using stack_operands(2) a(4) by blast
    then have "calcMemSize off len \<le> int (mem_len (f_mem f))" using covered_memAt [OF a(2)] a(3) by simp
    with xs a(5) have "\<exists>m. mem_set (big_Uint64 off) (big_Uint64 len) val (f_mem f) = Ret m" for val
      using mem_set_covered [OF _ _ _ frame_okD(3) [OF a(1)]] by (metis wf_stack_simps(2))
    then obtain mm where m: "mem_set (big_Uint64 off) (big_Uint64 len) val (f_mem f) = Ret (mm val)" for val
      by metis
    have "exec_post Quiet 3 0 (advance 0) f (ret0 (f\<lparr>f_stack := st, f_mem := mm val\<rparr>))" for val
      using exec_post_mem [OF a(1,3) _ wf_mem_writes(1) [OF frame_okD(2) [OF a(1)] m] mem_set_Ret(1) [OF m] a(4), of "[]"]
      by simp
    moreover have "exec_post Quiet 3 0 (advance 0) f (Ret (f\<lparr>f_stack := st\<rparr>, [], Some e))" for e
      using a frame_ok_stack [OF a(1)] frame_stackD [OF a(1,3)] by (simp add: exec_post_def same_world_def kept_def)
    ultimately show ?thesis
      using op a(3) xs m by (auto simp: opCallDataCopy_def opCodeCopy_def opReturnDataCopy_def Let_def)
  qed
  then show "exec_ok Quiet (Some memoryCallDataCopy) 3 0 (advance 0) opCallDataCopy"
    "exec_ok Quiet (Some memoryCodeCopy) 3 0 (advance 0) opCodeCopy"
    "exec_ok Quiet (Some memoryReturnDataCopy) 3 0 (advance 0) opReturnDataCopy"
    unfolding memoryCallDataCopy_def memoryCodeCopy_def memoryReturnDataCopy_def by (intro exec_okI; blast)+
qed

lemma exec_mload [exec_rules]: "exec_ok Quiet (Some memoryMLoad) 1 1 (advance 0) opMload"
proof (rule exec_okI)
  fix env and f :: frame and xs st
  assume a: "frame_ok f" "covered (Some memoryMLoad) f" "f_stack f = xs @ st" "length xs = 1" "wf_stack xs"
  then obtain off where xs: "xs = [off]" "wf_val off" by (auto simp: length_Suc_conv)
  then have "calcMemSize off 32 \<le> int (mem_len (f_mem f))"
    using a(2,3) by (simp add: covered_def memoryMLoad_def stack_back_def)
  moreover have "wf_val 32" by (simp add: wf_val_def)
  ultimately obtain d where d: "mem_get (f_mem f) (big_Int64 off) (big_Int64 32) = Ret d" "length d = 32"
    using mem_get_covered [OF frame_okD(2) [OF a(1)] xs(2) _ _ frame_okD(3) [OF a(1)]] by (metis nat_numeral)
  then have "mem_get (f_mem f) (big_Int64 off) 32 = Ret d" by (simp add: big_Int64_small)
  with a(3) xs have "opMload env f = ret0 (f\<lparr>f_stack := [big_SetBytes d] @ st, f_mem := f_mem f\<rparr>)"
    by (simp add: opMload_def WordSize_def)
  with exec_post_mem [OF a(1,3) _ frame_okD(2) [OF a(1)] refl a(4), of "[big_SetBytes d]" 1 Quiet] d(2)
  show "exec_post Quiet 1 1 (advance 0) f (opMload env f)" by (simp add: wf_val_SetBytes)
qed

lemma exec_mstore [exec_rules]: "exec_ok Quiet (Some memoryMStore) 2 0 (advance 0) opMstore"
proof (rule exec_okI)
  fix env and f :: frame and xs st
  assume a: "frame_ok f" "covered (Some memoryMStore) f" "f_stack f = xs @ st" "length xs = 2" "wf_stack xs"
  then obtain off v where xs: "xs = [off, v]" "wf_val off" using stack_operands(1) by fastforce
  have c: "calcMemSize off 32 \<le> int (mem_len (f_mem f))"
    using a(2,3) xs by (simp add: covered_def memoryMStore_def stack_back_def)
  have "wf_val 32" by (simp add: wf_val_def)
  note u = calcMemSize_covered [OF xs(2) this c frame_okD(3) [OF a(1)]]
  have "unat (big_Uint64 off) + 32 \<le> mem_len (f_mem f)" using u by simp
  then have "\<exists>m. mem_set32 (big_Uint64 off) v (f_mem f) = Ret m"
    using frame_okD(3) [OF a(1)] by (subst mem_set32_inside) auto
  then obtain m where m: "mem_set32 (big_Uint64 off) v (f_mem f) = Ret m" ..
  with a(3) xs have "opMstore env f = ret0 (f\<lparr>f_stack := [] @ st, f_mem := m\<rparr>)" by (simp add: opMstore_def)
  with exec_post_mem [OF a(1,3) _ wf_mem_writes(2) [OF frame_okD(2) [OF a(1)] m] mem_set32_Ret(1) [OF m] a(4), of "[]"]
  show "exec_post Quiet 2 0 (advance 0) f (opMstore env f)" by simp
qed

lemma exec_mstore8 [exec_rules]: "exec_ok Quiet (Some memoryMStore8) 2 0 (advance 0) opMstore8"
proof (rule exec_okI)
  fix env and f :: frame and xs st
  assume a: "frame_ok f" "covered (Some memoryMStore8) f" "f_stack f = xs @ st" "length xs = 2" "wf_stack xs"
  then obtain off v where xs: "xs = [off, v]" "wf_val off" using stack_operands(1) by fastforce
  have c: "calcMemSize off 1 \<le> int (mem_len (f_mem f))"
    using a(2,3) xs by (simp add: covered_def memoryMStore8_def stack_back_def)
  note u = calcMemSize_covered [OF xs(2) wf_val_numeral(2) c frame_okD(3) [OF a(1)]]
  have "\<exists>m. mem_setByte (big_Int64 off) (word_of_int (big_Int64 v AND 0xff)) (f_mem f) = Ret m"
    using u xs(2) c by (simp add: mem_setByte_def wf_val_def calcMemSize_def)
  then obtain m where m: "mem_setByte (big_Int64 off) (word_of_int (big_Int64 v AND 0xff)) (f_mem f) = Ret m" ..
  with a(3) xs have "opMstore8 env f = ret0 (f\<lparr>f_stack := [] @ st, f_mem := m\<rparr>)" by (simp add: opMstore8_def)
  with exec_post_mem [OF a(1,3) _ wf_mem_writes(3) [OF frame_okD(2) [OF a(1)] m] mem_setByte_Ret(1) [OF m] a(4), of "[]"]
  show "exec_post Quiet 2 0 (advance 0) f (opMstore8 env f)" by simp
qed

lemma exec_return [exec_rules]:
  "exec_ok Quiet (Some memoryReturn) 2 0 (advance 0) opReturn" "exec_ok Quiet (Some memoryRevert) 2 0 (advance 0) opRevert"
proof -
  have "exec_post Quiet 2 0 (advance 0) f (op env f)"
    if op: "op = opReturn \<or> op = opRevert" and a: "frame_ok f" "covered (Some (memAt 0 1)) f" "f_stack f = xs @ st"
      "length xs = 2" "wf_stack xs" "wf_stack st" for op env f xs st
  proof -
    obtain off sz where xs: "xs = [off, sz]" using stack_operands(1) a(4) by blast
    then have "calcMemSize off sz \<le> int (mem_len (f_mem f))" using covered_memAt [OF a(2)] a(3) by simp
    with xs a(5) obtain d where d: "mem_getPtr (f_mem f) (big_Int64 off) (big_Int64 sz) = Ret d"
      using mem_get_covered [OF frame_okD(2) [OF a(1)] _ _ _ frame_okD(3) [OF a(1)]] by (metis wf_stack_simps(2))
    with op a(3) xs have "op env f = Ret (f\<lparr>f_stack := st\<rparr>, d, None)" by (auto simp: opReturn_def opRevert_def)
    with a frame_ok_stack [OF a(1,6)] show ?thesis by (simp add: exec_post_def same_world_def kept_def advance_def)
  qed
  then show "exec_ok Quiet (Some memoryReturn) 2 0 (advance 0) opReturn"
    "exec_ok Quiet (Some memoryRevert) 2 0 (advance 0) opRevert"
    unfolding memoryReturn_def memoryRevert_def by (intro exec_okI; blast)+
qed

section \<open>Logs, calls and storage\<close>

lemma vdb_AddLog_simps [simp]:
  "vdb_address (vdb_AddLog l db) = vdb_address db" "u_storage (vdb_uns (vdb_AddLog l db)) = u_storage (vdb_uns db)"
  "deletedKeys (vdb_uns (vdb_AddLog l db)) = deletedKeys (vdb_uns db)"
  "balanceMap (vdb_uns (vdb_AddLog l db)) = balanceMap (vdb_uns db)"
  by (simp_all add: vdb_AddLog_def uns_AddLog_def)

lemma db_ok_AddLog: "db_ok db \<Longrightarrow> db_ok (vdb_AddLog l db)"
  by (auto simp: db_ok_def keys_ok_def db_ready_def deleted_ok_def)

lemma exec_log [exec_rules]: "exec_ok Loud (Some memoryLog) (n + 2) 0 (advance 0) (makeLog n)"
proof (rule exec_okI)
  fix env and f :: frame and xs st
  assume a: "frame_ok f" "covered (Some memoryLog) f" "f_stack f = xs @ st" "length xs = n + 2" "wf_stack xs" "wf_stack st"
  then obtain off sz ts where xs: "xs = off # sz # ts" "length ts = n" by (auto simp: length_Suc_conv)
  then have "calcMemSize off sz \<le> int (mem_len (f_mem f))"
    using covered_memAt [OF a(2) [unfolded memoryLog_def]] a(3) by simp
  with xs a(5) obtain d where d: "mem_get (f_mem f) (big_Int64 off) (big_Int64 sz) = Ret d"
    using mem_get_covered [OF frame_okD(2) [OF a(1)] _ _ _ frame_okD(3) [OF a(1)]] by (metis wf_stack_simps(2))
  define l where "l = \<lparr>vl_Topics = map (\<lambda>t. fst (BigToHash t)) ts, vl_Data = d\<rparr>"
  have "makeLog n env f = ret0 (f\<lparr>f_stack := st, f_c := (f_c f)\<lparr>c_db := vdb_AddLog l (c_db (f_c f))\<rparr>\<rparr>)"
    using a(3) xs d by (simp add: makeLog_def l_def popN_eq [of _ ts st n])
  with a xs frame_okD [OF a(1)] show "exec_post Loud (n + 2) 0 (advance 0) f (makeLog n env f)"
    by (simp add: exec_post_def same_world_def ret0_def kept_def advance_def frame_ok_def db_ok_AddLog blocks_ok_def)
qed

lemma opCall_eq:
  assumes "f_stack f = to # tok # amount # off # sz # st"
  shows "opCall env f = go_bind (mem_get (f_mem f) (big_Int64 off) (big_Int64 sz)) (\<lambda>data.
    ret0 (f\<lparr>f_stack := st, f_vm := AppendBlock (MakeRequestBlock (ab_AccountAddress (c_block (f_c f))) (fst (BigToAddress to))
      BlockTypeSendCall amount (fst (BigToTokenTypeId tok)) data) (f_vm f)\<rparr>))"
  using assms by (simp add: opCall_def)

lemma exec_call [exec_rules]: "exec_ok Loud (Some memoryCall) 5 0 (advance 0) opCall"
proof (rule exec_okI)
  fix env and f :: frame and xs st
  assume a: "frame_ok f" "covered (Some memoryCall) f" "f_stack f = xs @ st" "length xs = 5" "wf_stack xs" "wf_stack st"
  then obtain to tok amount off sz where xs: "xs = [to, tok, amount, off, sz]" using stack_operands(3) by blast
  then have "calcMemSize off sz \<le> int (mem_len (f_mem f))"
    using covered_memAt [OF a(2) [unfolded memoryCall_def]] a(3) by simp
  with xs a(5) obtain d where d: "mem_get (f_mem f) (big_Int64 off) (big_Int64 sz) = Ret d"
    using mem_get_covered [OF frame_okD(2) [OF a(1)] _ _ _ frame_okD(3) [OF a(1)]] by (metis wf_stack_simps(2))
  with a xs frame_okD [OF a(1)] show "exec_post Loud 5 0 (advance 0) f (opCall env f)"
    by (simp add: opCall_eq exec_post_def same_world_def ret0_def kept_def advance_def frame_ok_def AppendBlock_def)
qed

lemma exec_call2 [exec_rules]: "exec_ok Risky None 5 1 (advance 0) opCall2"
proof (rule exec_okI)
  fix env and f :: frame and xs st
  assume a: "env_ok env" "frame_ok f" "f_stack f = xs @ st" "length xs = 5" "wf_stack st"
  then obtain to tok amount off sz where xs: "xs = [to, tok, amount, off, sz]" using stack_operands(3) by blast
  have h: "length (ComputeSendBlockHash (e_crypto env) b b' i) = 32" for b b' i
    using a(1) by (simp add: env_ok_def ComputeSendBlockHash_def ComputeSendHash_def)
  show "exec_post Risky 5 1 (advance 0) f (opCall2 env f)"
  proof (cases "mem_get (f_mem f) (big_Int64 off) (big_Int64 sz)")
    case (Panics p)
    with a(3) xs show ?thesis by (simp add: opCall2_def opCall_eq exec_post_def same_world_def)
  next
    case (Ret d)
    with a xs frame_okD [OF a(2)] show ?thesis
      by (simp add: opCall2_def opCall_eq exec_post_def same_world_def ret0_def kept_def advance_def frame_ok_def AppendBlock_def Let_def
          h wf_val_SetBytes)
  qed
qed

lemma db_ok_SetValue:
  assumes "db_ok db" "wf_val v" "length k \<le> 32" "util_SetValue k (big_Bytes v) db = Ret db'"
  shows "db_ok db'" "vdb_address db' = vdb_address db"
proof -
  obtain db'' where "util_SetValue k (big_Bytes v) db = Ret db''" "keys_ok db''"
    using keys_ok_SetValue assms unfolding db_ok_def by metis
  with assms(4) have "keys_ok db'" by simp
  moreover from assms(4) obtain st where st: "u_storage (vdb_uns db) = Some st"
    "u_storage (vdb_uns db') = Some (AList.update k (big_Bytes v) st)" "balanceMap (vdb_uns db') = balanceMap (vdb_uns db)"
    "vdb_address db' = vdb_address db"
    by (auto simp: util_SetValue_Ret)
  moreover have "set (AList.update k (big_Bytes v) st) \<subseteq> insert (k, big_Bytes v) (set st)"
    by (induction st) auto
  moreover have "length (big_Bytes v) \<le> 32" using assms(2) by (rule length_big_Bytes)
  ultimately show "db_ok db'" "vdb_address db' = vdb_address db" using assms(1) by (fastforce simp: db_ok_def)+
qed

lemma exec_sstore [exec_rules]: "exec_ok Loud None 2 0 stored opSStore"
proof (rule exec_okI)
  fix env and f :: frame and xs st
  assume a: "frame_ok f" "f_stack f = xs @ st" "length xs = 2" "wf_stack xs" "wf_stack st"
  then obtain loc v where xs: "xs = [loc, v]" "wf_val loc" "wf_val v" using stack_operands(1) by fastforce
  have k: "length (fst (BigToHash loc)) \<le> 32"
    using xs length_big_Bytes [of loc] by (simp add: BigToHash_word LeftPadBytes_eq)
  note db = frame_okD(5) [OF a(1)]
  then obtain db' where db': "util_SetValue (fst (BigToHash loc)) (big_Bytes v) (c_db (f_c f)) = Ret db'"
    using keys_ok_SetValue [OF _ k] by (metis db_ok_def)
  note ok = db_ok_SetValue [OF db xs(3) k db']
  with a xs db' frame_okD [OF a(1)] show "exec_post Loud 2 0 stored f (opSStore env f)"
    by (simp add: opSStore_def exec_post_def same_world_def ret0_def kept_def stored_def frame_ok_def blocks_ok_def)
qed

section \<open>Seeds\<close>

lemma seedLoop_no_index: "seedLoop c ch n hs prev producers k acc \<noteq> Panics PanicIndex"
proof (induction c ch n hs prev producers k acc rule: seedLoop.induct)
  case (2 c ch n h hs prev producers k acc)
  have "sb_Producer c b \<noteq> Panics PanicIndex" for b
    by (simp add: sb_Producer_def PubkeyToAddress_def split: prod.split option.split)
  with 2 show ?case
    by (auto simp: Let_def go_bind_eq_Panics split: sum.splits option.splits if_splits)
qed simp

lemma GetSeed_no_index: "GetSeed c ch sb h \<noteq> Panics PanicIndex"
  by (auto simp: GetSeed_def GetRandomSeed_def Let_def go_bind_eq_Panics seedLoop_no_index split: option.splits sum.splits)

lemma GetSeed_cases:
  obtains p where "GetSeed c ch sb h = Panics p" "p \<noteq> PanicIndex" | e where "GetSeed c ch sb h = Ret (Inl e)"
    | s where "GetSeed c ch sb h = Ret (Inr s)"
  using GetSeed_no_index [of c ch sb h] by (metis go.exhaust sum.exhaust)

lemma gs_Seed_ok:
  "gs_Seed c ch g \<noteq> Panics PanicIndex" "gs_Seed c ch g = Ret (g', r) \<Longrightarrow> gs_randSource g' = gs_randSource g"
  by (rule GetSeed_cases [of c ch "gs_sb g" "gs_fromHash g"]; auto simp: gs_Seed_def split: if_splits)+

lemma gs_next_ok:
  assumes "\<And>r. gs_randSource g = Some r \<Longrightarrow> wf_rng r"
  shows "gs_next g \<noteq> Panics PanicIndex" "gs_next g = Ret (g', r) \<Longrightarrow> status_ok (Some g')"
  using assms rng_Uint64_next by (auto simp: gs_next_def status_ok_def split: option.splits)

lemma gs_Random_ok:
  assumes "status_ok (Some g)"
  shows "gs_Random c ch g \<noteq> Panics PanicIndex" "gs_Random c ch g = Ret (g', r) \<Longrightarrow> status_ok (Some g')"
proof -
  note old = gs_next_ok [of g] and new = gs_next_ok [of "g\<lparr>gs_randSource := Some (NewSource64 n), gs_setRandSeed := True\<rparr>" for n]
  show "gs_Random c ch g \<noteq> Panics PanicIndex" "gs_Random c ch g = Ret (g', r) \<Longrightarrow> status_ok (Some g')"
    using assms old new
    by (rule_tac [!] GetSeed_cases [of c ch "gs_sb g" "gs_fromHash g"]; auto simp: gs_Random_def status_ok_def split: if_splits)+
qed

lemma exec_status:
  assumes "\<And>env f. op env f = withStatus (call env) f"
    and "\<And>env g. status_ok (Some g) \<Longrightarrow> call env g \<noteq> Panics PanicIndex"
    and "\<And>env g g' r. status_ok (Some g) \<Longrightarrow> call env g = Ret (g', r) \<Longrightarrow> status_ok (Some g')"
  shows "exec_ok Quiet None 0 1 (advance 0) op"
proof (rule exec_okI)
  fix env and f :: frame and xs st
  assume a: "frame_ok f" "f_stack f = xs @ st" "length xs = 0"
  show "exec_post Quiet 0 1 (advance 0) f (op env f)"
  proof (cases "vm_globalStatus (f_vm f)")
    case None
    with assms(1) show ?thesis by (simp add: withStatus_def exec_post_def same_world_def)
  next
    case (Some g)
    with frame_okD(7) [OF a(1)] have g: "status_ok (Some g)" by simp
    show ?thesis
    proof (cases "call env g")
      case (Panics p)
      with assms(1,2) g Some show ?thesis by (auto simp: withStatus_def exec_post_def same_world_def)
    next
      case (Ret x)
      obtain g' r where x: "x = (g', r)" by (cases x)
      with assms(3) [OF g] Ret have "status_ok (Some g')" by blast
      with assms(1) Some Ret x frame_okD [OF a(1)] show ?thesis
        by (cases r) (auto simp: withStatus_def exec_post_def same_world_def ret0_def kept_def advance_def frame_ok_def)
    qed
  qed
qed

lemma exec_seed [exec_rules]:
  "exec_ok Quiet None 0 1 (advance 0) opSeed" "exec_ok Quiet None 0 1 (advance 0) opRandom"
proof -
  show "exec_ok Quiet None 0 1 (advance 0) opSeed"
    using gs_Seed_ok by (intro exec_status [OF opSeed_def]) (auto simp: status_ok_def)
  show "exec_ok Quiet None 0 1 (advance 0) opRandom"
    using gs_Random_ok by (intro exec_status [OF opRandom_def]) blast+
qed

section \<open>Flow\<close>

lemma jumpTo_post:
  assumes "frame_ok f" "wf_val pos" "wf_stack st"
  shows "exec_post Quiet 0 0 jumped (f\<lparr>f_stack := st\<rparr>) (jumpTo pos (f\<lparr>f_stack := st\<rparr>))"
proof -
  have len: "length (c_code (f_c f)) < 2 ^ 62" using frame_okD(6) [OF assms(1)] by (simp add: blocks_ok_def)
  obtain d where d: "dests_has (c_codeAddr (f_c f)) (c_code (f_c f)) pos (c_jumpdests (f_c f)) = Ret (validJump (c_code (f_c f)) pos, d)"
    "dests_ok (c_codeAddr (f_c f)) (c_code (f_c f)) d"
    using dests_has_spec [OF frame_okD(4) [OF assms(1)] _ len] assms(2) by (auto simp: wf_val_def)
  have "uint (big_Uint64 pos) = pos" if "validJump (c_code (f_c f)) pos"
    using that len by (intro uint_big_Uint64) (auto simp: validJump_def)
  with d assms(3) frame_okD [OF assms(1)] show ?thesis
    by (auto simp: jumpTo_def Let_def exec_post_def same_world_def ret0_def kept_def jumped_def frame_ok_def blocks_ok_def)
qed

lemma exec_jump [exec_rules]: "exec_ok Quiet None 1 0 jumped opJump" "exec_ok Quiet None 2 0 jumped opJumpi"
proof -
  show "exec_ok Quiet None 1 0 jumped opJump"
  proof (rule exec_okI)
    fix env and f :: frame and xs st
    assume a: "frame_ok f" "f_stack f = xs @ st" "length xs = 1" "wf_stack xs" "wf_stack st"
    then obtain pos where xs: "xs = [pos]" "wf_val pos" by (auto simp: length_Suc_conv)
    with a jumpTo_post [OF a(1) xs(2) a(5)] show "exec_post Quiet 1 0 jumped f (opJump env f)"
      by (auto simp: opJump_def exec_post_def same_world_def kept_def jumped_def split: go.splits)
  qed
  show "exec_ok Quiet None 2 0 jumped opJumpi"
  proof (rule exec_okI)
    fix env and f :: frame and xs st
    assume a: "frame_ok f" "f_stack f = xs @ st" "length xs = 2" "wf_stack xs" "wf_stack st"
    then obtain pos cond where xs: "xs = [pos, cond]" "wf_val pos" using stack_operands(1) by fastforce
    show "exec_post Quiet 2 0 jumped f (opJumpi env f)"
    proof (cases "cond = 0")
      case True
      with a xs frame_okD [OF a(1)] show ?thesis
        by (simp add: opJumpi_def exec_post_def same_world_def ret0_def kept_def jumped_def frame_ok_def)
    next
      case False
      with a xs jumpTo_post [OF a(1) xs(2) a(5)] show ?thesis
        by (auto simp: opJumpi_def exec_post_def same_world_def kept_def jumped_def split: go.splits)
    qed
  qed
qed

text \<open>A push reads the bytes after its opcode, and zeros past the end of the code.\<close>

lemma makePush_eq:
  assumes "unat (f_pc f) < 2 ^ 63 - 1"
  shows "makePush n n env f = ret0 (f\<lparr>
    f_stack := big_SetBytes (window (c_code (f_c f)) (unat (f_pc f) + 1) n) # f_stack f, f_pc := f_pc f + of_nat n\<rparr>)"
proof -
  let ?code = "c_code (f_c f)"
  define p where "p = unat (f_pc f) + 1"
  have small: "big_Int64 x = x" if "0 \<le> x" "x \<le> 9223372036854775807" for x
    using that by (intro big_Int64_small) simp_all
  have "unat (f_pc f) < 9223372036854775807" using assms by simp
  then have "big_Int64 (int p) = int p" unfolding p_def by (intro small) linarith+
  then have pc1: "sint (f_pc f + 1) = int p" by (simp add: big_Int64_def add.commute p_def)
  define a where "a = min (length ?code) p"
  define b where "b = min (length ?code) (a + n)"
  have start: "(if int (length ?code) < int p then int (length ?code) else int p) = int a" by (simp add: a_def)
  have stop: "(if int (length ?code) < int a + int n then int (length ?code) else int a + int n) = int b"
    by (simp add: b_def)
  have "RightPadBytes (slice ?code a b) (int n) = window ?code p n"
    by (auto simp: RightPadBytes_eq window_eq slice_def a_def b_def min_def)
  moreover have "a \<le> b" by (simp add: a_def b_def)
  ultimately show ?thesis
    unfolding makePush_def Let_def pc1 start stop p_def [symmetric] by simp
qed

lemma exec_push [exec_rules]:
  assumes "n \<le> 32"
  shows "exec_ok Quiet None 0 1 (advance n) (makePush n n)"
proof (rule exec_okI)
  fix env and f :: frame and xs st
  assume a: "frame_ok f" "unat (f_pc f) < 2 ^ 63 - 1"
  then show "exec_post Quiet 0 1 (advance n) f (makePush n n env f)"
    using assms frame_okD [OF a(1)]
    by (simp add: makePush_eq exec_post_def same_world_def ret0_def kept_def advance_def frame_ok_def wf_val_SetBytes)
qed

end
