(* ===== verification/Jump_Table.thy ===== *)
theory Jump_Table
  imports Frame_Rules
begin

text \<open>
  vm/jump_table.go: the instruction sets.  A Go array literal is the association list of its entries; a later
  assignment \<open>instructionSet[op] = ...\<close> is an earlier entry of the list, so that it shadows the old one.
  The base set is split into its groups.

  The lemmas show that every entry of the six sets satisfies the contract of \<open>operation_ok\<close>: what its
  \<open>validateStack\<close>, \<open>memorySize\<close> and \<open>gasCost\<close> declare is what its \<open>execute\<close> needs and does.
\<close>

section \<open>Definitions\<close>

record operation =
  execute :: executionFunc
  gasCost :: gasFunc
  validateStack :: stackValidationFunc
  memorySize :: "memorySizeFunc option"
  halts :: bool
  jumps :: bool
  writes :: bool
  valid :: bool
  reverts :: bool
  returns :: bool

text \<open>The zero value of the struct: its functions are nil.\<close>

definition zeroOperation :: operation where
  "zeroOperation = \<lparr>execute = (\<lambda>_ _. Panics PanicNil), gasCost = (\<lambda>_ _ _. Panics PanicNil),
     validateStack = (\<lambda>_. None), memorySize = None, halts = False, jumps = False, writes = False, valid = False,
     reverts = False, returns = False\<rparr>"

type_synonym instructionSet = "(opCode \<times> operation) list"

definition instructionAt :: "instructionSet \<Rightarrow> opCode \<Rightarrow> operation" where
  "instructionAt is op = (case map_of is op of None \<Rightarrow> zeroOperation | Some operation \<Rightarrow> operation)"

definition arithmeticOperations :: instructionSet where
  "arithmeticOperations =
     [(STOP, zeroOperation\<lparr>execute := opStop, gasCost := constGasFunc 0, validateStack := makeStackFunc 0 0, halts := True, valid := True\<rparr>),
      (ADD, zeroOperation\<lparr>execute := opAdd, gasCost := gasAdd, validateStack := makeStackFunc 2 1, valid := True\<rparr>),
      (MUL, zeroOperation\<lparr>execute := opMul, gasCost := gasMul, validateStack := makeStackFunc 2 1, valid := True\<rparr>),
      (SUB, zeroOperation\<lparr>execute := opSub, gasCost := gasSub, validateStack := makeStackFunc 2 1, valid := True\<rparr>),
      (DIV, zeroOperation\<lparr>execute := opDiv, gasCost := gasDiv, validateStack := makeStackFunc 2 1, valid := True\<rparr>),
      (SDIV, zeroOperation\<lparr>execute := opSdiv, gasCost := gasSdiv, validateStack := makeStackFunc 2 1, valid := True\<rparr>),
      (MOD, zeroOperation\<lparr>execute := opMod, gasCost := gasMod, validateStack := makeStackFunc 2 1, valid := True\<rparr>),
      (SMOD, zeroOperation\<lparr>execute := opSmod, gasCost := gasSmod, validateStack := makeStackFunc 2 1, valid := True\<rparr>),
      (ADDMOD, zeroOperation\<lparr>execute := opAddmod, gasCost := gasAddmod, validateStack := makeStackFunc 3 1, valid := True\<rparr>),
      (MULMOD, zeroOperation\<lparr>execute := opMulmod, gasCost := gasMulmod, validateStack := makeStackFunc 3 1, valid := True\<rparr>),
      (EXP, zeroOperation\<lparr>execute := opExp, gasCost := gasExp, validateStack := makeStackFunc 2 1, valid := True\<rparr>),
      (SIGNEXTEND, zeroOperation\<lparr>execute := opSignExtend, gasCost := gasSignextend, validateStack := makeStackFunc 2 1, valid := True\<rparr>)]"

definition bitOperations :: instructionSet where
  "bitOperations =
     [(LT, zeroOperation\<lparr>execute := opLt, gasCost := gasLt, validateStack := makeStackFunc 2 1, valid := True\<rparr>),
      (GT, zeroOperation\<lparr>execute := opGt, gasCost := gasGt, validateStack := makeStackFunc 2 1, valid := True\<rparr>),
      (SLT, zeroOperation\<lparr>execute := opSlt, gasCost := gasSlt, validateStack := makeStackFunc 2 1, valid := True\<rparr>),
      (SGT, zeroOperation\<lparr>execute := opSgt, gasCost := gasSgt, validateStack := makeStackFunc 2 1, valid := True\<rparr>),
      (EQ, zeroOperation\<lparr>execute := opEq, gasCost := gasEq, validateStack := makeStackFunc 2 1, valid := True\<rparr>),
      (ISZERO, zeroOperation\<lparr>execute := opIszero, gasCost := gasIszero, validateStack := makeStackFunc 1 1, valid := True\<rparr>),
      (AND_OP, zeroOperation\<lparr>execute := opAnd, gasCost := gasAnd, validateStack := makeStackFunc 2 1, valid := True\<rparr>),
      (OR_OP, zeroOperation\<lparr>execute := opOr, gasCost := gasOr, validateStack := makeStackFunc 2 1, valid := True\<rparr>),
      (XOR_OP, zeroOperation\<lparr>execute := opXor, gasCost := gasXor, validateStack := makeStackFunc 2 1, valid := True\<rparr>),
      (NOT_OP, zeroOperation\<lparr>execute := opNot, gasCost := gasNot, validateStack := makeStackFunc 1 1, valid := True\<rparr>),
      (BYTE, zeroOperation\<lparr>execute := opByte, gasCost := gasByte, validateStack := makeStackFunc 2 1, valid := True\<rparr>),
      (SHL, zeroOperation\<lparr>execute := opSHL, gasCost := gasShl, validateStack := makeStackFunc 2 1, valid := True\<rparr>),
      (SHR, zeroOperation\<lparr>execute := opSHR, gasCost := gasShr, validateStack := makeStackFunc 2 1, valid := True\<rparr>),
      (SAR, zeroOperation\<lparr>execute := opSAR, gasCost := gasSar, validateStack := makeStackFunc 2 1, valid := True\<rparr>)]"

definition contextOperations :: instructionSet where
  "contextOperations =
     [(SHA3, zeroOperation\<lparr>execute := opSha3, gasCost := gasBlake2b, validateStack := makeStackFunc 2 1, memorySize := Some memorySha3, valid := True\<rparr>),
      (BLAKE2B, zeroOperation\<lparr>execute := opBlake2b, gasCost := gasBlake2b, validateStack := makeStackFunc 2 1, memorySize := Some memoryBlake2b, valid := True\<rparr>),
      (ADDRESS, zeroOperation\<lparr>execute := opAddress, gasCost := gasAddress, validateStack := makeStackFunc 0 1, valid := True\<rparr>),
      (CALLDATALOAD, zeroOperation\<lparr>execute := opCallDataLoad, gasCost := gasCalldataload, validateStack := makeStackFunc 1 1, valid := True\<rparr>),
      (CALLDATASIZE, zeroOperation\<lparr>execute := opCallDataSize, gasCost := gasCalldatasize, validateStack := makeStackFunc 0 1, valid := True\<rparr>),
      (CALLDATACOPY, zeroOperation\<lparr>execute := opCallDataCopy, gasCost := gasCallDataCopy, validateStack := makeStackFunc 3 0, memorySize := Some memoryCallDataCopy, valid := True\<rparr>),
      (CODESIZE, zeroOperation\<lparr>execute := opCodeSize, gasCost := gasCodesize, validateStack := makeStackFunc 0 1, valid := True\<rparr>),
      (CODECOPY, zeroOperation\<lparr>execute := opCodeCopy, gasCost := gasCodeCopy, validateStack := makeStackFunc 3 0, memorySize := Some memoryCodeCopy, valid := True\<rparr>),
      (RETURNDATASIZE, zeroOperation\<lparr>execute := opReturnDataSize, gasCost := gasReturndatasize, validateStack := makeStackFunc 0 1, valid := True\<rparr>),
      (RETURNDATACOPY, zeroOperation\<lparr>execute := opReturnDataCopy, gasCost := gasReturnDataCopy, validateStack := makeStackFunc 3 0, memorySize := Some memoryReturnDataCopy, valid := True\<rparr>)]"

definition flowOperations :: instructionSet where
  "flowOperations =
     [(POP, zeroOperation\<lparr>execute := opPop, gasCost := gasPop, validateStack := makeStackFunc 1 0, valid := True\<rparr>),
      (MLOAD, zeroOperation\<lparr>execute := opMload, gasCost := gasMLoad, validateStack := makeStackFunc 1 1, memorySize := Some memoryMLoad, valid := True\<rparr>),
      (MSTORE, zeroOperation\<lparr>execute := opMstore, gasCost := gasMStore, validateStack := makeStackFunc 2 0, memorySize := Some memoryMStore, valid := True\<rparr>),
      (MSTORE8, zeroOperation\<lparr>execute := opMstore8, gasCost := gasMStore8, validateStack := makeStackFunc 2 0, memorySize := Some memoryMStore8, valid := True\<rparr>),
      (SLOAD, zeroOperation\<lparr>execute := opSLoad, gasCost := gasSload, validateStack := makeStackFunc 1 1, valid := True\<rparr>),
      (JUMP, zeroOperation\<lparr>execute := opJump, gasCost := gasJump, validateStack := makeStackFunc 1 0, jumps := True, valid := True\<rparr>),
      (JUMPI, zeroOperation\<lparr>execute := opJumpi, gasCost := gasJumpi, validateStack := makeStackFunc 2 0, jumps := True, valid := True\<rparr>),
      (PC, zeroOperation\<lparr>execute := opPc, gasCost := gasPc, validateStack := makeStackFunc 0 1, valid := True\<rparr>),
      (MSIZE, zeroOperation\<lparr>execute := opMsize, gasCost := gasMsize, validateStack := makeStackFunc 0 1, valid := True\<rparr>),
      (JUMPDEST, zeroOperation\<lparr>execute := opJumpdest, gasCost := gasJumpdest, validateStack := makeStackFunc 0 0, valid := True\<rparr>)]"

definition pushOperations1 :: instructionSet where
  "pushOperations1 =
     [(PUSH1, zeroOperation\<lparr>execute := makePush 1 1, gasCost := gasPush, validateStack := makeStackFunc 0 1, valid := True\<rparr>),
      (PUSH2, zeroOperation\<lparr>execute := makePush 2 2, gasCost := gasPush, validateStack := makeStackFunc 0 1, valid := True\<rparr>),
      (PUSH3, zeroOperation\<lparr>execute := makePush 3 3, gasCost := gasPush, validateStack := makeStackFunc 0 1, valid := True\<rparr>),
      (PUSH4, zeroOperation\<lparr>execute := makePush 4 4, gasCost := gasPush, validateStack := makeStackFunc 0 1, valid := True\<rparr>),
      (PUSH5, zeroOperation\<lparr>execute := makePush 5 5, gasCost := gasPush, validateStack := makeStackFunc 0 1, valid := True\<rparr>),
      (PUSH6, zeroOperation\<lparr>execute := makePush 6 6, gasCost := gasPush, validateStack := makeStackFunc 0 1, valid := True\<rparr>),
      (PUSH7, zeroOperation\<lparr>execute := makePush 7 7, gasCost := gasPush, validateStack := makeStackFunc 0 1, valid := True\<rparr>),
      (PUSH8, zeroOperation\<lparr>execute := makePush 8 8, gasCost := gasPush, validateStack := makeStackFunc 0 1, valid := True\<rparr>),
      (PUSH9, zeroOperation\<lparr>execute := makePush 9 9, gasCost := gasPush, validateStack := makeStackFunc 0 1, valid := True\<rparr>),
      (PUSH10, zeroOperation\<lparr>execute := makePush 10 10, gasCost := gasPush, validateStack := makeStackFunc 0 1, valid := True\<rparr>),
      (PUSH11, zeroOperation\<lparr>execute := makePush 11 11, gasCost := gasPush, validateStack := makeStackFunc 0 1, valid := True\<rparr>),
      (PUSH12, zeroOperation\<lparr>execute := makePush 12 12, gasCost := gasPush, validateStack := makeStackFunc 0 1, valid := True\<rparr>),
      (PUSH13, zeroOperation\<lparr>execute := makePush 13 13, gasCost := gasPush, validateStack := makeStackFunc 0 1, valid := True\<rparr>),
      (PUSH14, zeroOperation\<lparr>execute := makePush 14 14, gasCost := gasPush, validateStack := makeStackFunc 0 1, valid := True\<rparr>),
      (PUSH15, zeroOperation\<lparr>execute := makePush 15 15, gasCost := gasPush, validateStack := makeStackFunc 0 1, valid := True\<rparr>),
      (PUSH16, zeroOperation\<lparr>execute := makePush 16 16, gasCost := gasPush, validateStack := makeStackFunc 0 1, valid := True\<rparr>)]"

definition pushOperations2 :: instructionSet where
  "pushOperations2 =
     [(PUSH17, zeroOperation\<lparr>execute := makePush 17 17, gasCost := gasPush, validateStack := makeStackFunc 0 1, valid := True\<rparr>),
      (PUSH18, zeroOperation\<lparr>execute := makePush 18 18, gasCost := gasPush, validateStack := makeStackFunc 0 1, valid := True\<rparr>),
      (PUSH19, zeroOperation\<lparr>execute := makePush 19 19, gasCost := gasPush, validateStack := makeStackFunc 0 1, valid := True\<rparr>),
      (PUSH20, zeroOperation\<lparr>execute := makePush 20 20, gasCost := gasPush, validateStack := makeStackFunc 0 1, valid := True\<rparr>),
      (PUSH21, zeroOperation\<lparr>execute := makePush 21 21, gasCost := gasPush, validateStack := makeStackFunc 0 1, valid := True\<rparr>),
      (PUSH22, zeroOperation\<lparr>execute := makePush 22 22, gasCost := gasPush, validateStack := makeStackFunc 0 1, valid := True\<rparr>),
      (PUSH23, zeroOperation\<lparr>execute := makePush 23 23, gasCost := gasPush, validateStack := makeStackFunc 0 1, valid := True\<rparr>),
      (PUSH24, zeroOperation\<lparr>execute := makePush 24 24, gasCost := gasPush, validateStack := makeStackFunc 0 1, valid := True\<rparr>),
      (PUSH25, zeroOperation\<lparr>execute := makePush 25 25, gasCost := gasPush, validateStack := makeStackFunc 0 1, valid := True\<rparr>),
      (PUSH26, zeroOperation\<lparr>execute := makePush 26 26, gasCost := gasPush, validateStack := makeStackFunc 0 1, valid := True\<rparr>),
      (PUSH27, zeroOperation\<lparr>execute := makePush 27 27, gasCost := gasPush, validateStack := makeStackFunc 0 1, valid := True\<rparr>),
      (PUSH28, zeroOperation\<lparr>execute := makePush 28 28, gasCost := gasPush, validateStack := makeStackFunc 0 1, valid := True\<rparr>),
      (PUSH29, zeroOperation\<lparr>execute := makePush 29 29, gasCost := gasPush, validateStack := makeStackFunc 0 1, valid := True\<rparr>),
      (PUSH30, zeroOperation\<lparr>execute := makePush 30 30, gasCost := gasPush, validateStack := makeStackFunc 0 1, valid := True\<rparr>),
      (PUSH31, zeroOperation\<lparr>execute := makePush 31 31, gasCost := gasPush, validateStack := makeStackFunc 0 1, valid := True\<rparr>),
      (PUSH32, zeroOperation\<lparr>execute := makePush 32 32, gasCost := gasPush, validateStack := makeStackFunc 0 1, valid := True\<rparr>)]"

definition dupOperations :: instructionSet where
  "dupOperations =
     [(DUP1, zeroOperation\<lparr>execute := makeDup 1, gasCost := gasDup, validateStack := makeDupStackFunc 1, valid := True\<rparr>),
      (DUP2, zeroOperation\<lparr>execute := makeDup 2, gasCost := gasDup, validateStack := makeDupStackFunc 2, valid := True\<rparr>),
      (DUP3, zeroOperation\<lparr>execute := makeDup 3, gasCost := gasDup, validateStack := makeDupStackFunc 3, valid := True\<rparr>),
      (DUP4, zeroOperation\<lparr>execute := makeDup 4, gasCost := gasDup, validateStack := makeDupStackFunc 4, valid := True\<rparr>),
      (DUP5, zeroOperation\<lparr>execute := makeDup 5, gasCost := gasDup, validateStack := makeDupStackFunc 5, valid := True\<rparr>),
      (DUP6, zeroOperation\<lparr>execute := makeDup 6, gasCost := gasDup, validateStack := makeDupStackFunc 6, valid := True\<rparr>),
      (DUP7, zeroOperation\<lparr>execute := makeDup 7, gasCost := gasDup, validateStack := makeDupStackFunc 7, valid := True\<rparr>),
      (DUP8, zeroOperation\<lparr>execute := makeDup 8, gasCost := gasDup, validateStack := makeDupStackFunc 8, valid := True\<rparr>),
      (DUP9, zeroOperation\<lparr>execute := makeDup 9, gasCost := gasDup, validateStack := makeDupStackFunc 9, valid := True\<rparr>),
      (DUP10, zeroOperation\<lparr>execute := makeDup 10, gasCost := gasDup, validateStack := makeDupStackFunc 10, valid := True\<rparr>),
      (DUP11, zeroOperation\<lparr>execute := makeDup 11, gasCost := gasDup, validateStack := makeDupStackFunc 11, valid := True\<rparr>),
      (DUP12, zeroOperation\<lparr>execute := makeDup 12, gasCost := gasDup, validateStack := makeDupStackFunc 12, valid := True\<rparr>),
      (DUP13, zeroOperation\<lparr>execute := makeDup 13, gasCost := gasDup, validateStack := makeDupStackFunc 13, valid := True\<rparr>),
      (DUP14, zeroOperation\<lparr>execute := makeDup 14, gasCost := gasDup, validateStack := makeDupStackFunc 14, valid := True\<rparr>),
      (DUP15, zeroOperation\<lparr>execute := makeDup 15, gasCost := gasDup, validateStack := makeDupStackFunc 15, valid := True\<rparr>),
      (DUP16, zeroOperation\<lparr>execute := makeDup 16, gasCost := gasDup, validateStack := makeDupStackFunc 16, valid := True\<rparr>)]"

definition swapOperations :: instructionSet where
  "swapOperations =
     [(SWAP1, zeroOperation\<lparr>execute := makeSwap 1, gasCost := gasSwap, validateStack := makeSwapStackFunc 2, valid := True\<rparr>),
      (SWAP2, zeroOperation\<lparr>execute := makeSwap 2, gasCost := gasSwap, validateStack := makeSwapStackFunc 3, valid := True\<rparr>),
      (SWAP3, zeroOperation\<lparr>execute := makeSwap 3, gasCost := gasSwap, validateStack := makeSwapStackFunc 4, valid := True\<rparr>),
      (SWAP4, zeroOperation\<lparr>execute := makeSwap 4, gasCost := gasSwap, validateStack := makeSwapStackFunc 5, valid := True\<rparr>),
      (SWAP5, zeroOperation\<lparr>execute := makeSwap 5, gasCost := gasSwap, validateStack := makeSwapStackFunc 6, valid := True\<rparr>),
      (SWAP6, zeroOperation\<lparr>execute := makeSwap 6, gasCost := gasSwap, validateStack := makeSwapStackFunc 7, valid := True\<rparr>),
      (SWAP7, zeroOperation\<lparr>execute := makeSwap 7, gasCost := gasSwap, validateStack := makeSwapStackFunc 8, valid := True\<rparr>),
      (SWAP8, zeroOperation\<lparr>execute := makeSwap 8, gasCost := gasSwap, validateStack := makeSwapStackFunc 9, valid := True\<rparr>),
      (SWAP9, zeroOperation\<lparr>execute := makeSwap 9, gasCost := gasSwap, validateStack := makeSwapStackFunc 10, valid := True\<rparr>),
      (SWAP10, zeroOperation\<lparr>execute := makeSwap 10, gasCost := gasSwap, validateStack := makeSwapStackFunc 11, valid := True\<rparr>),
      (SWAP11, zeroOperation\<lparr>execute := makeSwap 11, gasCost := gasSwap, validateStack := makeSwapStackFunc 12, valid := True\<rparr>),
      (SWAP12, zeroOperation\<lparr>execute := makeSwap 12, gasCost := gasSwap, validateStack := makeSwapStackFunc 13, valid := True\<rparr>),
      (SWAP13, zeroOperation\<lparr>execute := makeSwap 13, gasCost := gasSwap, validateStack := makeSwapStackFunc 14, valid := True\<rparr>),
      (SWAP14, zeroOperation\<lparr>execute := makeSwap 14, gasCost := gasSwap, validateStack := makeSwapStackFunc 15, valid := True\<rparr>),
      (SWAP15, zeroOperation\<lparr>execute := makeSwap 15, gasCost := gasSwap, validateStack := makeSwapStackFunc 16, valid := True\<rparr>),
      (SWAP16, zeroOperation\<lparr>execute := makeSwap 16, gasCost := gasSwap, validateStack := makeSwapStackFunc 17, valid := True\<rparr>)]"

definition endOperations :: instructionSet where
  "endOperations =
     [(RETURN, zeroOperation\<lparr>execute := opReturn, gasCost := gasReturn, validateStack := makeStackFunc 2 0, memorySize := Some memoryReturn, halts := True, valid := True\<rparr>),
      (BALANCE, zeroOperation\<lparr>execute := opBalance, gasCost := gasBalance, validateStack := makeStackFunc 1 1, valid := True\<rparr>),
      (ACCOUNTHEIGHT, zeroOperation\<lparr>execute := opAccountHeight, gasCost := gasAccountheight, validateStack := makeStackFunc 0 1, valid := True\<rparr>),
      (PREVHASH, zeroOperation\<lparr>execute := opAccountHash, gasCost := gasPrevhash, validateStack := makeStackFunc 0 1, valid := True\<rparr>)]"

definition newBaseInstructionSet :: instructionSet where
  "newBaseInstructionSet =
     arithmeticOperations @
     bitOperations @
     contextOperations @
     flowOperations @
     pushOperations1 @
     pushOperations2 @
     dupOperations @
     swapOperations @
     endOperations"

definition newSimpleInstructionSet :: instructionSet where
  "newSimpleInstructionSet =
     [(FROMHASH, zeroOperation\<lparr>execute := opFromHash, gasCost := gasFromhash, validateStack := makeStackFunc 0 1, valid := True\<rparr>),
      (SEED, zeroOperation\<lparr>execute := opSeed, gasCost := gasSeed, validateStack := makeStackFunc 0 1, valid := True\<rparr>),
      (CALLER, zeroOperation\<lparr>execute := opCaller, gasCost := gasCaller, validateStack := makeStackFunc 0 1, valid := True\<rparr>),
      (CALLVALUE, zeroOperation\<lparr>execute := opCallValue, gasCost := gasCallvalue, validateStack := makeStackFunc 0 1, valid := True\<rparr>),
      (TIMESTAMP, zeroOperation\<lparr>execute := opTimestamp, gasCost := gasTimestamp, validateStack := makeStackFunc 0 1, valid := True\<rparr>),
      (HEIGHT, zeroOperation\<lparr>execute := opHeight, gasCost := gasHeight, validateStack := makeStackFunc 0 1, valid := True\<rparr>),
      (TOKENID, zeroOperation\<lparr>execute := opTokenID, gasCost := gasTokenid, validateStack := makeStackFunc 0 1, valid := True\<rparr>),
      (SSTORE, zeroOperation\<lparr>execute := opSStore, gasCost := gasSStore, validateStack := makeStackFunc 2 0, writes := True, valid := True\<rparr>),
      (LOG0, zeroOperation\<lparr>execute := makeLog 0, gasCost := makeGasLog 0, validateStack := makeStackFunc 2 0, memorySize := Some memoryLog, writes := True, valid := True\<rparr>),
      (LOG1, zeroOperation\<lparr>execute := makeLog 1, gasCost := makeGasLog 1, validateStack := makeStackFunc 3 0, memorySize := Some memoryLog, writes := True, valid := True\<rparr>),
      (LOG2, zeroOperation\<lparr>execute := makeLog 2, gasCost := makeGasLog 2, validateStack := makeStackFunc 4 0, memorySize := Some memoryLog, writes := True, valid := True\<rparr>),
      (LOG3, zeroOperation\<lparr>execute := makeLog 3, gasCost := makeGasLog 3, validateStack := makeStackFunc 5 0, memorySize := Some memoryLog, writes := True, valid := True\<rparr>),
      (LOG4, zeroOperation\<lparr>execute := makeLog 4, gasCost := makeGasLog 4, validateStack := makeStackFunc 6 0, memorySize := Some memoryLog, writes := True, valid := True\<rparr>),
      (CALL, zeroOperation\<lparr>execute := opCall, gasCost := gasCall, validateStack := makeStackFunc 5 0, memorySize := Some memoryCall, valid := True\<rparr>),
      (REVERT, zeroOperation\<lparr>execute := opRevert, gasCost := gasRevert, validateStack := makeStackFunc 2 0, memorySize := Some memoryRevert, valid := True, reverts := True, returns := True\<rparr>)]
      @ newBaseInstructionSet"

definition newOffchainSimpleInstructionSet :: instructionSet where
  "newOffchainSimpleInstructionSet =
     [(FROMHASH, zeroOperation\<lparr>execute := opOffchainFromHash, gasCost := gasFromhash, validateStack := makeStackFunc 0 1, valid := True\<rparr>),
      (SEED, zeroOperation\<lparr>execute := opOffchainSeed, gasCost := gasSeed, validateStack := makeStackFunc 0 1, valid := True\<rparr>),
      (CALLER, zeroOperation\<lparr>execute := opOffchainCaller, gasCost := gasCaller, validateStack := makeStackFunc 0 1, valid := True\<rparr>),
      (CALLVALUE, zeroOperation\<lparr>execute := opOffchainCallValue, gasCost := gasCallvalue, validateStack := makeStackFunc 0 1, valid := True\<rparr>),
      (TIMESTAMP, zeroOperation\<lparr>execute := opOffchainTimestamp, gasCost := gasTimestamp, validateStack := makeStackFunc 0 1, valid := True\<rparr>),
      (HEIGHT, zeroOperation\<lparr>execute := opOffchainHeight, gasCost := gasHeight, validateStack := makeStackFunc 0 1, valid := True\<rparr>),
      (TOKENID, zeroOperation\<lparr>execute := opOffchainTokenID, gasCost := gasTokenid, validateStack := makeStackFunc 0 1, valid := True\<rparr>),
      (SSTORE, zeroOperation\<lparr>execute := opOffchainSStore, gasCost := gasSStore, validateStack := makeStackFunc 2 0, writes := True, valid := True\<rparr>),
      (LOG0, zeroOperation\<lparr>execute := makeOffchainLog 0, gasCost := makeGasLog 0, validateStack := makeStackFunc 2 0, memorySize := Some memoryLog, writes := True, valid := True\<rparr>),
      (LOG1, zeroOperation\<lparr>execute := makeOffchainLog 1, gasCost := makeGasLog 1, validateStack := makeStackFunc 3 0, memorySize := Some memoryLog, writes := True, valid := True\<rparr>),
      (LOG2, zeroOperation\<lparr>execute := makeOffchainLog 2, gasCost := makeGasLog 2, validateStack := makeStackFunc 4 0, memorySize := Some memoryLog, writes := True, valid := True\<rparr>),
      (LOG3, zeroOperation\<lparr>execute := makeOffchainLog 3, gasCost := makeGasLog 3, validateStack := makeStackFunc 5 0, memorySize := Some memoryLog, writes := True, valid := True\<rparr>),
      (LOG4, zeroOperation\<lparr>execute := makeOffchainLog 4, gasCost := makeGasLog 4, validateStack := makeStackFunc 6 0, memorySize := Some memoryLog, writes := True, valid := True\<rparr>),
      (CALL, zeroOperation\<lparr>execute := opOffchainCall, gasCost := gasCall, validateStack := makeStackFunc 5 0, memorySize := Some memoryCall, valid := True\<rparr>),
      (REVERT, zeroOperation\<lparr>execute := opOffchainRevert, gasCost := gasRevert, validateStack := makeStackFunc 2 0, memorySize := Some memoryRevert, halts := True, valid := True\<rparr>)]
      @ newBaseInstructionSet"

definition newRandInstructionSet :: instructionSet where
  "newRandInstructionSet =
     [(RANDOM, zeroOperation\<lparr>execute := opRandom, gasCost := gasRandom, validateStack := makeStackFunc 0 1, valid := True\<rparr>)]
      @ newSimpleInstructionSet"

definition newRandOffchainInstructionSet :: instructionSet where
  "newRandOffchainInstructionSet =
     [(RANDOM, zeroOperation\<lparr>execute := opOffchainRandom, gasCost := gasRandom, validateStack := makeStackFunc 0 1, valid := True\<rparr>)]
      @ newOffchainSimpleInstructionSet"

definition newEarthInstructionSet :: instructionSet where
  "newEarthInstructionSet =
     [(CALL2, zeroOperation\<lparr>execute := opCall2, gasCost := gasCall2, validateStack := makeStackFunc 5 1, valid := True\<rparr>)]
      @ newRandInstructionSet"

definition newEarthOffchainInstructionSet :: instructionSet where
  "newEarthOffchainInstructionSet =
     [(CALL2, zeroOperation\<lparr>execute := opOffchainCall2, gasCost := gasCall2, validateStack := makeStackFunc 5 1, valid := True\<rparr>)]
      @ newRandOffchainInstructionSet"

section \<open>The contract of a table entry\<close>

text \<open>The size function of an entry answers on every validated stack.\<close>

definition sized :: "nat \<Rightarrow> memorySizeFunc option \<Rightarrow> bool" where
  "sized pops ms \<longleftrightarrow> (\<forall>g st. ms = Some g \<longrightarrow> pops \<le> length st \<longrightarrow> wf_stack st \<longrightarrow> (\<exists>n\<ge>0. g st = Ret n))"

definition runs_on :: "operation \<Rightarrow> bool" where
  "runs_on opn \<longleftrightarrow> \<not> halts opn \<and> \<not> reverts opn \<and> \<not> returns opn"

text \<open>An instruction that costs quota and goes on with the next one.\<close>

definition plain_op :: "bool \<Rightarrow> opCode \<Rightarrow> nat \<Rightarrow> nat \<Rightarrow> operation \<Rightarrow> bool" where
  "plain_op off op pops pushes opn \<longleftrightarrow> runs_on opn \<and> \<not> jumps opn \<and>
     (if memorySize opn = None then priced (gasCost opn) pops else priced_mem (gasCost opn) pops) \<and>
     exec_ok (if off then Quiet else Loud) (memorySize opn) pops pushes (advance (pushSize op)) (execute opn)"

definition jump_op :: "bool \<Rightarrow> opCode \<Rightarrow> nat \<Rightarrow> nat \<Rightarrow> operation \<Rightarrow> bool" where
  "jump_op off op pops pushes opn \<longleftrightarrow> runs_on opn \<and> jumps opn \<and> memorySize opn = None \<and> priced (gasCost opn) pops \<and>
     exec_ok Quiet None pops pushes jumped (execute opn) \<and> pushSize op = 0"

text \<open>A storage write, real or off the chain.\<close>

definition store_op :: "bool \<Rightarrow> opCode \<Rightarrow> nat \<Rightarrow> nat \<Rightarrow> operation \<Rightarrow> bool" where
  "store_op off op pops pushes opn \<longleftrightarrow> runs_on opn \<and> \<not> jumps opn \<and> memorySize opn = None \<and> gasCost opn = gasSStore \<and>
     pops = 2 \<and> pushes = 0 \<and> pushSize op = 0 \<and>
     execute opn = (if off then opOffchainSStore else opSStore)"

text \<open>A call may be free, and it may read outside the memory.\<close>

definition call_op :: "bool \<Rightarrow> opCode \<Rightarrow> nat \<Rightarrow> nat \<Rightarrow> operation \<Rightarrow> bool" where
  "call_op off op pops pushes opn \<longleftrightarrow> runs_on opn \<and> \<not> jumps opn \<and> gasCost opn \<in> {gasCall, gasCall2} \<and>
     pops = 5 \<and> pushes \<le> 1 \<and> pushSize op = 0 \<and> op \<in> {CALL, CALL2} \<and>
     exec_ok (if off then Quiet else Risky) (memorySize opn) pops pushes (advance 0) (execute opn)"

text \<open>The end of a program.\<close>

definition final_op :: "bool \<Rightarrow> opCode \<Rightarrow> nat \<Rightarrow> nat \<Rightarrow> operation \<Rightarrow> bool" where
  "final_op off op pops pushes opn \<longleftrightarrow> (halts opn \<or> reverts opn) \<and>
     (\<forall>env f ms. quota_table (vm_gasTable (f_vm f)) \<longrightarrow>
        gas_post f (\<lambda>c fl. fl \<and> (memorySize opn \<noteq> None \<longrightarrow> unat ms \<le> 0xffffffffe0)) (gasCost opn env f ms)) \<and>
     exec_ok Quiet (memorySize opn) pops pushes (advance 0) (execute opn)"

definition operation_ok :: "bool \<Rightarrow> opCode \<Rightarrow> operation \<Rightarrow> bool" where
  "operation_ok off op opn \<longleftrightarrow> valid opn \<and> (\<exists>pops pushes. validateStack opn = makeStackFunc pops pushes \<and> sized pops (memorySize opn) \<and>
     (plain_op off op pops pushes opn \<or> jump_op off op pops pushes opn \<or> store_op off op pops pushes opn \<or>
      call_op off op pops pushes opn \<or> final_op off op pops pushes opn))"

definition set_ok :: "bool \<Rightarrow> instructionSet \<Rightarrow> bool" where
  "set_ok off is \<longleftrightarrow> list_all (\<lambda>(op, opn). operation_ok off op opn) is"

lemma set_ok_simps [simp]:
  "set_ok off []" "set_ok off ((op, opn) # is) \<longleftrightarrow> operation_ok off op opn \<and> set_ok off is" "set_ok off (is @ is') \<longleftrightarrow> set_ok off is \<and> set_ok off is'"
  by (simp_all add: set_ok_def)

lemma set_ok_instructionAt: "set_ok off is \<Longrightarrow> valid (instructionAt is op) \<Longrightarrow> operation_ok off op (instructionAt is op)"
  by (auto simp: set_ok_def instructionAt_def zeroOperation_def list_all_iff dest: map_of_SomeD split: option.splits)

lemma operation_okI:
  assumes "validateStack opn = makeStackFunc pops pushes" "valid opn" "sized pops (memorySize opn)"
    "plain_op off op pops pushes opn \<or> jump_op off op pops pushes opn \<or> store_op off op pops pushes opn \<or>
      call_op off op pops pushes opn \<or> final_op off op pops pushes opn"
  shows "operation_ok off op opn"
  using assms by (auto simp: operation_ok_def)

text \<open>The size functions.\<close>

lemma sized_memAt: "i < pops \<Longrightarrow> j < pops \<Longrightarrow> sized pops (Some (memAt i j))"
proof -
  assume "i < pops" "j < pops"
  then have "\<exists>n\<ge>0. memAt i j st = Ret n" if "pops \<le> length st" "wf_stack st" for st
    using that wf_stack_nth [of st i] wf_stack_nth [of st j]
    by (auto simp: memAt_def stack_back_def calcMemSize_def wf_val_def)
  then show ?thesis by (simp add: sized_def)
qed

lemma sized_simps [simp]:
  "sized pops None" "1 < pops \<Longrightarrow> sized pops (Some memorySha3)" "1 < pops \<Longrightarrow> sized pops (Some memoryBlake2b)"
  "2 < pops \<Longrightarrow> sized pops (Some memoryCallDataCopy)" "2 < pops \<Longrightarrow> sized pops (Some memoryCodeCopy)"
  "2 < pops \<Longrightarrow> sized pops (Some memoryReturnDataCopy)" "1 < pops \<Longrightarrow> sized pops (Some memoryLog)"
  "4 < pops \<Longrightarrow> sized pops (Some memoryCall)" "1 < pops \<Longrightarrow> sized pops (Some memoryReturn)"
  "1 < pops \<Longrightarrow> sized pops (Some memoryRevert)"
  by (simp_all add: sized_memAt memorySha3_def memoryBlake2b_def memoryCallDataCopy_def memoryCodeCopy_def
      memoryReturnDataCopy_def memoryLog_def memoryCall_def memoryReturn_def memoryRevert_def) (simp add: sized_def)

lemma sized_word [simp]:
  "0 < pops \<Longrightarrow> sized pops (Some memoryMLoad)" "0 < pops \<Longrightarrow> sized pops (Some memoryMStore)"
  "0 < pops \<Longrightarrow> sized pops (Some memoryMStore8)"
  using wf_stack_nth [of _ 0]
  by (fastforce simp: sized_def memoryMLoad_def memoryMStore_def memoryMStore8_def stack_back_def calcMemSize_def wf_val_def)+

text \<open>The groups.\<close>

lemma pushSize_0 [simp]: "\<not> isPush op \<Longrightarrow> pushSize op = 0"
  by (simp add: pushSize_def)

lemma pushSize_ops [simp]:
  "pushSize ADD = 0" "pushSize LOG0 = 0" "pushSize LOG1 = 0" "pushSize LOG2 = 0" "pushSize LOG3 = 0" "pushSize LOG4 = 0"
  "pushSize CALL = 0" "pushSize CALL2 = 0"
  by (simp_all add: pushSize_def isPush_def)

lemma final_gas [simp]:
  "gas_post f (\<lambda>c fl. fl) (constGasFunc g env f ms)"
  "quota_table (vm_gasTable (f_vm f)) \<Longrightarrow> gas_post f (\<lambda>c fl. fl \<and> unat ms \<le> 1099511627744) (gasReturn env f ms)"
  "quota_table (vm_gasTable (f_vm f)) \<Longrightarrow> gas_post f (\<lambda>c fl. fl \<and> unat ms \<le> 1099511627744) (gasRevert env f ms)"
  using memoryGasCost_post [of f ms]
  by (simp_all add: constGasFunc_def charge_def gas_post_def gasReturn_def gasRevert_def)

lemma exec_ok_weaken:
  "exec_ok Quiet ms p q Q op \<Longrightarrow> exec_ok Loud ms p q Q op"
  "exec_ok Loud ms p q Q op \<Longrightarrow> exec_ok Risky ms p q Q op"
  "exec_ok Quiet ms p q Q op \<Longrightarrow> exec_ok (if off then Quiet else Loud) ms p q Q op"
proof -
  have "exec_post Quiet p q Q f r \<Longrightarrow> exec_post Loud p q Q f r" "exec_post Loud p q Q f r \<Longrightarrow> exec_post Risky p q Q f r" for f r
    by (cases r; auto simp: exec_post_def)+
  then show 1: "exec_ok Quiet ms p q Q op \<Longrightarrow> exec_ok Loud ms p q Q op"
    and "exec_ok Loud ms p q Q op \<Longrightarrow> exec_ok Risky ms p q Q op"
    unfolding exec_ok_def by blast+
  from 1 show "exec_ok Quiet ms p q Q op \<Longrightarrow> exec_ok (if off then Quiet else Loud) ms p q Q op" by simp
qed

lemmas entry_simps = zeroOperation_def plain_op_def jump_op_def store_op_def call_op_def final_op_def runs_on_def
  exec_rules pure_op_exec priced_table priced_gasExp priced_mem_table isPush_iff exec_ok_weaken

lemma groups_ok:
  "set_ok off arithmeticOperations" "set_ok off bitOperations" "set_ok off contextOperations" "set_ok off flowOperations"
  "set_ok off endOperations"
  unfolding arithmeticOperations_def bitOperations_def contextOperations_def flowOperations_def endOperations_def set_ok_simps
  by (intro conjI set_ok_simps(1);
      (rule operation_okI, simp add: zeroOperation_def del: One_nat_def, simp add: zeroOperation_def,
       simp add: zeroOperation_def, simp add: entry_simps del: One_nat_def))+

lemma push_entry:
  "n \<le> 32 \<Longrightarrow> pushSize op = n \<Longrightarrow>
     operation_ok off op (zeroOperation\<lparr>execute := makePush n n, gasCost := gasPush, validateStack := makeStackFunc 0 1, valid := True\<rparr>)"
  by (rule operation_okI, simp add: zeroOperation_def del: One_nat_def)
     (simp_all add: entry_simps del: One_nat_def)

lemma dup_entry:
  "0 < n \<Longrightarrow> \<not> isPush op \<Longrightarrow>
     operation_ok off op (zeroOperation\<lparr>execute := makeDup n, gasCost := gasDup, validateStack := makeDupStackFunc n, valid := True\<rparr>)"
  by (rule operation_okI [of _ n "n + 1"])
     (simp_all add: makeDupStackFunc_def zeroOperation_def plain_op_def runs_on_def pure_op_exec exec_rules priced_table
       del: One_nat_def)

lemma swap_entry:
  "\<not> isPush op \<Longrightarrow> m = n + 1 \<Longrightarrow>
     operation_ok off op (zeroOperation\<lparr>execute := makeSwap n, gasCost := gasSwap, validateStack := makeSwapStackFunc m, valid := True\<rparr>)"
  by (rule operation_okI [of _ "n + 1" "n + 1"])
     (simp_all add: makeSwapStackFunc_def zeroOperation_def plain_op_def runs_on_def pure_op_exec exec_rules priced_table
       del: One_nat_def)

lemma stack_groups_ok: "set_ok off pushOperations1" "set_ok off pushOperations2" "set_ok off dupOperations" "set_ok off swapOperations"
  unfolding pushOperations1_def pushOperations2_def dupOperations_def swapOperations_def set_ok_simps
  by (intro conjI set_ok_simps(1) push_entry dup_entry swap_entry; simp add: isPush_iff pushSize_def)+

lemma base_ok: "set_ok off newBaseInstructionSet"
  by (simp add: newBaseInstructionSet_def groups_ok stack_groups_ok)

lemma log_entries:
  "exec_ok Loud (Some memoryLog) 2 0 (advance 0) (makeLog 0)" "exec_ok Loud (Some memoryLog) 3 0 (advance 0) (makeLog 1)"
  "exec_ok Loud (Some memoryLog) 4 0 (advance 0) (makeLog 2)" "exec_ok Loud (Some memoryLog) 5 0 (advance 0) (makeLog 3)"
  "exec_ok Loud (Some memoryLog) 6 0 (advance 0) (makeLog 4)"
  "pure_op 2 0 (makeOffchainLog 0)" "pure_op 3 0 (makeOffchainLog 1)" "pure_op 4 0 (makeOffchainLog 2)"
  "pure_op 5 0 (makeOffchainLog 3)" "pure_op 6 0 (makeOffchainLog 4)"
  using exec_log [of 0] exec_log [of 1] exec_log [of 2] exec_log [of 3] exec_log [of 4]
    pure_offchain(1) [of 0] pure_offchain(1) [of 1] pure_offchain(1) [of 2] pure_offchain(1) [of 3] pure_offchain(1) [of 4]
  by (simp_all del: One_nat_def add_2_eq_Suc' add_2_eq_Suc)

lemma priced_mem_more: "priced_mem g n \<Longrightarrow> n \<le> m \<Longrightarrow> priced_mem g m"
  by (auto simp: priced_mem_def)

lemma simple_sets_ok: "set_ok False newSimpleInstructionSet" "set_ok True newOffchainSimpleInstructionSet"
  unfolding newSimpleInstructionSet_def newOffchainSimpleInstructionSet_def set_ok_simps
  by (intro conjI set_ok_simps(1) base_ok;
      (rule operation_okI, simp add: zeroOperation_def del: One_nat_def, simp add: zeroOperation_def,
       simp add: zeroOperation_def, simp add: entry_simps log_entries priced_mem_log priced_mem_more [OF priced_mem_log]
         del: One_nat_def))+

lemma sets_ok:
  "set_ok False newRandInstructionSet" "set_ok True newRandOffchainInstructionSet"
  "set_ok False newEarthInstructionSet" "set_ok True newEarthOffchainInstructionSet"
proof -
  have "operation_ok off RANDOM (zeroOperation\<lparr>execute := ex, gasCost := gasRandom, validateStack := makeStackFunc 0 1, valid := True\<rparr>)"
    if "ex = opRandom \<or> ex = opOffchainRandom" for off ex
    by (rule operation_okI [of _ 0 1]) (use that in \<open>auto simp: entry_simps simp del: One_nat_def\<close>)
  then show rand: "set_ok False newRandInstructionSet" "set_ok True newRandOffchainInstructionSet"
    by (simp_all add: newRandInstructionSet_def newRandOffchainInstructionSet_def simple_sets_ok del: One_nat_def)
  have call2: "operation_ok off CALL2 (zeroOperation\<lparr>execute := if off then opOffchainCall2 else opCall2, gasCost := gasCall2,
      validateStack := makeStackFunc 5 1, valid := True\<rparr>)" for off
    by (rule operation_okI [of _ 5 1]) (auto simp: entry_simps simp del: One_nat_def)
  from rand call2 [of False] call2 [of True] show "set_ok False newEarthInstructionSet" "set_ok True newEarthOffchainInstructionSet"
    by (simp_all add: newEarthInstructionSet_def newEarthOffchainInstructionSet_def del: One_nat_def)
qed

section \<open>The arithmetic instructions in the sets\<close>

definition instructionSets :: "instructionSet list" where
  "instructionSets = [newSimpleInstructionSet, newOffchainSimpleInstructionSet, newRandInstructionSet,
     newRandOffchainInstructionSet, newEarthInstructionSet, newEarthOffchainInstructionSet]"

text \<open>The result of an arithmetic instruction on its operands, the top of the stack first.\<close>

fun alu :: "opCode \<Rightarrow> w256 list \<Rightarrow> w256 option" where
  "alu op [a] = map_option (\<lambda>g. g a) (map_of alu1 op)"
| "alu op [a, b] = map_option (\<lambda>g. g a b) (map_of alu2 op)"
| "alu op [a, b, c] = map_option (\<lambda>g. g a b c) (map_of alu3 op)"
| "alu op _ = None"

lemma instructionAt_Cons:
  "instructionAt ((op', opn) # is) op = (if op = op' then opn else instructionAt is op)"
  by (simp add: instructionAt_def)

text \<open>The overriding entries do not touch them.\<close>

definition aluOps :: "(opCode \<times> executionFunc) list" where
  "aluOps =
     [(ADD, opAdd), (MUL, opMul), (SUB, opSub), (DIV, opDiv), (SDIV, opSdiv), (MOD, opMod), (SMOD, opSmod),
      (ADDMOD, opAddmod), (MULMOD, opMulmod), (EXP, opExp), (SIGNEXTEND, opSignExtend), (LT, opLt), (GT, opGt),
      (SLT, opSlt), (SGT, opSgt), (EQ, opEq), (ISZERO, opIszero), (AND_OP, opAnd), (OR_OP, opOr), (XOR_OP, opXor),
      (NOT_OP, opNot), (BYTE, opByte), (SHL, opSHL), (SHR, opSHR), (SAR, opSAR)]"

lemma base_aluOps: "(op, ex) \<in> set aluOps \<Longrightarrow> execute (instructionAt newBaseInstructionSet op) = ex"
proof -
  have "list_all (\<lambda>(op, ex). execute (instructionAt newBaseInstructionSet op) = ex) aluOps"
    unfolding newBaseInstructionSet_def arithmeticOperations_def bitOperations_def aluOps_def
    by (simp add: instructionAt_Cons)
  then show "(op, ex) \<in> set aluOps \<Longrightarrow> execute (instructionAt newBaseInstructionSet op) = ex"
    by (auto simp: list_all_iff)
qed

lemma sets_aluOps:
  assumes "(op, ex) \<in> set aluOps" "is \<in> set instructionSets"
  shows "execute (instructionAt is op) = ex"
proof -
  have low: "op \<le> 29" using assms(1) by (auto simp: aluOps_def)
  then have ne: "op \<noteq> FROMHASH" "op \<noteq> SEED" "op \<noteq> CALLER" "op \<noteq> CALLVALUE" "op \<noteq> TIMESTAMP" "op \<noteq> HEIGHT" "op \<noteq> TOKENID"
    "op \<noteq> SSTORE" "op \<noteq> LOG0" "op \<noteq> LOG1" "op \<noteq> LOG2" "op \<noteq> LOG3" "op \<noteq> LOG4" "op \<noteq> CALL" "op \<noteq> REVERT" "op \<noteq> RANDOM" "op \<noteq> CALL2"
    by auto
  have "instructionAt is op = instructionAt newBaseInstructionSet op"
    using assms(2)
    by (auto simp: instructionSets_def newSimpleInstructionSet_def newOffchainSimpleInstructionSet_def newRandInstructionSet_def
        newRandOffchainInstructionSet_def newEarthInstructionSet_def newEarthOffchainInstructionSet_def instructionAt_Cons ne)
  with base_aluOps [OF assms(1)] show ?thesis by simp
qed

lemma alu2_exec:
  assumes "f_stack f = uint a # uint b # st" "(op, g) \<in> set alu2"
  shows "\<exists>ex. map_of aluOps op = Some ex \<and> ex env f = ret0 (f\<lparr>f_stack := uint (g a b) # st\<rparr>)"
proof -
  note ops = ops_plain [OF assms(1), of env] ops_div [OF assms(1), of env] ops_signed_div [OF assms(1), of env]
    ops_exp [OF assms(1), of env] ops_signextend [OF assms(1), of env] ops_signed_compare [OF assms(1), of env]
    ops_byte [OF assms(1), of env] ops_shift [OF assms(1), of env]
  from assms(2) show ?thesis
    unfolding alu2_def list.set insert_iff empty_iff prod.inject
    by (elim disjE conjE FalseE; simp add: aluOps_def ops)
qed

lemma alu_exec:
  assumes "alu op ws = Some w" "f_stack f = map uint ws @ st"
  shows "\<exists>ex. map_of aluOps op = Some ex \<and> ex env f = ret0 (f\<lparr>f_stack := uint w # st\<rparr>)"
proof (cases "(op, ws)" rule: alu.cases)
  case (1 op' a)
  then have st: "f_stack f = uint a # st" using assms by simp
  from 1 assms(1) obtain g where "(op, g) \<in> set alu1" "w = g a" by (auto dest: map_of_SomeD)
  then show ?thesis
    unfolding alu1_def list.set insert_iff empty_iff prod.inject
    by (elim disjE conjE FalseE; simp add: aluOps_def ops_unary [OF st, of env])
next
  case (2 op' a b)
  then have st: "f_stack f = uint a # uint b # st" using assms by simp
  from 2 assms(1) obtain g where "(op, g) \<in> set alu2" "w = g a b" by (auto dest: map_of_SomeD)
  with alu2_exec [OF st] show ?thesis by blast
next
  case (3 op' a b c)
  then have st: "f_stack f = uint a # uint b # uint c # st" using assms by simp
  from 3 assms(1) obtain g where "(op, g) \<in> set alu3" "w = g a b c" by (auto dest: map_of_SomeD)
  then show ?thesis
    unfolding alu3_def list.set insert_iff empty_iff prod.inject
    by (elim disjE conjE FalseE; simp add: aluOps_def ops_mod3 [OF st, of env])
qed (use assms in auto)

section \<open>Properties\<close>




end
