(* ===== verification/Interpreter.thy ===== *)
theory Interpreter
  imports Jump_Table
begin

text \<open>
  vm/interpreter.go and \<open>contract.run\<close>: the choice of the instruction set, one turn of the loop as \<open>step\<close>, and
  the loop as \<open>runLoop\<close>, a partial function that is undefined when the program does not end.  The abort flag,
  which another goroutine may set, is the parameter \<open>e_abort\<close>: it tells for every turn whether the flag is
  set when the loop looks at it.  The debug output has no effect and is left out.

  The lemmas show that a step keeps the invariant of the frame, that the loop ends after at most
  \<open>1025 * (quota + 1)\<close> turns, and that the quota left never exceeds the quota given.
\<close>

section \<open>Definitions\<close>

fun instructionSet_of :: "interpreter \<Rightarrow> instructionSet" where
  "instructionSet_of simpleInterpreter = newSimpleInstructionSet"
| "instructionSet_of offchainSimpleInterpreter = newOffchainSimpleInstructionSet"
| "instructionSet_of randInterpreter = newRandInstructionSet"
| "instructionSet_of offchainRandInterpreter = newRandOffchainInstructionSet"
| "instructionSet_of earthInterpreter = newEarthInstructionSet"
| "instructionSet_of offchainEarthInterpreter = newEarthOffchainInstructionSet"

definition newInterpreter :: "upgradeBox \<Rightarrow> u64 \<Rightarrow> bool \<Rightarrow> interpreter" where
  "newInterpreter upgrade blockHeight offChain =
     (if IsEarthUpgrade upgrade blockHeight
      then if offChain then offchainEarthInterpreter else earthInterpreter
      else if IsSeedUpgrade upgrade blockHeight
      then if offChain then offchainRandInterpreter else randInterpreter
      else if offChain then offchainSimpleInterpreter else simpleInterpreter)"

text \<open>The memory size that an operation asks for, rounded up to words.\<close>

definition memorySizeOf :: "operation \<Rightarrow> stack \<Rightarrow> (vm_error + u64) go" where
  "memorySizeOf operation st =
     (case memorySize operation of
        None \<Rightarrow> Ret (Inr 0)
      | Some ms \<Rightarrow>
          go_bind (ms st) (\<lambda>v.
            let (memSize, overflow) = BigUint64 v
            in if overflow then Ret (Inl ErrMemSizeOverflow)
               else let (wordSize, overflow) = SafeMul (ToWordSize memSize) (of_nat WordSize)
                    in if overflow then Ret (Inl ErrMemSizeOverflow) else Ret (Inr wordSize)))"

definition setQuotaLeft :: "u64 \<Rightarrow> frame \<Rightarrow> frame" where
  "setQuotaLeft q f = f\<lparr>f_c := (f_c f)\<lparr>c_quotaLeft := q\<rparr>\<rparr>"

definition resizeMemory :: "env \<Rightarrow> u64 \<Rightarrow> frame \<Rightarrow> frame" where
  "resizeMemory env sz f =
     (if sz > 0 then f\<lparr>f_mem := mem_resize (e_growCap env) sz (f_mem f)\<rparr> else f)"

datatype stepResult = Next frame | Stop frame bytes "vm_error option"

text \<open>The assignment of the return data and the switch at the end of a turn.\<close>

definition finishStep :: "operation \<Rightarrow> frame \<times> bytes \<times> vm_error option \<Rightarrow> stepResult" where
  "finishStep operation r =
     (case r of (f0, res, err) \<Rightarrow>
        let f = (if returns operation then f0\<lparr>f_c := (f_c f0)\<lparr>c_returnData := res\<rparr>\<rparr> else f0)
        in if err \<noteq> None then Stop f [] err
           else if halts operation then Stop f res None
           else if reverts operation then Stop f res (Some ErrExecutionReverted)
           else if \<not> jumps operation then Next (f\<lparr>f_pc := f_pc f + 1\<rparr>)
           else Next f)"

definition step :: "env \<Rightarrow> instructionSet \<Rightarrow> frame \<Rightarrow> stepResult go" where
  "step env is f =
     (let operation = instructionAt is (getOp (f_c f) (f_pc f))
      in if \<not> valid operation then Ret (Stop f [] (Some ErrInvalidOpCode))
         else if validateStack operation (f_stack f) \<noteq> None
         then Ret (Stop f [] (validateStack operation (f_stack f)))
         else
           go_bind (memorySizeOf operation (f_stack f)) (\<lambda>size_or_err.
             case size_or_err of
               Inl err \<Rightarrow> Ret (Stop f [] (Some err))
             | Inr sz \<Rightarrow>
                 go_bind (gasCost operation env f sz) (\<lambda>(f1, gas).
                   case gas of
                     Inl err \<Rightarrow> Ret (Stop f1 [] (Some err))
                   | Inr (cost, flag) \<Rightarrow>
                       let (quotaLeft, err) = UseQuotaWithFlag (c_quotaLeft (f_c f1)) cost flag;
                           f2 = setQuotaLeft quotaLeft f1
                       in if err \<noteq> None then Ret (Stop f2 [] err)
                          else go_bind (execute operation env (resizeMemory env sz f2)) (\<lambda>r.
                                 Ret (finishStep operation r)))))"

partial_function (option) loopFrom ::
    "env \<Rightarrow> instructionSet \<Rightarrow> nat \<Rightarrow> frame \<Rightarrow> (frame \<times> bytes \<times> vm_error option) go option" where
  "loopFrom env is n f =
     (if e_abort env n then Some (Panics (PanicErr ErrExecutionCanceled))
      else case step env is f of
        Panics p \<Rightarrow> Some (Panics p)
      | Ret r \<Rightarrow>
          (case r of
             Stop f' ret err \<Rightarrow> Some (Ret (f', ret, err))
           | Next f' \<Rightarrow> loopFrom env is (Suc n) f'))"

declare loopFrom.simps [code]

text \<open>The same loop with a bound on the number of its turns.\<close>

fun loopTurns ::
    "nat \<Rightarrow> env \<Rightarrow> instructionSet \<Rightarrow> nat \<Rightarrow> frame \<Rightarrow> (frame \<times> bytes \<times> vm_error option) go option" where
  "loopTurns 0 env is n f = None"
| "loopTurns (Suc k) env is n f =
     (if e_abort env n then Some (Panics (PanicErr ErrExecutionCanceled))
      else case step env is f of
        Panics p \<Rightarrow> Some (Panics p)
      | Ret r \<Rightarrow>
          (case r of
             Stop f' ret err \<Rightarrow> Some (Ret (f', ret, err))
           | Next f' \<Rightarrow> loopTurns k env is (Suc n) f'))"

definition startFrame :: "VM \<Rightarrow> contract \<Rightarrow> frame" where
  "startFrame vm c = \<lparr>f_pc = 0, f_vm = vm, f_c = c\<lparr>c_returnData := []\<rparr>, f_mem = newMemory, f_stack = newStack\<rparr>"

definition runLoop :: "env \<Rightarrow> interpreter \<Rightarrow> VM \<Rightarrow> contract \<Rightarrow> (frame \<times> bytes \<times> vm_error option) go option" where
  "runLoop env i vm c = loopFrom env (instructionSet_of i) 0 (startFrame vm c)"

definition run :: "env \<Rightarrow> VM \<Rightarrow> contract \<Rightarrow> (frame \<times> bytes \<times> vm_error option) go option" where
  "run env vm c = runLoop env (vm_i vm) vm c"

section \<open>A loop with a measure\<close>

text \<open>The interface of the termination argument: a transition that keeps an invariant and decreases a measure.\<close>

locale measured_loop =
  fixes next_state :: "'s \<Rightarrow> 's option"
    and inv :: "'s \<Rightarrow> bool"
    and meas :: "'s \<Rightarrow> nat"
  assumes keeps: "inv s \<Longrightarrow> next_state s = Some s' \<Longrightarrow> inv s'"
    and decreases: "inv s \<Longrightarrow> next_state s = Some s' \<Longrightarrow> meas s' < meas s"
begin

inductive reachable :: "'s \<Rightarrow> nat \<Rightarrow> 's \<Rightarrow> bool" where
  start: "reachable s 0 s"
| turn: "reachable s n s' \<Longrightarrow> next_state s' = Some s'' \<Longrightarrow> reachable s (Suc n) s''"

lemma reachable_inv: "reachable s n s' \<Longrightarrow> inv s \<Longrightarrow> inv s' \<and> meas s' + n \<le> meas s"
proof (induction rule: reachable.induct)
  case (turn s n s' s'')
  then show ?case using keeps [of s' s''] decreases [of s' s''] by auto
qed simp

text \<open>Every run comes to a state without a successor.\<close>

lemma ends: "inv s \<Longrightarrow> \<exists>n s'. n \<le> meas s \<and> reachable s n s' \<and> next_state s' = None"
proof -
  have "\<exists>n s''. n + k \<le> meas s \<and> reachable s (n + k) s'' \<and> next_state s'' = None"
    if "inv s" "reachable s k s'" for s s' k
    using that
  proof (induction "meas s - k" arbitrary: k s' rule: less_induct)
    case less
    have b: "inv s'" "meas s' + k \<le> meas s" using reachable_inv less.prems by blast+
    show ?case
    proof (cases "next_state s'")
      case None
      then show ?thesis using less.prems b by (intro exI [of _ 0] exI [of _ s']) auto
    next
      case (Some s1)
      with b decreases [of s' s1] have "meas s - Suc k < meas s - k" by auto
      from less.hyps [OF this less.prems(1) turn [OF less.prems(2) Some]] show ?thesis by (metis add_Suc_shift)
    qed
  qed
  from this [OF _ start] show "inv s \<Longrightarrow> ?thesis" by force
qed

lemma reachable_prefix: "reachable s k s' \<Longrightarrow> j \<le> k \<Longrightarrow> \<exists>s''. reachable s j s''"
proof (induction rule: reachable.induct)
  case (turn s n s' s'')
  then show ?case using reachable.turn [of s n s' s''] by (cases "j = Suc n") auto
qed (auto intro: start)

text \<open>With a condition that may cut the run short, there is a first turn that is the last one.\<close>

lemma first_stop:
  assumes "inv s"
  shows "\<exists>k s'. reachable s k s' \<and> k \<le> meas s \<and> (stop k \<or> next_state s' = None) \<and> (\<forall>j<k. \<not> stop j)"
proof -
  let ?P = "\<lambda>k. \<exists>s'. reachable s k s' \<and> (stop k \<or> next_state s' = None)"
  define k where "k = (LEAST k. ?P k)"
  from ends [OF assms] have ex: "\<exists>n. ?P n" by blast
  then have "?P k" unfolding k_def by (rule LeastI_ex)
  then obtain s' where s': "reachable s k s'" "stop k \<or> next_state s' = None" by blast
  have "\<not> stop j" if "j < k" for j
    using not_less_Least [of j ?P] that reachable_prefix [OF s'(1), of j] unfolding k_def [symmetric] by auto
  with s' reachable_inv [OF s'(1) assms] show ?thesis by (intro exI [of _ k] exI [of _ s']) auto
qed

end

section \<open>One turn of the loop\<close>

text \<open>The quota left, and what the storage written so far may still give back.\<close>

definition budget :: "env \<Rightarrow> frame \<Rightarrow> nat" where
  "budget env f = unat (c_quotaLeft (f_c f)) + storagePot (e_chain env) (vm_gasTable (f_vm f)) (c_db (f_c f))"

text \<open>The program counter is at an instruction of the code or past its end.\<close>

definition pc_ok :: "frame \<Rightarrow> bool" where
  "pc_ok f \<longleftrightarrow> unat (f_pc f) \<in> set (instrStarts (c_code (f_c f)) 0) \<or>
     length (c_code (f_c f)) \<le> unat (f_pc f) \<and> unat (f_pc f) \<le> length (c_code (f_c f)) + 32"

text \<open>Off the chain nothing is written, so there is nothing to give back.\<close>

fun offchain :: "interpreter \<Rightarrow> bool" where
  "offchain simpleInterpreter = False"
| "offchain randInterpreter = False"
| "offchain earthInterpreter = False"
| "offchain _ = True"

definition run_inv :: "env \<Rightarrow> interpreter \<Rightarrow> nat \<Rightarrow> frame \<Rightarrow> bool" where
  "run_inv env i Q f \<longleftrightarrow> env_ok env \<and> frame_ok f \<and> length (f_stack f) \<le> stackLimit \<and> pc_ok f \<and>
     budget env f \<le> Q \<and> Q < 2 ^ 64 \<and> (offchain i \<longrightarrow> u_storage (vdb_uns (c_db (f_c f))) = Some [])"

lemma interpreter_set_ok: "set_ok (offchain i) (instructionSet_of i)"
  by (cases i) (simp_all add: simple_sets_ok sets_ok)

lemma base_STOP: "halts (instructionAt newBaseInstructionSet STOP)"
  by (simp add: newBaseInstructionSet_def arithmeticOperations_def instructionAt_Cons)

lemma interpreter_STOP: "halts (instructionAt (instructionSet_of i) STOP)"
  by (cases i) (simp_all add: newSimpleInstructionSet_def newOffchainSimpleInstructionSet_def newRandInstructionSet_def
      newRandOffchainInstructionSet_def newEarthInstructionSet_def newEarthOffchainInstructionSet_def instructionAt_Cons base_STOP)

text \<open>A turn without an error went through all of its stages.\<close>

lemma step_success:
  assumes "step env is f = Ret x" "\<And>f' ret e. x \<noteq> Stop f' ret (Some e)"
  obtains opn sz f1 c fl q f4 res where "opn = instructionAt is (getOp (f_c f) (f_pc f))" "valid opn"
    "validateStack opn (f_stack f) = None" "memorySizeOf opn (f_stack f) = Ret (Inr sz)"
    "gasCost opn env f sz = Ret (f1, Inr (c, fl))" "UseQuotaWithFlag (c_quotaLeft (f_c f1)) c fl = (q, None)"
    "execute opn env (resizeMemory env sz (setQuotaLeft q f1)) = Ret (f4, res, None)" "finishStep opn (f4, res, None) = x"
proof -
  let ?opn = "instructionAt is (getOp (f_c f) (f_pc f))"
  have no: "Stop f' ret e \<noteq> x" if "e \<noteq> None" for f' ret e using assms(2) that by (cases e) auto
  from assms(1) have v: "valid ?opn" "validateStack ?opn (f_stack f) = None"
    by (auto simp: step_def Let_def no split: if_splits)
  with assms(1) obtain sz where sz: "memorySizeOf ?opn (f_stack f) = Ret (Inr sz)"
    by (cases "memorySizeOf ?opn (f_stack f)") (auto simp: step_def Let_def no split: sum.splits)
  with assms(1) v obtain f1 c fl where g: "gasCost ?opn env f sz = Ret (f1, Inr (c, fl))"
    by (cases "gasCost ?opn env f sz") (auto simp: step_def Let_def no split: sum.splits)
  with assms(1) v sz obtain q where q: "UseQuotaWithFlag (c_quotaLeft (f_c f1)) c fl = (q, None)"
    by (cases "UseQuotaWithFlag (c_quotaLeft (f_c f1)) c fl") (auto simp: step_def Let_def no split: if_splits)
  with assms(1) v sz g obtain r where r: "execute ?opn env (resizeMemory env sz (setQuotaLeft q f1)) = Ret r"
    "finishStep ?opn r = x"
    by (auto simp: step_def Let_def go_bind_eq_Ret)
  obtain f4 res err where "r = (f4, res, err)" by (cases r)
  moreover with r have "err = None" by (auto simp: finishStep_def Let_def no split: if_splits)
  ultimately show ?thesis using that [OF refl v sz g q] r by simp
qed

lemma memorySizeOf_ok:
  assumes "sized pops (memorySize opn)" "pops \<le> length st" "wf_stack st"
  obtains r where "memorySizeOf opn st = Ret r" "memorySize opn = None \<Longrightarrow> r = Inr 0"
    "\<And>sz g n. r = Inr sz \<Longrightarrow> memorySize opn = Some g \<Longrightarrow> g st = Ret n \<Longrightarrow> n \<le> int (unat sz)"
proof (cases "memorySize opn")
  case None
  then show ?thesis using that by (simp add: memorySizeOf_def)
next
  case (Some g)
  with assms obtain n where n: "g st = Ret n" "0 \<le> n" unfolding sized_def by blast
  let ?w = "SafeMul (ToWordSize (fst (BigUint64 n))) 32"
  have eq: "memorySizeOf opn st = Ret (if snd (BigUint64 n) \<or> snd ?w then Inl ErrMemSizeOverflow else Inr (fst ?w))"
    using Some n by (auto simp: memorySizeOf_def case_prod_beta WordSize_def Let_def)
  have le: "n \<le> int (unat (fst ?w))" if "\<not> snd (BigUint64 n)" "\<not> snd ?w"
  proof -
    have "unat (fst ?w) = (nat n + 31) div 32 * 32"
      using SafeMul_exact [OF that(2)] BigUint64_exact [OF n(2) that(1)] by (simp add: unat_ToWordSize)
    moreover have "m \<le> (m + 31) div 32 * 32" for m :: nat by presburger
    ultimately have "nat n \<le> unat (fst ?w)" by simp
    then show ?thesis using n(2) by linarith
  qed
  show ?thesis
  proof (rule that [OF eq])
    fix sz g' m
    assume "(if snd (BigUint64 n) \<or> snd ?w then Inl ErrMemSizeOverflow else Inr (fst ?w)) = Inr sz"
      "memorySize opn = Some g'" "g' st = Ret m"
    with le Some n show "m \<le> int (unat sz)" by (auto split: if_splits)
  qed (simp add: Some)
qed

text \<open>The frame on which the instruction is executed.\<close>

lemma prepared:
  assumes "frame_ok f" "gas_frame f f1" "unat sz \<le> 0xffffffffe0" and f3_def: "f3 = resizeMemory env sz (setQuotaLeft q f1)"
  shows "frame_ok f3" "f_stack f3 = f_stack f" "f_pc f3 = f_pc f" "f_vm f3 = f_vm f" "c_db (f_c f3) = c_db (f_c f)"
    "c_quotaLeft (f_c f3) = q" "c_code (f_c f3) = c_code (f_c f)" "unat sz \<le> mem_len (f_mem f3)"
    "c_storageModified (f_c f3) = c_storageModified (f_c f1)"
proof -
  note same = gas_frame_same [OF assms(2)]
  have len: "mem_len (f_mem f1) = mem_len (f_mem f)" using same by (simp add: mem_len_def)
  have "wf_mem (f_mem f1)" using frame_okD(2) [OF assms(1)] same len by (simp add: wf_mem_def)
  with frame_okD [OF assms(1)] same len assms(3)
  show "frame_ok f3"
    by (simp add: f3_def resizeMemory_def setQuotaLeft_def frame_ok_def blocks_ok_def)
  show "f_stack f3 = f_stack f" "f_pc f3 = f_pc f" "f_vm f3 = f_vm f" "c_db (f_c f3) = c_db (f_c f)"
    "c_quotaLeft (f_c f3) = q" "c_code (f_c f3) = c_code (f_c f)" "c_storageModified (f_c f3) = c_storageModified (f_c f1)"
    by (simp_all add: f3_def resizeMemory_def setQuotaLeft_def same)
  show "unat sz \<le> mem_len (f_mem f3)"
    by (auto simp: f3_def resizeMemory_def setQuotaLeft_def word_gt_0)
qed

lemma UseQuota_None:
  "UseQuotaWithFlag ql c True = (q, None) \<Longrightarrow> unat q + unat c = unat ql" "UseQuotaWithFlag ql c False = (q, None) \<Longrightarrow> q = ql + c"
  by (auto simp: UseQuotaWithFlag_def UseQuota_def word_less_nat_alt unat_minus_u64 word_le_nat_alt not_less split: if_splits)

lemma gas_postD: "gas_post f P m \<Longrightarrow> m = Ret (f1, r) \<Longrightarrow> gas_frame f f1 \<and> (\<forall>c fl. r = Inr (c, fl) \<longrightarrow> P c fl)"
  by (auto simp: gas_post_def)

lemma gas_post_no_panic: "gas_post f P m \<Longrightarrow> m \<noteq> Panics p"
  by (auto simp: gas_post_def)

text \<open>What the kinds of entries say about the price.\<close>

lemma priced_gas:
  assumes "if memorySize opn = None then priced (gasCost opn) pops else priced_mem (gasCost opn) pops"
    and "frame_ok f" "pops \<le> length (f_stack f)" "memorySize opn = None \<longrightarrow> sz = 0"
  shows "gas_post f (\<lambda>c fl. fl \<and> c \<noteq> 0 \<and> unat sz \<le> 0xffffffffe0) (gasCost opn env f sz)"
  using assms frame_okD(8) [OF assms(2)]
  by (auto simp: priced_def priced_mem_def split: if_splits elim!: gas_post_mono)

lemma stack2: "2 \<le> length st \<Longrightarrow> \<exists>a b r. st = a # b # r"
  by (auto simp: numeral_2_eq_2 length_ge_Suc)

lemma stack5: "5 \<le> length st \<Longrightarrow> \<exists>a b c d e r. st = a # b # c # d # e # r"
  by (auto simp: eval_nat_numeral length_ge_Suc)

text \<open>The price of every entry: only the two bookkeeping fields change and the memory stays below the bound.\<close>

lemma gas_step:
  assumes "plain_op off op pops pushes opn \<or> jump_op off op pops pushes opn \<or> store_op off op pops pushes opn \<or>
      call_op off op pops pushes opn \<or> final_op off op pops pushes opn"
    and "frame_ok f" "pops \<le> length (f_stack f)" "memorySize opn = None \<longrightarrow> sz = 0"
    and "gasCost opn env f sz = Ret (f1, Inr (c, fl))"
  shows "gas_frame f f1" "unat sz \<le> 0xffffffffe0" "store_op off op pops pushes opn \<or> fl"
    "plain_op off op pops pushes opn \<or> jump_op off op pops pushes opn \<Longrightarrow> c \<noteq> 0"
proof -
  note qt = frame_okD(8) [OF assms(2)]
  have priced: "gas_frame f f1 \<and> unat sz \<le> 0xffffffffe0 \<and> fl \<and> c \<noteq> 0"
    if "plain_op off op pops pushes opn \<or> jump_op off op pops pushes opn"
    using gas_postD [OF priced_gas [OF _ assms(2-4)] assms(5)] that by (auto simp: plain_op_def jump_op_def)
  have "gas_frame f f1 \<and> unat sz \<le> 0xffffffffe0 \<and> (store_op off op pops pushes opn \<or> fl)"
    using assms(1)
  proof (elim disjE)
    assume k: "store_op off op pops pushes opn"
    then obtain loc new st where "f_stack f = loc # new # st"
      using assms(3) stack2 [of "f_stack f"] by (auto simp: store_op_def)
    with gasSStore_Ret(1) k assms(4,5) show ?thesis by (auto simp: store_op_def)
  next
    assume k: "call_op off op pops pushes opn"
    then have g: "gasCall env f sz = Ret (f1, Inr (c, fl))"
      using assms(5) by (auto simp: call_op_def gasCall2_def)
    from k assms(3) obtain to tok amount off s st where "f_stack f = to # tok # amount # off # s # st"
      using stack5 [of "f_stack f"] by (auto simp: call_op_def)
    from gasCall_Ret [OF g qt this] show ?thesis by auto
  next
    assume k: "final_op off op pops pushes opn"
    with qt have "gas_post f (\<lambda>c fl. fl \<and> (memorySize opn \<noteq> None \<longrightarrow> unat sz \<le> 0xffffffffe0)) (gasCost opn env f sz)"
      by (simp add: final_op_def)
    from gas_postD [OF this assms(5)] assms(4) show ?thesis by auto
  qed (use priced in blast)+
  with priced show "gas_frame f f1" "unat sz \<le> 0xffffffffe0" "store_op off op pops pushes opn \<or> fl"
    "plain_op off op pops pushes opn \<or> jump_op off op pops pushes opn \<Longrightarrow> c \<noteq> 0" by auto
qed

text \<open>A price that is refused leaves the frame alone as well, and only a call may panic on an index.\<close>

lemma gas_any:
  assumes "plain_op off op pops pushes opn \<or> jump_op off op pops pushes opn \<or> store_op off op pops pushes opn \<or>
      call_op off op pops pushes opn \<or> final_op off op pops pushes opn"
    and "frame_ok f" "pops \<le> length (f_stack f)" "memorySize opn = None \<longrightarrow> sz = 0"
  shows "gasCost opn env f sz = Ret (f1, r) \<Longrightarrow> gas_frame f f1"
    "gasCost opn env f sz = Panics PanicIndex \<Longrightarrow> op \<in> {CALL, CALL2}"
proof -
  note qt = frame_okD(8) [OF assms(2)]
  have "(gasCost opn env f sz = Ret (f1, r) \<longrightarrow> gas_frame f f1) \<and> (gasCost opn env f sz = Panics PanicIndex \<longrightarrow> op \<in> {CALL, CALL2})"
    using assms(1)
  proof (elim disjE)
    assume k: "store_op off op pops pushes opn"
    then obtain loc new st where st: "f_stack f = loc # new # st"
      using assms(3) stack2 [of "f_stack f"] by (auto simp: store_op_def)
    have "db_ready (c_db (f_c f))" using frame_okD(5) [OF assms(2)] by (simp add: db_ok_def keys_ok_def)
    from gasSStore_no_index_panic [OF st this] gasSStore_Ret(1) [OF _ st] k show ?thesis by (auto simp: store_op_def)
  next
    assume k: "call_op off op pops pushes opn"
    from k assms(3) obtain to tok amount off s st where st: "f_stack f = to # tok # amount # off # s # st"
      using stack5 [of "f_stack f"] by (auto simp: call_op_def)
    from k gasCall_Ret(1) [OF _ qt st] show ?thesis by (auto simp: call_op_def gasCall2_def)
  next
    assume k: "final_op off op pops pushes opn"
    with qt have g: "gas_post f (\<lambda>c fl. fl \<and> (memorySize opn \<noteq> None \<longrightarrow> unat sz \<le> 0xffffffffe0)) (gasCost opn env f sz)"
      by (simp add: final_op_def)
    from gas_postD [OF g] gas_post_no_panic [OF g] show ?thesis by blast
  next
    assume "plain_op off op pops pushes opn"
    then have g: "gas_post f (\<lambda>c fl. fl \<and> c \<noteq> 0 \<and> unat sz \<le> 0xffffffffe0) (gasCost opn env f sz)"
      by (intro priced_gas [OF _ assms(2-4)]) (simp add: plain_op_def)
    from gas_postD [OF g] gas_post_no_panic [OF g] show ?thesis by blast
  next
    assume "jump_op off op pops pushes opn"
    then have g: "gas_post f (\<lambda>c fl. fl \<and> c \<noteq> 0 \<and> unat sz \<le> 0xffffffffe0) (gasCost opn env f sz)"
      by (intro priced_gas [OF _ assms(2-4)]) (simp add: jump_op_def)
    from gas_postD [OF g] gas_post_no_panic [OF g] show ?thesis by blast
  qed
  then show "gasCost opn env f sz = Ret (f1, r) \<Longrightarrow> gas_frame f f1"
    "gasCost opn env f sz = Panics PanicIndex \<Longrightarrow> op \<in> {CALL, CALL2}" by blast+
qed

text \<open>A storage write: the budget does not grow, and it shrinks unless the key is cleared.\<close>

lemma store_budget:
  assumes ok: "frame_ok f" and st: "f_stack f = loc # new # st" and Q: "budget env f < 2 ^ 64"
    and gas: "gasSStore env f sz = Ret (f1, Inr (c, fl))" and q: "UseQuotaWithFlag (c_quotaLeft (f_c f)) c fl = (q, None)"
    and set: "util_SetValue (fst (BigToHash loc)) (big_Bytes new) (c_db (f_c f)) = Ret db'"
  shows "unat q + storagePot (e_chain env) (vm_gasTable (f_vm f)) db' + (if new = 0 then 0 else 1) \<le> budget env f"
proof -
  let ?qt = "vm_gasTable (f_vm f)" and ?k = "fst (BigToHash loc)"
  note qt = frame_okD(8) [OF ok]
  have new: "0 \<le> new" using frame_okD(1) [OF ok] st by (simp add: wf_val_def)
  have keys: "keys_ok (c_db (f_c f))" using frame_okD(5) [OF ok] by (simp add: db_ok_def)
  then obtain a where a: "vdb_address (c_db (f_c f)) = Some a" by (auto simp: keys_ok_def db_ready_def)
  obtain cur where cur: "util_GetValue (e_chain env) (c_db (f_c f)) ?k = Ret cur"
    and price: "if cur = big_Bytes new then c = SstoreNoopQuota ?qt \<and> fl
      else \<exists>a orig. vdb_address (c_db (f_c f)) = Some a \<and> chain_GetValue (e_chain env) a ?k = Inr orig \<and>
        sstoreGas ?qt orig cur new = (c, fl)"
    using gasSStore_Ret(2) [OF gas st refl] by blast
  note pots = storagePot_SetValue [OF keys a set cur, where qt = ?qt]
  have paid: "unat q + unat c = unat (c_quotaLeft (f_c f))" if fl using UseQuota_None(1) q that by simp
  show ?thesis
  proof (cases "cur = big_Bytes new")
    case True
    with price have "c = SstoreNoopQuota ?qt" "fl" by simp_all
    moreover have "0 < unat (SstoreNoopQuota ?qt)" using quota_table.sstore_costs(7) [OF qt] .
    ultimately show ?thesis using paid True pots by (auto simp: budget_def)
  next
    case False
    with price a obtain orig where orig: "chain_GetValue (e_chain env) a ?k = Inr orig" "sstoreGas ?qt orig cur new = (c, fl)"
      by auto
    then have ov: "origValue (e_chain env) a ?k = orig" by (simp add: origValue_def)
    show ?thesis
    proof (cases fl)
      case True
      with quota_table.sstoreGas_pot(1) [OF qt orig(2) False new] paid pots ov show ?thesis
        by (auto simp: budget_def split: if_splits)
    next
      case fl: False
      with UseQuota_None(2) [of _ c q] q have q': "q = c_quotaLeft (f_c f) + c" by simp
      from fl quota_table.sstoreGas_pot(2) [OF qt orig(2) False new] pots ov
      have *: "unat c + storagePot (e_chain env) ?qt db' + (if new = 0 then 0 else 1) \<le> storagePot (e_chain env) ?qt (c_db (f_c f))"
        by auto
      then have "unat (c_quotaLeft (f_c f)) + unat c < 18446744073709551616" using Q by (auto simp: budget_def)
      with * show ?thesis by (simp add: q' unat_plus_u64 budget_def)
    qed
  qed
qed

lemma store_offchain:
  assumes "frame_ok f" "f_stack f = loc # new # st" "gasSStore env f sz = Ret (f1, Inr (c, fl))"
    and "u_storage (vdb_uns (c_db (f_c f))) = Some []"
  shows fl
proof -
  have ok: "keys_ok (c_db (f_c f))" using frame_okD(5) [OF assms(1)] by (simp add: db_ok_def)
  from gasSStore_Ret(2) [OF assms(3,2) refl] obtain cur
    where cur: "util_GetValue (e_chain env) (c_db (f_c f)) (fst (BigToHash loc)) = Ret cur"
      and price: "if cur = big_Bytes new then c = SstoreNoopQuota (vm_gasTable (f_vm f)) \<and> fl
        else \<exists>a orig. vdb_address (c_db (f_c f)) = Some a \<and> chain_GetValue (e_chain env) a (fst (BigToHash loc)) = Inr orig \<and>
          sstoreGas (vm_gasTable (f_vm f)) orig cur new = (c, fl)" by blast
  show ?thesis
  proof (cases "cur = big_Bytes new")
    case False
    with price obtain a orig where a: "vdb_address (c_db (f_c f)) = Some a"
      "chain_GetValue (e_chain env) a (fst (BigToHash loc)) = Inr orig" "sstoreGas (vm_gasTable (f_vm f)) orig cur new = (c, fl)"
      by auto
    with cur util_GetValue_eq [OF a(1) assms(4)] ok have "cur = orig" by (simp add: keys_ok_def)
    with a(3) show ?thesis by (auto simp: sstoreGas_def split: if_splits)
  qed (use price in simp)
qed

text \<open>What the executed instruction does, by the kind of its entry.\<close>

definition moved :: "bool \<Rightarrow> opCode \<Rightarrow> nat \<Rightarrow> nat \<Rightarrow> operation \<Rightarrow> frame \<Rightarrow> frame \<Rightarrow> bool" where
  "moved off op pops pushes opn f f' \<longleftrightarrow>
     (if jumps opn then jumped f f' \<and> pushSize op = 0
      else if store_op off op pops pushes opn \<and> \<not> off then stored f f' \<and> pushSize op = 0
      else advance (pushSize op) f f')"

abbreviation effectOf :: "bool \<Rightarrow> opCode \<Rightarrow> nat \<Rightarrow> nat \<Rightarrow> operation \<Rightarrow> effect" where
  "effectOf off op pops pushes opn \<equiv>
     if off \<or> \<not> runs_on opn then Quiet else if call_op off op pops pushes opn then Risky else Loud"

lemma exec_post_mono:
  assumes "exec_post e pops pushes Q f r" "\<And>f'. Q f f' \<Longrightarrow> Q' f f'" "e = Risky \<Longrightarrow> e' = Risky" "e' = Quiet \<Longrightarrow> e = Quiet"
  shows "exec_post e' pops pushes Q' f r"
  using assms by (auto simp: exec_post_def split: go.splits)

lemma exec_step:
  assumes kind: "plain_op off op pops pushes opn \<or> jump_op off op pops pushes opn \<or> store_op off op pops pushes opn \<or>
      call_op off op pops pushes opn \<or> final_op off op pops pushes opn"
    and f: "env_ok env" "frame_ok f" "pops \<le> length (f_stack f)" "covered (memorySize opn) f" "unat (f_pc f) < 2 ^ 63 - 1"
  shows "exec_post (effectOf off op pops pushes opn) pops pushes
    (\<lambda>f f'. runs_on opn \<longrightarrow> moved off op pops pushes opn f f') f (execute opn env f)"
proof -
  have run: "exec_post e pops pushes Q f (execute opn env f)" if "exec_ok e (memorySize opn) pops pushes Q (execute opn)" for e Q
    using that f by (simp add: exec_ok_def)
  show ?thesis
  proof (cases "store_op off op pops pushes opn")
    case True
    have "exec_ok (if off then Quiet else Loud) None 2 0 (if off then advance 0 else stored) (execute opn)"
      using True exec_sstore pure_op_exec [OF pure_flow(4)] by (auto simp: store_op_def)
    then show ?thesis
      using True
      by (intro exec_post_mono [OF run [where e = "if off then Quiet else Loud" and Q = "if off then advance 0 else stored"]])
         (auto simp: store_op_def moved_def split: if_splits)
  next
    case False
    with kind show ?thesis
    proof (elim disjE)
      assume k: "plain_op off op pops pushes opn"
      then show ?thesis
        by (intro exec_post_mono [OF run [where e = "if off then Quiet else Loud" and Q = "advance (pushSize op)"]])
           (use False in \<open>auto simp: plain_op_def moved_def split: if_splits\<close>)
    next
      assume k: "jump_op off op pops pushes opn"
      then show ?thesis
        by (intro exec_post_mono [OF run [where e = Quiet and Q = jumped]]) (auto simp: jump_op_def moved_def split: if_splits)
    next
      assume k: "call_op off op pops pushes opn"
      then show ?thesis
        by (intro exec_post_mono [OF run [where e = "if off then Quiet else Risky" and Q = "advance 0"]])
           (use False in \<open>auto simp: call_op_def moved_def split: if_splits\<close>)
    next
      assume k: "final_op off op pops pushes opn"
      then show ?thesis
        by (intro exec_post_mono [OF run [where e = Quiet and Q = "advance 0"]]) (auto simp: final_op_def runs_on_def)
    qed simp
  qed
qed

text \<open>The next instruction starts right after the operand bytes of this one.\<close>

lemma instrStarts_next:
  "p \<in> set (instrStarts code k) \<Longrightarrow> p + 1 + pushSize (code ! p) \<in> set (instrStarts code k) \<or>
     length code \<le> p + 1 + pushSize (code ! p) \<and> p + 1 + pushSize (code ! p) \<le> length code + 32"
proof (induction code k rule: instrStarts.induct)
  case (1 code k)
  show ?case
  proof (cases "k < length code")
    case True
    let ?k = "k + 1 + pushSize (code ! k)"
    have eq: "instrStarts code k = k # instrStarts code ?k" using True by (subst instrStarts.simps) simp
    show ?thesis
    proof (cases "p = k")
      case pk: True
      show ?thesis
      proof (cases "?k < length code")
        case True
        then have "?k \<in> set (instrStarts code ?k)" by (subst instrStarts.simps) simp
        with eq pk show ?thesis by simp
      next
        case False
        with pk True pushSize_le [of "code ! k"] show ?thesis by auto
      qed
    next
      case False
      with 1 True eq show ?thesis by auto
    qed
  next
    case False
    with 1 show ?thesis by (subst (asm) instrStarts.simps) simp
  qed
qed

lemma pc_next:
  assumes "pc_ok f" "unat (f_pc f) < length (c_code (f_c f))" "length (c_code (f_c f)) < 2 ^ 62"
    and "c_code (f_c f') = c_code (f_c f)" "f_pc f' = f_pc f + of_nat (pushSize (getOp (f_c f) (f_pc f))) + 1"
  shows "pc_ok f'"
proof -
  let ?p = "unat (f_pc f)" and ?n = "pushSize (getOp (f_c f) (f_pc f))"
  have n: "?n = pushSize (c_code (f_c f) ! ?p)" using assms(2) by (simp add: getOp_def getByte_def)
  have "unat (of_nat ?n :: u64) = ?n" using pushSize_le [of "getOp (f_c f) (f_pc f)"] by (simp add: unat_of_nat)
  moreover have "?p < 2 ^ 62" using assms(2,3) by linarith
  ultimately have "unat (f_pc f') = ?p + 1 + ?n"
    using assms(5) pushSize_le [of "getOp (f_c f) (f_pc f)"]
    by (simp add: unat_plus_u64)
  moreover have "?p \<in> set (instrStarts (c_code (f_c f)) 0)" using assms(1,2) by (simp add: pc_ok_def)
  ultimately show ?thesis using instrStarts_next [of ?p "c_code (f_c f)" 0] assms(4) by (simp add: pc_ok_def n)
qed

abbreviation kinds :: "bool \<Rightarrow> opCode \<Rightarrow> nat \<Rightarrow> nat \<Rightarrow> operation \<Rightarrow> bool" where
  "kinds off op pops pushes opn \<equiv> plain_op off op pops pushes opn \<or> jump_op off op pops pushes opn \<or>
     store_op off op pops pushes opn \<or> call_op off op pops pushes opn \<or> final_op off op pops pushes opn"

text \<open>What is known of the entry once the operands are checked.\<close>

lemma entry_context:
  assumes inv: "run_inv env i Q f" and op: "op = getOp (f_c f) (f_pc f)" "opn = instructionAt (instructionSet_of i) op" "valid opn"
    and v: "validateStack opn (f_stack f) = None"
  obtains pops pushes r where "kinds (offchain i) op pops pushes opn" "pops \<le> length (f_stack f)"
    "length (f_stack f) - pops + pushes \<le> stackLimit" "memorySizeOf opn (f_stack f) = Ret r"
    "\<And>sz. r = Inr sz \<Longrightarrow> memorySize opn = None \<longrightarrow> sz = 0"
    "\<And>sz f1 c fl q. r = Inr sz \<Longrightarrow> gasCost opn env f sz = Ret (f1, Inr (c, fl)) \<Longrightarrow>
       exec_post (effectOf (offchain i) op pops pushes opn) pops pushes
         (\<lambda>f f'. runs_on opn \<longrightarrow> moved (offchain i) op pops pushes opn f f') (resizeMemory env sz (setQuotaLeft q f1))
         (execute opn env (resizeMemory env sz (setQuotaLeft q f1)))"
proof -
  have ok: "env_ok env" "frame_ok f" "pc_ok f" using inv by (simp_all add: run_inv_def)
  from set_ok_instructionAt [OF interpreter_set_ok [of i], of op] op obtain pops pushes
    where vs: "validateStack opn = makeStackFunc pops pushes" and szd: "sized pops (memorySize opn)"
      and kind: "kinds (offchain i) op pops pushes opn" by (auto simp: operation_ok_def)
  from v [unfolded vs] have pops: "pops \<le> length (f_stack f)" "length (f_stack f) - pops + pushes \<le> stackLimit"
    unfolding makeStackFunc_None by blast+
  from memorySizeOf_ok [OF szd pops(1) frame_okD(1) [OF ok(2)]] obtain r where r: "memorySizeOf opn (f_stack f) = Ret r"
    "memorySize opn = None \<Longrightarrow> r = Inr 0"
    and cov: "\<And>sz g n. r = Inr sz \<Longrightarrow> memorySize opn = Some g \<Longrightarrow> g (f_stack f) = Ret n \<Longrightarrow> n \<le> int (unat sz)" by blast
  have none: "memorySize opn = None \<longrightarrow> sz = 0" if "r = Inr sz" for sz using r(2) that by auto
  show ?thesis
  proof (rule that [OF kind pops r(1) none])
    fix sz f1 c fl q
    assume sz: "r = Inr sz" and gas: "gasCost opn env f sz = Ret (f1, Inr (c, fl))"
    let ?f3 = "resizeMemory env sz (setQuotaLeft q f1)"
    note pr = prepared [OF ok(2) gas_step(1,2) [OF kind ok(2) pops(1) none [OF sz] gas] refl, of env q]
    have "covered (memorySize opn) ?f3"
      unfolding covered_def pr(2) using cov [OF sz] pr(8) by (meson order_trans zle_int [THEN iffD2])
    moreover have "length (c_code (f_c f)) < 2 ^ 62" using frame_okD(6) [OF ok(2)] by (simp add: blocks_ok_def)
    with ok(3) have "unat (f_pc f) < 2 ^ 62 + 32" by (auto simp: pc_ok_def dest: instrStarts_ge)
    then have "unat (f_pc ?f3) < 2 ^ 63 - 1" using pr(3) by simp
    ultimately show "exec_post (effectOf (offchain i) op pops pushes opn) pops pushes
         (\<lambda>f f'. runs_on opn \<longrightarrow> moved (offchain i) op pops pushes opn f f') ?f3 (execute opn env ?f3)"
      using exec_step [OF kind ok(1) pr(1)] pops(1) pr(2) by metis
  qed
qed

text \<open>Everything that is known of a turn that goes on.\<close>

lemma turn_context:
  assumes inv: "run_inv env i Q f" and step: "step env (instructionSet_of i) f = Ret (Next f')"
  obtains op opn pops pushes sz f1 c fl q f3 f4 where "op = getOp (f_c f) (f_pc f)"
    "kinds (offchain i) op pops pushes opn" "runs_on opn" "unat (f_pc f) < length (c_code (f_c f))"
    "pops \<le> length (f_stack f)" "length (f_stack f) - pops + pushes \<le> stackLimit"
    "gasCost opn env f sz = Ret (f1, Inr (c, fl))" "gas_frame f f1" "unat sz \<le> 0xffffffffe0"
    "UseQuotaWithFlag (c_quotaLeft (f_c f)) c fl = (q, None)" "store_op (offchain i) op pops pushes opn \<or> fl"
    "plain_op (offchain i) op pops pushes opn \<or> jump_op (offchain i) op pops pushes opn \<Longrightarrow> c \<noteq> 0"
    "f3 = resizeMemory env sz (setQuotaLeft q f1)" "kept f3 f4" "frame_ok f4"
    "offchain i \<Longrightarrow> same_world f3 f4" "length (f_stack f4) + pops = length (f_stack f) + pushes"
    "moved (offchain i) op pops pushes opn f3 f4" "f' = (if jumps opn then f4 else f4\<lparr>f_pc := f_pc f4 + 1\<rparr>)"
proof -
  let ?op = "getOp (f_c f) (f_pc f)"
  obtain opn sz f1 c fl q f4 res where opn: "opn = instructionAt (instructionSet_of i) ?op" "valid opn"
    and v: "validateStack opn (f_stack f) = None" and sz: "memorySizeOf opn (f_stack f) = Ret (Inr sz)"
    and gas: "gasCost opn env f sz = Ret (f1, Inr (c, fl))" and q: "UseQuotaWithFlag (c_quotaLeft (f_c f1)) c fl = (q, None)"
    and ex: "execute opn env (resizeMemory env sz (setQuotaLeft q f1)) = Ret (f4, res, None)"
    and fin: "finishStep opn (f4, res, None) = Next f'" by (rule step_success [OF step]) blast+
  have ok: "frame_ok f" using inv by (simp add: run_inv_def)
  from entry_context [OF inv refl opn v] obtain pops pushes r where kind: "kinds (offchain i) ?op pops pushes opn"
    and pops: "pops \<le> length (f_stack f)" "length (f_stack f) - pops + pushes \<le> stackLimit"
    and r: "memorySizeOf opn (f_stack f) = Ret r" and none: "\<And>sz. r = Inr sz \<Longrightarrow> memorySize opn = None \<longrightarrow> sz = 0"
    and post: "\<And>sz f1 c fl q. r = Inr sz \<Longrightarrow> gasCost opn env f sz = Ret (f1, Inr (c, fl)) \<Longrightarrow>
       exec_post (effectOf (offchain i) ?op pops pushes opn) pops pushes
         (\<lambda>f f'. runs_on opn \<longrightarrow> moved (offchain i) ?op pops pushes opn f f') (resizeMemory env sz (setQuotaLeft q f1))
         (execute opn env (resizeMemory env sz (setQuotaLeft q f1)))" by blast
  have rsz: "r = Inr sz" using r sz by simp
  have runs: "\<not> halts opn" "\<not> reverts opn" using fin by (auto simp: finishStep_def Let_def split: if_splits)
  with kind have ro: "runs_on opn" by (auto simp: plain_op_def jump_op_def store_op_def call_op_def final_op_def)
  have pc: "unat (f_pc f) < length (c_code (f_c f))"
  proof (rule ccontr)
    assume "\<not> unat (f_pc f) < length (c_code (f_c f))"
    then have "?op = STOP" by (simp add: getOp_def getByte_def)
    with interpreter_STOP [of i] opn(1) runs show False by simp
  qed
  note gs = gas_step [OF kind ok pops(1) none [OF rsz] gas]
  let ?f3 = "resizeMemory env sz (setQuotaLeft q f1)"
  note pr = prepared [OF ok gs(1,2) refl, of env q]
  from post [OF rsz gas, of q] have post: "kept ?f3 f4" "frame_ok f4" "offchain i \<Longrightarrow> same_world ?f3 f4"
    "length (f_stack f4) + pops = length (f_stack f) + pushes" "moved (offchain i) ?op pops pushes opn ?f3 f4"
    using ro pr(2) ex by (simp_all add: exec_post_def)
  have f': "f' = (if jumps opn then f4 else f4\<lparr>f_pc := f_pc f4 + 1\<rparr>)"
    using fin ro by (auto simp: finishStep_def runs_on_def split: if_splits)
  have q': "UseQuotaWithFlag (c_quotaLeft (f_c f)) c fl = (q, None)" using q gas_frame_same(13) [OF gs(1)] by simp
  show ?thesis
    by (rule that [OF refl kind ro pc pops gas gs(1,2) q' gs(3) gs(4) refl post f'])
qed

lemma storagePot_cong:
  "vdb_address db' = vdb_address db \<Longrightarrow> u_storage (vdb_uns db') = u_storage (vdb_uns db) \<Longrightarrow>
     storagePot ch qt db' = storagePot ch qt db"
  by (simp add: storagePot_def)

text \<open>The budget never grows, and it shrinks or the stack does.\<close>

lemma turn_budget:
  assumes inv: "run_inv env i Q f" and step: "step env (instructionSet_of i) f = Ret (Next f')"
  shows "budget env f' < budget env f \<or> budget env f' \<le> budget env f \<and> length (f_stack f') < length (f_stack f)"
proof (rule turn_context [OF inv step])
  fix op opn pops pushes sz f1 c fl q f3 f4
  assume kind: "kinds (offchain i) op pops pushes opn" "runs_on opn"
    and pops: "pops \<le> length (f_stack f)" and gas: "gasCost opn env f sz = Ret (f1, Inr (c, fl))" "gas_frame f f1" "unat sz \<le> 0xffffffffe0"
    and q: "UseQuotaWithFlag (c_quotaLeft (f_c f)) c fl = (q, None)" and fl: "store_op (offchain i) op pops pushes opn \<or> fl"
    and c: "plain_op (offchain i) op pops pushes opn \<or> jump_op (offchain i) op pops pushes opn \<Longrightarrow> c \<noteq> 0"
    and f3: "f3 = resizeMemory env sz (setQuotaLeft q f1)" and kept: "kept f3 f4"
    and world: "offchain i \<Longrightarrow> same_world f3 f4" and len: "length (f_stack f4) + pops = length (f_stack f) + pushes"
    and mv: "moved (offchain i) op pops pushes opn f3 f4" and f': "f' = (if jumps opn then f4 else f4\<lparr>f_pc := f_pc f4 + 1\<rparr>)"
  have ok: "frame_ok f" and Q: "budget env f \<le> Q" "Q < 2 ^ 64" using inv by (simp_all add: run_inv_def)
  note pr = prepared [OF ok gas(2,3) f3]
  have b': "budget env f' = unat q + storagePot (e_chain env) (vm_gasTable (f_vm f)) (c_db (f_c f4))"
    using kept pr by (simp add: budget_def f' kept_def)
  have same: "budget env f' = unat q + storagePot (e_chain env) (vm_gasTable (f_vm f)) (c_db (f_c f))"
    if "u_storage (vdb_uns (c_db (f_c f4))) = u_storage (vdb_uns (c_db (f_c f3)))"
    using storagePot_cong [of "c_db (f_c f4)" "c_db (f_c f)"] that kept pr by (simp add: b' kept_def)
  have len': "length (f_stack f') + pops = length (f_stack f) + pushes" using len by (simp add: f')
  show ?thesis
  proof (cases "store_op (offchain i) op pops pushes opn")
    case True
    then have st: "2 \<le> length (f_stack f)" "gasSStore env f sz = Ret (f1, Inr (c, fl))" "pops = 2" "pushes = 0" "\<not> jumps opn"
      using pops gas(1) by (auto simp: store_op_def)
    then obtain loc new st where stk: "f_stack f = loc # new # st" using stack2 by blast
    have "budget env f' \<le> budget env f"
    proof (cases "offchain i")
      case off: True
      with inv have "fl" using store_offchain [OF ok stk st(2)] by (simp add: run_inv_def)
      with UseQuota_None(1) q have "unat q \<le> unat (c_quotaLeft (f_c f))" by fastforce
      with same world off show ?thesis by (simp add: same_world_def budget_def)
    next
      case False
      with True mv st have "stored f3 f4" by (simp add: moved_def)
      with pr stk have "util_SetValue (fst (BigToHash loc)) (big_Bytes new) (c_db (f_c f)) = Ret (c_db (f_c f4))"
        by (simp add: stored_def)
      from store_budget [OF ok stk _ st(2) q this] Q b' show ?thesis by simp
    qed
    with len' st stk show ?thesis by simp
  next
    case False
    with fl have fl: fl by simp
    with UseQuota_None(1) q have paid: "unat q + unat c = unat (c_quotaLeft (f_c f))" by simp
    have "u_storage (vdb_uns (c_db (f_c f4))) = u_storage (vdb_uns (c_db (f_c f3)))"
      using mv False by (auto simp: moved_def jumped_def advance_def split: if_splits)
    note b = same [OF this]
    show ?thesis
    proof (cases "call_op (offchain i) op pops pushes opn")
      case True
      then have "pops = 5" "pushes \<le> 1" by (simp_all add: call_op_def)
      with len' b paid show ?thesis by (simp add: budget_def)
    next
      case ncall: False
      with False kind have "plain_op (offchain i) op pops pushes opn \<or> jump_op (offchain i) op pops pushes opn"
        by (auto simp: final_op_def runs_on_def)
      with c have "0 < unat c" by (simp add: unat_gt_0)
      with b paid show ?thesis by (simp add: budget_def)
    qed
  qed
qed

text \<open>The invariant is kept.\<close>

lemma turn_inv:
  assumes inv: "run_inv env i Q f" and step: "step env (instructionSet_of i) f = Ret (Next f')"
  shows "run_inv env i Q f'"
proof (rule turn_context [OF inv step])
  fix op opn pops pushes sz f1 c fl q f3 f4
  assume op: "op = getOp (f_c f) (f_pc f)" and pc: "unat (f_pc f) < length (c_code (f_c f))"
    and pops: "pops \<le> length (f_stack f)" "length (f_stack f) - pops + pushes \<le> stackLimit"
    and gas: "gas_frame f f1" "unat sz \<le> 0xffffffffe0"
    and f3: "f3 = resizeMemory env sz (setQuotaLeft q f1)" and kept: "kept f3 f4" and ok4: "frame_ok f4"
    and world: "offchain i \<Longrightarrow> same_world f3 f4" and len: "length (f_stack f4) + pops = length (f_stack f) + pushes"
    and mv: "moved (offchain i) op pops pushes opn f3 f4" and f': "f' = (if jumps opn then f4 else f4\<lparr>f_pc := f_pc f4 + 1\<rparr>)"
  have ok: "frame_ok f" "pc_ok f" using inv by (simp_all add: run_inv_def)
  note pr = prepared [OF ok(1) gas f3]
  have code: "c_code (f_c f') = c_code (f_c f)" using kept pr by (simp add: f' kept_def)
  have "length (c_code (f_c f)) < 2 ^ 62" using frame_okD(6) [OF ok(1)] by (simp add: blocks_ok_def)
  note nxt = pc_next [OF ok(2) pc this code, folded op]
  have "pc_ok f'"
  proof (cases "jumps opn")
    case True
    with mv pr have "validJump (c_code (f_c f)) (uint (f_pc f4)) \<or> f_pc f4 = f_pc f + 1" "pushSize op = 0"
      by (simp_all add: moved_def jumped_def)
    with nxt True code show ?thesis by (auto simp: f' validJump_def pc_ok_def)
  next
    case False
    with mv pr have "f_pc f4 = f_pc f + of_nat (pushSize op)"
      by (auto simp: moved_def stored_def advance_def split: if_splits)
    with nxt False show ?thesis by (simp add: f')
  qed
  moreover have "frame_ok f'" using ok4 by (simp add: f' frame_ok_def)
  moreover have "length (f_stack f') \<le> stackLimit" using len pops by (simp add: f')
  moreover have "budget env f' \<le> Q" using turn_budget [OF inv step] inv by (auto simp: run_inv_def)
  moreover have "offchain i \<longrightarrow> u_storage (vdb_uns (c_db (f_c f'))) = Some []"
    using world pr inv by (auto simp: f' same_world_def run_inv_def)
  ultimately show ?thesis using inv by (simp add: run_inv_def)
qed

text \<open>What is known of the last turn.\<close>

lemma store_goes_on:
  assumes "store_op off op pops pushes opn" "execute opn env f = Ret (f', res, err)"
  shows "err = None" "finishStep opn (f', res, err) \<noteq> Stop f'' ret err'"
proof -
  show "err = None"
    using assms by (auto simp: store_op_def opSStore_def opOffchainSStore_def popF_def ret0_def go_bind_eq_Ret split: if_splits prod.splits)
  with assms(1) show "finishStep opn (f', res, err) \<noteq> Stop f'' ret err'"
    by (auto simp: store_op_def runs_on_def finishStep_def Let_def)
qed

lemma finishStep_Stop:
  assumes "finishStep opn (f4, res, err4) = Stop f' ret err"
  shows "c_quotaLeft (f_c f') = c_quotaLeft (f_c f4)" "same_world f4 f'" "f_stack f' = f_stack f4"
    "err \<noteq> None \<Longrightarrow> err \<noteq> Some ErrExecutionReverted \<Longrightarrow> ret = []"
  using assms by (auto simp: finishStep_def Let_def same_world_def split: if_splits)

lemma UseQuota_le:
  "UseQuotaWithFlag ql c True = (q, e) \<Longrightarrow> unat q \<le> unat ql" "UseQuotaWithFlag ql c False = (q, e) \<Longrightarrow> e = None"
  by (auto simp: UseQuotaWithFlag_def UseQuota_def word_less_nat_alt unat_minus_u64 word_le_nat_alt not_less split: if_splits)

text \<open>The part of the last turn that comes after the price.\<close>

lemma last_execute:
  assumes kind: "kinds off op pops pushes opn" and f: "frame_ok f" "pops \<le> length (f_stack f)" "memorySize opn = None \<longrightarrow> sz = 0"
    and len: "length (f_stack f) - pops + pushes \<le> stackLimit"
    and gas: "gasCost opn env f sz = Ret (f1, Inr (c, fl))" and q: "UseQuotaWithFlag (c_quotaLeft (f_c f)) c fl = (q, None)"
    and f3: "f3 = resizeMemory env sz (setQuotaLeft q f1)"
    and post: "exec_post (effectOf off op pops pushes opn) pops pushes R f3 (execute opn env f3)"
  shows "execute opn env f3 = Ret g \<Longrightarrow> finishStep opn g = Stop f' ret err \<Longrightarrow>
      db_kept (c_db (f_c f)) (c_db (f_c f')) \<and> db_ok (c_db (f_c f')) \<and>
      unat (c_quotaLeft (f_c f')) \<le> unat (c_quotaLeft (f_c f)) \<and> (off \<longrightarrow> same_world f f') \<and> length (f_stack f') \<le> stackLimit \<and>
      (err \<noteq> None \<longrightarrow> err \<noteq> Some ErrExecutionReverted \<longrightarrow> ret = [])"
    and "execute opn env f3 = Panics PanicIndex \<Longrightarrow> op \<in> {CALL, CALL2}"
proof -
  note gs = gas_step [OF kind f gas]
  note pr = prepared [OF f(1) gs(1,2) f3]
  show "op \<in> {CALL, CALL2}" if "execute opn env f3 = Panics PanicIndex"
    using post that kind by (auto simp: exec_post_def call_op_def split: if_splits)
  assume ex: "execute opn env f3 = Ret g" and fin: "finishStep opn g = Stop f' ret err"
  obtain f4 res err4 where g: "g = (f4, res, err4)" by (cases g)
  note fs = finishStep_Stop [OF fin [unfolded g]]
  have "\<not> store_op off op pops pushes opn" using store_goes_on(2) ex fin g by blast
  with gs(3) have fl by simp
  with q UseQuota_le(1) have "unat q \<le> unat (c_quotaLeft (f_c f))" by simp
  moreover have "kept f3 f4" "frame_ok f4" "off \<longrightarrow> same_world f3 f4" "length (f_stack f4) + pops = length (f_stack f3) + pushes"
    using post ex g by (simp_all add: exec_post_def)
  ultimately show "db_kept (c_db (f_c f)) (c_db (f_c f')) \<and> db_ok (c_db (f_c f')) \<and>
      unat (c_quotaLeft (f_c f')) \<le> unat (c_quotaLeft (f_c f)) \<and> (off \<longrightarrow> same_world f f') \<and>
      length (f_stack f') \<le> stackLimit \<and> (err \<noteq> None \<longrightarrow> err \<noteq> Some ErrExecutionReverted \<longrightarrow> ret = [])"
    using fs pr len f(2) frame_okD(5) [of f4] by (auto simp: kept_def same_world_def)
qed

lemma last_step:
  assumes inv: "run_inv env i Q f"
  shows "step env (instructionSet_of i) f = Ret (Stop f' ret err) \<Longrightarrow>
      db_kept (c_db (f_c f)) (c_db (f_c f')) \<and> db_ok (c_db (f_c f')) \<and>
      unat (c_quotaLeft (f_c f')) \<le> Q \<and> (offchain i \<longrightarrow> same_world f f') \<and> length (f_stack f') \<le> stackLimit \<and>
      (err \<noteq> None \<longrightarrow> err \<noteq> Some ErrExecutionReverted \<longrightarrow> ret = [])" (is "?stop \<Longrightarrow> ?P")
    and "step env (instructionSet_of i) f = Panics PanicIndex \<Longrightarrow> getOp (f_c f) (f_pc f) \<in> {CALL, CALL2}" (is "?panic \<Longrightarrow> ?call")
proof -
  let ?op = "getOp (f_c f) (f_pc f)" and ?opn = "instructionAt (instructionSet_of i) (getOp (f_c f) (f_pc f))"
  have ok: "frame_ok f" and len: "length (f_stack f) \<le> stackLimit" and ql: "unat (c_quotaLeft (f_c f)) \<le> Q"
    using inv by (simp_all add: run_inv_def budget_def)
  have here: ?P if "f' = f" "ret = []" using that len ql frame_okD(5) [OF ok] by (simp add: same_world_def)
  have "(?stop \<longrightarrow> ?P) \<and> (?panic \<longrightarrow> ?call)"
  proof (cases "valid ?opn \<and> validateStack ?opn (f_stack f) = None")
    case False
    with here show ?thesis by (auto simp: step_def Let_def)
  next
    case True
    then obtain pops pushes r where kind: "kinds (offchain i) ?op pops pushes ?opn"
      and pops: "pops \<le> length (f_stack f)" "length (f_stack f) - pops + pushes \<le> stackLimit"
      and r: "memorySizeOf ?opn (f_stack f) = Ret r" and none: "\<And>sz. r = Inr sz \<Longrightarrow> memorySize ?opn = None \<longrightarrow> sz = 0"
      and post: "\<And>sz f1 c fl q. r = Inr sz \<Longrightarrow> gasCost ?opn env f sz = Ret (f1, Inr (c, fl)) \<Longrightarrow>
         exec_post (effectOf (offchain i) ?op pops pushes ?opn) pops pushes
           (\<lambda>f f'. runs_on ?opn \<longrightarrow> moved (offchain i) ?op pops pushes ?opn f f') (resizeMemory env sz (setQuotaLeft q f1))
           (execute ?opn env (resizeMemory env sz (setQuotaLeft q f1)))"
      using entry_context [OF inv refl refl] by blast
    show ?thesis
    proof (cases r)
      case (Inl e)
      with r True here show ?thesis by (auto simp: step_def Let_def)
    next
      case sz: (Inr sz)
      note gas = gas_any [OF kind ok pops(1) none [OF sz]]
      show ?thesis
      proof (cases "gasCost ?opn env f sz")
        case (Panics p)
        with gas(2) True r sz show ?thesis by (auto simp: step_def Let_def)
      next
        case (Ret g)
        then obtain f1 pr where g: "gasCost ?opn env f sz = Ret (f1, pr)" by (cases g) auto
        note same = gas_frame_same [OF gas(1) [OF g]]
        show ?thesis
        proof (cases pr)
          case (Inl e)
          with g True r sz same len ql frame_okD(5) [OF ok] show ?thesis by (auto simp: step_def Let_def same_world_def)
        next
          case (Inr cf)
          then obtain c fl where cf: "pr = Inr (c, fl)" by (cases cf) auto
          obtain q e where q: "UseQuotaWithFlag (c_quotaLeft (f_c f)) c fl = (q, e)" by fastforce
          show ?thesis
          proof (cases e)
            case None
            note le = last_execute [OF kind ok pops(1) none [OF sz] pops(2) g [unfolded cf] q [unfolded None] refl post [OF sz g [unfolded cf]]]
            have "step env (instructionSet_of i) f = go_bind (execute ?opn env (resizeMemory env sz (setQuotaLeft q f1))) (\<lambda>r. Ret (finishStep ?opn r))"
              using True r sz g cf q None same by (simp add: step_def Let_def)
            with le ql show ?thesis by (force simp: go_bind_eq_Ret go_bind_eq_Panics)
          next
            case (Some e')
            with q UseQuota_le(2) [of "c_quotaLeft (f_c f)" c q e] have fl by (cases fl) auto
            with q UseQuota_le(1) have "unat q \<le> unat (c_quotaLeft (f_c f))" by simp
            moreover have "step env (instructionSet_of i) f = Ret (Stop (setQuotaLeft q f1) [] e)"
              using True r sz g cf q Some same by (simp add: step_def Let_def)
            ultimately show ?thesis using len ql same frame_okD(5) [OF ok] by (auto simp: same_world_def setQuotaLeft_def)
          qed
        qed
      qed
    qed
  qed
  then show "?stop \<Longrightarrow> ?P" "?panic \<Longrightarrow> ?call" by blast+
qed

text \<open>A run that succeeds ends with an instruction that does not touch the ledger.\<close>

lemma success_same_world:
  assumes inv: "run_inv env i Q f" and step: "step env (instructionSet_of i) f = Ret (Stop f' ret None)"
  shows "same_world f f'"
proof -
  let ?op = "getOp (f_c f) (f_pc f)"
  obtain opn sz f1 c fl q f4 res where opn: "opn = instructionAt (instructionSet_of i) ?op" "valid opn"
    and v: "validateStack opn (f_stack f) = None" and sz: "memorySizeOf opn (f_stack f) = Ret (Inr sz)"
    and gas: "gasCost opn env f sz = Ret (f1, Inr (c, fl))"
    and ex: "execute opn env (resizeMemory env sz (setQuotaLeft q f1)) = Ret (f4, res, None)"
    and fin: "finishStep opn (f4, res, None) = Stop f' ret None" by (rule step_success [OF step]) blast+
  have ok: "env_ok env" "frame_ok f" "pc_ok f" using inv by (simp_all add: run_inv_def)
  let ?f3 = "resizeMemory env sz (setQuotaLeft q f1)"
  obtain pops pushes where kind: "kinds (offchain i) ?op pops pushes opn" and pops: "pops \<le> length (f_stack f)"
    and none: "memorySize opn = None \<longrightarrow> sz = 0"
    and exec: "exec_post (effectOf (offchain i) ?op pops pushes opn) pops pushes
         (\<lambda>f f'. runs_on opn \<longrightarrow> moved (offchain i) ?op pops pushes opn f f') ?f3 (execute opn env ?f3)"
    by (rule entry_context [OF inv refl opn v]) (use sz gas in \<open>metis go.inject(2)\<close>)
  note gs = gas_step [OF kind ok(2) pops none gas]
  note pr = prepared [OF ok(2) gs(1,2) refl, of env q]
  have "halts opn" using fin by (auto simp: finishStep_def Let_def split: if_splits)
  with exec ex have "same_world ?f3 f4" by (simp add: exec_post_def runs_on_def)
  with finishStep_Stop(2) [OF fin] pr show ?thesis by (simp add: same_world_def)
qed

text \<open>The measure of the loop.\<close>

definition turns_left :: "env \<Rightarrow> frame \<Rightarrow> nat" where
  "turns_left env f = 1025 * budget env f + length (f_stack f)"

definition next_frame :: "env \<Rightarrow> interpreter \<Rightarrow> frame \<Rightarrow> frame option" where
  "next_frame env i f = (case step env (instructionSet_of i) f of Ret (Next f') \<Rightarrow> Some f' | _ \<Rightarrow> None)"

lemma next_frame_Some: "next_frame env i f = Some f' \<longleftrightarrow> step env (instructionSet_of i) f = Ret (Next f')"
  by (simp add: next_frame_def split: go.splits stepResult.splits)

interpretation machine: measured_loop "next_frame env i" "run_inv env i Q" "turns_left env" for env i Q
proof unfold_locales
  fix f f'
  assume inv: "run_inv env i Q f" and "next_frame env i f = Some f'"
  then have step: "step env (instructionSet_of i) f = Ret (Next f')" by (simp add: next_frame_Some)
  show "run_inv env i Q f'" by (rule turn_inv [OF inv step])
  then have "length (f_stack f') \<le> 1024" by (simp add: run_inv_def stackLimit_def)
  with turn_budget [OF inv step] show "turns_left env f' < turns_left env f" by (auto simp: turns_left_def)
qed

section \<open>The whole run\<close>

lemma loopTurns_loopFrom: "loopTurns k env is n f = Some r \<Longrightarrow> loopFrom env is n f = Some r"
proof (induction k arbitrary: n f)
  case (Suc k)
  then show ?case by (subst loopFrom.simps) (auto split: if_splits go.splits stepResult.splits)
qed simp

text \<open>The outcome of a run, by the frame of its last turn.\<close>

definition last_turn :: "env \<Rightarrow> interpreter \<Rightarrow> nat \<Rightarrow> frame \<Rightarrow> (frame \<times> bytes \<times> vm_error option) go \<Rightarrow> bool" where
  "last_turn env i n f r \<longleftrightarrow>
     (if e_abort env n then r = Panics (PanicErr ErrExecutionCanceled)
      else case step env (instructionSet_of i) f of
        Panics p \<Rightarrow> r = Panics p
      | Ret (Stop f' ret err) \<Rightarrow> r = Ret (f', ret, err)
      | Ret (Next f') \<Rightarrow> False)"

lemma loopTurns_reachable:
  "machine.reachable env i f k f' \<Longrightarrow> \<forall>j<k. \<not> e_abort env (n + j) \<Longrightarrow>
     loopTurns (k + m) env (instructionSet_of i) n f = loopTurns m env (instructionSet_of i) (n + k) f'"
proof (induction arbitrary: m rule: machine.reachable.induct)
  case (turn f k f' f'')
  have "loopTurns (k + Suc m) env (instructionSet_of i) n f = loopTurns (Suc m) env (instructionSet_of i) (n + k) f'"
    by (rule turn.IH) (use turn.prems in simp)
  also have "\<dots> = loopTurns m env (instructionSet_of i) (n + Suc k) f''"
    using turn.hyps turn.prems by (simp add: next_frame_Some)
  finally show ?case by (simp only: add_Suc_right add_Suc)
qed simp

lemma loop_outcome:
  assumes "run_inv env i Q f"
  obtains k f' r where "machine.reachable env i f k f'" "k \<le> turns_left env f" "last_turn env i k f' r"
    "loopTurns (Suc (turns_left env f)) env (instructionSet_of i) 0 f = Some r"
proof -
  from machine.first_stop [OF assms, of "e_abort env"] obtain k f'
    where k: "machine.reachable env i f k f'" "k \<le> turns_left env f" "e_abort env k \<or> next_frame env i f' = None"
      "\<forall>j<k. \<not> e_abort env j" by blast
  let ?m = "turns_left env f - k"
  have "loopTurns (k + Suc ?m) env (instructionSet_of i) 0 f = loopTurns (Suc ?m) env (instructionSet_of i) k f'"
    using loopTurns_reachable [OF k(1), of 0 "Suc ?m"] k(4) by (simp only: add_0)
  moreover have "k + Suc ?m = Suc (turns_left env f)" using k(2) by simp
  moreover have "\<exists>r. loopTurns (Suc ?m) env (instructionSet_of i) k f' = Some r \<and> last_turn env i k f' r"
    using k(3) by (auto simp: last_turn_def next_frame_def split: go.splits stepResult.splits)
  ultimately show ?thesis using that [OF k(1,2)] by metis
qed

text \<open>The frame that a run starts with.\<close>

lemma start_inv:
  assumes "env_ok env" "frame_ok (startFrame vm c)" "u_storage (vdb_uns (c_db c)) = Some []"
  shows "run_inv env i (unat (c_quotaLeft c)) (startFrame vm c)" "turns_left env (startFrame vm c) = 1025 * unat (c_quotaLeft c)"
proof -
  have b: "budget env (startFrame vm c) = unat (c_quotaLeft c)"
    using assms(3) by (simp add: budget_def startFrame_def storagePot_def split: option.splits)
  then show "turns_left env (startFrame vm c) = 1025 * unat (c_quotaLeft c)"
    by (simp add: turns_left_def startFrame_def newStack_def)
  have "pc_ok (startFrame vm c)" by (subst pc_ok_def, subst instrStarts.simps) (simp add: startFrame_def)
  with assms b show "run_inv env i (unat (c_quotaLeft c)) (startFrame vm c)"
    using unsigned_less [of "c_quotaLeft c"] by (simp add: run_inv_def) (simp add: startFrame_def newStack_def)
qed

end
