(* ===== verification/Vm_Runs.thy ===== *)
theory Vm_Runs
  imports Interpreter
begin

text \<open>
  What a run of the interpreter guarantees, over all programs and all six instruction sets: it ends, it never
  leaves more quota than it was given, its stack and program counter stay in bounds, off the chain it changes
  nothing, and after the earth upgrade it writes at most 100 storage slots.  A run starts with the frame of
  \<open>startFrame\<close> on a database without writes; \<open>fresh_start\<close> collects these conditions.
\<close>

section \<open>Definitions\<close>

definition fresh_start :: "env \<Rightarrow> VM \<Rightarrow> contract \<Rightarrow> bool" where
  "fresh_start env vm c \<longleftrightarrow> env_ok env \<and> frame_ok (startFrame vm c) \<and> u_storage (vdb_uns (c_db c)) = Some []"

text \<open>The keys written so far are among the slots that \<open>gasSStore\<close> has noted, and they are at most 100.\<close>

definition slots_ok :: "frame \<Rightarrow> bool" where
  "slots_ok f \<longleftrightarrow> fst ` set (the (u_storage (vdb_uns (c_db (f_c f))))) \<subseteq> (\<lambda>loc. fst (BigToHash loc)) ` set (c_storageModified (f_c f)) \<and>
     length (the (u_storage (vdb_uns (c_db (f_c f))))) \<le> 100"

subsection \<open>A small ledger and a program\<close>

definition sampleEnv :: env where
  "sampleEnv = \<lparr>e_upgrade = initFromArray [\<lparr>up_Name = ''EarthUpgrade'', up_Height = 1, up_Version = 6\<rparr>]
       \<lparr>pointMap = [], heightMap = [], sortedPoints = []\<rparr>,
     e_crypto = \<lparr>blake2b = (\<lambda>n _. replicate n 0), keccak = (\<lambda>_. replicate 32 0)\<rparr>, e_chain = emptyChain, e_growCap = (\<lambda>_ n. n),
     e_seedChain = \<lparr>sc_GetSnapshotHeightByHash = (\<lambda>_. Inr 0), sc_GetSnapshotHeaderByHeight = (\<lambda>_. Inr None)\<rparr>,
     e_abort = (\<lambda>_. False), e_GetBuiltinContractMethod = (\<lambda>_ _ _. None)\<rparr>"

definition sampleVM :: VM where
  "sampleVM = \<lparr>vm_sendBlockList = [], vm_i = earthInterpreter, vm_globalStatus = None, vm_latestSnapshotHeight = 1,
     vm_gasTable = newEarthQuotaTable\<rparr>"

definition sampleContract :: "bytes \<Rightarrow> contract" where
  "sampleContract code = (newContract sampleReceive (NewVmDbByAddr (Some ZERO_ADDRESS)) sampleSend [] 1000)\<lparr>c_code := code\<rparr>"

text \<open>\<open>JUMPDEST PUSH1 0 JUMP\<close>: the program that never comes to an end of its own.\<close>

definition endlessProgram :: bytes where
  "endlessProgram = [JUMPDEST, PUSH1, 0, JUMP]"

section \<open>Lemmas\<close>

lemma fresh_startD:
  assumes "fresh_start env vm c"
  shows "run_inv env i (unat (c_quotaLeft c)) (startFrame vm c)" "turns_left env (startFrame vm c) = 1025 * unat (c_quotaLeft c)"
  using start_inv assms by (auto simp: fresh_start_def)

lemma run_outcome:
  assumes "fresh_start env vm c"
  obtains k f r where "machine.reachable env i (startFrame vm c) k f" "k \<le> 1025 * unat (c_quotaLeft c)"
    "run_inv env i (unat (c_quotaLeft c)) f" "last_turn env i k f r"
    "loopTurns (Suc (1025 * unat (c_quotaLeft c))) env (instructionSet_of i) 0 (startFrame vm c) = Some r"
    "runLoop env i vm c = Some r"
proof -
  from loop_outcome [OF fresh_startD(1) [OF assms, of i]] fresh_startD(2) [OF assms]
  obtain k f r where r: "machine.reachable env i (startFrame vm c) k f" "k \<le> 1025 * unat (c_quotaLeft c)"
    "last_turn env i k f r" "loopTurns (Suc (1025 * unat (c_quotaLeft c))) env (instructionSet_of i) 0 (startFrame vm c) = Some r"
    by metis
  moreover have "run_inv env i (unat (c_quotaLeft c)) f"
    using machine.reachable_inv [OF r(1) fresh_startD(1) [OF assms]] by blast
  moreover have "runLoop env i vm c = Some r" using loopTurns_loopFrom [OF r(4)] by (simp add: runLoop_def)
  ultimately show ?thesis using that by blast
qed

lemma last_turn_Ret: "last_turn env i k f (Ret (f', ret, err)) \<Longrightarrow> step env (instructionSet_of i) f = Ret (Stop f' ret err)"
  by (auto simp: last_turn_def split: if_splits go.splits stepResult.splits)

lemma last_turn_Panics:
  "last_turn env i k f (Panics p) \<Longrightarrow> p = PanicErr ErrExecutionCanceled \<or> step env (instructionSet_of i) f = Panics p"
  by (auto simp: last_turn_def split: if_splits go.splits stepResult.splits)

lemma fresh_sample:
  assumes "length code < 1000" "vm_gasTable vm = newEarthQuotaTable" "vm_globalStatus vm = None"
  shows "fresh_start sampleEnv vm (sampleContract code)"
  using assms earth_qt.quota_table_axioms
  by (simp add: fresh_start_def env_ok_def sampleEnv_def emptyChain_def crypto_ok_def frame_ok_def startFrame_def sampleContract_def
      newContract_def newStack_def newMemory_def wf_mem_def mem_len_def dests_ok_def db_ok_def NewVmDbByAddr_def NewUnsaved_def keys_ok_def
      db_ready_def deleted_ok_def blocks_ok_def status_ok_def sampleReceive_def sampleSend_def zeroFields_def ZERO_ADDRESS_def ZERO_TOKENID_def
      ZERO_HASH_def wf_val_def)

lemma turn_slots:
  assumes inv: "run_inv env i Q f" and step: "step env (instructionSet_of i) f = Ret (Next f')"
    and earth: "IsEarthUpgrade (e_upgrade env) (vm_latestSnapshotHeight (f_vm f))" and slots: "slots_ok f"
  shows "slots_ok f'" "vm_latestSnapshotHeight (f_vm f') = vm_latestSnapshotHeight (f_vm f)"
proof -
  let ?st = "\<lambda>f. the (u_storage (vdb_uns (c_db (f_c f))))" and ?h = "\<lambda>loc. fst (BigToHash loc)"
  have "slots_ok f' \<and> vm_latestSnapshotHeight (f_vm f') = vm_latestSnapshotHeight (f_vm f)"
  proof (rule turn_context [OF inv step])
    fix op opn pops pushes sz f1 c fl q f3 f4
    assume kind: "kinds (offchain i) op pops pushes opn" "runs_on opn"
      and pops: "pops \<le> length (f_stack f)" and gas: "gasCost opn env f sz = Ret (f1, Inr (c, fl))" "gas_frame f f1" "unat sz \<le> 0xffffffffe0"
      and f3: "f3 = resizeMemory env sz (setQuotaLeft q f1)" and kept: "kept f3 f4" and ok4: "frame_ok f4"
      and mv: "moved (offchain i) op pops pushes opn f3 f4" and f': "f' = (if jumps opn then f4 else f4\<lparr>f_pc := f_pc f4 + 1\<rparr>)"
    have ok: "frame_ok f" using inv by (simp add: run_inv_def)
    note pr = prepared [OF ok gas(2,3) f3]
    have mod: "c_storageModified (f_c f') = c_storageModified (f_c f1)" "c_db (f_c f') = c_db (f_c f4)"
      using kept pr(9) by (simp_all add: f' kept_def)
    have sub: "fst ` set (?st f) \<subseteq> ?h ` set (c_storageModified (f_c f1))"
      using slots gas_frame_subset [OF gas(2)] by (force simp: slots_ok_def)
    have "slots_ok f'"
    proof (cases "store_op (offchain i) op pops pushes opn \<and> \<not> offchain i")
      case True
      then obtain loc new st where stk: "f_stack f = loc # new # st" using pops stack2 [of "f_stack f"] by (auto simp: store_op_def)
      from True have "gasSStore env f sz = Ret (f1, Inr (c, fl))" using gas(1) by (simp add: store_op_def)
      note m = gasSStore_Ret(3) [OF this stk refl earth]
      from True mv have "stored f3 f4" by (simp add: moved_def store_op_def)
      with pr stk have "util_SetValue (?h loc) (big_Bytes new) (c_db (f_c f)) = Ret (c_db (f_c f4))" by (simp add: stored_def)
      then have "fst ` set (?st f4) \<subseteq> insert (?h loc) (fst ` set (?st f))"
        by (auto simp: util_SetValue_Ret update_keys simp flip: set_map split: if_splits)
      also have "\<dots> \<subseteq> ?h ` set (c_storageModified (f_c f1))" using sub m by blast
      finally have keys: "fst ` set (?st f4) \<subseteq> ?h ` set (c_storageModified (f_c f1))" .
      have "distinct (map fst (?st f4))" using frame_okD(5) [OF ok4] by (simp add: db_ok_def keys_ok_def)
      then have "length (?st f4) = card (fst ` set (?st f4))" by (metis distinct_card length_map set_map)
      also have "\<dots> \<le> card (?h ` set (c_storageModified (f_c f1)))" using keys by (intro card_mono) auto
      also have "\<dots> \<le> length (c_storageModified (f_c f1))" by (meson card_image_le card_length finite_set order_trans)
      finally show ?thesis using keys m by (simp add: slots_ok_def mod)
    next
      case False
      then have "u_storage (vdb_uns (c_db (f_c f4))) = u_storage (vdb_uns (c_db (f_c f3)))"
        using mv by (auto simp: moved_def jumped_def advance_def split: if_splits)
      with sub slots pr show ?thesis by (simp add: slots_ok_def mod)
    qed
    moreover have "vm_latestSnapshotHeight (f_vm f') = vm_latestSnapshotHeight (f_vm f)"
      using kept pr(4) by (simp add: f' kept_def)
    ultimately show ?thesis by simp
  qed
  then show "slots_ok f'" "vm_latestSnapshotHeight (f_vm f') = vm_latestSnapshotHeight (f_vm f)" by blast+
qed

lemma turn_world:
  assumes inv: "run_inv env i Q f" and step: "step env (instructionSet_of i) f = Ret (Next f')" and off: "offchain i"
  shows "same_world f f'"
proof (rule turn_context [OF inv step])
  fix op opn pops pushes sz f1 c fl q f3 f4
  assume gas: "gas_frame f f1" "unat sz \<le> 0xffffffffe0" and f3: "f3 = resizeMemory env sz (setQuotaLeft q f1)"
    and world: "offchain i \<Longrightarrow> same_world f3 f4" and f': "f' = (if jumps opn then f4 else f4\<lparr>f_pc := f_pc f4 + 1\<rparr>)"
  have "frame_ok f" using inv by (simp add: run_inv_def)
  from prepared [OF this gas f3] world [OF off] show ?thesis by (simp add: f' same_world_def)
qed

lemma reachable_world:
  "machine.reachable env i f k f' \<Longrightarrow> run_inv env i Q f \<Longrightarrow> offchain i \<Longrightarrow> same_world f f'"
proof (induction rule: machine.reachable.induct)
  case (turn f k f' f'')
  moreover from turn have "run_inv env i Q f'" using machine.reachable_inv by blast
  ultimately show ?case using turn_world [of env i Q f' f''] by (simp add: next_frame_Some same_world_def)
qed (simp add: same_world_def)

lemma reachable_slots:
  assumes "machine.reachable env i f k f'" "run_inv env i Q f" "slots_ok f"
    "IsEarthUpgrade (e_upgrade env) (vm_latestSnapshotHeight (f_vm f))"
  shows "slots_ok f' \<and> vm_latestSnapshotHeight (f_vm f') = vm_latestSnapshotHeight (f_vm f)"
  using assms
proof (induction rule: machine.reachable.induct)
  case (turn f k f' f'')
  moreover from turn have "run_inv env i Q f'" using machine.reachable_inv by blast
  ultimately show ?case using turn_slots [of env i Q f' f''] by (simp add: next_frame_Some)
qed simp

text \<open>A run writes logs and storage only: balances, metadata and code stay as they were.\<close>

lemma turn_db:
  assumes inv: "run_inv env i Q f" and step: "step env (instructionSet_of i) f = Ret (Next f')"
  shows "db_kept (c_db (f_c f)) (c_db (f_c f'))"
proof (rule turn_context [OF inv step])
  fix op opn pops pushes sz f1 c fl q f3 f4
  assume gas: "gas_frame f f1" "unat sz \<le> 0xffffffffe0" and f3: "f3 = resizeMemory env sz (setQuotaLeft q f1)"
    and kept: "kept f3 f4" and f': "f' = (if jumps opn then f4 else f4\<lparr>f_pc := f_pc f4 + 1\<rparr>)"
  have "frame_ok f" using inv by (simp add: run_inv_def)
  from prepared [OF this gas f3] kept show ?thesis by (simp add: f' kept_def)
qed

lemma reachable_db:
  "machine.reachable env i f k f' \<Longrightarrow> run_inv env i Q f \<Longrightarrow> db_kept (c_db (f_c f)) (c_db (f_c f'))"
proof (induction rule: machine.reachable.induct)
  case (turn f k f' f'')
  moreover from turn have "run_inv env i Q f'" using machine.reachable_inv by blast
  ultimately show ?case using turn_db [of env i Q f' f''] db_kept_trans by (auto simp: next_frame_Some)
qed simp

lemma run_db:
  assumes "fresh_start env vm c"
  shows "\<exists>r. run env vm c = Some r \<and>
    (\<forall>f ret err. r = Ret (f, ret, err) \<longrightarrow> db_kept (c_db c) (c_db (f_c f)) \<and> db_ok (c_db (f_c f)))"
proof (rule run_outcome [OF assms, of "vm_i vm"])
  fix k f r
  assume reach: "machine.reachable env (vm_i vm) (startFrame vm c) k f"
    and r: "run_inv env (vm_i vm) (unat (c_quotaLeft c)) f" "last_turn env (vm_i vm) k f r" "runLoop env (vm_i vm) vm c = Some r"
  have kept: "db_kept (c_db c) (c_db (f_c f))"
    using reachable_db [OF reach fresh_startD(1) [OF assms]] by (simp add: startFrame_def)
  have "db_kept (c_db c) (c_db (f_c f')) \<and> db_ok (c_db (f_c f'))" if "r = Ret (f', ret, err)" for f' ret err
    using last_step(1) [OF r(1) last_turn_Ret [OF r(2) [unfolded that]]] db_kept_trans [OF kept] by blast
  with r(3) show ?thesis by (auto simp: run_def)
qed

section \<open>Properties\<close>

text \<open>C1: the interpreter comes to an end on every program, also on one that jumps in a circle: from a fresh
  database the loop returns, after at most \<open>1025 * quota + 1\<close> turns.  Every instruction but a call and the
  clearing of a storage slot costs quota, these two take more from the stack than they put there, and what a
  storage write gives back was paid before.\<close>

theorem runLoop_terminates:
  assumes "fresh_start env vm c"
  shows "\<exists>r. runLoop env i vm c = Some r \<and>
    loopTurns (Suc (1025 * unat (c_quotaLeft c))) env (instructionSet_of i) 0 (startFrame vm c) = Some r"
  by (rule run_outcome [OF assms, of i]) blast

theorem runLoop_terminates_witness:
  "\<exists>r. runLoop sampleEnv earthInterpreter sampleVM (sampleContract endlessProgram) = Some r \<and>
    loopTurns (Suc (1025 * unat (c_quotaLeft (sampleContract endlessProgram)))) sampleEnv (instructionSet_of earthInterpreter) 0
      (startFrame sampleVM (sampleContract endlessProgram)) = Some r"
  by (rule runLoop_terminates) (simp add: fresh_sample sampleVM_def endlessProgram_def)

text \<open>C5: a run that returns leaves at most the quota it was given, although storage writes may add to the quota
  left, its stack holds at most 1024 words, and when it fails other than by \<open>REVERT\<close> it returns no data.\<close>

theorem runLoop_result:
  assumes "fresh_start env vm c"
  shows "\<exists>r. runLoop env i vm c = Some r \<and>
    (case r of
       Panics p \<Rightarrow> True
     | Ret (f, ret, err) \<Rightarrow> c_quotaLeft (f_c f) \<le> c_quotaLeft c \<and> length (f_stack f) \<le> 1024 \<and>
         (err = None \<or> err = Some ErrExecutionReverted \<or> ret = []))"
proof (rule run_outcome [OF assms, of i])
  fix k f r
  assume r: "run_inv env i (unat (c_quotaLeft c)) f" "last_turn env i k f r" "runLoop env i vm c = Some r"
  show ?thesis
  proof (cases r)
    case (Ret x)
    obtain f' ret err where x: "x = (f', ret, err)" by (cases x)
    with Ret r(2) have "step env (instructionSet_of i) f = Ret (Stop f' ret err)" by (simp add: last_turn_Ret)
    from last_step(1) [OF r(1) this] Ret x r(3) show ?thesis by (auto simp: word_le_nat_alt stackLimit_def)
  qed (use r in simp)
qed

theorem runLoop_result_witness:
  "\<exists>r. runLoop sampleEnv simpleInterpreter sampleVM (sampleContract endlessProgram) = Some r \<and>
    (case r of
       Panics p \<Rightarrow> True
     | Ret (f, ret, err) \<Rightarrow> c_quotaLeft (f_c f) \<le> c_quotaLeft (sampleContract endlessProgram) \<and> length (f_stack f) \<le> 1024 \<and>
         (err = None \<or> err = Some ErrExecutionReverted \<or> ret = []))"
  by (rule runLoop_result) (simp add: fresh_sample sampleVM_def endlessProgram_def)

text \<open>C6: a run off the chain changes neither the database nor the list of the send blocks, whatever its program
  does and however it ends.\<close>

theorem offchain_run_readonly:
  assumes "fresh_start env vm c" "i \<in> {offchainSimpleInterpreter, offchainRandInterpreter, offchainEarthInterpreter}"
  shows "\<exists>r. runLoop env i vm c = Some r \<and>
    (case r of
       Panics p \<Rightarrow> True
     | Ret (f, ret, err) \<Rightarrow> c_db (f_c f) = c_db c \<and> vm_sendBlockList (f_vm f) = vm_sendBlockList vm)"
proof (rule run_outcome [OF assms(1), of i])
  fix k f r
  assume reach: "machine.reachable env i (startFrame vm c) k f"
    and r: "run_inv env i (unat (c_quotaLeft c)) f" "last_turn env i k f r" "runLoop env i vm c = Some r"
  have off: "offchain i" using assms(2) by auto
  have world: "same_world (startFrame vm c) f" by (rule reachable_world [OF reach fresh_startD(1) [OF assms(1)] off])
  show ?thesis
  proof (cases r)
    case (Ret x)
    obtain f' ret err where x: "x = (f', ret, err)" by (cases x)
    with Ret r(2) have "step env (instructionSet_of i) f = Ret (Stop f' ret err)" by (simp add: last_turn_Ret)
    from last_step(1) [OF r(1) this] off world Ret x r(3) show ?thesis by (auto simp: same_world_def startFrame_def)
  qed (use r in simp)
qed

theorem offchain_run_readonly_witness:
  "\<exists>r. runLoop sampleEnv offchainEarthInterpreter sampleVM (sampleContract endlessProgram) = Some r \<and>
    (case r of
       Panics p \<Rightarrow> True
     | Ret (f, ret, err) \<Rightarrow> c_db (f_c f) = c_db (sampleContract endlessProgram) \<and> vm_sendBlockList (f_vm f) = vm_sendBlockList sampleVM)"
  by (rule offchain_run_readonly) (simp_all add: fresh_sample sampleVM_def endlessProgram_def)

text \<open>C7: after the earth upgrade a run that succeeds has written at most 100 storage slots.\<close>

theorem earth_storage_limit:
  assumes "fresh_start env vm c" "IsEarthUpgrade (e_upgrade env) (vm_latestSnapshotHeight vm)"
  shows "\<exists>r. runLoop env i vm c = Some r \<and>
    (case r of Ret (f, ret, None) \<Rightarrow> length (the (u_storage (vdb_uns (c_db (f_c f))))) \<le> 100 | _ \<Rightarrow> True)"
proof (rule run_outcome [OF assms(1), of i])
  fix k f r
  assume reach: "machine.reachable env i (startFrame vm c) k f"
    and r: "run_inv env i (unat (c_quotaLeft c)) f" "last_turn env i k f r" "runLoop env i vm c = Some r"
  have "slots_ok (startFrame vm c)" using assms(1) by (simp add: slots_ok_def startFrame_def fresh_start_def)
  from reachable_slots [OF reach fresh_startD(1) [OF assms(1)] this] assms(2) have slots: "slots_ok f" by (simp add: startFrame_def)
  show ?thesis
  proof (cases "\<exists>f' ret. r = Ret (f', ret, None)")
    case True
    then obtain f' ret where x: "r = Ret (f', ret, None)" by blast
    with success_same_world [OF r(1)] last_turn_Ret r(2) have "same_world f f'" by blast
    with slots r(3) x show ?thesis by (auto simp: same_world_def slots_ok_def)
  qed (use r(3) in \<open>auto split: go.splits option.splits\<close>)
qed

theorem earth_storage_limit_witness:
  "\<exists>r. runLoop sampleEnv earthInterpreter sampleVM (sampleContract endlessProgram) = Some r \<and>
    (case r of Ret (f, ret, None) \<Rightarrow> length (the (u_storage (vdb_uns (c_db (f_c f))))) \<le> 100 | _ \<Rightarrow> True)"
proof (rule earth_storage_limit)
  show "fresh_start sampleEnv sampleVM (sampleContract endlessProgram)" by (simp add: fresh_sample sampleVM_def endlessProgram_def)
  show "IsEarthUpgrade (e_upgrade sampleEnv) (vm_latestSnapshotHeight sampleVM)"
    by (simp add: sampleVM_def sampleEnv_def IsEarthUpgrade_def isActive_def initFromArray_def setPoint_def setName_def)
qed

text \<open>C8: the frames of a run are well-typed: every word of the stack is an integer of 256 bits, there are at most
  1024 of them, the memory stays below 1 TB, and the program counter is always at the start of an instruction,
  never inside the operand of a \<open>PUSH\<close>, or past the end of the code.\<close>

theorem reachable_frames_typed:
  assumes "fresh_start env vm c" "machine.reachable env i (startFrame vm c) k f"
  shows "list_all wf_val (f_stack f) \<and> length (f_stack f) \<le> 1024 \<and> mem_len (f_mem f) \<le> 2 ^ 40 \<and>
    (unat (f_pc f) \<in> set (instrStarts (c_code (f_c f)) 0) \<or> length (c_code (f_c f)) \<le> unat (f_pc f))"
proof -
  have "run_inv env i (unat (c_quotaLeft c)) f" using machine.reachable_inv [OF assms(2) fresh_startD(1) [OF assms(1)]] by blast
  then have "frame_ok f" "length (f_stack f) \<le> 1024" "pc_ok f" by (simp_all add: run_inv_def stackLimit_def)
  then show ?thesis by (auto simp: pc_ok_def frame_ok_def wf_stack_def)
qed

theorem reachable_frames_typed_witness:
  "\<exists>f. machine.reachable sampleEnv earthInterpreter (startFrame sampleVM (sampleContract endlessProgram)) 1 f \<and>
    (list_all wf_val (f_stack f) \<and> length (f_stack f) \<le> 1024 \<and> mem_len (f_mem f) \<le> 2 ^ 40 \<and>
     (unat (f_pc f) \<in> set (instrStarts (c_code (f_c f)) 0) \<or> length (c_code (f_c f)) \<le> unat (f_pc f)))"
proof -
  let ?s = "startFrame sampleVM (sampleContract endlessProgram)"
  have op: "instructionAt newEarthInstructionSet JUMPDEST =
      zeroOperation\<lparr>execute := opJumpdest, gasCost := gasJumpdest, validateStack := makeStackFunc 0 0, valid := True\<rparr>"
    by (simp add: newEarthInstructionSet_def newRandInstructionSet_def newSimpleInstructionSet_def newBaseInstructionSet_def
        arithmeticOperations_def bitOperations_def contextOperations_def flowOperations_def instructionAt_Cons)
  have "getOp (f_c ?s) (f_pc ?s) = JUMPDEST"
    by (simp add: startFrame_def sampleContract_def endlessProgram_def getOp_def getByte_def)
  then have "\<exists>f. step sampleEnv (instructionSet_of earthInterpreter) ?s = Ret (Next f)"
    by (simp add: step_def op Let_def)
       (simp add: zeroOperation_def memorySizeOf_def gasJumpdest_def tableGas_def charge_def opJumpdest_def ret0_def finishStep_def
        UseQuotaWithFlag_def UseQuota_def makeStackFunc_def require_def newStack_def stackLimit_def setQuotaLeft_def resizeMemory_def
        startFrame_def sampleContract_def newContract_def sampleVM_def newEarthQuotaTable_def newDexAgentQuotaTable_def
        newViteQuotaTable_def initQuotaTable_def)
  then obtain f where "next_frame sampleEnv earthInterpreter ?s = Some f" by (auto simp: next_frame_Some)
  then have r: "machine.reachable sampleEnv earthInterpreter ?s 1 f"
    using machine.reachable.turn [OF machine.reachable.start] by simp
  from reachable_frames_typed [OF _ r] r show ?thesis by (auto simp: fresh_sample sampleVM_def endlessProgram_def)
qed

text \<open>C10: no program makes the interpreter read outside a slice, except by \<open>CALL\<close> and \<open>CALL2\<close>: an index panic comes
  from a turn at one of these two instructions.\<close>

theorem index_panic_only_at_call:
  assumes "fresh_start env vm c"
  shows "\<exists>r. runLoop env i vm c = Some r \<and>
    (r = Panics PanicIndex \<longrightarrow> (\<exists>k f. machine.reachable env i (startFrame vm c) k f \<and>
       step env (instructionSet_of i) f = Panics PanicIndex \<and> getOp (f_c f) (f_pc f) \<in> {CALL, CALL2}))"
proof (rule run_outcome [OF assms, of i])
  fix k f r
  assume reach: "machine.reachable env i (startFrame vm c) k f"
    and r: "run_inv env i (unat (c_quotaLeft c)) f" "last_turn env i k f r" "runLoop env i vm c = Some r"
  have "step env (instructionSet_of i) f = Panics PanicIndex \<and> getOp (f_c f) (f_pc f) \<in> {CALL, CALL2}" if "r = Panics PanicIndex"
    using last_turn_Panics [of env i k f PanicIndex] r(2) that last_step(2) [OF r(1)] by auto
  with reach r(3) show ?thesis by blast
qed

theorem index_panic_only_at_call_witness:
  "\<exists>r. runLoop sampleEnv randInterpreter sampleVM (sampleContract endlessProgram) = Some r \<and>
    (r = Panics PanicIndex \<longrightarrow> (\<exists>k f. machine.reachable sampleEnv randInterpreter (startFrame sampleVM (sampleContract endlessProgram)) k f \<and>
       step sampleEnv (instructionSet_of randInterpreter) f = Panics PanicIndex \<and> getOp (f_c f) (f_pc f) \<in> {CALL, CALL2}))"
  by (rule index_panic_only_at_call) (simp add: fresh_sample sampleVM_def endlessProgram_def)

text \<open>C11: the price of a call is computed on the memory before it is extended: a call whose data start in the memory
  and reach past its capacity makes the interpreter panic instead of extending the memory.\<close>

theorem gasCall_reads_unresized_memory:
  assumes "f_stack f = to # tok # amount # off # sz # st" "0 \<le> off" "off < int (mem_len (f_mem f))" "0 < sz"
    "int (mem_cap (f_mem f)) < off + sz" "off + sz < 2 ^ 62"
    "quota_table (vm_gasTable (f_vm f))" "memoryGasCost f ms = Ret (f1, Inr p)"
  shows "gasCall env f ms = Panics PanicIndex"
proof -
  have "gas_frame f f1" using memoryGasCost_post [OF assms(7), of ms] assms(8) by (auto simp: gas_post_def)
  note same = gas_frame_same [OF this]
  have "big_Int64 off = off" "big_Int64 sz = sz" "int64_add off sz = off + sz"
    using assms(2-6) by (simp_all add: big_Int64_small int64_add_small)
  then have "mem_get (f_mem f1) (big_Int64 off) (big_Int64 sz) = Panics PanicIndex"
    using assms(2-6) same by (simp add: mem_get_def mem_slice_def mem_len_def)
  with assms(1,8) same show ?thesis
    by (cases p) (simp add: gasCall_def withMemGas_def backF_def stack_back_def)
qed

theorem gasCall_reads_unresized_memory_witness:
  "\<exists>f1 p. memoryGasCost ((sampleFrame newViteQuotaTable [0, 0, 0, 31, 2])\<lparr>f_mem := mem_resize (\<lambda>_ n. n) 32 newMemory\<rparr>) 64 =
      Ret (f1, Inr p) \<and>
    gasCall sampleEnv ((sampleFrame newViteQuotaTable [0, 0, 0, 31, 2])\<lparr>f_mem := mem_resize (\<lambda>_ n. n) 32 newMemory\<rparr>) 64 =
      Panics PanicIndex"
proof -
  let ?f = "(sampleFrame newViteQuotaTable [0, 0, 0, 31, 2])\<lparr>f_mem := mem_resize (\<lambda>_ n. n) 32 newMemory\<rparr>"
  have "\<exists>f1 p. memoryGasCost ?f 64 = Ret (f1, Inr p)"
    using vite_qt.mem_division
    by (auto simp: memoryGasCost_def sampleFrame_def mem_resize_def newMemory_def mem_len_def Let_def)
  then obtain f1 p where p: "memoryGasCost ?f 64 = Ret (f1, Inr p)" by blast
  have "gasCall sampleEnv ?f 64 = Panics PanicIndex"
    by (rule gasCall_reads_unresized_memory [of _ 0 0 0 31 2 "[]", OF _ _ _ _ _ _ _ p])
       (simp_all add: sampleFrame_def mem_resize_def newMemory_def mem_len_def vite_qt.quota_table_axioms)
  with p show ?thesis by blast
qed

end
