(* ===== verification/Quota_Params.thy ===== *)
theory Quota_Params
  imports Vite_Prelude
begin

text \<open>
  vm/quota/params.go: the constants of the quota formula and its tables.  Entry \<open>k\<close> of a table is the stake
  amount or the difficulty that gives \<open>k\<close> sections of quota; \<open>qcMapMainnet\<close> gives the congestion ratio.  The tables
  are split into pieces of 150 entries; the decimal strings of the stake amounts are their integers.

  The lemmas show what the lookups rely on: the four lists have 3572 entries, start with 0 and never
  decrease, and every ratio is positive and below \<open>qcDivision\<close>.
\<close>

section \<open>Definitions\<close>

definition QuotaForCreateContractResponse :: u64 where "QuotaForCreateContractResponse = 1000000"
definition quotaLimitForBlock :: u64 where "quotaLimitForBlock = 1000000"
definition QuotaPerUt :: u64 where "QuotaPerUt = 21000"
definition quotaForSection :: u64 where "quotaForSection = 280"
definition sectionLen :: int where "sectionLen = 3571"
definition outOfQuotaBlockTime :: u64 where "outOfQuotaBlockTime = 75"
definition qcGap :: u64 where "qcGap = 21000 * 74"
definition qcIndexMinMainnet :: u64 where "qcIndexMinMainnet = 51"
definition qcIndexMaxMainnet :: u64 where "qcIndexMaxMainnet = 500"
definition qcDivision :: int where "qcDivision = 1000000000000000000"

subsection \<open>\<open>stakeAmountListMainnet\<close>\<close>

definition stakeAmountListMainnet1 :: "int list" where
  "stakeAmountListMainnet1 = [
     0, 134000000000000000000, 267000000000000000000, 400000000000000000000, 534000000000000000000,
     667000000000000000000, 800000000000000000000, 934000000000000000000, 1067000000000000000000,
     1200000000000000000000, 1334000000000000000000, 1467000000000000000000, 1600000000000000000000,
     1733000000000000000000, 1867000000000000000000, 2000000000000000000000, 2133000000000000000000,
     2267000000000000000000, 2400000000000000000000, 2533000000000000000000, 2667000000000000000000,
     2800000000000000000000, 2933000000000000000000, 3066000000000000000000, 3200000000000000000000,
     3333000000000000000000, 3466000000000000000000, 3600000000000000000000, 3733000000000000000000,
     3866000000000000000000, 4000000000000000000000, 4133000000000000000000, 4266000000000000000000,
     4400000000000000000000, 4533000000000000000000, 4666000000000000000000, 4799000000000000000000,
     4933000000000000000000, 5066000000000000000000, 5199000000000000000000, 5333000000000000000000,
     5466000000000000000000, 5599000000000000000000, 5733000000000000000000, 5866000000000000000000,
     5999000000000000000000, 6133000000000000000000, 6266000000000000000000, 6399000000000000000000,
     6533000000000000000000, 6666000000000000000000, 6799000000000000000000, 6933000000000000000000,
     7066000000000000000000, 7199000000000000000000, 7333000000000000000000, 7466000000000000000000,
     7599000000000000000000, 7733000000000000000000, 7866000000000000000000, 7999000000000000000000,
     8133000000000000000000, 8266000000000000000000, 8399000000000000000000, 8533000000000000000000,
     8666000000000000000000, 8799000000000000000000, 8933000000000000000000, 9066000000000000000000,
     9199000000000000000000, 9333000000000000000000, 9466000000000000000000, 9599000000000000000000,
     9733000000000000000000, 9866000000000000000000, 10000000000000000000000, 10133000000000000000000,
     10266000000000000000000, 10400000000000000000000, 10533000000000000000000, 10666000000000000000000,
     10800000000000000000000, 10933000000000000000000, 11066000000000000000000, 11200000000000000000000,
     11333000000000000000000, 11467000000000000000000, 11600000000000000000000, 11733000000000000000000,
     11867000000000000000000, 12000000000000000000000, 12133000000000000000000, 12267000000000000000000,
     12400000000000000000000, 12534000000000000000000, 12667000000000000000000, 12800000000000000000000,
     12934000000000000000000, 13067000000000000000000, 13201000000000000000000, 13334000000000000000000,
     13467000000000000000000, 13601000000000000000000, 13734000000000000000000, 13868000000000000000000,
     14001000000000000000000, 14134000000000000000000, 14268000000000000000000, 14401000000000000000000,
     14535000000000000000000, 14668000000000000000000, 14802000000000000000000, 14935000000000000000000,
     15068000000000000000000, 15202000000000000000000, 15335000000000000000000, 15469000000000000000000,
     15602000000000000000000, 15736000000000000000000, 15869000000000000000000, 16003000000000000000000,
     16136000000000000000000, 16269000000000000000000, 16403000000000000000000, 16536000000000000000000,
     16670000000000000000000, 16803000000000000000000, 16937000000000000000000, 17070000000000000000000,
     17204000000000000000000, 17337000000000000000000, 17471000000000000000000, 17604000000000000000000,
     17738000000000000000000, 17871000000000000000000, 18005000000000000000000, 18138000000000000000000,
     18272000000000000000000, 18405000000000000000000, 18539000000000000000000, 18672000000000000000000,
     18806000000000000000000, 18939000000000000000000, 19073000000000000000000, 19206000000000000000000,
     19340000000000000000000, 19473000000000000000000, 19607000000000000000000, 19740000000000000000000,
     19874000000000000000000]"

definition stakeAmountListMainnet2 :: "int list" where
  "stakeAmountListMainnet2 = [
     20007000000000000000000, 20141000000000000000000, 20274000000000000000000, 20408000000000000000000,
     20541000000000000000000, 20675000000000000000000, 20809000000000000000000, 20942000000000000000000,
     21076000000000000000000, 21209000000000000000000, 21343000000000000000000, 21476000000000000000000,
     21610000000000000000000, 21744000000000000000000, 21877000000000000000000, 22011000000000000000000,
     22144000000000000000000, 22278000000000000000000, 22412000000000000000000, 22545000000000000000000,
     22679000000000000000000, 22812000000000000000000, 22946000000000000000000, 23080000000000000000000,
     23213000000000000000000, 23347000000000000000000, 23480000000000000000000, 23614000000000000000000,
     23748000000000000000000, 23881000000000000000000, 24015000000000000000000, 24149000000000000000000,
     24282000000000000000000, 24416000000000000000000, 24550000000000000000000, 24683000000000000000000,
     24817000000000000000000, 24950000000000000000000, 25084000000000000000000, 25218000000000000000000,
     25352000000000000000000, 25485000000000000000000, 25619000000000000000000, 25753000000000000000000,
     25886000000000000000000, 26020000000000000000000, 26154000000000000000000, 26287000000000000000000,
     26421000000000000000000, 26555000000000000000000, 26689000000000000000000, 26822000000000000000000,
     26956000000000000000000, 27090000000000000000000, 27223000000000000000000, 27357000000000000000000,
     27491000000000000000000, 27625000000000000000000, 27758000000000000000000, 27892000000000000000000,
     28026000000000000000000, 28160000000000000000000, 28293000000000000000000, 28427000000000000000000,
     28561000000000000000000, 28695000000000000000000, 28829000000000000000000, 28962000000000000000000,
     29096000000000000000000, 29230000000000000000000, 29364000000000000000000, 29498000000000000000000,
     29631000000000000000000, 29765000000000000000000, 29899000000000000000000, 30033000000000000000000,
     30167000000000000000000, 30301000000000000000000, 30434000000000000000000, 30568000000000000000000,
     30702000000000000000000, 30836000000000000000000, 30970000000000000000000, 31104000000000000000000,
     31238000000000000000000, 31371000000000000000000, 31505000000000000000000, 31639000000000000000000,
     31773000000000000000000, 31907000000000000000000, 32041000000000000000000, 32175000000000000000000,
     32309000000000000000000, 32443000000000000000000, 32577000000000000000000, 32710000000000000000000,
     32844000000000000000000, 32978000000000000000000, 33112000000000000000000, 33246000000000000000000,
     33380000000000000000000, 33514000000000000000000, 33648000000000000000000, 33782000000000000000000,
     33916000000000000000000, 34050000000000000000000, 34184000000000000000000, 34318000000000000000000,
     34452000000000000000000, 34586000000000000000000, 34720000000000000000000, 34854000000000000000000,
     34988000000000000000000, 35122000000000000000000, 35256000000000000000000, 35390000000000000000000,
     35524000000000000000000, 35658000000000000000000, 35792000000000000000000, 35926000000000000000000,
     36060000000000000000000, 36194000000000000000000, 36329000000000000000000, 36463000000000000000000,
     36597000000000000000000, 36731000000000000000000, 36865000000000000000000, 36999000000000000000000,
     37133000000000000000000, 37267000000000000000000, 37401000000000000000000, 37535000000000000000000,
     37670000000000000000000, 37804000000000000000000, 37938000000000000000000, 38072000000000000000000,
     38206000000000000000000, 38340000000000000000000, 38475000000000000000000, 38609000000000000000000,
     38743000000000000000000, 38877000000000000000000, 39011000000000000000000, 39145000000000000000000,
     39280000000000000000000, 39414000000000000000000, 39548000000000000000000, 39682000000000000000000,
     39817000000000000000000, 39951000000000000000000]"

definition stakeAmountListMainnet3 :: "int list" where
  "stakeAmountListMainnet3 = [
     40085000000000000000000, 40219000000000000000000, 40354000000000000000000, 40488000000000000000000,
     40622000000000000000000, 40756000000000000000000, 40891000000000000000000, 41025000000000000000000,
     41159000000000000000000, 41294000000000000000000, 41428000000000000000000, 41562000000000000000000,
     41697000000000000000000, 41831000000000000000000, 41965000000000000000000, 42100000000000000000000,
     42234000000000000000000, 42368000000000000000000, 42503000000000000000000, 42637000000000000000000,
     42771000000000000000000, 42906000000000000000000, 43040000000000000000000, 43174000000000000000000,
     43309000000000000000000, 43443000000000000000000, 43578000000000000000000, 43712000000000000000000,
     43847000000000000000000, 43981000000000000000000, 44115000000000000000000, 44250000000000000000000,
     44384000000000000000000, 44519000000000000000000, 44653000000000000000000, 44788000000000000000000,
     44922000000000000000000, 45057000000000000000000, 45191000000000000000000, 45326000000000000000000,
     45460000000000000000000, 45595000000000000000000, 45729000000000000000000, 45864000000000000000000,
     45998000000000000000000, 46133000000000000000000, 46268000000000000000000, 46402000000000000000000,
     46537000000000000000000, 46671000000000000000000, 46806000000000000000000, 46940000000000000000000,
     47075000000000000000000, 47210000000000000000000, 47344000000000000000000, 47479000000000000000000,
     47614000000000000000000, 47748000000000000000000, 47883000000000000000000, 48018000000000000000000,
     48152000000000000000000, 48287000000000000000000, 48422000000000000000000, 48556000000000000000000,
     48691000000000000000000, 48826000000000000000000, 48960000000000000000000, 49095000000000000000000,
     49230000000000000000000, 49365000000000000000000, 49499000000000000000000, 49634000000000000000000,
     49769000000000000000000, 49904000000000000000000, 50038000000000000000000, 50173000000000000000000,
     50308000000000000000000, 50443000000000000000000, 50577000000000000000000, 50712000000000000000000,
     50847000000000000000000, 50982000000000000000000, 51117000000000000000000, 51252000000000000000000,
     51386000000000000000000, 51521000000000000000000, 51656000000000000000000, 51791000000000000000000,
     51926000000000000000000, 52061000000000000000000, 52196000000000000000000, 52331000000000000000000,
     52466000000000000000000, 52601000000000000000000, 52735000000000000000000, 52870000000000000000000,
     53005000000000000000000, 53140000000000000000000, 53275000000000000000000, 53410000000000000000000,
     53545000000000000000000, 53680000000000000000000, 53815000000000000000000, 53950000000000000000000,
     54085000000000000000000, 54220000000000000000000, 54355000000000000000000, 54490000000000000000000,
     54626000000000000000000, 54761000000000000000000, 54896000000000000000000, 55031000000000000000000,
     55166000000000000000000, 55301000000000000000000, 55436000000000000000000, 55571000000000000000000,
     55706000000000000000000, 55841000000000000000000, 55977000000000000000000, 56112000000000000000000,
     56247000000000000000000, 56382000000000000000000, 56517000000000000000000, 56652000000000000000000,
     56788000000000000000000, 56923000000000000000000, 57058000000000000000000, 57193000000000000000000,
     57329000000000000000000, 57464000000000000000000, 57599000000000000000000, 57734000000000000000000,
     57870000000000000000000, 58005000000000000000000, 58140000000000000000000, 58275000000000000000000,
     58411000000000000000000, 58546000000000000000000, 58681000000000000000000, 58817000000000000000000,
     58952000000000000000000, 59088000000000000000000, 59223000000000000000000, 59358000000000000000000,
     59494000000000000000000, 59629000000000000000000, 59764000000000000000000, 59900000000000000000000,
     60035000000000000000000, 60171000000000000000000]"

definition stakeAmountListMainnet4 :: "int list" where
  "stakeAmountListMainnet4 = [
     60306000000000000000000, 60442000000000000000000, 60577000000000000000000, 60713000000000000000000,
     60848000000000000000000, 60984000000000000000000, 61119000000000000000000, 61255000000000000000000,
     61390000000000000000000, 61526000000000000000000, 61661000000000000000000, 61797000000000000000000,
     61932000000000000000000, 62068000000000000000000, 62203000000000000000000, 62339000000000000000000,
     62475000000000000000000, 62610000000000000000000, 62746000000000000000000, 62882000000000000000000,
     63017000000000000000000, 63153000000000000000000, 63288000000000000000000, 63424000000000000000000,
     63560000000000000000000, 63696000000000000000000, 63831000000000000000000, 63967000000000000000000,
     64103000000000000000000, 64238000000000000000000, 64374000000000000000000, 64510000000000000000000,
     64646000000000000000000, 64781000000000000000000, 64917000000000000000000, 65053000000000000000000,
     65189000000000000000000, 65325000000000000000000, 65461000000000000000000, 65596000000000000000000,
     65732000000000000000000, 65868000000000000000000, 66004000000000000000000, 66140000000000000000000,
     66276000000000000000000, 66412000000000000000000, 66548000000000000000000, 66683000000000000000000,
     66819000000000000000000, 66955000000000000000000, 67091000000000000000000, 67227000000000000000000,
     67363000000000000000000, 67499000000000000000000, 67635000000000000000000, 67771000000000000000000,
     67907000000000000000000, 68043000000000000000000, 68179000000000000000000, 68315000000000000000000,
     68452000000000000000000, 68588000000000000000000, 68724000000000000000000, 68860000000000000000000,
     68996000000000000000000, 69132000000000000000000, 69268000000000000000000, 69404000000000000000000,
     69541000000000000000000, 69677000000000000000000, 69813000000000000000000, 69949000000000000000000,
     70085000000000000000000, 70221000000000000000000, 70358000000000000000000, 70494000000000000000000,
     70630000000000000000000, 70766000000000000000000, 70903000000000000000000, 71039000000000000000000,
     71175000000000000000000, 71312000000000000000000, 71448000000000000000000, 71584000000000000000000,
     71721000000000000000000, 71857000000000000000000, 71993000000000000000000, 72130000000000000000000,
     72266000000000000000000, 72402000000000000000000, 72539000000000000000000, 72675000000000000000000,
     72812000000000000000000, 72948000000000000000000, 73085000000000000000000, 73221000000000000000000,
     73358000000000000000000, 73494000000000000000000, 73631000000000000000000, 73767000000000000000000,
     73904000000000000000000, 74040000000000000000000, 74177000000000000000000, 74313000000000000000000,
     74450000000000000000000, 74587000000000000000000, 74723000000000000000000, 74860000000000000000000,
     74996000000000000000000, 75133000000000000000000, 75270000000000000000000, 75406000000000000000000,
     75543000000000000000000, 75680000000000000000000, 75816000000000000000000, 75953000000000000000000,
     76090000000000000000000, 76227000000000000000000, 76363000000000000000000, 76500000000000000000000,
     76637000000000000000000, 76774000000000000000000, 76911000000000000000000, 77047000000000000000000,
     77184000000000000000000, 77321000000000000000000, 77458000000000000000000, 77595000000000000000000,
     77732000000000000000000, 77868000000000000000000, 78005000000000000000000, 78142000000000000000000,
     78279000000000000000000, 78416000000000000000000, 78553000000000000000000, 78690000000000000000000,
     78827000000000000000000, 78964000000000000000000, 79101000000000000000000, 79238000000000000000000,
     79375000000000000000000, 79512000000000000000000, 79649000000000000000000, 79786000000000000000000,
     79923000000000000000000, 80061000000000000000000, 80198000000000000000000, 80335000000000000000000,
     80472000000000000000000, 80609000000000000000000]"

definition stakeAmountListMainnet5 :: "int list" where
  "stakeAmountListMainnet5 = [
     80746000000000000000000, 80883000000000000000000, 81021000000000000000000, 81158000000000000000000,
     81295000000000000000000, 81432000000000000000000, 81569000000000000000000, 81707000000000000000000,
     81844000000000000000000, 81981000000000000000000, 82119000000000000000000, 82256000000000000000000,
     82393000000000000000000, 82531000000000000000000, 82668000000000000000000, 82805000000000000000000,
     82943000000000000000000, 83080000000000000000000, 83217000000000000000000, 83355000000000000000000,
     83492000000000000000000, 83630000000000000000000, 83767000000000000000000, 83905000000000000000000,
     84042000000000000000000, 84180000000000000000000, 84317000000000000000000, 84455000000000000000000,
     84592000000000000000000, 84730000000000000000000, 84867000000000000000000, 85005000000000000000000,
     85143000000000000000000, 85280000000000000000000, 85418000000000000000000, 85556000000000000000000,
     85693000000000000000000, 85831000000000000000000, 85969000000000000000000, 86106000000000000000000,
     86244000000000000000000, 86382000000000000000000, 86519000000000000000000, 86657000000000000000000,
     86795000000000000000000, 86933000000000000000000, 87071000000000000000000, 87208000000000000000000,
     87346000000000000000000, 87484000000000000000000, 87622000000000000000000, 87760000000000000000000,
     87898000000000000000000, 88036000000000000000000, 88173000000000000000000, 88311000000000000000000,
     88449000000000000000000, 88587000000000000000000, 88725000000000000000000, 88863000000000000000000,
     89001000000000000000000, 89139000000000000000000, 89277000000000000000000, 89415000000000000000000,
     89553000000000000000000, 89692000000000000000000, 89830000000000000000000, 89968000000000000000000,
     90106000000000000000000, 90244000000000000000000, 90382000000000000000000, 90520000000000000000000,
     90659000000000000000000, 90797000000000000000000, 90935000000000000000000, 91073000000000000000000,
     91211000000000000000000, 91350000000000000000000, 91488000000000000000000, 91626000000000000000000,
     91765000000000000000000, 91903000000000000000000, 92041000000000000000000, 92180000000000000000000,
     92318000000000000000000, 92456000000000000000000, 92595000000000000000000, 92733000000000000000000,
     92872000000000000000000, 93010000000000000000000, 93148000000000000000000, 93287000000000000000000,
     93425000000000000000000, 93564000000000000000000, 93702000000000000000000, 93841000000000000000000,
     93980000000000000000000, 94118000000000000000000, 94257000000000000000000, 94395000000000000000000,
     94534000000000000000000, 94673000000000000000000, 94811000000000000000000, 94950000000000000000000,
     95089000000000000000000, 95227000000000000000000, 95366000000000000000000, 95505000000000000000000,
     95643000000000000000000, 95782000000000000000000, 95921000000000000000000, 96060000000000000000000,
     96199000000000000000000, 96337000000000000000000, 96476000000000000000000, 96615000000000000000000,
     96754000000000000000000, 96893000000000000000000, 97032000000000000000000, 97171000000000000000000,
     97310000000000000000000, 97449000000000000000000, 97588000000000000000000, 97727000000000000000000,
     97866000000000000000000, 98005000000000000000000, 98144000000000000000000, 98283000000000000000000,
     98422000000000000000000, 98561000000000000000000, 98700000000000000000000, 98839000000000000000000,
     98978000000000000000000, 99117000000000000000000, 99257000000000000000000, 99396000000000000000000,
     99535000000000000000000, 99674000000000000000000, 99813000000000000000000, 99953000000000000000000,
     100092000000000000000000, 100231000000000000000000, 100371000000000000000000, 100510000000000000000000,
     100649000000000000000000, 100789000000000000000000, 100928000000000000000000, 101067000000000000000000,
     101207000000000000000000, 101346000000000000000000]"

definition stakeAmountListMainnet6 :: "int list" where
  "stakeAmountListMainnet6 = [
     101486000000000000000000, 101625000000000000000000, 101765000000000000000000, 101904000000000000000000,
     102044000000000000000000, 102183000000000000000000, 102323000000000000000000, 102462000000000000000000,
     102602000000000000000000, 102741000000000000000000, 102881000000000000000000, 103021000000000000000000,
     103160000000000000000000, 103300000000000000000000, 103440000000000000000000, 103579000000000000000000,
     103719000000000000000000, 103859000000000000000000, 103999000000000000000000, 104138000000000000000000,
     104278000000000000000000, 104418000000000000000000, 104558000000000000000000, 104698000000000000000000,
     104837000000000000000000, 104977000000000000000000, 105117000000000000000000, 105257000000000000000000,
     105397000000000000000000, 105537000000000000000000, 105677000000000000000000, 105817000000000000000000,
     105957000000000000000000, 106097000000000000000000, 106237000000000000000000, 106377000000000000000000,
     106517000000000000000000, 106657000000000000000000, 106797000000000000000000, 106937000000000000000000,
     107078000000000000000000, 107218000000000000000000, 107358000000000000000000, 107498000000000000000000,
     107638000000000000000000, 107779000000000000000000, 107919000000000000000000, 108059000000000000000000,
     108199000000000000000000, 108340000000000000000000, 108480000000000000000000, 108620000000000000000000,
     108761000000000000000000, 108901000000000000000000, 109042000000000000000000, 109182000000000000000000,
     109323000000000000000000, 109463000000000000000000, 109603000000000000000000, 109744000000000000000000,
     109884000000000000000000, 110025000000000000000000, 110166000000000000000000, 110306000000000000000000,
     110447000000000000000000, 110587000000000000000000, 110728000000000000000000, 110869000000000000000000,
     111009000000000000000000, 111150000000000000000000, 111291000000000000000000, 111431000000000000000000,
     111572000000000000000000, 111713000000000000000000, 111854000000000000000000, 111995000000000000000000,
     112135000000000000000000, 112276000000000000000000, 112417000000000000000000, 112558000000000000000000,
     112699000000000000000000, 112840000000000000000000, 112981000000000000000000, 113122000000000000000000,
     113263000000000000000000, 113404000000000000000000, 113545000000000000000000, 113686000000000000000000,
     113827000000000000000000, 113968000000000000000000, 114109000000000000000000, 114250000000000000000000,
     114391000000000000000000, 114532000000000000000000, 114674000000000000000000, 114815000000000000000000,
     114956000000000000000000, 115097000000000000000000, 115238000000000000000000, 115380000000000000000000,
     115521000000000000000000, 115662000000000000000000, 115804000000000000000000, 115945000000000000000000,
     116086000000000000000000, 116228000000000000000000, 116369000000000000000000, 116511000000000000000000,
     116652000000000000000000, 116794000000000000000000, 116935000000000000000000, 117077000000000000000000,
     117218000000000000000000, 117360000000000000000000, 117501000000000000000000, 117643000000000000000000,
     117784000000000000000000, 117926000000000000000000, 118068000000000000000000, 118209000000000000000000,
     118351000000000000000000, 118493000000000000000000, 118635000000000000000000, 118776000000000000000000,
     118918000000000000000000, 119060000000000000000000, 119202000000000000000000, 119344000000000000000000,
     119485000000000000000000, 119627000000000000000000, 119769000000000000000000, 119911000000000000000000,
     120053000000000000000000, 120195000000000000000000, 120337000000000000000000, 120479000000000000000000,
     120621000000000000000000, 120763000000000000000000, 120905000000000000000000, 121047000000000000000000,
     121189000000000000000000, 121332000000000000000000, 121474000000000000000000, 121616000000000000000000,
     121758000000000000000000, 121900000000000000000000, 122043000000000000000000, 122185000000000000000000,
     122327000000000000000000, 122469000000000000000000]"

definition stakeAmountListMainnet7 :: "int list" where
  "stakeAmountListMainnet7 = [
     122612000000000000000000, 122754000000000000000000, 122896000000000000000000, 123039000000000000000000,
     123181000000000000000000, 123324000000000000000000, 123466000000000000000000, 123609000000000000000000,
     123751000000000000000000, 123894000000000000000000, 124036000000000000000000, 124179000000000000000000,
     124321000000000000000000, 124464000000000000000000, 124607000000000000000000, 124749000000000000000000,
     124892000000000000000000, 125035000000000000000000, 125177000000000000000000, 125320000000000000000000,
     125463000000000000000000, 125606000000000000000000, 125748000000000000000000, 125891000000000000000000,
     126034000000000000000000, 126177000000000000000000, 126320000000000000000000, 126463000000000000000000,
     126606000000000000000000, 126749000000000000000000, 126892000000000000000000, 127035000000000000000000,
     127178000000000000000000, 127321000000000000000000, 127464000000000000000000, 127607000000000000000000,
     127750000000000000000000, 127893000000000000000000, 128036000000000000000000, 128180000000000000000000,
     128323000000000000000000, 128466000000000000000000, 128609000000000000000000, 128753000000000000000000,
     128896000000000000000000, 129039000000000000000000, 129183000000000000000000, 129326000000000000000000,
     129469000000000000000000, 129613000000000000000000, 129756000000000000000000, 129900000000000000000000,
     130043000000000000000000, 130187000000000000000000, 130330000000000000000000, 130474000000000000000000,
     130617000000000000000000, 130761000000000000000000, 130905000000000000000000, 131048000000000000000000,
     131192000000000000000000, 131336000000000000000000, 131479000000000000000000, 131623000000000000000000,
     131767000000000000000000, 131911000000000000000000, 132054000000000000000000, 132198000000000000000000,
     132342000000000000000000, 132486000000000000000000, 132630000000000000000000, 132774000000000000000000,
     132918000000000000000000, 133062000000000000000000, 133206000000000000000000, 133350000000000000000000,
     133494000000000000000000, 133638000000000000000000, 133782000000000000000000, 133926000000000000000000,
     134070000000000000000000, 134214000000000000000000, 134359000000000000000000, 134503000000000000000000,
     134647000000000000000000, 134791000000000000000000, 134936000000000000000000, 135080000000000000000000,
     135224000000000000000000, 135369000000000000000000, 135513000000000000000000, 135657000000000000000000,
     135802000000000000000000, 135946000000000000000000, 136091000000000000000000, 136235000000000000000000,
     136380000000000000000000, 136524000000000000000000, 136669000000000000000000, 136813000000000000000000,
     136958000000000000000000, 137103000000000000000000, 137247000000000000000000, 137392000000000000000000,
     137537000000000000000000, 137682000000000000000000, 137826000000000000000000, 137971000000000000000000,
     138116000000000000000000, 138261000000000000000000, 138406000000000000000000, 138551000000000000000000,
     138696000000000000000000, 138841000000000000000000, 138986000000000000000000, 139131000000000000000000,
     139276000000000000000000, 139421000000000000000000, 139566000000000000000000, 139711000000000000000000,
     139856000000000000000000, 140001000000000000000000, 140146000000000000000000, 140291000000000000000000,
     140437000000000000000000, 140582000000000000000000, 140727000000000000000000, 140872000000000000000000,
     141018000000000000000000, 141163000000000000000000, 141309000000000000000000, 141454000000000000000000,
     141599000000000000000000, 141745000000000000000000, 141890000000000000000000, 142036000000000000000000,
     142181000000000000000000, 142327000000000000000000, 142473000000000000000000, 142618000000000000000000,
     142764000000000000000000, 142909000000000000000000, 143055000000000000000000, 143201000000000000000000,
     143347000000000000000000, 143492000000000000000000, 143638000000000000000000, 143784000000000000000000,
     143930000000000000000000, 144076000000000000000000]"

definition stakeAmountListMainnet8 :: "int list" where
  "stakeAmountListMainnet8 = [
     144222000000000000000000, 144368000000000000000000, 144513000000000000000000, 144659000000000000000000,
     144805000000000000000000, 144951000000000000000000, 145098000000000000000000, 145244000000000000000000,
     145390000000000000000000, 145536000000000000000000, 145682000000000000000000, 145828000000000000000000,
     145974000000000000000000, 146121000000000000000000, 146267000000000000000000, 146413000000000000000000,
     146560000000000000000000, 146706000000000000000000, 146852000000000000000000, 146999000000000000000000,
     147145000000000000000000, 147292000000000000000000, 147438000000000000000000, 147585000000000000000000,
     147731000000000000000000, 147878000000000000000000, 148024000000000000000000, 148171000000000000000000,
     148318000000000000000000, 148464000000000000000000, 148611000000000000000000, 148758000000000000000000,
     148904000000000000000000, 149051000000000000000000, 149198000000000000000000, 149345000000000000000000,
     149492000000000000000000, 149639000000000000000000, 149786000000000000000000, 149933000000000000000000,
     150079000000000000000000, 150227000000000000000000, 150374000000000000000000, 150521000000000000000000,
     150668000000000000000000, 150815000000000000000000, 150962000000000000000000, 151109000000000000000000,
     151256000000000000000000, 151404000000000000000000, 151551000000000000000000, 151698000000000000000000,
     151845000000000000000000, 151993000000000000000000, 152140000000000000000000, 152288000000000000000000,
     152435000000000000000000, 152582000000000000000000, 152730000000000000000000, 152877000000000000000000,
     153025000000000000000000, 153173000000000000000000, 153320000000000000000000, 153468000000000000000000,
     153615000000000000000000, 153763000000000000000000, 153911000000000000000000, 154059000000000000000000,
     154206000000000000000000, 154354000000000000000000, 154502000000000000000000, 154650000000000000000000,
     154798000000000000000000, 154946000000000000000000, 155093000000000000000000, 155241000000000000000000,
     155389000000000000000000, 155537000000000000000000, 155686000000000000000000, 155834000000000000000000,
     155982000000000000000000, 156130000000000000000000, 156278000000000000000000, 156426000000000000000000,
     156574000000000000000000, 156723000000000000000000, 156871000000000000000000, 157019000000000000000000,
     157168000000000000000000, 157316000000000000000000, 157464000000000000000000, 157613000000000000000000,
     157761000000000000000000, 157910000000000000000000, 158058000000000000000000, 158207000000000000000000,
     158356000000000000000000, 158504000000000000000000, 158653000000000000000000, 158802000000000000000000,
     158950000000000000000000, 159099000000000000000000, 159248000000000000000000, 159397000000000000000000,
     159545000000000000000000, 159694000000000000000000, 159843000000000000000000, 159992000000000000000000,
     160141000000000000000000, 160290000000000000000000, 160439000000000000000000, 160588000000000000000000,
     160737000000000000000000, 160886000000000000000000, 161035000000000000000000, 161184000000000000000000,
     161334000000000000000000, 161483000000000000000000, 161632000000000000000000, 161781000000000000000000,
     161931000000000000000000, 162080000000000000000000, 162229000000000000000000, 162379000000000000000000,
     162528000000000000000000, 162678000000000000000000, 162827000000000000000000, 162977000000000000000000,
     163126000000000000000000, 163276000000000000000000, 163425000000000000000000, 163575000000000000000000,
     163725000000000000000000, 163875000000000000000000, 164024000000000000000000, 164174000000000000000000,
     164324000000000000000000, 164474000000000000000000, 164624000000000000000000, 164773000000000000000000,
     164923000000000000000000, 165073000000000000000000, 165223000000000000000000, 165373000000000000000000,
     165523000000000000000000, 165674000000000000000000, 165824000000000000000000, 165974000000000000000000,
     166124000000000000000000, 166274000000000000000000]"

definition stakeAmountListMainnet9 :: "int list" where
  "stakeAmountListMainnet9 = [
     166424000000000000000000, 166575000000000000000000, 166725000000000000000000, 166875000000000000000000,
     167026000000000000000000, 167176000000000000000000, 167327000000000000000000, 167477000000000000000000,
     167628000000000000000000, 167778000000000000000000, 167929000000000000000000, 168079000000000000000000,
     168230000000000000000000, 168381000000000000000000, 168531000000000000000000, 168682000000000000000000,
     168833000000000000000000, 168984000000000000000000, 169134000000000000000000, 169285000000000000000000,
     169436000000000000000000, 169587000000000000000000, 169738000000000000000000, 169889000000000000000000,
     170040000000000000000000, 170191000000000000000000, 170342000000000000000000, 170493000000000000000000,
     170644000000000000000000, 170796000000000000000000, 170947000000000000000000, 171098000000000000000000,
     171249000000000000000000, 171401000000000000000000, 171552000000000000000000, 171704000000000000000000,
     171855000000000000000000, 172006000000000000000000, 172158000000000000000000, 172309000000000000000000,
     172461000000000000000000, 172613000000000000000000, 172764000000000000000000, 172916000000000000000000,
     173068000000000000000000, 173219000000000000000000, 173371000000000000000000, 173523000000000000000000,
     173675000000000000000000, 173826000000000000000000, 173978000000000000000000, 174130000000000000000000,
     174282000000000000000000, 174434000000000000000000, 174586000000000000000000, 174738000000000000000000,
     174890000000000000000000, 175043000000000000000000, 175195000000000000000000, 175347000000000000000000,
     175499000000000000000000, 175651000000000000000000, 175804000000000000000000, 175956000000000000000000,
     176108000000000000000000, 176261000000000000000000, 176413000000000000000000, 176566000000000000000000,
     176718000000000000000000, 176871000000000000000000, 177023000000000000000000, 177176000000000000000000,
     177329000000000000000000, 177481000000000000000000, 177634000000000000000000, 177787000000000000000000,
     177940000000000000000000, 178092000000000000000000, 178245000000000000000000, 178398000000000000000000,
     178551000000000000000000, 178704000000000000000000, 178857000000000000000000, 179010000000000000000000,
     179163000000000000000000, 179316000000000000000000, 179469000000000000000000, 179623000000000000000000,
     179776000000000000000000, 179929000000000000000000, 180082000000000000000000, 180236000000000000000000,
     180389000000000000000000, 180542000000000000000000, 180696000000000000000000, 180849000000000000000000,
     181003000000000000000000, 181156000000000000000000, 181310000000000000000000, 181463000000000000000000,
     181617000000000000000000, 181771000000000000000000, 181925000000000000000000, 182078000000000000000000,
     182232000000000000000000, 182386000000000000000000, 182540000000000000000000, 182694000000000000000000,
     182848000000000000000000, 183002000000000000000000, 183156000000000000000000, 183310000000000000000000,
     183464000000000000000000, 183618000000000000000000, 183772000000000000000000, 183926000000000000000000,
     184080000000000000000000, 184235000000000000000000, 184389000000000000000000, 184543000000000000000000,
     184698000000000000000000, 184852000000000000000000, 185006000000000000000000, 185161000000000000000000,
     185315000000000000000000, 185470000000000000000000, 185625000000000000000000, 185779000000000000000000,
     185934000000000000000000, 186089000000000000000000, 186243000000000000000000, 186398000000000000000000,
     186553000000000000000000, 186708000000000000000000, 186863000000000000000000, 187018000000000000000000,
     187173000000000000000000, 187328000000000000000000, 187483000000000000000000, 187638000000000000000000,
     187793000000000000000000, 187948000000000000000000, 188103000000000000000000, 188258000000000000000000,
     188414000000000000000000, 188569000000000000000000, 188724000000000000000000, 188880000000000000000000,
     189035000000000000000000, 189191000000000000000000]"

definition stakeAmountListMainnet10 :: "int list" where
  "stakeAmountListMainnet10 = [
     189346000000000000000000, 189502000000000000000000, 189657000000000000000000, 189813000000000000000000,
     189969000000000000000000, 190124000000000000000000, 190280000000000000000000, 190436000000000000000000,
     190592000000000000000000, 190747000000000000000000, 190903000000000000000000, 191059000000000000000000,
     191215000000000000000000, 191371000000000000000000, 191527000000000000000000, 191683000000000000000000,
     191839000000000000000000, 191996000000000000000000, 192152000000000000000000, 192308000000000000000000,
     192464000000000000000000, 192621000000000000000000, 192777000000000000000000, 192933000000000000000000,
     193090000000000000000000, 193246000000000000000000, 193403000000000000000000, 193559000000000000000000,
     193716000000000000000000, 193873000000000000000000, 194029000000000000000000, 194186000000000000000000,
     194343000000000000000000, 194500000000000000000000, 194656000000000000000000, 194813000000000000000000,
     194970000000000000000000, 195127000000000000000000, 195284000000000000000000, 195441000000000000000000,
     195598000000000000000000, 195755000000000000000000, 195913000000000000000000, 196070000000000000000000,
     196227000000000000000000, 196384000000000000000000, 196542000000000000000000, 196699000000000000000000,
     196856000000000000000000, 197014000000000000000000, 197171000000000000000000, 197329000000000000000000,
     197486000000000000000000, 197644000000000000000000, 197802000000000000000000, 197959000000000000000000,
     198117000000000000000000, 198275000000000000000000, 198433000000000000000000, 198590000000000000000000,
     198748000000000000000000, 198906000000000000000000, 199064000000000000000000, 199222000000000000000000,
     199380000000000000000000, 199538000000000000000000, 199697000000000000000000, 199855000000000000000000,
     200013000000000000000000, 200171000000000000000000, 200330000000000000000000, 200488000000000000000000,
     200646000000000000000000, 200805000000000000000000, 200963000000000000000000, 201122000000000000000000,
     201280000000000000000000, 201439000000000000000000, 201598000000000000000000, 201756000000000000000000,
     201915000000000000000000, 202074000000000000000000, 202233000000000000000000, 202391000000000000000000,
     202550000000000000000000, 202709000000000000000000, 202868000000000000000000, 203027000000000000000000,
     203186000000000000000000, 203345000000000000000000, 203505000000000000000000, 203664000000000000000000,
     203823000000000000000000, 203982000000000000000000, 204142000000000000000000, 204301000000000000000000,
     204460000000000000000000, 204620000000000000000000, 204779000000000000000000, 204939000000000000000000,
     205099000000000000000000, 205258000000000000000000, 205418000000000000000000, 205578000000000000000000,
     205737000000000000000000, 205897000000000000000000, 206057000000000000000000, 206217000000000000000000,
     206377000000000000000000, 206537000000000000000000, 206697000000000000000000, 206857000000000000000000,
     207017000000000000000000, 207177000000000000000000, 207337000000000000000000, 207498000000000000000000,
     207658000000000000000000, 207818000000000000000000, 207979000000000000000000, 208139000000000000000000,
     208300000000000000000000, 208460000000000000000000, 208621000000000000000000, 208781000000000000000000,
     208942000000000000000000, 209103000000000000000000, 209263000000000000000000, 209424000000000000000000,
     209585000000000000000000, 209746000000000000000000, 209907000000000000000000, 210068000000000000000000,
     210229000000000000000000, 210390000000000000000000, 210551000000000000000000, 210712000000000000000000,
     210873000000000000000000, 211034000000000000000000, 211196000000000000000000, 211357000000000000000000,
     211518000000000000000000, 211680000000000000000000, 211841000000000000000000, 212003000000000000000000,
     212164000000000000000000, 212326000000000000000000, 212487000000000000000000, 212649000000000000000000,
     212811000000000000000000, 212973000000000000000000]"

definition stakeAmountListMainnet11 :: "int list" where
  "stakeAmountListMainnet11 = [
     213135000000000000000000, 213296000000000000000000, 213458000000000000000000, 213620000000000000000000,
     213782000000000000000000, 213944000000000000000000, 214106000000000000000000, 214269000000000000000000,
     214431000000000000000000, 214593000000000000000000, 214755000000000000000000, 214918000000000000000000,
     215080000000000000000000, 215243000000000000000000, 215405000000000000000000, 215568000000000000000000,
     215730000000000000000000, 215893000000000000000000, 216055000000000000000000, 216218000000000000000000,
     216381000000000000000000, 216544000000000000000000, 216707000000000000000000, 216869000000000000000000,
     217032000000000000000000, 217195000000000000000000, 217358000000000000000000, 217522000000000000000000,
     217685000000000000000000, 217848000000000000000000, 218011000000000000000000, 218174000000000000000000,
     218338000000000000000000, 218501000000000000000000, 218665000000000000000000, 218828000000000000000000,
     218992000000000000000000, 219155000000000000000000, 219319000000000000000000, 219482000000000000000000,
     219646000000000000000000, 219810000000000000000000, 219974000000000000000000, 220138000000000000000000,
     220302000000000000000000, 220465000000000000000000, 220630000000000000000000, 220794000000000000000000,
     220958000000000000000000, 221122000000000000000000, 221286000000000000000000, 221450000000000000000000,
     221615000000000000000000, 221779000000000000000000, 221943000000000000000000, 222108000000000000000000,
     222272000000000000000000, 222437000000000000000000, 222602000000000000000000, 222766000000000000000000,
     222931000000000000000000, 223096000000000000000000, 223260000000000000000000, 223425000000000000000000,
     223590000000000000000000, 223755000000000000000000, 223920000000000000000000, 224085000000000000000000,
     224250000000000000000000, 224415000000000000000000, 224581000000000000000000, 224746000000000000000000,
     224911000000000000000000, 225077000000000000000000, 225242000000000000000000, 225407000000000000000000,
     225573000000000000000000, 225739000000000000000000, 225904000000000000000000, 226070000000000000000000,
     226236000000000000000000, 226401000000000000000000, 226567000000000000000000, 226733000000000000000000,
     226899000000000000000000, 227065000000000000000000, 227231000000000000000000, 227397000000000000000000,
     227563000000000000000000, 227729000000000000000000, 227895000000000000000000, 228062000000000000000000,
     228228000000000000000000, 228394000000000000000000, 228561000000000000000000, 228727000000000000000000,
     228894000000000000000000, 229060000000000000000000, 229227000000000000000000, 229394000000000000000000,
     229561000000000000000000, 229727000000000000000000, 229894000000000000000000, 230061000000000000000000,
     230228000000000000000000, 230395000000000000000000, 230562000000000000000000, 230729000000000000000000,
     230896000000000000000000, 231064000000000000000000, 231231000000000000000000, 231398000000000000000000,
     231566000000000000000000, 231733000000000000000000, 231901000000000000000000, 232068000000000000000000,
     232236000000000000000000, 232403000000000000000000, 232571000000000000000000, 232739000000000000000000,
     232907000000000000000000, 233074000000000000000000, 233242000000000000000000, 233410000000000000000000,
     233578000000000000000000, 233746000000000000000000, 233915000000000000000000, 234083000000000000000000,
     234251000000000000000000, 234419000000000000000000, 234588000000000000000000, 234756000000000000000000,
     234924000000000000000000, 235093000000000000000000, 235262000000000000000000, 235430000000000000000000,
     235599000000000000000000, 235768000000000000000000, 235936000000000000000000, 236105000000000000000000,
     236274000000000000000000, 236443000000000000000000, 236612000000000000000000, 236781000000000000000000,
     236950000000000000000000, 237119000000000000000000, 237289000000000000000000, 237458000000000000000000,
     237627000000000000000000, 237797000000000000000000]"

definition stakeAmountListMainnet12 :: "int list" where
  "stakeAmountListMainnet12 = [
     237966000000000000000000, 238136000000000000000000, 238305000000000000000000, 238475000000000000000000,
     238644000000000000000000, 238814000000000000000000, 238984000000000000000000, 239154000000000000000000,
     239324000000000000000000, 239494000000000000000000, 239664000000000000000000, 239834000000000000000000,
     240004000000000000000000, 240174000000000000000000, 240344000000000000000000, 240514000000000000000000,
     240685000000000000000000, 240855000000000000000000, 241026000000000000000000, 241196000000000000000000,
     241367000000000000000000, 241537000000000000000000, 241708000000000000000000, 241879000000000000000000,
     242050000000000000000000, 242220000000000000000000, 242391000000000000000000, 242562000000000000000000,
     242733000000000000000000, 242904000000000000000000, 243076000000000000000000, 243247000000000000000000,
     243418000000000000000000, 243589000000000000000000, 243761000000000000000000, 243932000000000000000000,
     244104000000000000000000, 244275000000000000000000, 244447000000000000000000, 244619000000000000000000,
     244790000000000000000000, 244962000000000000000000, 245134000000000000000000, 245306000000000000000000,
     245478000000000000000000, 245650000000000000000000, 245822000000000000000000, 245994000000000000000000,
     246166000000000000000000, 246339000000000000000000, 246511000000000000000000, 246683000000000000000000,
     246856000000000000000000, 247028000000000000000000, 247201000000000000000000, 247373000000000000000000,
     247546000000000000000000, 247719000000000000000000, 247892000000000000000000, 248064000000000000000000,
     248237000000000000000000, 248410000000000000000000, 248583000000000000000000, 248756000000000000000000,
     248930000000000000000000, 249103000000000000000000, 249276000000000000000000, 249449000000000000000000,
     249623000000000000000000, 249796000000000000000000, 249970000000000000000000, 250143000000000000000000,
     250317000000000000000000, 250491000000000000000000, 250665000000000000000000, 250838000000000000000000,
     251012000000000000000000, 251186000000000000000000, 251360000000000000000000, 251534000000000000000000,
     251708000000000000000000, 251883000000000000000000, 252057000000000000000000, 252231000000000000000000,
     252406000000000000000000, 252580000000000000000000, 252755000000000000000000, 252929000000000000000000,
     253104000000000000000000, 253278000000000000000000, 253453000000000000000000, 253628000000000000000000,
     253803000000000000000000, 253978000000000000000000, 254153000000000000000000, 254328000000000000000000,
     254503000000000000000000, 254678000000000000000000, 254854000000000000000000, 255029000000000000000000,
     255204000000000000000000, 255380000000000000000000, 255555000000000000000000, 255731000000000000000000,
     255906000000000000000000, 256082000000000000000000, 256258000000000000000000, 256434000000000000000000,
     256610000000000000000000, 256786000000000000000000, 256962000000000000000000, 257138000000000000000000,
     257314000000000000000000, 257490000000000000000000, 257666000000000000000000, 257843000000000000000000,
     258019000000000000000000, 258196000000000000000000, 258372000000000000000000, 258549000000000000000000,
     258725000000000000000000, 258902000000000000000000, 259079000000000000000000, 259256000000000000000000,
     259433000000000000000000, 259610000000000000000000, 259787000000000000000000, 259964000000000000000000,
     260141000000000000000000, 260318000000000000000000, 260496000000000000000000, 260673000000000000000000,
     260851000000000000000000, 261028000000000000000000, 261206000000000000000000, 261383000000000000000000,
     261561000000000000000000, 261739000000000000000000, 261917000000000000000000, 262095000000000000000000,
     262273000000000000000000, 262451000000000000000000, 262629000000000000000000, 262807000000000000000000,
     262985000000000000000000, 263164000000000000000000, 263342000000000000000000, 263520000000000000000000,
     263699000000000000000000, 263877000000000000000000]"

definition stakeAmountListMainnet13 :: "int list" where
  "stakeAmountListMainnet13 = [
     264056000000000000000000, 264235000000000000000000, 264414000000000000000000, 264592000000000000000000,
     264771000000000000000000, 264950000000000000000000, 265129000000000000000000, 265309000000000000000000,
     265488000000000000000000, 265667000000000000000000, 265846000000000000000000, 266026000000000000000000,
     266205000000000000000000, 266385000000000000000000, 266564000000000000000000, 266744000000000000000000,
     266924000000000000000000, 267104000000000000000000, 267284000000000000000000, 267464000000000000000000,
     267644000000000000000000, 267824000000000000000000, 268004000000000000000000, 268184000000000000000000,
     268364000000000000000000, 268545000000000000000000, 268725000000000000000000, 268906000000000000000000,
     269086000000000000000000, 269267000000000000000000, 269448000000000000000000, 269628000000000000000000,
     269809000000000000000000, 269990000000000000000000, 270171000000000000000000, 270352000000000000000000,
     270533000000000000000000, 270715000000000000000000, 270896000000000000000000, 271077000000000000000000,
     271259000000000000000000, 271440000000000000000000, 271622000000000000000000, 271804000000000000000000,
     271985000000000000000000, 272167000000000000000000, 272349000000000000000000, 272531000000000000000000,
     272713000000000000000000, 272895000000000000000000, 273077000000000000000000, 273259000000000000000000,
     273442000000000000000000, 273624000000000000000000, 273806000000000000000000, 273989000000000000000000,
     274171000000000000000000, 274354000000000000000000, 274537000000000000000000, 274720000000000000000000,
     274903000000000000000000, 275085000000000000000000, 275268000000000000000000, 275452000000000000000000,
     275635000000000000000000, 275818000000000000000000, 276001000000000000000000, 276185000000000000000000,
     276368000000000000000000, 276552000000000000000000, 276735000000000000000000, 276919000000000000000000,
     277103000000000000000000, 277287000000000000000000, 277471000000000000000000, 277654000000000000000000,
     277839000000000000000000, 278023000000000000000000, 278207000000000000000000, 278391000000000000000000,
     278576000000000000000000, 278760000000000000000000, 278944000000000000000000, 279129000000000000000000,
     279314000000000000000000, 279498000000000000000000, 279683000000000000000000, 279868000000000000000000,
     280053000000000000000000, 280238000000000000000000, 280423000000000000000000, 280608000000000000000000,
     280794000000000000000000, 280979000000000000000000, 281164000000000000000000, 281350000000000000000000,
     281536000000000000000000, 281721000000000000000000, 281907000000000000000000, 282093000000000000000000,
     282279000000000000000000, 282465000000000000000000, 282651000000000000000000, 282837000000000000000000,
     283023000000000000000000, 283209000000000000000000, 283396000000000000000000, 283582000000000000000000,
     283768000000000000000000, 283955000000000000000000, 284142000000000000000000, 284328000000000000000000,
     284515000000000000000000, 284702000000000000000000, 284889000000000000000000, 285076000000000000000000,
     285263000000000000000000, 285451000000000000000000, 285638000000000000000000, 285825000000000000000000,
     286013000000000000000000, 286200000000000000000000, 286388000000000000000000, 286575000000000000000000,
     286763000000000000000000, 286951000000000000000000, 287139000000000000000000, 287327000000000000000000,
     287515000000000000000000, 287703000000000000000000, 287891000000000000000000, 288080000000000000000000,
     288268000000000000000000, 288457000000000000000000, 288645000000000000000000, 288834000000000000000000,
     289023000000000000000000, 289211000000000000000000, 289400000000000000000000, 289589000000000000000000,
     289778000000000000000000, 289968000000000000000000, 290157000000000000000000, 290346000000000000000000,
     290535000000000000000000, 290725000000000000000000, 290914000000000000000000, 291104000000000000000000,
     291294000000000000000000, 291484000000000000000000]"

definition stakeAmountListMainnet14 :: "int list" where
  "stakeAmountListMainnet14 = [
     291673000000000000000000, 291863000000000000000000, 292053000000000000000000, 292244000000000000000000,
     292434000000000000000000, 292624000000000000000000, 292814000000000000000000, 293005000000000000000000,
     293195000000000000000000, 293386000000000000000000, 293577000000000000000000, 293768000000000000000000,
     293958000000000000000000, 294149000000000000000000, 294340000000000000000000, 294532000000000000000000,
     294723000000000000000000, 294914000000000000000000, 295105000000000000000000, 295297000000000000000000,
     295489000000000000000000, 295680000000000000000000, 295872000000000000000000, 296064000000000000000000,
     296256000000000000000000, 296448000000000000000000, 296640000000000000000000, 296832000000000000000000,
     297024000000000000000000, 297216000000000000000000, 297409000000000000000000, 297601000000000000000000,
     297794000000000000000000, 297986000000000000000000, 298179000000000000000000, 298372000000000000000000,
     298565000000000000000000, 298758000000000000000000, 298951000000000000000000, 299144000000000000000000,
     299338000000000000000000, 299531000000000000000000, 299724000000000000000000, 299918000000000000000000,
     300112000000000000000000, 300305000000000000000000, 300499000000000000000000, 300693000000000000000000,
     300887000000000000000000, 301081000000000000000000, 301275000000000000000000, 301469000000000000000000,
     301664000000000000000000, 301858000000000000000000, 302053000000000000000000, 302247000000000000000000,
     302442000000000000000000, 302637000000000000000000, 302832000000000000000000, 303027000000000000000000,
     303222000000000000000000, 303417000000000000000000, 303612000000000000000000, 303807000000000000000000,
     304003000000000000000000, 304198000000000000000000, 304394000000000000000000, 304590000000000000000000,
     304785000000000000000000, 304981000000000000000000, 305177000000000000000000, 305373000000000000000000,
     305569000000000000000000, 305766000000000000000000, 305962000000000000000000, 306158000000000000000000,
     306355000000000000000000, 306551000000000000000000, 306748000000000000000000, 306945000000000000000000,
     307142000000000000000000, 307339000000000000000000, 307536000000000000000000, 307733000000000000000000,
     307930000000000000000000, 308128000000000000000000, 308325000000000000000000, 308522000000000000000000,
     308720000000000000000000, 308918000000000000000000, 309116000000000000000000, 309314000000000000000000,
     309512000000000000000000, 309710000000000000000000, 309908000000000000000000, 310106000000000000000000,
     310304000000000000000000, 310503000000000000000000, 310701000000000000000000, 310900000000000000000000,
     311099000000000000000000, 311298000000000000000000, 311497000000000000000000, 311696000000000000000000,
     311895000000000000000000, 312094000000000000000000, 312293000000000000000000, 312493000000000000000000,
     312692000000000000000000, 312892000000000000000000, 313092000000000000000000, 313291000000000000000000,
     313491000000000000000000, 313691000000000000000000, 313892000000000000000000, 314092000000000000000000,
     314292000000000000000000, 314492000000000000000000, 314693000000000000000000, 314893000000000000000000,
     315094000000000000000000, 315295000000000000000000, 315496000000000000000000, 315697000000000000000000,
     315898000000000000000000, 316099000000000000000000, 316300000000000000000000, 316502000000000000000000,
     316703000000000000000000, 316905000000000000000000, 317106000000000000000000, 317308000000000000000000,
     317510000000000000000000, 317712000000000000000000, 317914000000000000000000, 318116000000000000000000,
     318319000000000000000000, 318521000000000000000000, 318723000000000000000000, 318926000000000000000000,
     319129000000000000000000, 319331000000000000000000, 319534000000000000000000, 319737000000000000000000,
     319940000000000000000000, 320144000000000000000000, 320347000000000000000000, 320550000000000000000000,
     320754000000000000000000, 320957000000000000000000]"

definition stakeAmountListMainnet15 :: "int list" where
  "stakeAmountListMainnet15 = [
     321161000000000000000000, 321365000000000000000000, 321569000000000000000000, 321773000000000000000000,
     321977000000000000000000, 322181000000000000000000, 322385000000000000000000, 322590000000000000000000,
     322794000000000000000000, 322999000000000000000000, 323204000000000000000000, 323408000000000000000000,
     323613000000000000000000, 323818000000000000000000, 324024000000000000000000, 324229000000000000000000,
     324434000000000000000000, 324640000000000000000000, 324845000000000000000000, 325051000000000000000000,
     325257000000000000000000, 325462000000000000000000, 325668000000000000000000, 325875000000000000000000,
     326081000000000000000000, 326287000000000000000000, 326493000000000000000000, 326700000000000000000000,
     326907000000000000000000, 327113000000000000000000, 327320000000000000000000, 327527000000000000000000,
     327734000000000000000000, 327941000000000000000000, 328149000000000000000000, 328356000000000000000000,
     328563000000000000000000, 328771000000000000000000, 328979000000000000000000, 329186000000000000000000,
     329394000000000000000000, 329602000000000000000000, 329811000000000000000000, 330019000000000000000000,
     330227000000000000000000, 330436000000000000000000, 330644000000000000000000, 330853000000000000000000,
     331062000000000000000000, 331271000000000000000000, 331480000000000000000000, 331689000000000000000000,
     331898000000000000000000, 332107000000000000000000, 332317000000000000000000, 332526000000000000000000,
     332736000000000000000000, 332946000000000000000000, 333156000000000000000000, 333366000000000000000000,
     333576000000000000000000, 333786000000000000000000, 333996000000000000000000, 334207000000000000000000,
     334417000000000000000000, 334628000000000000000000, 334839000000000000000000, 335050000000000000000000,
     335261000000000000000000, 335472000000000000000000, 335683000000000000000000, 335895000000000000000000,
     336106000000000000000000, 336318000000000000000000, 336529000000000000000000, 336741000000000000000000,
     336953000000000000000000, 337165000000000000000000, 337377000000000000000000, 337590000000000000000000,
     337802000000000000000000, 338015000000000000000000, 338227000000000000000000, 338440000000000000000000,
     338653000000000000000000, 338866000000000000000000, 339079000000000000000000, 339292000000000000000000,
     339506000000000000000000, 339719000000000000000000, 339933000000000000000000, 340146000000000000000000,
     340360000000000000000000, 340574000000000000000000, 340788000000000000000000, 341002000000000000000000,
     341216000000000000000000, 341431000000000000000000, 341645000000000000000000, 341860000000000000000000,
     342075000000000000000000, 342290000000000000000000, 342505000000000000000000, 342720000000000000000000,
     342935000000000000000000, 343150000000000000000000, 343366000000000000000000, 343581000000000000000000,
     343797000000000000000000, 344013000000000000000000, 344229000000000000000000, 344445000000000000000000,
     344661000000000000000000, 344877000000000000000000, 345094000000000000000000, 345310000000000000000000,
     345527000000000000000000, 345744000000000000000000, 345961000000000000000000, 346178000000000000000000,
     346395000000000000000000, 346612000000000000000000, 346830000000000000000000, 347047000000000000000000,
     347265000000000000000000, 347483000000000000000000, 347701000000000000000000, 347919000000000000000000,
     348137000000000000000000, 348355000000000000000000, 348574000000000000000000, 348792000000000000000000,
     349011000000000000000000, 349230000000000000000000, 349449000000000000000000, 349668000000000000000000,
     349887000000000000000000, 350106000000000000000000, 350326000000000000000000, 350545000000000000000000,
     350765000000000000000000, 350985000000000000000000, 351205000000000000000000, 351425000000000000000000,
     351645000000000000000000, 351865000000000000000000, 352086000000000000000000, 352306000000000000000000,
     352527000000000000000000, 352748000000000000000000]"

definition stakeAmountListMainnet16 :: "int list" where
  "stakeAmountListMainnet16 = [
     352969000000000000000000, 353190000000000000000000, 353411000000000000000000, 353632000000000000000000,
     353854000000000000000000, 354075000000000000000000, 354297000000000000000000, 354519000000000000000000,
     354741000000000000000000, 354963000000000000000000, 355185000000000000000000, 355408000000000000000000,
     355630000000000000000000, 355853000000000000000000, 356076000000000000000000, 356299000000000000000000,
     356522000000000000000000, 356745000000000000000000, 356968000000000000000000, 357192000000000000000000,
     357415000000000000000000, 357639000000000000000000, 357863000000000000000000, 358087000000000000000000,
     358311000000000000000000, 358535000000000000000000, 358760000000000000000000, 358984000000000000000000,
     359209000000000000000000, 359434000000000000000000, 359659000000000000000000, 359884000000000000000000,
     360109000000000000000000, 360334000000000000000000, 360560000000000000000000, 360785000000000000000000,
     361011000000000000000000, 361237000000000000000000, 361463000000000000000000, 361689000000000000000000,
     361915000000000000000000, 362142000000000000000000, 362368000000000000000000, 362595000000000000000000,
     362822000000000000000000, 363049000000000000000000, 363276000000000000000000, 363503000000000000000000,
     363731000000000000000000, 363958000000000000000000, 364186000000000000000000, 364414000000000000000000,
     364642000000000000000000, 364870000000000000000000, 365098000000000000000000, 365327000000000000000000,
     365555000000000000000000, 365784000000000000000000, 366013000000000000000000, 366242000000000000000000,
     366471000000000000000000, 366700000000000000000000, 366929000000000000000000, 367159000000000000000000,
     367388000000000000000000, 367618000000000000000000, 367848000000000000000000, 368078000000000000000000,
     368309000000000000000000, 368539000000000000000000, 368770000000000000000000, 369000000000000000000000,
     369231000000000000000000, 369462000000000000000000, 369693000000000000000000, 369924000000000000000000,
     370156000000000000000000, 370387000000000000000000, 370619000000000000000000, 370851000000000000000000,
     371083000000000000000000, 371315000000000000000000, 371547000000000000000000, 371780000000000000000000,
     372013000000000000000000, 372245000000000000000000, 372478000000000000000000, 372711000000000000000000,
     372944000000000000000000, 373178000000000000000000, 373411000000000000000000, 373645000000000000000000,
     373879000000000000000000, 374113000000000000000000, 374347000000000000000000, 374581000000000000000000,
     374815000000000000000000, 375050000000000000000000, 375285000000000000000000, 375519000000000000000000,
     375754000000000000000000, 375990000000000000000000, 376225000000000000000000, 376460000000000000000000,
     376696000000000000000000, 376932000000000000000000, 377168000000000000000000, 377404000000000000000000,
     377640000000000000000000, 377876000000000000000000, 378113000000000000000000, 378350000000000000000000,
     378587000000000000000000, 378824000000000000000000, 379061000000000000000000, 379298000000000000000000,
     379536000000000000000000, 379773000000000000000000, 380011000000000000000000, 380249000000000000000000,
     380487000000000000000000, 380725000000000000000000, 380964000000000000000000, 381202000000000000000000,
     381441000000000000000000, 381680000000000000000000, 381919000000000000000000, 382158000000000000000000,
     382398000000000000000000, 382637000000000000000000, 382877000000000000000000, 383117000000000000000000,
     383357000000000000000000, 383597000000000000000000, 383837000000000000000000, 384078000000000000000000,
     384319000000000000000000, 384559000000000000000000, 384800000000000000000000, 385042000000000000000000,
     385283000000000000000000, 385524000000000000000000, 385766000000000000000000, 386008000000000000000000,
     386250000000000000000000, 386492000000000000000000, 386734000000000000000000, 386977000000000000000000,
     387219000000000000000000, 387462000000000000000000]"

definition stakeAmountListMainnet17 :: "int list" where
  "stakeAmountListMainnet17 = [
     387705000000000000000000, 387948000000000000000000, 388192000000000000000000, 388435000000000000000000,
     388679000000000000000000, 388923000000000000000000, 389167000000000000000000, 389411000000000000000000,
     389655000000000000000000, 389900000000000000000000, 390144000000000000000000, 390389000000000000000000,
     390634000000000000000000, 390879000000000000000000, 391125000000000000000000, 391370000000000000000000,
     391616000000000000000000, 391862000000000000000000, 392108000000000000000000, 392354000000000000000000,
     392600000000000000000000, 392847000000000000000000, 393094000000000000000000, 393340000000000000000000,
     393588000000000000000000, 393835000000000000000000, 394082000000000000000000, 394330000000000000000000,
     394578000000000000000000, 394825000000000000000000, 395074000000000000000000, 395322000000000000000000,
     395570000000000000000000, 395819000000000000000000, 396068000000000000000000, 396317000000000000000000,
     396566000000000000000000, 396815000000000000000000, 397065000000000000000000, 397315000000000000000000,
     397565000000000000000000, 397815000000000000000000, 398065000000000000000000, 398315000000000000000000,
     398566000000000000000000, 398817000000000000000000, 399068000000000000000000, 399319000000000000000000,
     399570000000000000000000, 399822000000000000000000, 400073000000000000000000, 400325000000000000000000,
     400577000000000000000000, 400830000000000000000000, 401082000000000000000000, 401335000000000000000000,
     401587000000000000000000, 401840000000000000000000, 402094000000000000000000, 402347000000000000000000,
     402600000000000000000000, 402854000000000000000000, 403108000000000000000000, 403362000000000000000000,
     403617000000000000000000, 403871000000000000000000, 404126000000000000000000, 404381000000000000000000,
     404636000000000000000000, 404891000000000000000000, 405146000000000000000000, 405402000000000000000000,
     405658000000000000000000, 405914000000000000000000, 406170000000000000000000, 406426000000000000000000,
     406683000000000000000000, 406940000000000000000000, 407196000000000000000000, 407454000000000000000000,
     407711000000000000000000, 407968000000000000000000, 408226000000000000000000, 408484000000000000000000,
     408742000000000000000000, 409001000000000000000000, 409259000000000000000000, 409518000000000000000000,
     409777000000000000000000, 410036000000000000000000, 410295000000000000000000, 410554000000000000000000,
     410814000000000000000000, 411074000000000000000000, 411334000000000000000000, 411594000000000000000000,
     411855000000000000000000, 412116000000000000000000, 412376000000000000000000, 412637000000000000000000,
     412899000000000000000000, 413160000000000000000000, 413422000000000000000000, 413684000000000000000000,
     413946000000000000000000, 414208000000000000000000, 414471000000000000000000, 414733000000000000000000,
     414996000000000000000000, 415259000000000000000000, 415523000000000000000000, 415786000000000000000000,
     416050000000000000000000, 416314000000000000000000, 416578000000000000000000, 416842000000000000000000,
     417107000000000000000000, 417371000000000000000000, 417636000000000000000000, 417902000000000000000000,
     418167000000000000000000, 418432000000000000000000, 418698000000000000000000, 418964000000000000000000,
     419230000000000000000000, 419497000000000000000000, 419764000000000000000000, 420030000000000000000000,
     420297000000000000000000, 420565000000000000000000, 420832000000000000000000, 421100000000000000000000,
     421368000000000000000000, 421636000000000000000000, 421904000000000000000000, 422173000000000000000000,
     422441000000000000000000, 422710000000000000000000, 422980000000000000000000, 423249000000000000000000,
     423519000000000000000000, 423789000000000000000000, 424059000000000000000000, 424329000000000000000000,
     424599000000000000000000, 424870000000000000000000, 425141000000000000000000, 425412000000000000000000,
     425684000000000000000000, 425955000000000000000000]"

definition stakeAmountListMainnet18 :: "int list" where
  "stakeAmountListMainnet18 = [
     426227000000000000000000, 426499000000000000000000, 426771000000000000000000, 427044000000000000000000,
     427316000000000000000000, 427589000000000000000000, 427863000000000000000000, 428136000000000000000000,
     428409000000000000000000, 428683000000000000000000, 428957000000000000000000, 429232000000000000000000,
     429506000000000000000000, 429781000000000000000000, 430056000000000000000000, 430331000000000000000000,
     430606000000000000000000, 430882000000000000000000, 431158000000000000000000, 431434000000000000000000,
     431710000000000000000000, 431987000000000000000000, 432264000000000000000000, 432541000000000000000000,
     432818000000000000000000, 433096000000000000000000, 433373000000000000000000, 433651000000000000000000,
     433930000000000000000000, 434208000000000000000000, 434487000000000000000000, 434766000000000000000000,
     435045000000000000000000, 435324000000000000000000, 435604000000000000000000, 435884000000000000000000,
     436164000000000000000000, 436444000000000000000000, 436725000000000000000000, 437005000000000000000000,
     437286000000000000000000, 437568000000000000000000, 437849000000000000000000, 438131000000000000000000,
     438413000000000000000000, 438695000000000000000000, 438978000000000000000000, 439261000000000000000000,
     439544000000000000000000, 439827000000000000000000, 440110000000000000000000, 440394000000000000000000,
     440678000000000000000000, 440962000000000000000000, 441247000000000000000000, 441531000000000000000000,
     441816000000000000000000, 442102000000000000000000, 442387000000000000000000, 442673000000000000000000,
     442959000000000000000000, 443245000000000000000000, 443531000000000000000000, 443818000000000000000000,
     444105000000000000000000, 444392000000000000000000, 444680000000000000000000, 444968000000000000000000,
     445256000000000000000000, 445544000000000000000000, 445832000000000000000000, 446121000000000000000000,
     446410000000000000000000, 446699000000000000000000, 446989000000000000000000, 447279000000000000000000,
     447569000000000000000000, 447859000000000000000000, 448150000000000000000000, 448441000000000000000000,
     448732000000000000000000, 449023000000000000000000, 449315000000000000000000, 449607000000000000000000,
     449899000000000000000000, 450191000000000000000000, 450484000000000000000000, 450777000000000000000000,
     451070000000000000000000, 451363000000000000000000, 451657000000000000000000, 451951000000000000000000,
     452245000000000000000000, 452540000000000000000000, 452835000000000000000000, 453130000000000000000000,
     453425000000000000000000, 453721000000000000000000, 454017000000000000000000, 454313000000000000000000,
     454610000000000000000000, 454906000000000000000000, 455203000000000000000000, 455501000000000000000000,
     455798000000000000000000, 456096000000000000000000, 456394000000000000000000, 456692000000000000000000,
     456991000000000000000000, 457290000000000000000000, 457589000000000000000000, 457889000000000000000000,
     458189000000000000000000, 458489000000000000000000, 458789000000000000000000, 459090000000000000000000,
     459391000000000000000000, 459692000000000000000000, 459993000000000000000000, 460295000000000000000000,
     460597000000000000000000, 460899000000000000000000, 461202000000000000000000, 461505000000000000000000,
     461808000000000000000000, 462112000000000000000000, 462415000000000000000000, 462720000000000000000000,
     463024000000000000000000, 463329000000000000000000, 463634000000000000000000, 463939000000000000000000,
     464244000000000000000000, 464550000000000000000000, 464856000000000000000000, 465163000000000000000000,
     465470000000000000000000, 465777000000000000000000, 466084000000000000000000, 466391000000000000000000,
     466699000000000000000000, 467008000000000000000000, 467316000000000000000000, 467625000000000000000000,
     467934000000000000000000, 468244000000000000000000, 468553000000000000000000, 468863000000000000000000,
     469174000000000000000000, 469484000000000000000000]"

definition stakeAmountListMainnet19 :: "int list" where
  "stakeAmountListMainnet19 = [
     469795000000000000000000, 470107000000000000000000, 470418000000000000000000, 470730000000000000000000,
     471042000000000000000000, 471355000000000000000000, 471668000000000000000000, 471981000000000000000000,
     472294000000000000000000, 472608000000000000000000, 472922000000000000000000, 473236000000000000000000,
     473551000000000000000000, 473866000000000000000000, 474181000000000000000000, 474497000000000000000000,
     474813000000000000000000, 475129000000000000000000, 475446000000000000000000, 475763000000000000000000,
     476080000000000000000000, 476398000000000000000000, 476715000000000000000000, 477034000000000000000000,
     477352000000000000000000, 477671000000000000000000, 477990000000000000000000, 478310000000000000000000,
     478630000000000000000000, 478950000000000000000000, 479270000000000000000000, 479591000000000000000000,
     479912000000000000000000, 480234000000000000000000, 480556000000000000000000, 480878000000000000000000,
     481200000000000000000000, 481523000000000000000000, 481846000000000000000000, 482170000000000000000000,
     482494000000000000000000, 482818000000000000000000, 483142000000000000000000, 483467000000000000000000,
     483792000000000000000000, 484118000000000000000000, 484444000000000000000000, 484770000000000000000000,
     485097000000000000000000, 485424000000000000000000, 485751000000000000000000, 486078000000000000000000,
     486406000000000000000000, 486735000000000000000000, 487063000000000000000000, 487392000000000000000000,
     487722000000000000000000, 488051000000000000000000, 488382000000000000000000, 488712000000000000000000,
     489043000000000000000000, 489374000000000000000000, 489705000000000000000000, 490037000000000000000000,
     490369000000000000000000, 490702000000000000000000, 491035000000000000000000, 491368000000000000000000,
     491702000000000000000000, 492036000000000000000000, 492370000000000000000000, 492705000000000000000000,
     493040000000000000000000, 493375000000000000000000, 493711000000000000000000, 494048000000000000000000,
     494384000000000000000000, 494721000000000000000000, 495058000000000000000000, 495396000000000000000000,
     495734000000000000000000, 496073000000000000000000, 496411000000000000000000, 496750000000000000000000,
     497090000000000000000000, 497430000000000000000000, 497770000000000000000000, 498111000000000000000000,
     498452000000000000000000, 498794000000000000000000, 499135000000000000000000, 499478000000000000000000,
     499820000000000000000000, 500163000000000000000000, 500507000000000000000000, 500850000000000000000000,
     501195000000000000000000, 501539000000000000000000, 501884000000000000000000, 502229000000000000000000,
     502575000000000000000000, 502921000000000000000000, 503268000000000000000000, 503615000000000000000000,
     503962000000000000000000, 504310000000000000000000, 504658000000000000000000, 505006000000000000000000,
     505355000000000000000000, 505705000000000000000000, 506054000000000000000000, 506404000000000000000000,
     506755000000000000000000, 507106000000000000000000, 507457000000000000000000, 507809000000000000000000,
     508161000000000000000000, 508514000000000000000000, 508867000000000000000000, 509220000000000000000000,
     509574000000000000000000, 509928000000000000000000, 510283000000000000000000, 510638000000000000000000,
     510993000000000000000000, 511349000000000000000000, 511706000000000000000000, 512062000000000000000000,
     512419000000000000000000, 512777000000000000000000, 513135000000000000000000, 513494000000000000000000,
     513852000000000000000000, 514212000000000000000000, 514571000000000000000000, 514932000000000000000000,
     515292000000000000000000, 515653000000000000000000, 516015000000000000000000, 516377000000000000000000,
     516739000000000000000000, 517102000000000000000000, 517465000000000000000000, 517829000000000000000000,
     518193000000000000000000, 518557000000000000000000, 518922000000000000000000, 519288000000000000000000,
     519654000000000000000000, 520020000000000000000000]"

definition stakeAmountListMainnet20 :: "int list" where
  "stakeAmountListMainnet20 = [
     520387000000000000000000, 520754000000000000000000, 521122000000000000000000, 521490000000000000000000,
     521859000000000000000000, 522228000000000000000000, 522597000000000000000000, 522967000000000000000000,
     523338000000000000000000, 523708000000000000000000, 524080000000000000000000, 524452000000000000000000,
     524824000000000000000000, 525197000000000000000000, 525570000000000000000000, 525944000000000000000000,
     526318000000000000000000, 526692000000000000000000, 527068000000000000000000, 527443000000000000000000,
     527819000000000000000000, 528196000000000000000000, 528573000000000000000000, 528950000000000000000000,
     529328000000000000000000, 529707000000000000000000, 530086000000000000000000, 530465000000000000000000,
     530845000000000000000000, 531226000000000000000000, 531607000000000000000000, 531988000000000000000000,
     532370000000000000000000, 532752000000000000000000, 533135000000000000000000, 533519000000000000000000,
     533902000000000000000000, 534287000000000000000000, 534672000000000000000000, 535057000000000000000000,
     535443000000000000000000, 535829000000000000000000, 536216000000000000000000, 536604000000000000000000,
     536992000000000000000000, 537380000000000000000000, 537769000000000000000000, 538159000000000000000000,
     538549000000000000000000, 538939000000000000000000, 539330000000000000000000, 539722000000000000000000,
     540114000000000000000000, 540507000000000000000000, 540900000000000000000000, 541293000000000000000000,
     541688000000000000000000, 542082000000000000000000, 542478000000000000000000, 542873000000000000000000,
     543270000000000000000000, 543667000000000000000000, 544064000000000000000000, 544462000000000000000000,
     544860000000000000000000, 545259000000000000000000, 545659000000000000000000, 546059000000000000000000,
     546460000000000000000000, 546861000000000000000000, 547263000000000000000000, 547665000000000000000000,
     548068000000000000000000, 548472000000000000000000, 548876000000000000000000, 549280000000000000000000,
     549685000000000000000000, 550091000000000000000000, 550497000000000000000000, 550904000000000000000000,
     551312000000000000000000, 551720000000000000000000, 552128000000000000000000, 552537000000000000000000,
     552947000000000000000000, 553358000000000000000000, 553768000000000000000000, 554180000000000000000000,
     554592000000000000000000, 555005000000000000000000, 555418000000000000000000, 555832000000000000000000,
     556246000000000000000000, 556661000000000000000000, 557077000000000000000000, 557493000000000000000000,
     557910000000000000000000, 558327000000000000000000, 558745000000000000000000, 559164000000000000000000,
     559583000000000000000000, 560003000000000000000000, 560423000000000000000000, 560845000000000000000000,
     561266000000000000000000, 561689000000000000000000, 562111000000000000000000, 562535000000000000000000,
     562959000000000000000000, 563384000000000000000000, 563809000000000000000000, 564236000000000000000000,
     564662000000000000000000, 565090000000000000000000, 565518000000000000000000, 565946000000000000000000,
     566375000000000000000000, 566805000000000000000000, 567236000000000000000000, 567667000000000000000000,
     568099000000000000000000, 568531000000000000000000, 568965000000000000000000, 569398000000000000000000,
     569833000000000000000000, 570268000000000000000000, 570704000000000000000000, 571140000000000000000000,
     571577000000000000000000, 572015000000000000000000, 572454000000000000000000, 572893000000000000000000,
     573333000000000000000000, 573773000000000000000000, 574214000000000000000000, 574656000000000000000000,
     575099000000000000000000, 575542000000000000000000, 575986000000000000000000, 576431000000000000000000,
     576876000000000000000000, 577322000000000000000000, 577769000000000000000000, 578216000000000000000000,
     578664000000000000000000, 579113000000000000000000, 579563000000000000000000, 580013000000000000000000,
     580464000000000000000000, 580916000000000000000000]"

definition stakeAmountListMainnet21 :: "int list" where
  "stakeAmountListMainnet21 = [
     581368000000000000000000, 581821000000000000000000, 582275000000000000000000, 582730000000000000000000,
     583185000000000000000000, 583641000000000000000000, 584098000000000000000000, 584555000000000000000000,
     585014000000000000000000, 585473000000000000000000, 585933000000000000000000, 586393000000000000000000,
     586854000000000000000000, 587316000000000000000000, 587779000000000000000000, 588243000000000000000000,
     588707000000000000000000, 589172000000000000000000, 589638000000000000000000, 590105000000000000000000,
     590572000000000000000000, 591040000000000000000000, 591509000000000000000000, 591979000000000000000000,
     592449000000000000000000, 592921000000000000000000, 593393000000000000000000, 593866000000000000000000,
     594339000000000000000000, 594814000000000000000000, 595289000000000000000000, 595765000000000000000000,
     596242000000000000000000, 596720000000000000000000, 597198000000000000000000, 597678000000000000000000,
     598158000000000000000000, 598639000000000000000000, 599121000000000000000000, 599604000000000000000000,
     600087000000000000000000, 600571000000000000000000, 601057000000000000000000, 601543000000000000000000,
     602029000000000000000000, 602517000000000000000000, 603006000000000000000000, 603495000000000000000000,
     603986000000000000000000, 604477000000000000000000, 604969000000000000000000, 605462000000000000000000,
     605955000000000000000000, 606450000000000000000000, 606946000000000000000000, 607442000000000000000000,
     607939000000000000000000, 608437000000000000000000, 608936000000000000000000, 609436000000000000000000,
     609937000000000000000000, 610439000000000000000000, 610942000000000000000000, 611445000000000000000000,
     611950000000000000000000, 612455000000000000000000, 612962000000000000000000, 613469000000000000000000,
     613977000000000000000000, 614486000000000000000000, 614996000000000000000000, 615507000000000000000000,
     616019000000000000000000, 616532000000000000000000, 617046000000000000000000, 617561000000000000000000,
     618077000000000000000000, 618594000000000000000000, 619111000000000000000000, 619630000000000000000000,
     620150000000000000000000, 620670000000000000000000, 621192000000000000000000, 621715000000000000000000,
     622238000000000000000000, 622763000000000000000000, 623289000000000000000000, 623815000000000000000000,
     624343000000000000000000, 624871000000000000000000, 625401000000000000000000, 625932000000000000000000,
     626463000000000000000000, 626996000000000000000000, 627530000000000000000000, 628065000000000000000000,
     628601000000000000000000, 629138000000000000000000, 629676000000000000000000, 630215000000000000000000,
     630755000000000000000000, 631296000000000000000000, 631838000000000000000000, 632381000000000000000000,
     632926000000000000000000, 633471000000000000000000, 634018000000000000000000, 634565000000000000000000,
     635114000000000000000000, 635664000000000000000000, 636215000000000000000000, 636767000000000000000000,
     637320000000000000000000, 637874000000000000000000, 638430000000000000000000, 638986000000000000000000,
     639544000000000000000000, 640103000000000000000000, 640663000000000000000000, 641224000000000000000000,
     641786000000000000000000, 642350000000000000000000, 642914000000000000000000, 643480000000000000000000,
     644047000000000000000000, 644615000000000000000000, 645184000000000000000000, 645755000000000000000000,
     646327000000000000000000, 646900000000000000000000, 647474000000000000000000, 648049000000000000000000,
     648626000000000000000000, 649204000000000000000000, 649783000000000000000000, 650363000000000000000000,
     650944000000000000000000, 651527000000000000000000, 652111000000000000000000, 652697000000000000000000,
     653283000000000000000000, 653871000000000000000000, 654460000000000000000000, 655051000000000000000000,
     655642000000000000000000, 656235000000000000000000, 656830000000000000000000, 657425000000000000000000,
     658022000000000000000000, 658620000000000000000000]"

definition stakeAmountListMainnet22 :: "int list" where
  "stakeAmountListMainnet22 = [
     659220000000000000000000, 659821000000000000000000, 660423000000000000000000, 661027000000000000000000,
     661632000000000000000000, 662238000000000000000000, 662846000000000000000000, 663455000000000000000000,
     664065000000000000000000, 664677000000000000000000, 665290000000000000000000, 665905000000000000000000,
     666521000000000000000000, 667138000000000000000000, 667757000000000000000000, 668378000000000000000000,
     668999000000000000000000, 669622000000000000000000, 670247000000000000000000, 670873000000000000000000,
     671501000000000000000000, 672130000000000000000000, 672760000000000000000000, 673392000000000000000000,
     674026000000000000000000, 674661000000000000000000, 675297000000000000000000, 675935000000000000000000,
     676575000000000000000000, 677216000000000000000000, 677858000000000000000000, 678503000000000000000000,
     679148000000000000000000, 679795000000000000000000, 680444000000000000000000, 681095000000000000000000,
     681747000000000000000000, 682400000000000000000000, 683056000000000000000000, 683712000000000000000000,
     684371000000000000000000, 685031000000000000000000, 685693000000000000000000, 686356000000000000000000,
     687021000000000000000000, 687688000000000000000000, 688356000000000000000000, 689026000000000000000000,
     689698000000000000000000, 690371000000000000000000, 691047000000000000000000, 691724000000000000000000,
     692402000000000000000000, 693082000000000000000000, 693765000000000000000000, 694448000000000000000000,
     695134000000000000000000, 695821000000000000000000, 696511000000000000000000, 697202000000000000000000,
     697894000000000000000000, 698589000000000000000000, 699285000000000000000000, 699984000000000000000000,
     700684000000000000000000, 701386000000000000000000, 702090000000000000000000, 702795000000000000000000,
     703503000000000000000000, 704213000000000000000000, 704924000000000000000000, 705637000000000000000000,
     706353000000000000000000, 707070000000000000000000, 707789000000000000000000, 708510000000000000000000,
     709233000000000000000000, 709958000000000000000000, 710686000000000000000000, 711415000000000000000000,
     712146000000000000000000, 712879000000000000000000, 713614000000000000000000, 714352000000000000000000,
     715091000000000000000000, 715832000000000000000000, 716576000000000000000000, 717322000000000000000000,
     718069000000000000000000, 718819000000000000000000, 719571000000000000000000, 720326000000000000000000,
     721082000000000000000000, 721841000000000000000000, 722602000000000000000000, 723365000000000000000000,
     724130000000000000000000, 724897000000000000000000, 725667000000000000000000, 726439000000000000000000,
     727213000000000000000000, 727990000000000000000000, 728769000000000000000000, 729550000000000000000000,
     730334000000000000000000, 731120000000000000000000, 731908000000000000000000, 732699000000000000000000,
     733492000000000000000000, 734287000000000000000000, 735085000000000000000000, 735886000000000000000000,
     736689000000000000000000, 737494000000000000000000, 738302000000000000000000, 739112000000000000000000,
     739925000000000000000000, 740741000000000000000000, 741559000000000000000000, 742379000000000000000000,
     743202000000000000000000, 744028000000000000000000, 744857000000000000000000, 745688000000000000000000,
     746521000000000000000000, 747358000000000000000000, 748197000000000000000000, 749039000000000000000000,
     749883000000000000000000, 750731000000000000000000, 751581000000000000000000, 752434000000000000000000,
     753290000000000000000000, 754148000000000000000000, 755010000000000000000000, 755874000000000000000000,
     756741000000000000000000, 757611000000000000000000, 758484000000000000000000, 759360000000000000000000,
     760239000000000000000000, 761121000000000000000000, 762006000000000000000000, 762895000000000000000000,
     763786000000000000000000, 764680000000000000000000, 765577000000000000000000, 766478000000000000000000,
     767381000000000000000000, 768288000000000000000000]"

definition stakeAmountListMainnet23 :: "int list" where
  "stakeAmountListMainnet23 = [
     769198000000000000000000, 770111000000000000000000, 771028000000000000000000, 771948000000000000000000,
     772871000000000000000000, 773797000000000000000000, 774727000000000000000000, 775660000000000000000000,
     776596000000000000000000, 777536000000000000000000, 778480000000000000000000, 779427000000000000000000,
     780377000000000000000000, 781331000000000000000000, 782288000000000000000000, 783249000000000000000000,
     784214000000000000000000, 785182000000000000000000, 786154000000000000000000, 787130000000000000000000,
     788109000000000000000000, 789092000000000000000000, 790079000000000000000000, 791070000000000000000000,
     792065000000000000000000, 793063000000000000000000, 794066000000000000000000, 795072000000000000000000,
     796082000000000000000000, 797097000000000000000000, 798115000000000000000000, 799138000000000000000000,
     800164000000000000000000, 801195000000000000000000, 802230000000000000000000, 803269000000000000000000,
     804313000000000000000000, 805360000000000000000000, 806412000000000000000000, 807469000000000000000000,
     808529000000000000000000, 809595000000000000000000, 810664000000000000000000, 811739000000000000000000,
     812817000000000000000000, 813901000000000000000000, 814989000000000000000000, 816081000000000000000000,
     817179000000000000000000, 818281000000000000000000, 819388000000000000000000, 820500000000000000000000,
     821616000000000000000000, 822738000000000000000000, 823865000000000000000000, 824996000000000000000000,
     826133000000000000000000, 827275000000000000000000, 828422000000000000000000, 829574000000000000000000,
     830732000000000000000000, 831895000000000000000000, 833063000000000000000000, 834237000000000000000000,
     835416000000000000000000, 836600000000000000000000, 837791000000000000000000, 838987000000000000000000,
     840188000000000000000000, 841395000000000000000000, 842609000000000000000000, 843827000000000000000000,
     845052000000000000000000, 846283000000000000000000, 847520000000000000000000, 848763000000000000000000,
     850012000000000000000000, 851268000000000000000000, 852529000000000000000000, 853798000000000000000000,
     855072000000000000000000, 856353000000000000000000, 857641000000000000000000, 858935000000000000000000,
     860236000000000000000000, 861543000000000000000000, 862858000000000000000000, 864179000000000000000000,
     865507000000000000000000, 866843000000000000000000, 868186000000000000000000, 869535000000000000000000,
     870892000000000000000000, 872257000000000000000000, 873629000000000000000000, 875009000000000000000000,
     876396000000000000000000, 877791000000000000000000, 879193000000000000000000, 880604000000000000000000,
     882023000000000000000000, 883450000000000000000000, 884884000000000000000000, 886328000000000000000000,
     887779000000000000000000, 889239000000000000000000, 890708000000000000000000, 892185000000000000000000,
     893672000000000000000000, 895167000000000000000000, 896671000000000000000000, 898184000000000000000000,
     899707000000000000000000, 901238000000000000000000, 902780000000000000000000, 904331000000000000000000,
     905891000000000000000000, 907462000000000000000000, 909042000000000000000000, 910633000000000000000000,
     912234000000000000000000, 913845000000000000000000, 915467000000000000000000, 917099000000000000000000,
     918742000000000000000000, 920396000000000000000000, 922061000000000000000000, 923738000000000000000000,
     925426000000000000000000, 927125000000000000000000, 928836000000000000000000, 930559000000000000000000,
     932295000000000000000000, 934042000000000000000000, 935802000000000000000000, 937574000000000000000000,
     939359000000000000000000, 941157000000000000000000, 942969000000000000000000, 944793000000000000000000,
     946632000000000000000000, 948484000000000000000000, 950350000000000000000000, 952230000000000000000000,
     954125000000000000000000, 956034000000000000000000, 957958000000000000000000, 959897000000000000000000,
     961852000000000000000000, 963822000000000000000000]"

definition stakeAmountListMainnet24 :: "int list" where
  "stakeAmountListMainnet24 = [
     965808000000000000000000, 967811000000000000000000, 969830000000000000000000, 971865000000000000000000,
     973917000000000000000000, 975987000000000000000000, 978074000000000000000000, 980179000000000000000000,
     982302000000000000000000, 984444000000000000000000, 986605000000000000000000, 988784000000000000000000,
     990984000000000000000000, 993203000000000000000000, 995442000000000000000000, 997702000000000000000000,
     999983000000000000000000, 1002285000000000000000000, 1004610000000000000000000, 1006956000000000000000000,
     1009325000000000000000000, 1011718000000000000000000, 1014133000000000000000000, 1016573000000000000000000,
     1019038000000000000000000, 1021528000000000000000000, 1024043000000000000000000, 1026584000000000000000000,
     1029152000000000000000000, 1031747000000000000000000, 1034371000000000000000000, 1037022000000000000000000,
     1039703000000000000000000, 1042413000000000000000000, 1045154000000000000000000, 1047926000000000000000000,
     1050730000000000000000000, 1053567000000000000000000, 1056437000000000000000000, 1059341000000000000000000,
     1062280000000000000000000, 1065255000000000000000000, 1068267000000000000000000, 1071317000000000000000000,
     1074405000000000000000000, 1077533000000000000000000, 1080702000000000000000000, 1083912000000000000000000,
     1087166000000000000000000, 1090463000000000000000000, 1093806000000000000000000, 1097196000000000000000000,
     1100634000000000000000000, 1104121000000000000000000, 1107659000000000000000000, 1111249000000000000000000,
     1114893000000000000000000, 1118593000000000000000000, 1122350000000000000000000, 1126167000000000000000000,
     1130044000000000000000000, 1133985000000000000000000, 1137990000000000000000000, 1142063000000000000000000,
     1146206000000000000000000, 1150421000000000000000000, 1154711000000000000000000, 1159078000000000000000000,
     1163526000000000000000000, 1168057000000000000000000, 1172675000000000000000000, 1177382000000000000000000,
     1182184000000000000000000, 1187082000000000000000000, 1192082000000000000000000, 1197189000000000000000000,
     1202405000000000000000000, 1207737000000000000000000, 1213189000000000000000000, 1218768000000000000000000,
     1224479000000000000000000, 1230329000000000000000000, 1236324000000000000000000, 1242473000000000000000000,
     1248782000000000000000000, 1255262000000000000000000, 1261921000000000000000000, 1268770000000000000000000,
     1275820000000000000000000, 1283083000000000000000000, 1290572000000000000000000, 1298303000000000000000000,
     1306291000000000000000000, 1314553000000000000000000, 1323111000000000000000000, 1331985000000000000000000,
     1341200000000000000000000, 1350783000000000000000000, 1360766000000000000000000, 1371183000000000000000000,
     1382073000000000000000000, 1393482000000000000000000, 1405463000000000000000000, 1418075000000000000000000,
     1431388000000000000000000, 1445487000000000000000000, 1460469000000000000000000, 1476454000000000000000000,
     1493584000000000000000000, 1512039000000000000000000, 1532039000000000000000000, 1553868000000000000000000,
     1577897000000000000000000, 1604618000000000000000000, 1634714000000000000000000, 1669163000000000000000000,
     1709443000000000000000000, 1757940000000000000000000, 1818895000000000000000000, 1901013000000000000000000,
     2027355000000000000000000, 2313978000000000000000000]"

definition stakeAmountListMainnet :: "int list" where
  "stakeAmountListMainnet =
     stakeAmountListMainnet1 @ stakeAmountListMainnet2 @ stakeAmountListMainnet3 @ stakeAmountListMainnet4 @
     stakeAmountListMainnet5 @ stakeAmountListMainnet6 @ stakeAmountListMainnet7 @ stakeAmountListMainnet8 @
     stakeAmountListMainnet9 @ stakeAmountListMainnet10 @ stakeAmountListMainnet11 @
     stakeAmountListMainnet12 @ stakeAmountListMainnet13 @ stakeAmountListMainnet14 @
     stakeAmountListMainnet15 @ stakeAmountListMainnet16 @ stakeAmountListMainnet17 @
     stakeAmountListMainnet18 @ stakeAmountListMainnet19 @ stakeAmountListMainnet20 @
     stakeAmountListMainnet21 @ stakeAmountListMainnet22 @ stakeAmountListMainnet23 @
     stakeAmountListMainnet24"

subsection \<open>\<open>stakeAmountListTestnet\<close>\<close>

definition stakeAmountListTestnet1 :: "int list" where
  "stakeAmountListTestnet1 = [
     0, 1000000000000000000, 1000000000000000000, 1000000000000000000, 1000000000000000000, 1000000000000000000,
     1000000000000000000, 1000000000000000000, 2000000000000000000, 2000000000000000000, 2000000000000000000,
     2000000000000000000, 2000000000000000000, 2000000000000000000, 2000000000000000000, 2000000000000000000,
     3000000000000000000, 3000000000000000000, 3000000000000000000, 3000000000000000000, 3000000000000000000,
     3000000000000000000, 3000000000000000000, 4000000000000000000, 4000000000000000000, 4000000000000000000,
     4000000000000000000, 4000000000000000000, 4000000000000000000, 4000000000000000000, 4000000000000000000,
     5000000000000000000, 5000000000000000000, 5000000000000000000, 5000000000000000000, 5000000000000000000,
     5000000000000000000, 5000000000000000000, 6000000000000000000, 6000000000000000000, 6000000000000000000,
     6000000000000000000, 6000000000000000000, 6000000000000000000, 6000000000000000000, 6000000000000000000,
     7000000000000000000, 7000000000000000000, 7000000000000000000, 7000000000000000000, 7000000000000000000,
     7000000000000000000, 7000000000000000000, 8000000000000000000, 8000000000000000000, 8000000000000000000,
     8000000000000000000, 8000000000000000000, 8000000000000000000, 8000000000000000000, 8000000000000000000,
     9000000000000000000, 9000000000000000000, 9000000000000000000, 9000000000000000000, 9000000000000000000,
     9000000000000000000, 9000000000000000000, 10000000000000000000, 10000000000000000000, 10000000000000000000,
     10000000000000000000, 10000000000000000000, 10000000000000000000, 10000000000000000000,
     11000000000000000000, 11000000000000000000, 11000000000000000000, 11000000000000000000,
     11000000000000000000, 11000000000000000000, 11000000000000000000, 11000000000000000000,
     12000000000000000000, 12000000000000000000, 12000000000000000000, 12000000000000000000,
     12000000000000000000, 12000000000000000000, 12000000000000000000, 13000000000000000000,
     13000000000000000000, 13000000000000000000, 13000000000000000000, 13000000000000000000,
     13000000000000000000, 13000000000000000000, 13000000000000000000, 14000000000000000000,
     14000000000000000000, 14000000000000000000, 14000000000000000000, 14000000000000000000,
     14000000000000000000, 14000000000000000000, 15000000000000000000, 15000000000000000000,
     15000000000000000000, 15000000000000000000, 15000000000000000000, 15000000000000000000,
     15000000000000000000, 15000000000000000000, 16000000000000000000, 16000000000000000000,
     16000000000000000000, 16000000000000000000, 16000000000000000000, 16000000000000000000,
     16000000000000000000, 17000000000000000000, 17000000000000000000, 17000000000000000000,
     17000000000000000000, 17000000000000000000, 17000000000000000000, 17000000000000000000,
     17000000000000000000, 18000000000000000000, 18000000000000000000, 18000000000000000000,
     18000000000000000000, 18000000000000000000, 18000000000000000000, 18000000000000000000,
     19000000000000000000, 19000000000000000000, 19000000000000000000, 19000000000000000000,
     19000000000000000000, 19000000000000000000, 19000000000000000000, 19000000000000000000,
     20000000000000000000, 20000000000000000000, 20000000000000000000, 20000000000000000000,
     20000000000000000000, 20000000000000000000, 20000000000000000000]"

definition stakeAmountListTestnet2 :: "int list" where
  "stakeAmountListTestnet2 = [
     21000000000000000000, 21000000000000000000, 21000000000000000000, 21000000000000000000,
     21000000000000000000, 21000000000000000000, 21000000000000000000, 21000000000000000000,
     22000000000000000000, 22000000000000000000, 22000000000000000000, 22000000000000000000,
     22000000000000000000, 22000000000000000000, 22000000000000000000, 23000000000000000000,
     23000000000000000000, 23000000000000000000, 23000000000000000000, 23000000000000000000,
     23000000000000000000, 23000000000000000000, 23000000000000000000, 24000000000000000000,
     24000000000000000000, 24000000000000000000, 24000000000000000000, 24000000000000000000,
     24000000000000000000, 24000000000000000000, 25000000000000000000, 25000000000000000000,
     25000000000000000000, 25000000000000000000, 25000000000000000000, 25000000000000000000,
     25000000000000000000, 25000000000000000000, 26000000000000000000, 26000000000000000000,
     26000000000000000000, 26000000000000000000, 26000000000000000000, 26000000000000000000,
     26000000000000000000, 27000000000000000000, 27000000000000000000, 27000000000000000000,
     27000000000000000000, 27000000000000000000, 27000000000000000000, 27000000000000000000,
     27000000000000000000, 28000000000000000000, 28000000000000000000, 28000000000000000000,
     28000000000000000000, 28000000000000000000, 28000000000000000000, 28000000000000000000,
     29000000000000000000, 29000000000000000000, 29000000000000000000, 29000000000000000000,
     29000000000000000000, 29000000000000000000, 29000000000000000000, 29000000000000000000,
     30000000000000000000, 30000000000000000000, 30000000000000000000, 30000000000000000000,
     30000000000000000000, 30000000000000000000, 30000000000000000000, 31000000000000000000,
     31000000000000000000, 31000000000000000000, 31000000000000000000, 31000000000000000000,
     31000000000000000000, 31000000000000000000, 31000000000000000000, 32000000000000000000,
     32000000000000000000, 32000000000000000000, 32000000000000000000, 32000000000000000000,
     32000000000000000000, 32000000000000000000, 33000000000000000000, 33000000000000000000,
     33000000000000000000, 33000000000000000000, 33000000000000000000, 33000000000000000000,
     33000000000000000000, 33000000000000000000, 34000000000000000000, 34000000000000000000,
     34000000000000000000, 34000000000000000000, 34000000000000000000, 34000000000000000000,
     34000000000000000000, 35000000000000000000, 35000000000000000000, 35000000000000000000,
     35000000000000000000, 35000000000000000000, 35000000000000000000, 35000000000000000000,
     35000000000000000000, 36000000000000000000, 36000000000000000000, 36000000000000000000,
     36000000000000000000, 36000000000000000000, 36000000000000000000, 36000000000000000000,
     37000000000000000000, 37000000000000000000, 37000000000000000000, 37000000000000000000,
     37000000000000000000, 37000000000000000000, 37000000000000000000, 38000000000000000000,
     38000000000000000000, 38000000000000000000, 38000000000000000000, 38000000000000000000,
     38000000000000000000, 38000000000000000000, 38000000000000000000, 39000000000000000000,
     39000000000000000000, 39000000000000000000, 39000000000000000000, 39000000000000000000,
     39000000000000000000, 39000000000000000000, 40000000000000000000, 40000000000000000000,
     40000000000000000000, 40000000000000000000, 40000000000000000000, 40000000000000000000,
     40000000000000000000, 40000000000000000000]"

definition stakeAmountListTestnet3 :: "int list" where
  "stakeAmountListTestnet3 = [
     41000000000000000000, 41000000000000000000, 41000000000000000000, 41000000000000000000,
     41000000000000000000, 41000000000000000000, 41000000000000000000, 42000000000000000000,
     42000000000000000000, 42000000000000000000, 42000000000000000000, 42000000000000000000,
     42000000000000000000, 42000000000000000000, 42000000000000000000, 43000000000000000000,
     43000000000000000000, 43000000000000000000, 43000000000000000000, 43000000000000000000,
     43000000000000000000, 43000000000000000000, 44000000000000000000, 44000000000000000000,
     44000000000000000000, 44000000000000000000, 44000000000000000000, 44000000000000000000,
     44000000000000000000, 44000000000000000000, 45000000000000000000, 45000000000000000000,
     45000000000000000000, 45000000000000000000, 45000000000000000000, 45000000000000000000,
     45000000000000000000, 46000000000000000000, 46000000000000000000, 46000000000000000000,
     46000000000000000000, 46000000000000000000, 46000000000000000000, 46000000000000000000,
     47000000000000000000, 47000000000000000000, 47000000000000000000, 47000000000000000000,
     47000000000000000000, 47000000000000000000, 47000000000000000000, 47000000000000000000,
     48000000000000000000, 48000000000000000000, 48000000000000000000, 48000000000000000000,
     48000000000000000000, 48000000000000000000, 48000000000000000000, 49000000000000000000,
     49000000000000000000, 49000000000000000000, 49000000000000000000, 49000000000000000000,
     49000000000000000000, 49000000000000000000, 49000000000000000000, 50000000000000000000,
     50000000000000000000, 50000000000000000000, 50000000000000000000, 50000000000000000000,
     50000000000000000000, 50000000000000000000, 51000000000000000000, 51000000000000000000,
     51000000000000000000, 51000000000000000000, 51000000000000000000, 51000000000000000000,
     51000000000000000000, 51000000000000000000, 52000000000000000000, 52000000000000000000,
     52000000000000000000, 52000000000000000000, 52000000000000000000, 52000000000000000000,
     52000000000000000000, 53000000000000000000, 53000000000000000000, 53000000000000000000,
     53000000000000000000, 53000000000000000000, 53000000000000000000, 53000000000000000000,
     54000000000000000000, 54000000000000000000, 54000000000000000000, 54000000000000000000,
     54000000000000000000, 54000000000000000000, 54000000000000000000, 54000000000000000000,
     55000000000000000000, 55000000000000000000, 55000000000000000000, 55000000000000000000,
     55000000000000000000, 55000000000000000000, 55000000000000000000, 56000000000000000000,
     56000000000000000000, 56000000000000000000, 56000000000000000000, 56000000000000000000,
     56000000000000000000, 56000000000000000000, 56000000000000000000, 57000000000000000000,
     57000000000000000000, 57000000000000000000, 57000000000000000000, 57000000000000000000,
     57000000000000000000, 57000000000000000000, 58000000000000000000, 58000000000000000000,
     58000000000000000000, 58000000000000000000, 58000000000000000000, 58000000000000000000,
     58000000000000000000, 59000000000000000000, 59000000000000000000, 59000000000000000000,
     59000000000000000000, 59000000000000000000, 59000000000000000000, 59000000000000000000,
     59000000000000000000, 60000000000000000000, 60000000000000000000, 60000000000000000000,
     60000000000000000000, 60000000000000000000, 60000000000000000000, 60000000000000000000,
     61000000000000000000, 61000000000000000000]"

definition stakeAmountListTestnet4 :: "int list" where
  "stakeAmountListTestnet4 = [
     61000000000000000000, 61000000000000000000, 61000000000000000000, 61000000000000000000,
     61000000000000000000, 61000000000000000000, 62000000000000000000, 62000000000000000000,
     62000000000000000000, 62000000000000000000, 62000000000000000000, 62000000000000000000,
     62000000000000000000, 63000000000000000000, 63000000000000000000, 63000000000000000000,
     63000000000000000000, 63000000000000000000, 63000000000000000000, 63000000000000000000,
     64000000000000000000, 64000000000000000000, 64000000000000000000, 64000000000000000000,
     64000000000000000000, 64000000000000000000, 64000000000000000000, 64000000000000000000,
     65000000000000000000, 65000000000000000000, 65000000000000000000, 65000000000000000000,
     65000000000000000000, 65000000000000000000, 65000000000000000000, 66000000000000000000,
     66000000000000000000, 66000000000000000000, 66000000000000000000, 66000000000000000000,
     66000000000000000000, 66000000000000000000, 67000000000000000000, 67000000000000000000,
     67000000000000000000, 67000000000000000000, 67000000000000000000, 67000000000000000000,
     67000000000000000000, 67000000000000000000, 68000000000000000000, 68000000000000000000,
     68000000000000000000, 68000000000000000000, 68000000000000000000, 68000000000000000000,
     68000000000000000000, 69000000000000000000, 69000000000000000000, 69000000000000000000,
     69000000000000000000, 69000000000000000000, 69000000000000000000, 69000000000000000000,
     70000000000000000000, 70000000000000000000, 70000000000000000000, 70000000000000000000,
     70000000000000000000, 70000000000000000000, 70000000000000000000, 70000000000000000000,
     71000000000000000000, 71000000000000000000, 71000000000000000000, 71000000000000000000,
     71000000000000000000, 71000000000000000000, 71000000000000000000, 72000000000000000000,
     72000000000000000000, 72000000000000000000, 72000000000000000000, 72000000000000000000,
     72000000000000000000, 72000000000000000000, 73000000000000000000, 73000000000000000000,
     73000000000000000000, 73000000000000000000, 73000000000000000000, 73000000000000000000,
     73000000000000000000, 73000000000000000000, 74000000000000000000, 74000000000000000000,
     74000000000000000000, 74000000000000000000, 74000000000000000000, 74000000000000000000,
     74000000000000000000, 75000000000000000000, 75000000000000000000, 75000000000000000000,
     75000000000000000000, 75000000000000000000, 75000000000000000000, 75000000000000000000,
     76000000000000000000, 76000000000000000000, 76000000000000000000, 76000000000000000000,
     76000000000000000000, 76000000000000000000, 76000000000000000000, 76000000000000000000,
     77000000000000000000, 77000000000000000000, 77000000000000000000, 77000000000000000000,
     77000000000000000000, 77000000000000000000, 77000000000000000000, 78000000000000000000,
     78000000000000000000, 78000000000000000000, 78000000000000000000, 78000000000000000000,
     78000000000000000000, 78000000000000000000, 79000000000000000000, 79000000000000000000,
     79000000000000000000, 79000000000000000000, 79000000000000000000, 79000000000000000000,
     79000000000000000000, 79000000000000000000, 80000000000000000000, 80000000000000000000,
     80000000000000000000, 80000000000000000000, 80000000000000000000, 80000000000000000000,
     80000000000000000000, 81000000000000000000, 81000000000000000000, 81000000000000000000,
     81000000000000000000, 81000000000000000000]"

definition stakeAmountListTestnet5 :: "int list" where
  "stakeAmountListTestnet5 = [
     81000000000000000000, 81000000000000000000, 82000000000000000000, 82000000000000000000,
     82000000000000000000, 82000000000000000000, 82000000000000000000, 82000000000000000000,
     82000000000000000000, 82000000000000000000, 83000000000000000000, 83000000000000000000,
     83000000000000000000, 83000000000000000000, 83000000000000000000, 83000000000000000000,
     83000000000000000000, 84000000000000000000, 84000000000000000000, 84000000000000000000,
     84000000000000000000, 84000000000000000000, 84000000000000000000, 84000000000000000000,
     85000000000000000000, 85000000000000000000, 85000000000000000000, 85000000000000000000,
     85000000000000000000, 85000000000000000000, 85000000000000000000, 86000000000000000000,
     86000000000000000000, 86000000000000000000, 86000000000000000000, 86000000000000000000,
     86000000000000000000, 86000000000000000000, 86000000000000000000, 87000000000000000000,
     87000000000000000000, 87000000000000000000, 87000000000000000000, 87000000000000000000,
     87000000000000000000, 87000000000000000000, 88000000000000000000, 88000000000000000000,
     88000000000000000000, 88000000000000000000, 88000000000000000000, 88000000000000000000,
     88000000000000000000, 89000000000000000000, 89000000000000000000, 89000000000000000000,
     89000000000000000000, 89000000000000000000, 89000000000000000000, 89000000000000000000,
     90000000000000000000, 90000000000000000000, 90000000000000000000, 90000000000000000000,
     90000000000000000000, 90000000000000000000, 90000000000000000000, 90000000000000000000,
     91000000000000000000, 91000000000000000000, 91000000000000000000, 91000000000000000000,
     91000000000000000000, 91000000000000000000, 91000000000000000000, 92000000000000000000,
     92000000000000000000, 92000000000000000000, 92000000000000000000, 92000000000000000000,
     92000000000000000000, 92000000000000000000, 93000000000000000000, 93000000000000000000,
     93000000000000000000, 93000000000000000000, 93000000000000000000, 93000000000000000000,
     93000000000000000000, 94000000000000000000, 94000000000000000000, 94000000000000000000,
     94000000000000000000, 94000000000000000000, 94000000000000000000, 94000000000000000000,
     94000000000000000000, 95000000000000000000, 95000000000000000000, 95000000000000000000,
     95000000000000000000, 95000000000000000000, 95000000000000000000, 95000000000000000000,
     96000000000000000000, 96000000000000000000, 96000000000000000000, 96000000000000000000,
     96000000000000000000, 96000000000000000000, 96000000000000000000, 97000000000000000000,
     97000000000000000000, 97000000000000000000, 97000000000000000000, 97000000000000000000,
     97000000000000000000, 97000000000000000000, 98000000000000000000, 98000000000000000000,
     98000000000000000000, 98000000000000000000, 98000000000000000000, 98000000000000000000,
     98000000000000000000, 99000000000000000000, 99000000000000000000, 99000000000000000000,
     99000000000000000000, 99000000000000000000, 99000000000000000000, 99000000000000000000,
     99000000000000000000, 100000000000000000000, 100000000000000000000, 100000000000000000000,
     100000000000000000000, 100000000000000000000, 100000000000000000000, 100000000000000000000,
     101000000000000000000, 101000000000000000000, 101000000000000000000, 101000000000000000000,
     101000000000000000000, 101000000000000000000, 101000000000000000000, 102000000000000000000,
     102000000000000000000, 102000000000000000000]"

definition stakeAmountListTestnet6 :: "int list" where
  "stakeAmountListTestnet6 = [
     102000000000000000000, 102000000000000000000, 102000000000000000000, 102000000000000000000,
     103000000000000000000, 103000000000000000000, 103000000000000000000, 103000000000000000000,
     103000000000000000000, 103000000000000000000, 103000000000000000000, 104000000000000000000,
     104000000000000000000, 104000000000000000000, 104000000000000000000, 104000000000000000000,
     104000000000000000000, 104000000000000000000, 105000000000000000000, 105000000000000000000,
     105000000000000000000, 105000000000000000000, 105000000000000000000, 105000000000000000000,
     105000000000000000000, 105000000000000000000, 106000000000000000000, 106000000000000000000,
     106000000000000000000, 106000000000000000000, 106000000000000000000, 106000000000000000000,
     106000000000000000000, 107000000000000000000, 107000000000000000000, 107000000000000000000,
     107000000000000000000, 107000000000000000000, 107000000000000000000, 107000000000000000000,
     108000000000000000000, 108000000000000000000, 108000000000000000000, 108000000000000000000,
     108000000000000000000, 108000000000000000000, 108000000000000000000, 109000000000000000000,
     109000000000000000000, 109000000000000000000, 109000000000000000000, 109000000000000000000,
     109000000000000000000, 109000000000000000000, 110000000000000000000, 110000000000000000000,
     110000000000000000000, 110000000000000000000, 110000000000000000000, 110000000000000000000,
     110000000000000000000, 111000000000000000000, 111000000000000000000, 111000000000000000000,
     111000000000000000000, 111000000000000000000, 111000000000000000000, 111000000000000000000,
     112000000000000000000, 112000000000000000000, 112000000000000000000, 112000000000000000000,
     112000000000000000000, 112000000000000000000, 112000000000000000000, 113000000000000000000,
     113000000000000000000, 113000000000000000000, 113000000000000000000, 113000000000000000000,
     113000000000000000000, 113000000000000000000, 113000000000000000000, 114000000000000000000,
     114000000000000000000, 114000000000000000000, 114000000000000000000, 114000000000000000000,
     114000000000000000000, 114000000000000000000, 115000000000000000000, 115000000000000000000,
     115000000000000000000, 115000000000000000000, 115000000000000000000, 115000000000000000000,
     115000000000000000000, 116000000000000000000, 116000000000000000000, 116000000000000000000,
     116000000000000000000, 116000000000000000000, 116000000000000000000, 116000000000000000000,
     117000000000000000000, 117000000000000000000, 117000000000000000000, 117000000000000000000,
     117000000000000000000, 117000000000000000000, 117000000000000000000, 118000000000000000000,
     118000000000000000000, 118000000000000000000, 118000000000000000000, 118000000000000000000,
     118000000000000000000, 118000000000000000000, 119000000000000000000, 119000000000000000000,
     119000000000000000000, 119000000000000000000, 119000000000000000000, 119000000000000000000,
     119000000000000000000, 120000000000000000000, 120000000000000000000, 120000000000000000000,
     120000000000000000000, 120000000000000000000, 120000000000000000000, 120000000000000000000,
     121000000000000000000, 121000000000000000000, 121000000000000000000, 121000000000000000000,
     121000000000000000000, 121000000000000000000, 121000000000000000000, 122000000000000000000,
     122000000000000000000, 122000000000000000000, 122000000000000000000, 122000000000000000000,
     122000000000000000000, 122000000000000000000, 123000000000000000000, 123000000000000000000,
     123000000000000000000, 123000000000000000000]"

definition stakeAmountListTestnet7 :: "int list" where
  "stakeAmountListTestnet7 = [
     123000000000000000000, 123000000000000000000, 123000000000000000000, 124000000000000000000,
     124000000000000000000, 124000000000000000000, 124000000000000000000, 124000000000000000000,
     124000000000000000000, 124000000000000000000, 125000000000000000000, 125000000000000000000,
     125000000000000000000, 125000000000000000000, 125000000000000000000, 125000000000000000000,
     125000000000000000000, 126000000000000000000, 126000000000000000000, 126000000000000000000,
     126000000000000000000, 126000000000000000000, 126000000000000000000, 126000000000000000000,
     127000000000000000000, 127000000000000000000, 127000000000000000000, 127000000000000000000,
     127000000000000000000, 127000000000000000000, 127000000000000000000, 128000000000000000000,
     128000000000000000000, 128000000000000000000, 128000000000000000000, 128000000000000000000,
     128000000000000000000, 128000000000000000000, 129000000000000000000, 129000000000000000000,
     129000000000000000000, 129000000000000000000, 129000000000000000000, 129000000000000000000,
     129000000000000000000, 130000000000000000000, 130000000000000000000, 130000000000000000000,
     130000000000000000000, 130000000000000000000, 130000000000000000000, 130000000000000000000,
     131000000000000000000, 131000000000000000000, 131000000000000000000, 131000000000000000000,
     131000000000000000000, 131000000000000000000, 131000000000000000000, 132000000000000000000,
     132000000000000000000, 132000000000000000000, 132000000000000000000, 132000000000000000000,
     132000000000000000000, 132000000000000000000, 133000000000000000000, 133000000000000000000,
     133000000000000000000, 133000000000000000000, 133000000000000000000, 133000000000000000000,
     133000000000000000000, 134000000000000000000, 134000000000000000000, 134000000000000000000,
     134000000000000000000, 134000000000000000000, 134000000000000000000, 134000000000000000000,
     135000000000000000000, 135000000000000000000, 135000000000000000000, 135000000000000000000,
     135000000000000000000, 135000000000000000000, 135000000000000000000, 136000000000000000000,
     136000000000000000000, 136000000000000000000, 136000000000000000000, 136000000000000000000,
     136000000000000000000, 136000000000000000000, 137000000000000000000, 137000000000000000000,
     137000000000000000000, 137000000000000000000, 137000000000000000000, 137000000000000000000,
     137000000000000000000, 138000000000000000000, 138000000000000000000, 138000000000000000000,
     138000000000000000000, 138000000000000000000, 138000000000000000000, 138000000000000000000,
     139000000000000000000, 139000000000000000000, 139000000000000000000, 139000000000000000000,
     139000000000000000000, 139000000000000000000, 139000000000000000000, 140000000000000000000,
     140000000000000000000, 140000000000000000000, 140000000000000000000, 140000000000000000000,
     140000000000000000000, 141000000000000000000, 141000000000000000000, 141000000000000000000,
     141000000000000000000, 141000000000000000000, 141000000000000000000, 141000000000000000000,
     142000000000000000000, 142000000000000000000, 142000000000000000000, 142000000000000000000,
     142000000000000000000, 142000000000000000000, 142000000000000000000, 143000000000000000000,
     143000000000000000000, 143000000000000000000, 143000000000000000000, 143000000000000000000,
     143000000000000000000, 143000000000000000000, 144000000000000000000, 144000000000000000000,
     144000000000000000000, 144000000000000000000, 144000000000000000000, 144000000000000000000,
     144000000000000000000, 145000000000000000000]"

definition stakeAmountListTestnet8 :: "int list" where
  "stakeAmountListTestnet8 = [
     145000000000000000000, 145000000000000000000, 145000000000000000000, 145000000000000000000,
     145000000000000000000, 145000000000000000000, 146000000000000000000, 146000000000000000000,
     146000000000000000000, 146000000000000000000, 146000000000000000000, 146000000000000000000,
     146000000000000000000, 147000000000000000000, 147000000000000000000, 147000000000000000000,
     147000000000000000000, 147000000000000000000, 147000000000000000000, 148000000000000000000,
     148000000000000000000, 148000000000000000000, 148000000000000000000, 148000000000000000000,
     148000000000000000000, 148000000000000000000, 149000000000000000000, 149000000000000000000,
     149000000000000000000, 149000000000000000000, 149000000000000000000, 149000000000000000000,
     149000000000000000000, 150000000000000000000, 150000000000000000000, 150000000000000000000,
     150000000000000000000, 150000000000000000000, 150000000000000000000, 150000000000000000000,
     151000000000000000000, 151000000000000000000, 151000000000000000000, 151000000000000000000,
     151000000000000000000, 151000000000000000000, 151000000000000000000, 152000000000000000000,
     152000000000000000000, 152000000000000000000, 152000000000000000000, 152000000000000000000,
     152000000000000000000, 153000000000000000000, 153000000000000000000, 153000000000000000000,
     153000000000000000000, 153000000000000000000, 153000000000000000000, 153000000000000000000,
     154000000000000000000, 154000000000000000000, 154000000000000000000, 154000000000000000000,
     154000000000000000000, 154000000000000000000, 154000000000000000000, 155000000000000000000,
     155000000000000000000, 155000000000000000000, 155000000000000000000, 155000000000000000000,
     155000000000000000000, 155000000000000000000, 156000000000000000000, 156000000000000000000,
     156000000000000000000, 156000000000000000000, 156000000000000000000, 156000000000000000000,
     156000000000000000000, 157000000000000000000, 157000000000000000000, 157000000000000000000,
     157000000000000000000, 157000000000000000000, 157000000000000000000, 158000000000000000000,
     158000000000000000000, 158000000000000000000, 158000000000000000000, 158000000000000000000,
     158000000000000000000, 158000000000000000000, 159000000000000000000, 159000000000000000000,
     159000000000000000000, 159000000000000000000, 159000000000000000000, 159000000000000000000,
     159000000000000000000, 160000000000000000000, 160000000000000000000, 160000000000000000000,
     160000000000000000000, 160000000000000000000, 160000000000000000000, 161000000000000000000,
     161000000000000000000, 161000000000000000000, 161000000000000000000, 161000000000000000000,
     161000000000000000000, 161000000000000000000, 162000000000000000000, 162000000000000000000,
     162000000000000000000, 162000000000000000000, 162000000000000000000, 162000000000000000000,
     162000000000000000000, 163000000000000000000, 163000000000000000000, 163000000000000000000,
     163000000000000000000, 163000000000000000000, 163000000000000000000, 163000000000000000000,
     164000000000000000000, 164000000000000000000, 164000000000000000000, 164000000000000000000,
     164000000000000000000, 164000000000000000000, 165000000000000000000, 165000000000000000000,
     165000000000000000000, 165000000000000000000, 165000000000000000000, 165000000000000000000,
     165000000000000000000, 166000000000000000000, 166000000000000000000, 166000000000000000000,
     166000000000000000000, 166000000000000000000, 166000000000000000000, 166000000000000000000,
     167000000000000000000, 167000000000000000000]"

definition stakeAmountListTestnet9 :: "int list" where
  "stakeAmountListTestnet9 = [
     167000000000000000000, 167000000000000000000, 167000000000000000000, 167000000000000000000,
     168000000000000000000, 168000000000000000000, 168000000000000000000, 168000000000000000000,
     168000000000000000000, 168000000000000000000, 168000000000000000000, 169000000000000000000,
     169000000000000000000, 169000000000000000000, 169000000000000000000, 169000000000000000000,
     169000000000000000000, 169000000000000000000, 170000000000000000000, 170000000000000000000,
     170000000000000000000, 170000000000000000000, 170000000000000000000, 170000000000000000000,
     171000000000000000000, 171000000000000000000, 171000000000000000000, 171000000000000000000,
     171000000000000000000, 171000000000000000000, 171000000000000000000, 172000000000000000000,
     172000000000000000000, 172000000000000000000, 172000000000000000000, 172000000000000000000,
     172000000000000000000, 173000000000000000000, 173000000000000000000, 173000000000000000000,
     173000000000000000000, 173000000000000000000, 173000000000000000000, 173000000000000000000,
     174000000000000000000, 174000000000000000000, 174000000000000000000, 174000000000000000000,
     174000000000000000000, 174000000000000000000, 174000000000000000000, 175000000000000000000,
     175000000000000000000, 175000000000000000000, 175000000000000000000, 175000000000000000000,
     175000000000000000000, 176000000000000000000, 176000000000000000000, 176000000000000000000,
     176000000000000000000, 176000000000000000000, 176000000000000000000, 176000000000000000000,
     177000000000000000000, 177000000000000000000, 177000000000000000000, 177000000000000000000,
     177000000000000000000, 177000000000000000000, 178000000000000000000, 178000000000000000000,
     178000000000000000000, 178000000000000000000, 178000000000000000000, 178000000000000000000,
     178000000000000000000, 179000000000000000000, 179000000000000000000, 179000000000000000000,
     179000000000000000000, 179000000000000000000, 179000000000000000000, 180000000000000000000,
     180000000000000000000, 180000000000000000000, 180000000000000000000, 180000000000000000000,
     180000000000000000000, 180000000000000000000, 181000000000000000000, 181000000000000000000,
     181000000000000000000, 181000000000000000000, 181000000000000000000, 181000000000000000000,
     182000000000000000000, 182000000000000000000, 182000000000000000000, 182000000000000000000,
     182000000000000000000, 182000000000000000000, 182000000000000000000, 183000000000000000000,
     183000000000000000000, 183000000000000000000, 183000000000000000000, 183000000000000000000,
     183000000000000000000, 184000000000000000000, 184000000000000000000, 184000000000000000000,
     184000000000000000000, 184000000000000000000, 184000000000000000000, 184000000000000000000,
     185000000000000000000, 185000000000000000000, 185000000000000000000, 185000000000000000000,
     185000000000000000000, 185000000000000000000, 186000000000000000000, 186000000000000000000,
     186000000000000000000, 186000000000000000000, 186000000000000000000, 186000000000000000000,
     186000000000000000000, 187000000000000000000, 187000000000000000000, 187000000000000000000,
     187000000000000000000, 187000000000000000000, 187000000000000000000, 188000000000000000000,
     188000000000000000000, 188000000000000000000, 188000000000000000000, 188000000000000000000,
     188000000000000000000, 188000000000000000000, 189000000000000000000, 189000000000000000000,
     189000000000000000000, 189000000000000000000, 189000000000000000000, 189000000000000000000,
     190000000000000000000, 190000000000000000000]"

definition stakeAmountListTestnet10 :: "int list" where
  "stakeAmountListTestnet10 = [
     190000000000000000000, 190000000000000000000, 190000000000000000000, 190000000000000000000,
     190000000000000000000, 191000000000000000000, 191000000000000000000, 191000000000000000000,
     191000000000000000000, 191000000000000000000, 191000000000000000000, 192000000000000000000,
     192000000000000000000, 192000000000000000000, 192000000000000000000, 192000000000000000000,
     192000000000000000000, 193000000000000000000, 193000000000000000000, 193000000000000000000,
     193000000000000000000, 193000000000000000000, 193000000000000000000, 193000000000000000000,
     194000000000000000000, 194000000000000000000, 194000000000000000000, 194000000000000000000,
     194000000000000000000, 194000000000000000000, 195000000000000000000, 195000000000000000000,
     195000000000000000000, 195000000000000000000, 195000000000000000000, 195000000000000000000,
     195000000000000000000, 196000000000000000000, 196000000000000000000, 196000000000000000000,
     196000000000000000000, 196000000000000000000, 196000000000000000000, 197000000000000000000,
     197000000000000000000, 197000000000000000000, 197000000000000000000, 197000000000000000000,
     197000000000000000000, 198000000000000000000, 198000000000000000000, 198000000000000000000,
     198000000000000000000, 198000000000000000000, 198000000000000000000, 198000000000000000000,
     199000000000000000000, 199000000000000000000, 199000000000000000000, 199000000000000000000,
     199000000000000000000, 199000000000000000000, 200000000000000000000, 200000000000000000000,
     200000000000000000000, 200000000000000000000, 200000000000000000000, 200000000000000000000,
     201000000000000000000, 201000000000000000000, 201000000000000000000, 201000000000000000000,
     201000000000000000000, 201000000000000000000, 201000000000000000000, 202000000000000000000,
     202000000000000000000, 202000000000000000000, 202000000000000000000, 202000000000000000000,
     202000000000000000000, 203000000000000000000, 203000000000000000000, 203000000000000000000,
     203000000000000000000, 203000000000000000000, 203000000000000000000, 204000000000000000000,
     204000000000000000000, 204000000000000000000, 204000000000000000000, 204000000000000000000,
     204000000000000000000, 205000000000000000000, 205000000000000000000, 205000000000000000000,
     205000000000000000000, 205000000000000000000, 205000000000000000000, 205000000000000000000,
     206000000000000000000, 206000000000000000000, 206000000000000000000, 206000000000000000000,
     206000000000000000000, 206000000000000000000, 207000000000000000000, 207000000000000000000,
     207000000000000000000, 207000000000000000000, 207000000000000000000, 207000000000000000000,
     208000000000000000000, 208000000000000000000, 208000000000000000000, 208000000000000000000,
     208000000000000000000, 208000000000000000000, 208000000000000000000, 209000000000000000000,
     209000000000000000000, 209000000000000000000, 209000000000000000000, 209000000000000000000,
     209000000000000000000, 210000000000000000000, 210000000000000000000, 210000000000000000000,
     210000000000000000000, 210000000000000000000, 210000000000000000000, 211000000000000000000,
     211000000000000000000, 211000000000000000000, 211000000000000000000, 211000000000000000000,
     211000000000000000000, 212000000000000000000, 212000000000000000000, 212000000000000000000,
     212000000000000000000, 212000000000000000000, 212000000000000000000, 213000000000000000000,
     213000000000000000000, 213000000000000000000, 213000000000000000000, 213000000000000000000,
     213000000000000000000, 213000000000000000000]"

definition stakeAmountListTestnet11 :: "int list" where
  "stakeAmountListTestnet11 = [
     214000000000000000000, 214000000000000000000, 214000000000000000000, 214000000000000000000,
     214000000000000000000, 214000000000000000000, 215000000000000000000, 215000000000000000000,
     215000000000000000000, 215000000000000000000, 215000000000000000000, 215000000000000000000,
     216000000000000000000, 216000000000000000000, 216000000000000000000, 216000000000000000000,
     216000000000000000000, 216000000000000000000, 217000000000000000000, 217000000000000000000,
     217000000000000000000, 217000000000000000000, 217000000000000000000, 217000000000000000000,
     218000000000000000000, 218000000000000000000, 218000000000000000000, 218000000000000000000,
     218000000000000000000, 218000000000000000000, 219000000000000000000, 219000000000000000000,
     219000000000000000000, 219000000000000000000, 219000000000000000000, 219000000000000000000,
     220000000000000000000, 220000000000000000000, 220000000000000000000, 220000000000000000000,
     220000000000000000000, 220000000000000000000, 220000000000000000000, 221000000000000000000,
     221000000000000000000, 221000000000000000000, 221000000000000000000, 221000000000000000000,
     221000000000000000000, 222000000000000000000, 222000000000000000000, 222000000000000000000,
     222000000000000000000, 222000000000000000000, 222000000000000000000, 223000000000000000000,
     223000000000000000000, 223000000000000000000, 223000000000000000000, 223000000000000000000,
     223000000000000000000, 224000000000000000000, 224000000000000000000, 224000000000000000000,
     224000000000000000000, 224000000000000000000, 224000000000000000000, 225000000000000000000,
     225000000000000000000, 225000000000000000000, 225000000000000000000, 225000000000000000000,
     225000000000000000000, 226000000000000000000, 226000000000000000000, 226000000000000000000,
     226000000000000000000, 226000000000000000000, 226000000000000000000, 227000000000000000000,
     227000000000000000000, 227000000000000000000, 227000000000000000000, 227000000000000000000,
     227000000000000000000, 228000000000000000000, 228000000000000000000, 228000000000000000000,
     228000000000000000000, 228000000000000000000, 228000000000000000000, 229000000000000000000,
     229000000000000000000, 229000000000000000000, 229000000000000000000, 229000000000000000000,
     229000000000000000000, 230000000000000000000, 230000000000000000000, 230000000000000000000,
     230000000000000000000, 230000000000000000000, 230000000000000000000, 231000000000000000000,
     231000000000000000000, 231000000000000000000, 231000000000000000000, 231000000000000000000,
     231000000000000000000, 232000000000000000000, 232000000000000000000, 232000000000000000000,
     232000000000000000000, 232000000000000000000, 232000000000000000000, 233000000000000000000,
     233000000000000000000, 233000000000000000000, 233000000000000000000, 233000000000000000000,
     233000000000000000000, 234000000000000000000, 234000000000000000000, 234000000000000000000,
     234000000000000000000, 234000000000000000000, 234000000000000000000, 235000000000000000000,
     235000000000000000000, 235000000000000000000, 235000000000000000000, 235000000000000000000,
     235000000000000000000, 236000000000000000000, 236000000000000000000, 236000000000000000000,
     236000000000000000000, 236000000000000000000, 236000000000000000000, 237000000000000000000,
     237000000000000000000, 237000000000000000000, 237000000000000000000, 237000000000000000000,
     237000000000000000000, 238000000000000000000, 238000000000000000000, 238000000000000000000,
     238000000000000000000, 238000000000000000000]"

definition stakeAmountListTestnet12 :: "int list" where
  "stakeAmountListTestnet12 = [
     238000000000000000000, 239000000000000000000, 239000000000000000000, 239000000000000000000,
     239000000000000000000, 239000000000000000000, 240000000000000000000, 240000000000000000000,
     240000000000000000000, 240000000000000000000, 240000000000000000000, 240000000000000000000,
     241000000000000000000, 241000000000000000000, 241000000000000000000, 241000000000000000000,
     241000000000000000000, 241000000000000000000, 242000000000000000000, 242000000000000000000,
     242000000000000000000, 242000000000000000000, 242000000000000000000, 242000000000000000000,
     243000000000000000000, 243000000000000000000, 243000000000000000000, 243000000000000000000,
     243000000000000000000, 243000000000000000000, 244000000000000000000, 244000000000000000000,
     244000000000000000000, 244000000000000000000, 244000000000000000000, 244000000000000000000,
     245000000000000000000, 245000000000000000000, 245000000000000000000, 245000000000000000000,
     245000000000000000000, 245000000000000000000, 246000000000000000000, 246000000000000000000,
     246000000000000000000, 246000000000000000000, 246000000000000000000, 247000000000000000000,
     247000000000000000000, 247000000000000000000, 247000000000000000000, 247000000000000000000,
     247000000000000000000, 248000000000000000000, 248000000000000000000, 248000000000000000000,
     248000000000000000000, 248000000000000000000, 248000000000000000000, 249000000000000000000,
     249000000000000000000, 249000000000000000000, 249000000000000000000, 249000000000000000000,
     249000000000000000000, 250000000000000000000, 250000000000000000000, 250000000000000000000,
     250000000000000000000, 250000000000000000000, 250000000000000000000, 251000000000000000000,
     251000000000000000000, 251000000000000000000, 251000000000000000000, 251000000000000000000,
     252000000000000000000, 252000000000000000000, 252000000000000000000, 252000000000000000000,
     252000000000000000000, 252000000000000000000, 253000000000000000000, 253000000000000000000,
     253000000000000000000, 253000000000000000000, 253000000000000000000, 253000000000000000000,
     254000000000000000000, 254000000000000000000, 254000000000000000000, 254000000000000000000,
     254000000000000000000, 255000000000000000000, 255000000000000000000, 255000000000000000000,
     255000000000000000000, 255000000000000000000, 255000000000000000000, 256000000000000000000,
     256000000000000000000, 256000000000000000000, 256000000000000000000, 256000000000000000000,
     256000000000000000000, 257000000000000000000, 257000000000000000000, 257000000000000000000,
     257000000000000000000, 257000000000000000000, 257000000000000000000, 258000000000000000000,
     258000000000000000000, 258000000000000000000, 258000000000000000000, 258000000000000000000,
     259000000000000000000, 259000000000000000000, 259000000000000000000, 259000000000000000000,
     259000000000000000000, 259000000000000000000, 260000000000000000000, 260000000000000000000,
     260000000000000000000, 260000000000000000000, 260000000000000000000, 260000000000000000000,
     261000000000000000000, 261000000000000000000, 261000000000000000000, 261000000000000000000,
     261000000000000000000, 262000000000000000000, 262000000000000000000, 262000000000000000000,
     262000000000000000000, 262000000000000000000, 262000000000000000000, 263000000000000000000,
     263000000000000000000, 263000000000000000000, 263000000000000000000, 263000000000000000000,
     264000000000000000000, 264000000000000000000, 264000000000000000000, 264000000000000000000,
     264000000000000000000, 264000000000000000000]"

definition stakeAmountListTestnet13 :: "int list" where
  "stakeAmountListTestnet13 = [
     265000000000000000000, 265000000000000000000, 265000000000000000000, 265000000000000000000,
     265000000000000000000, 265000000000000000000, 266000000000000000000, 266000000000000000000,
     266000000000000000000, 266000000000000000000, 266000000000000000000, 267000000000000000000,
     267000000000000000000, 267000000000000000000, 267000000000000000000, 267000000000000000000,
     267000000000000000000, 268000000000000000000, 268000000000000000000, 268000000000000000000,
     268000000000000000000, 268000000000000000000, 269000000000000000000, 269000000000000000000,
     269000000000000000000, 269000000000000000000, 269000000000000000000, 269000000000000000000,
     270000000000000000000, 270000000000000000000, 270000000000000000000, 270000000000000000000,
     270000000000000000000, 271000000000000000000, 271000000000000000000, 271000000000000000000,
     271000000000000000000, 271000000000000000000, 271000000000000000000, 272000000000000000000,
     272000000000000000000, 272000000000000000000, 272000000000000000000, 272000000000000000000,
     273000000000000000000, 273000000000000000000, 273000000000000000000, 273000000000000000000,
     273000000000000000000, 273000000000000000000, 274000000000000000000, 274000000000000000000,
     274000000000000000000, 274000000000000000000, 274000000000000000000, 275000000000000000000,
     275000000000000000000, 275000000000000000000, 275000000000000000000, 275000000000000000000,
     275000000000000000000, 276000000000000000000, 276000000000000000000, 276000000000000000000,
     276000000000000000000, 276000000000000000000, 277000000000000000000, 277000000000000000000,
     277000000000000000000, 277000000000000000000, 277000000000000000000, 277000000000000000000,
     278000000000000000000, 278000000000000000000, 278000000000000000000, 278000000000000000000,
     278000000000000000000, 279000000000000000000, 279000000000000000000, 279000000000000000000,
     279000000000000000000, 279000000000000000000, 279000000000000000000, 280000000000000000000,
     280000000000000000000, 280000000000000000000, 280000000000000000000, 280000000000000000000,
     281000000000000000000, 281000000000000000000, 281000000000000000000, 281000000000000000000,
     281000000000000000000, 282000000000000000000, 282000000000000000000, 282000000000000000000,
     282000000000000000000, 282000000000000000000, 282000000000000000000, 283000000000000000000,
     283000000000000000000, 283000000000000000000, 283000000000000000000, 283000000000000000000,
     284000000000000000000, 284000000000000000000, 284000000000000000000, 284000000000000000000,
     284000000000000000000, 284000000000000000000, 285000000000000000000, 285000000000000000000,
     285000000000000000000, 285000000000000000000, 285000000000000000000, 286000000000000000000,
     286000000000000000000, 286000000000000000000, 286000000000000000000, 286000000000000000000,
     287000000000000000000, 287000000000000000000, 287000000000000000000, 287000000000000000000,
     287000000000000000000, 287000000000000000000, 288000000000000000000, 288000000000000000000,
     288000000000000000000, 288000000000000000000, 288000000000000000000, 289000000000000000000,
     289000000000000000000, 289000000000000000000, 289000000000000000000, 289000000000000000000,
     290000000000000000000, 290000000000000000000, 290000000000000000000, 290000000000000000000,
     290000000000000000000, 290000000000000000000, 291000000000000000000, 291000000000000000000,
     291000000000000000000, 291000000000000000000, 291000000000000000000, 292000000000000000000,
     292000000000000000000, 292000000000000000000]"

definition stakeAmountListTestnet14 :: "int list" where
  "stakeAmountListTestnet14 = [
     292000000000000000000, 292000000000000000000, 293000000000000000000, 293000000000000000000,
     293000000000000000000, 293000000000000000000, 293000000000000000000, 294000000000000000000,
     294000000000000000000, 294000000000000000000, 294000000000000000000, 294000000000000000000,
     294000000000000000000, 295000000000000000000, 295000000000000000000, 295000000000000000000,
     295000000000000000000, 295000000000000000000, 296000000000000000000, 296000000000000000000,
     296000000000000000000, 296000000000000000000, 296000000000000000000, 297000000000000000000,
     297000000000000000000, 297000000000000000000, 297000000000000000000, 297000000000000000000,
     298000000000000000000, 298000000000000000000, 298000000000000000000, 298000000000000000000,
     298000000000000000000, 299000000000000000000, 299000000000000000000, 299000000000000000000,
     299000000000000000000, 299000000000000000000, 299000000000000000000, 300000000000000000000,
     300000000000000000000, 300000000000000000000, 300000000000000000000, 300000000000000000000,
     301000000000000000000, 301000000000000000000, 301000000000000000000, 301000000000000000000,
     301000000000000000000, 302000000000000000000, 302000000000000000000, 302000000000000000000,
     302000000000000000000, 302000000000000000000, 303000000000000000000, 303000000000000000000,
     303000000000000000000, 303000000000000000000, 303000000000000000000, 304000000000000000000,
     304000000000000000000, 304000000000000000000, 304000000000000000000, 304000000000000000000,
     305000000000000000000, 305000000000000000000, 305000000000000000000, 305000000000000000000,
     305000000000000000000, 306000000000000000000, 306000000000000000000, 306000000000000000000,
     306000000000000000000, 306000000000000000000, 306000000000000000000, 307000000000000000000,
     307000000000000000000, 307000000000000000000, 307000000000000000000, 307000000000000000000,
     308000000000000000000, 308000000000000000000, 308000000000000000000, 308000000000000000000,
     308000000000000000000, 309000000000000000000, 309000000000000000000, 309000000000000000000,
     309000000000000000000, 309000000000000000000, 310000000000000000000, 310000000000000000000,
     310000000000000000000, 310000000000000000000, 310000000000000000000, 311000000000000000000,
     311000000000000000000, 311000000000000000000, 311000000000000000000, 311000000000000000000,
     312000000000000000000, 312000000000000000000, 312000000000000000000, 312000000000000000000,
     312000000000000000000, 313000000000000000000, 313000000000000000000, 313000000000000000000,
     313000000000000000000, 313000000000000000000, 314000000000000000000, 314000000000000000000,
     314000000000000000000, 314000000000000000000, 314000000000000000000, 315000000000000000000,
     315000000000000000000, 315000000000000000000, 315000000000000000000, 315000000000000000000,
     316000000000000000000, 316000000000000000000, 316000000000000000000, 316000000000000000000,
     316000000000000000000, 317000000000000000000, 317000000000000000000, 317000000000000000000,
     317000000000000000000, 317000000000000000000, 318000000000000000000, 318000000000000000000,
     318000000000000000000, 318000000000000000000, 318000000000000000000, 319000000000000000000,
     319000000000000000000, 319000000000000000000, 319000000000000000000, 319000000000000000000,
     320000000000000000000, 320000000000000000000, 320000000000000000000, 320000000000000000000,
     320000000000000000000, 321000000000000000000, 321000000000000000000, 321000000000000000000,
     321000000000000000000, 321000000000000000000]"

definition stakeAmountListTestnet15 :: "int list" where
  "stakeAmountListTestnet15 = [
     322000000000000000000, 322000000000000000000, 322000000000000000000, 322000000000000000000,
     323000000000000000000, 323000000000000000000, 323000000000000000000, 323000000000000000000,
     323000000000000000000, 324000000000000000000, 324000000000000000000, 324000000000000000000,
     324000000000000000000, 324000000000000000000, 325000000000000000000, 325000000000000000000,
     325000000000000000000, 325000000000000000000, 325000000000000000000, 326000000000000000000,
     326000000000000000000, 326000000000000000000, 326000000000000000000, 326000000000000000000,
     327000000000000000000, 327000000000000000000, 327000000000000000000, 327000000000000000000,
     327000000000000000000, 328000000000000000000, 328000000000000000000, 328000000000000000000,
     328000000000000000000, 328000000000000000000, 329000000000000000000, 329000000000000000000,
     329000000000000000000, 329000000000000000000, 330000000000000000000, 330000000000000000000,
     330000000000000000000, 330000000000000000000, 330000000000000000000, 331000000000000000000,
     331000000000000000000, 331000000000000000000, 331000000000000000000, 331000000000000000000,
     332000000000000000000, 332000000000000000000, 332000000000000000000, 332000000000000000000,
     332000000000000000000, 333000000000000000000, 333000000000000000000, 333000000000000000000,
     333000000000000000000, 333000000000000000000, 334000000000000000000, 334000000000000000000,
     334000000000000000000, 334000000000000000000, 335000000000000000000, 335000000000000000000,
     335000000000000000000, 335000000000000000000, 335000000000000000000, 336000000000000000000,
     336000000000000000000, 336000000000000000000, 336000000000000000000, 336000000000000000000,
     337000000000000000000, 337000000000000000000, 337000000000000000000, 337000000000000000000,
     337000000000000000000, 338000000000000000000, 338000000000000000000, 338000000000000000000,
     338000000000000000000, 339000000000000000000, 339000000000000000000, 339000000000000000000,
     339000000000000000000, 339000000000000000000, 340000000000000000000, 340000000000000000000,
     340000000000000000000, 340000000000000000000, 340000000000000000000, 341000000000000000000,
     341000000000000000000, 341000000000000000000, 341000000000000000000, 342000000000000000000,
     342000000000000000000, 342000000000000000000, 342000000000000000000, 342000000000000000000,
     343000000000000000000, 343000000000000000000, 343000000000000000000, 343000000000000000000,
     343000000000000000000, 344000000000000000000, 344000000000000000000, 344000000000000000000,
     344000000000000000000, 345000000000000000000, 345000000000000000000, 345000000000000000000,
     345000000000000000000, 345000000000000000000, 346000000000000000000, 346000000000000000000,
     346000000000000000000, 346000000000000000000, 346000000000000000000, 347000000000000000000,
     347000000000000000000, 347000000000000000000, 347000000000000000000, 348000000000000000000,
     348000000000000000000, 348000000000000000000, 348000000000000000000, 348000000000000000000,
     349000000000000000000, 349000000000000000000, 349000000000000000000, 349000000000000000000,
     350000000000000000000, 350000000000000000000, 350000000000000000000, 350000000000000000000,
     350000000000000000000, 351000000000000000000, 351000000000000000000, 351000000000000000000,
     351000000000000000000, 352000000000000000000, 352000000000000000000, 352000000000000000000,
     352000000000000000000, 352000000000000000000, 353000000000000000000, 353000000000000000000,
     353000000000000000000, 353000000000000000000]"

definition stakeAmountListTestnet16 :: "int list" where
  "stakeAmountListTestnet16 = [
     354000000000000000000, 354000000000000000000, 354000000000000000000, 354000000000000000000,
     354000000000000000000, 355000000000000000000, 355000000000000000000, 355000000000000000000,
     355000000000000000000, 355000000000000000000, 356000000000000000000, 356000000000000000000,
     356000000000000000000, 356000000000000000000, 357000000000000000000, 357000000000000000000,
     357000000000000000000, 357000000000000000000, 358000000000000000000, 358000000000000000000,
     358000000000000000000, 358000000000000000000, 358000000000000000000, 359000000000000000000,
     359000000000000000000, 359000000000000000000, 359000000000000000000, 360000000000000000000,
     360000000000000000000, 360000000000000000000, 360000000000000000000, 360000000000000000000,
     361000000000000000000, 361000000000000000000, 361000000000000000000, 361000000000000000000,
     362000000000000000000, 362000000000000000000, 362000000000000000000, 362000000000000000000,
     362000000000000000000, 363000000000000000000, 363000000000000000000, 363000000000000000000,
     363000000000000000000, 364000000000000000000, 364000000000000000000, 364000000000000000000,
     364000000000000000000, 364000000000000000000, 365000000000000000000, 365000000000000000000,
     365000000000000000000, 365000000000000000000, 366000000000000000000, 366000000000000000000,
     366000000000000000000, 366000000000000000000, 367000000000000000000, 367000000000000000000,
     367000000000000000000, 367000000000000000000, 367000000000000000000, 368000000000000000000,
     368000000000000000000, 368000000000000000000, 368000000000000000000, 369000000000000000000,
     369000000000000000000, 369000000000000000000, 369000000000000000000, 370000000000000000000,
     370000000000000000000, 370000000000000000000, 370000000000000000000, 370000000000000000000,
     371000000000000000000, 371000000000000000000, 371000000000000000000, 371000000000000000000,
     372000000000000000000, 372000000000000000000, 372000000000000000000, 372000000000000000000,
     373000000000000000000, 373000000000000000000, 373000000000000000000, 373000000000000000000,
     373000000000000000000, 374000000000000000000, 374000000000000000000, 374000000000000000000,
     374000000000000000000, 375000000000000000000, 375000000000000000000, 375000000000000000000,
     375000000000000000000, 376000000000000000000, 376000000000000000000, 376000000000000000000,
     376000000000000000000, 377000000000000000000, 377000000000000000000, 377000000000000000000,
     377000000000000000000, 377000000000000000000, 378000000000000000000, 378000000000000000000,
     378000000000000000000, 378000000000000000000, 379000000000000000000, 379000000000000000000,
     379000000000000000000, 379000000000000000000, 380000000000000000000, 380000000000000000000,
     380000000000000000000, 380000000000000000000, 381000000000000000000, 381000000000000000000,
     381000000000000000000, 381000000000000000000, 382000000000000000000, 382000000000000000000,
     382000000000000000000, 382000000000000000000, 382000000000000000000, 383000000000000000000,
     383000000000000000000, 383000000000000000000, 383000000000000000000, 384000000000000000000,
     384000000000000000000, 384000000000000000000, 384000000000000000000, 385000000000000000000,
     385000000000000000000, 385000000000000000000, 385000000000000000000, 386000000000000000000,
     386000000000000000000, 386000000000000000000, 386000000000000000000, 387000000000000000000,
     387000000000000000000, 387000000000000000000, 387000000000000000000, 388000000000000000000,
     388000000000000000000, 388000000000000000000]"

definition stakeAmountListTestnet17 :: "int list" where
  "stakeAmountListTestnet17 = [
     388000000000000000000, 388000000000000000000, 389000000000000000000, 389000000000000000000,
     389000000000000000000, 389000000000000000000, 390000000000000000000, 390000000000000000000,
     390000000000000000000, 390000000000000000000, 391000000000000000000, 391000000000000000000,
     391000000000000000000, 391000000000000000000, 392000000000000000000, 392000000000000000000,
     392000000000000000000, 392000000000000000000, 393000000000000000000, 393000000000000000000,
     393000000000000000000, 393000000000000000000, 394000000000000000000, 394000000000000000000,
     394000000000000000000, 394000000000000000000, 395000000000000000000, 395000000000000000000,
     395000000000000000000, 395000000000000000000, 396000000000000000000, 396000000000000000000,
     396000000000000000000, 396000000000000000000, 397000000000000000000, 397000000000000000000,
     397000000000000000000, 397000000000000000000, 398000000000000000000, 398000000000000000000,
     398000000000000000000, 398000000000000000000, 399000000000000000000, 399000000000000000000,
     399000000000000000000, 399000000000000000000, 400000000000000000000, 400000000000000000000,
     400000000000000000000, 400000000000000000000, 401000000000000000000, 401000000000000000000,
     401000000000000000000, 401000000000000000000, 402000000000000000000, 402000000000000000000,
     402000000000000000000, 402000000000000000000, 403000000000000000000, 403000000000000000000,
     403000000000000000000, 403000000000000000000, 404000000000000000000, 404000000000000000000,
     404000000000000000000, 404000000000000000000, 405000000000000000000, 405000000000000000000,
     405000000000000000000, 405000000000000000000, 406000000000000000000, 406000000000000000000,
     406000000000000000000, 406000000000000000000, 407000000000000000000, 407000000000000000000,
     407000000000000000000, 407000000000000000000, 408000000000000000000, 408000000000000000000,
     408000000000000000000, 409000000000000000000, 409000000000000000000, 409000000000000000000,
     409000000000000000000, 410000000000000000000, 410000000000000000000, 410000000000000000000,
     410000000000000000000, 411000000000000000000, 411000000000000000000, 411000000000000000000,
     411000000000000000000, 412000000000000000000, 412000000000000000000, 412000000000000000000,
     412000000000000000000, 413000000000000000000, 413000000000000000000, 413000000000000000000,
     413000000000000000000, 414000000000000000000, 414000000000000000000, 414000000000000000000,
     414000000000000000000, 415000000000000000000, 415000000000000000000, 415000000000000000000,
     416000000000000000000, 416000000000000000000, 416000000000000000000, 416000000000000000000,
     417000000000000000000, 417000000000000000000, 417000000000000000000, 417000000000000000000,
     418000000000000000000, 418000000000000000000, 418000000000000000000, 418000000000000000000,
     419000000000000000000, 419000000000000000000, 419000000000000000000, 420000000000000000000,
     420000000000000000000, 420000000000000000000, 420000000000000000000, 421000000000000000000,
     421000000000000000000, 421000000000000000000, 421000000000000000000, 422000000000000000000,
     422000000000000000000, 422000000000000000000, 422000000000000000000, 423000000000000000000,
     423000000000000000000, 423000000000000000000, 424000000000000000000, 424000000000000000000,
     424000000000000000000, 424000000000000000000, 425000000000000000000, 425000000000000000000,
     425000000000000000000, 425000000000000000000, 426000000000000000000, 426000000000000000000,
     426000000000000000000, 426000000000000000000]"

definition stakeAmountListTestnet18 :: "int list" where
  "stakeAmountListTestnet18 = [
     427000000000000000000, 427000000000000000000, 427000000000000000000, 428000000000000000000,
     428000000000000000000, 428000000000000000000, 428000000000000000000, 429000000000000000000,
     429000000000000000000, 429000000000000000000, 429000000000000000000, 430000000000000000000,
     430000000000000000000, 430000000000000000000, 431000000000000000000, 431000000000000000000,
     431000000000000000000, 431000000000000000000, 432000000000000000000, 432000000000000000000,
     432000000000000000000, 433000000000000000000, 433000000000000000000, 433000000000000000000,
     433000000000000000000, 434000000000000000000, 434000000000000000000, 434000000000000000000,
     434000000000000000000, 435000000000000000000, 435000000000000000000, 435000000000000000000,
     436000000000000000000, 436000000000000000000, 436000000000000000000, 436000000000000000000,
     437000000000000000000, 437000000000000000000, 437000000000000000000, 438000000000000000000,
     438000000000000000000, 438000000000000000000, 438000000000000000000, 439000000000000000000,
     439000000000000000000, 439000000000000000000, 440000000000000000000, 440000000000000000000,
     440000000000000000000, 440000000000000000000, 441000000000000000000, 441000000000000000000,
     441000000000000000000, 442000000000000000000, 442000000000000000000, 442000000000000000000,
     442000000000000000000, 443000000000000000000, 443000000000000000000, 443000000000000000000,
     444000000000000000000, 444000000000000000000, 444000000000000000000, 444000000000000000000,
     445000000000000000000, 445000000000000000000, 445000000000000000000, 446000000000000000000,
     446000000000000000000, 446000000000000000000, 446000000000000000000, 447000000000000000000,
     447000000000000000000, 447000000000000000000, 448000000000000000000, 448000000000000000000,
     448000000000000000000, 448000000000000000000, 449000000000000000000, 449000000000000000000,
     449000000000000000000, 450000000000000000000, 450000000000000000000, 450000000000000000000,
     450000000000000000000, 451000000000000000000, 451000000000000000000, 451000000000000000000,
     452000000000000000000, 452000000000000000000, 452000000000000000000, 452000000000000000000,
     453000000000000000000, 453000000000000000000, 453000000000000000000, 454000000000000000000,
     454000000000000000000, 454000000000000000000, 455000000000000000000, 455000000000000000000,
     455000000000000000000, 455000000000000000000, 456000000000000000000, 456000000000000000000,
     456000000000000000000, 457000000000000000000, 457000000000000000000, 457000000000000000000,
     458000000000000000000, 458000000000000000000, 458000000000000000000, 458000000000000000000,
     459000000000000000000, 459000000000000000000, 459000000000000000000, 460000000000000000000,
     460000000000000000000, 460000000000000000000, 461000000000000000000, 461000000000000000000,
     461000000000000000000, 461000000000000000000, 462000000000000000000, 462000000000000000000,
     462000000000000000000, 463000000000000000000, 463000000000000000000, 463000000000000000000,
     464000000000000000000, 464000000000000000000, 464000000000000000000, 464000000000000000000,
     465000000000000000000, 465000000000000000000, 465000000000000000000, 466000000000000000000,
     466000000000000000000, 466000000000000000000, 467000000000000000000, 467000000000000000000,
     467000000000000000000, 468000000000000000000, 468000000000000000000, 468000000000000000000,
     468000000000000000000, 469000000000000000000, 469000000000000000000, 469000000000000000000,
     470000000000000000000, 470000000000000000000]"

definition stakeAmountListTestnet19 :: "int list" where
  "stakeAmountListTestnet19 = [
     470000000000000000000, 471000000000000000000, 471000000000000000000, 471000000000000000000,
     472000000000000000000, 472000000000000000000, 472000000000000000000, 473000000000000000000,
     473000000000000000000, 473000000000000000000, 473000000000000000000, 474000000000000000000,
     474000000000000000000, 474000000000000000000, 475000000000000000000, 475000000000000000000,
     475000000000000000000, 476000000000000000000, 476000000000000000000, 476000000000000000000,
     477000000000000000000, 477000000000000000000, 477000000000000000000, 478000000000000000000,
     478000000000000000000, 478000000000000000000, 479000000000000000000, 479000000000000000000,
     479000000000000000000, 479000000000000000000, 480000000000000000000, 480000000000000000000,
     480000000000000000000, 481000000000000000000, 481000000000000000000, 481000000000000000000,
     482000000000000000000, 482000000000000000000, 482000000000000000000, 483000000000000000000,
     483000000000000000000, 483000000000000000000, 484000000000000000000, 484000000000000000000,
     484000000000000000000, 485000000000000000000, 485000000000000000000, 485000000000000000000,
     486000000000000000000, 486000000000000000000, 486000000000000000000, 487000000000000000000,
     487000000000000000000, 487000000000000000000, 488000000000000000000, 488000000000000000000,
     488000000000000000000, 489000000000000000000, 489000000000000000000, 489000000000000000000,
     490000000000000000000, 490000000000000000000, 490000000000000000000, 491000000000000000000,
     491000000000000000000, 491000000000000000000, 492000000000000000000, 492000000000000000000,
     492000000000000000000, 493000000000000000000, 493000000000000000000, 493000000000000000000,
     494000000000000000000, 494000000000000000000, 494000000000000000000, 495000000000000000000,
     495000000000000000000, 495000000000000000000, 496000000000000000000, 496000000000000000000,
     496000000000000000000, 497000000000000000000, 497000000000000000000, 497000000000000000000,
     498000000000000000000, 498000000000000000000, 498000000000000000000, 499000000000000000000,
     499000000000000000000, 499000000000000000000, 500000000000000000000, 500000000000000000000,
     500000000000000000000, 501000000000000000000, 501000000000000000000, 501000000000000000000,
     502000000000000000000, 502000000000000000000, 502000000000000000000, 503000000000000000000,
     503000000000000000000, 503000000000000000000, 504000000000000000000, 504000000000000000000,
     505000000000000000000, 505000000000000000000, 505000000000000000000, 506000000000000000000,
     506000000000000000000, 506000000000000000000, 507000000000000000000, 507000000000000000000,
     507000000000000000000, 508000000000000000000, 508000000000000000000, 508000000000000000000,
     509000000000000000000, 509000000000000000000, 509000000000000000000, 510000000000000000000,
     510000000000000000000, 510000000000000000000, 511000000000000000000, 511000000000000000000,
     512000000000000000000, 512000000000000000000, 512000000000000000000, 513000000000000000000,
     513000000000000000000, 513000000000000000000, 514000000000000000000, 514000000000000000000,
     514000000000000000000, 515000000000000000000, 515000000000000000000, 515000000000000000000,
     516000000000000000000, 516000000000000000000, 517000000000000000000, 517000000000000000000,
     517000000000000000000, 518000000000000000000, 518000000000000000000, 518000000000000000000,
     519000000000000000000, 519000000000000000000, 519000000000000000000, 520000000000000000000,
     520000000000000000000, 521000000000000000000]"

definition stakeAmountListTestnet20 :: "int list" where
  "stakeAmountListTestnet20 = [
     521000000000000000000, 521000000000000000000, 522000000000000000000, 522000000000000000000,
     522000000000000000000, 523000000000000000000, 523000000000000000000, 524000000000000000000,
     524000000000000000000, 524000000000000000000, 525000000000000000000, 525000000000000000000,
     525000000000000000000, 526000000000000000000, 526000000000000000000, 526000000000000000000,
     527000000000000000000, 527000000000000000000, 528000000000000000000, 528000000000000000000,
     528000000000000000000, 529000000000000000000, 529000000000000000000, 530000000000000000000,
     530000000000000000000, 530000000000000000000, 531000000000000000000, 531000000000000000000,
     531000000000000000000, 532000000000000000000, 532000000000000000000, 533000000000000000000,
     533000000000000000000, 533000000000000000000, 534000000000000000000, 534000000000000000000,
     534000000000000000000, 535000000000000000000, 535000000000000000000, 536000000000000000000,
     536000000000000000000, 536000000000000000000, 537000000000000000000, 537000000000000000000,
     538000000000000000000, 538000000000000000000, 538000000000000000000, 539000000000000000000,
     539000000000000000000, 539000000000000000000, 540000000000000000000, 540000000000000000000,
     541000000000000000000, 541000000000000000000, 541000000000000000000, 542000000000000000000,
     542000000000000000000, 543000000000000000000, 543000000000000000000, 543000000000000000000,
     544000000000000000000, 544000000000000000000, 545000000000000000000, 545000000000000000000,
     545000000000000000000, 546000000000000000000, 546000000000000000000, 547000000000000000000,
     547000000000000000000, 547000000000000000000, 548000000000000000000, 548000000000000000000,
     549000000000000000000, 549000000000000000000, 549000000000000000000, 550000000000000000000,
     550000000000000000000, 551000000000000000000, 551000000000000000000, 551000000000000000000,
     552000000000000000000, 552000000000000000000, 553000000000000000000, 553000000000000000000,
     554000000000000000000, 554000000000000000000, 554000000000000000000, 555000000000000000000,
     555000000000000000000, 556000000000000000000, 556000000000000000000, 556000000000000000000,
     557000000000000000000, 557000000000000000000, 558000000000000000000, 558000000000000000000,
     558000000000000000000, 559000000000000000000, 559000000000000000000, 560000000000000000000,
     560000000000000000000, 561000000000000000000, 561000000000000000000, 561000000000000000000,
     562000000000000000000, 562000000000000000000, 563000000000000000000, 563000000000000000000,
     564000000000000000000, 564000000000000000000, 564000000000000000000, 565000000000000000000,
     565000000000000000000, 566000000000000000000, 566000000000000000000, 567000000000000000000,
     567000000000000000000, 567000000000000000000, 568000000000000000000, 568000000000000000000,
     569000000000000000000, 569000000000000000000, 570000000000000000000, 570000000000000000000,
     570000000000000000000, 571000000000000000000, 571000000000000000000, 572000000000000000000,
     572000000000000000000, 573000000000000000000, 573000000000000000000, 573000000000000000000,
     574000000000000000000, 574000000000000000000, 575000000000000000000, 575000000000000000000,
     576000000000000000000, 576000000000000000000, 577000000000000000000, 577000000000000000000,
     577000000000000000000, 578000000000000000000, 578000000000000000000, 579000000000000000000,
     579000000000000000000, 580000000000000000000, 580000000000000000000, 581000000000000000000,
     581000000000000000000, 581000000000000000000]"

definition stakeAmountListTestnet21 :: "int list" where
  "stakeAmountListTestnet21 = [
     582000000000000000000, 582000000000000000000, 583000000000000000000, 583000000000000000000,
     584000000000000000000, 584000000000000000000, 585000000000000000000, 585000000000000000000,
     586000000000000000000, 586000000000000000000, 586000000000000000000, 587000000000000000000,
     587000000000000000000, 588000000000000000000, 588000000000000000000, 589000000000000000000,
     589000000000000000000, 590000000000000000000, 590000000000000000000, 591000000000000000000,
     591000000000000000000, 592000000000000000000, 592000000000000000000, 593000000000000000000,
     593000000000000000000, 593000000000000000000, 594000000000000000000, 594000000000000000000,
     595000000000000000000, 595000000000000000000, 596000000000000000000, 596000000000000000000,
     597000000000000000000, 597000000000000000000, 598000000000000000000, 598000000000000000000,
     599000000000000000000, 599000000000000000000, 600000000000000000000, 600000000000000000000,
     601000000000000000000, 601000000000000000000, 602000000000000000000, 602000000000000000000,
     603000000000000000000, 603000000000000000000, 604000000000000000000, 604000000000000000000,
     605000000000000000000, 605000000000000000000, 606000000000000000000, 606000000000000000000,
     607000000000000000000, 607000000000000000000, 608000000000000000000, 608000000000000000000,
     608000000000000000000, 609000000000000000000, 609000000000000000000, 610000000000000000000,
     610000000000000000000, 611000000000000000000, 612000000000000000000, 612000000000000000000,
     613000000000000000000, 613000000000000000000, 614000000000000000000, 614000000000000000000,
     615000000000000000000, 615000000000000000000, 616000000000000000000, 616000000000000000000,
     617000000000000000000, 617000000000000000000, 618000000000000000000, 618000000000000000000,
     619000000000000000000, 619000000000000000000, 620000000000000000000, 620000000000000000000,
     621000000000000000000, 621000000000000000000, 622000000000000000000, 622000000000000000000,
     623000000000000000000, 623000000000000000000, 624000000000000000000, 624000000000000000000,
     625000000000000000000, 625000000000000000000, 626000000000000000000, 626000000000000000000,
     627000000000000000000, 628000000000000000000, 628000000000000000000, 629000000000000000000,
     629000000000000000000, 630000000000000000000, 630000000000000000000, 631000000000000000000,
     631000000000000000000, 632000000000000000000, 632000000000000000000, 633000000000000000000,
     633000000000000000000, 634000000000000000000, 635000000000000000000, 635000000000000000000,
     636000000000000000000, 636000000000000000000, 637000000000000000000, 637000000000000000000,
     638000000000000000000, 638000000000000000000, 639000000000000000000, 640000000000000000000,
     640000000000000000000, 641000000000000000000, 641000000000000000000, 642000000000000000000,
     642000000000000000000, 643000000000000000000, 643000000000000000000, 644000000000000000000,
     645000000000000000000, 645000000000000000000, 646000000000000000000, 646000000000000000000,
     647000000000000000000, 647000000000000000000, 648000000000000000000, 649000000000000000000,
     649000000000000000000, 650000000000000000000, 650000000000000000000, 651000000000000000000,
     652000000000000000000, 652000000000000000000, 653000000000000000000, 653000000000000000000,
     654000000000000000000, 654000000000000000000, 655000000000000000000, 656000000000000000000,
     656000000000000000000, 657000000000000000000, 657000000000000000000, 658000000000000000000,
     659000000000000000000, 659000000000000000000]"

definition stakeAmountListTestnet22 :: "int list" where
  "stakeAmountListTestnet22 = [
     660000000000000000000, 660000000000000000000, 661000000000000000000, 662000000000000000000,
     662000000000000000000, 663000000000000000000, 663000000000000000000, 664000000000000000000,
     665000000000000000000, 665000000000000000000, 666000000000000000000, 666000000000000000000,
     667000000000000000000, 668000000000000000000, 668000000000000000000, 669000000000000000000,
     670000000000000000000, 670000000000000000000, 671000000000000000000, 671000000000000000000,
     672000000000000000000, 673000000000000000000, 673000000000000000000, 674000000000000000000,
     675000000000000000000, 675000000000000000000, 676000000000000000000, 677000000000000000000,
     677000000000000000000, 678000000000000000000, 678000000000000000000, 679000000000000000000,
     680000000000000000000, 680000000000000000000, 681000000000000000000, 682000000000000000000,
     682000000000000000000, 683000000000000000000, 684000000000000000000, 684000000000000000000,
     685000000000000000000, 686000000000000000000, 686000000000000000000, 687000000000000000000,
     688000000000000000000, 688000000000000000000, 689000000000000000000, 690000000000000000000,
     690000000000000000000, 691000000000000000000, 692000000000000000000, 692000000000000000000,
     693000000000000000000, 694000000000000000000, 694000000000000000000, 695000000000000000000,
     696000000000000000000, 696000000000000000000, 697000000000000000000, 698000000000000000000,
     698000000000000000000, 699000000000000000000, 700000000000000000000, 701000000000000000000,
     701000000000000000000, 702000000000000000000, 703000000000000000000, 703000000000000000000,
     704000000000000000000, 705000000000000000000, 705000000000000000000, 706000000000000000000,
     707000000000000000000, 708000000000000000000, 708000000000000000000, 709000000000000000000,
     710000000000000000000, 711000000000000000000, 711000000000000000000, 712000000000000000000,
     713000000000000000000, 713000000000000000000, 714000000000000000000, 715000000000000000000,
     716000000000000000000, 716000000000000000000, 717000000000000000000, 718000000000000000000,
     719000000000000000000, 719000000000000000000, 720000000000000000000, 721000000000000000000,
     722000000000000000000, 722000000000000000000, 723000000000000000000, 724000000000000000000,
     725000000000000000000, 725000000000000000000, 726000000000000000000, 727000000000000000000,
     728000000000000000000, 729000000000000000000, 729000000000000000000, 730000000000000000000,
     731000000000000000000, 732000000000000000000, 732000000000000000000, 733000000000000000000,
     734000000000000000000, 735000000000000000000, 736000000000000000000, 736000000000000000000,
     737000000000000000000, 738000000000000000000, 739000000000000000000, 740000000000000000000,
     740000000000000000000, 741000000000000000000, 742000000000000000000, 743000000000000000000,
     744000000000000000000, 745000000000000000000, 745000000000000000000, 746000000000000000000,
     747000000000000000000, 748000000000000000000, 749000000000000000000, 750000000000000000000,
     750000000000000000000, 751000000000000000000, 752000000000000000000, 753000000000000000000,
     754000000000000000000, 755000000000000000000, 756000000000000000000, 756000000000000000000,
     757000000000000000000, 758000000000000000000, 759000000000000000000, 760000000000000000000,
     761000000000000000000, 762000000000000000000, 763000000000000000000, 763000000000000000000,
     764000000000000000000, 765000000000000000000, 766000000000000000000, 767000000000000000000,
     768000000000000000000, 769000000000000000000]"

definition stakeAmountListTestnet23 :: "int list" where
  "stakeAmountListTestnet23 = [
     770000000000000000000, 771000000000000000000, 772000000000000000000, 773000000000000000000,
     773000000000000000000, 774000000000000000000, 775000000000000000000, 776000000000000000000,
     777000000000000000000, 778000000000000000000, 779000000000000000000, 780000000000000000000,
     781000000000000000000, 782000000000000000000, 783000000000000000000, 784000000000000000000,
     785000000000000000000, 786000000000000000000, 787000000000000000000, 788000000000000000000,
     789000000000000000000, 790000000000000000000, 791000000000000000000, 792000000000000000000,
     793000000000000000000, 794000000000000000000, 795000000000000000000, 796000000000000000000,
     797000000000000000000, 798000000000000000000, 799000000000000000000, 800000000000000000000,
     801000000000000000000, 802000000000000000000, 803000000000000000000, 804000000000000000000,
     805000000000000000000, 806000000000000000000, 807000000000000000000, 808000000000000000000,
     809000000000000000000, 810000000000000000000, 811000000000000000000, 812000000000000000000,
     813000000000000000000, 814000000000000000000, 816000000000000000000, 817000000000000000000,
     818000000000000000000, 819000000000000000000, 820000000000000000000, 821000000000000000000,
     822000000000000000000, 823000000000000000000, 824000000000000000000, 826000000000000000000,
     827000000000000000000, 828000000000000000000, 829000000000000000000, 830000000000000000000,
     831000000000000000000, 832000000000000000000, 834000000000000000000, 835000000000000000000,
     836000000000000000000, 837000000000000000000, 838000000000000000000, 840000000000000000000,
     841000000000000000000, 842000000000000000000, 843000000000000000000, 844000000000000000000,
     846000000000000000000, 847000000000000000000, 848000000000000000000, 849000000000000000000,
     851000000000000000000, 852000000000000000000, 853000000000000000000, 854000000000000000000,
     856000000000000000000, 857000000000000000000, 858000000000000000000, 860000000000000000000,
     861000000000000000000, 862000000000000000000, 863000000000000000000, 865000000000000000000,
     866000000000000000000, 867000000000000000000, 869000000000000000000, 870000000000000000000,
     871000000000000000000, 873000000000000000000, 874000000000000000000, 876000000000000000000,
     877000000000000000000, 878000000000000000000, 880000000000000000000, 881000000000000000000,
     883000000000000000000, 884000000000000000000, 885000000000000000000, 887000000000000000000,
     888000000000000000000, 890000000000000000000, 891000000000000000000, 893000000000000000000,
     894000000000000000000, 896000000000000000000, 897000000000000000000, 899000000000000000000,
     900000000000000000000, 902000000000000000000, 903000000000000000000, 905000000000000000000,
     906000000000000000000, 908000000000000000000, 910000000000000000000, 911000000000000000000,
     913000000000000000000, 914000000000000000000, 916000000000000000000, 918000000000000000000,
     919000000000000000000, 921000000000000000000, 923000000000000000000, 924000000000000000000,
     926000000000000000000, 928000000000000000000, 929000000000000000000, 931000000000000000000,
     933000000000000000000, 935000000000000000000, 936000000000000000000, 938000000000000000000,
     940000000000000000000, 942000000000000000000, 944000000000000000000, 945000000000000000000,
     947000000000000000000, 949000000000000000000, 951000000000000000000, 953000000000000000000,
     955000000000000000000, 957000000000000000000, 959000000000000000000, 960000000000000000000,
     962000000000000000000, 964000000000000000000]"

definition stakeAmountListTestnet24 :: "int list" where
  "stakeAmountListTestnet24 = [
     966000000000000000000, 968000000000000000000, 970000000000000000000, 972000000000000000000,
     975000000000000000000, 977000000000000000000, 979000000000000000000, 981000000000000000000,
     983000000000000000000, 985000000000000000000, 987000000000000000000, 989000000000000000000,
     992000000000000000000, 994000000000000000000, 996000000000000000000, 998000000000000000000,
     1001000000000000000000, 1003000000000000000000, 1005000000000000000000, 1008000000000000000000,
     1010000000000000000000, 1012000000000000000000, 1015000000000000000000, 1017000000000000000000,
     1020000000000000000000, 1022000000000000000000, 1025000000000000000000, 1027000000000000000000,
     1030000000000000000000, 1032000000000000000000, 1035000000000000000000, 1038000000000000000000,
     1040000000000000000000, 1043000000000000000000, 1046000000000000000000, 1049000000000000000000,
     1051000000000000000000, 1054000000000000000000, 1057000000000000000000, 1060000000000000000000,
     1063000000000000000000, 1066000000000000000000, 1069000000000000000000, 1072000000000000000000,
     1075000000000000000000, 1078000000000000000000, 1081000000000000000000, 1085000000000000000000,
     1088000000000000000000, 1091000000000000000000, 1094000000000000000000, 1098000000000000000000,
     1101000000000000000000, 1105000000000000000000, 1108000000000000000000, 1112000000000000000000,
     1116000000000000000000, 1119000000000000000000, 1123000000000000000000, 1127000000000000000000,
     1131000000000000000000, 1135000000000000000000, 1139000000000000000000, 1143000000000000000000,
     1147000000000000000000, 1151000000000000000000, 1155000000000000000000, 1160000000000000000000,
     1164000000000000000000, 1169000000000000000000, 1173000000000000000000, 1178000000000000000000,
     1183000000000000000000, 1188000000000000000000, 1193000000000000000000, 1198000000000000000000,
     1203000000000000000000, 1208000000000000000000, 1214000000000000000000, 1219000000000000000000,
     1225000000000000000000, 1231000000000000000000, 1237000000000000000000, 1243000000000000000000,
     1249000000000000000000, 1256000000000000000000, 1263000000000000000000, 1269000000000000000000,
     1276000000000000000000, 1284000000000000000000, 1291000000000000000000, 1299000000000000000000,
     1307000000000000000000, 1315000000000000000000, 1324000000000000000000, 1333000000000000000000,
     1342000000000000000000, 1351000000000000000000, 1361000000000000000000, 1372000000000000000000,
     1383000000000000000000, 1394000000000000000000, 1406000000000000000000, 1419000000000000000000,
     1432000000000000000000, 1446000000000000000000, 1461000000000000000000, 1477000000000000000000,
     1494000000000000000000, 1513000000000000000000, 1533000000000000000000, 1555000000000000000000,
     1579000000000000000000, 1605000000000000000000, 1635000000000000000000, 1670000000000000000000,
     1710000000000000000000, 1759000000000000000000, 1820000000000000000000, 1902000000000000000000,
     2028000000000000000000, 2315000000000000000000]"

definition stakeAmountListTestnet :: "int list" where
  "stakeAmountListTestnet =
     stakeAmountListTestnet1 @ stakeAmountListTestnet2 @ stakeAmountListTestnet3 @ stakeAmountListTestnet4 @
     stakeAmountListTestnet5 @ stakeAmountListTestnet6 @ stakeAmountListTestnet7 @ stakeAmountListTestnet8 @
     stakeAmountListTestnet9 @ stakeAmountListTestnet10 @ stakeAmountListTestnet11 @
     stakeAmountListTestnet12 @ stakeAmountListTestnet13 @ stakeAmountListTestnet14 @
     stakeAmountListTestnet15 @ stakeAmountListTestnet16 @ stakeAmountListTestnet17 @
     stakeAmountListTestnet18 @ stakeAmountListTestnet19 @ stakeAmountListTestnet20 @
     stakeAmountListTestnet21 @ stakeAmountListTestnet22 @ stakeAmountListTestnet23 @
     stakeAmountListTestnet24"

subsection \<open>\<open>difficultyListMainnet\<close>\<close>

definition difficultyListMainnet1 :: "int list" where
  "difficultyListMainnet1 = [
     0, 894654, 1789307, 2683961, 3578615, 4473270, 5367925, 6262581, 7157239, 8051897, 8946557, 9841218,
     10735880, 11630544, 12525211, 13419879, 14314549, 15209221, 16103896, 16998573, 17893253, 18787936,
     19682622, 20577310, 21472002, 22366698, 23261397, 24156099, 25050806, 25945516, 26840230, 27734949,
     28629672, 29524399, 30419131, 31313868, 32208609, 33103356, 33998108, 34892865, 35787628, 36682396,
     37577171, 38471951, 39366737, 40261529, 41156327, 42051132, 42945944, 43840762, 44735587, 45630419,
     46525259, 47420105, 48314960, 49209821, 50104691, 50999568, 51894453, 52789346, 53684248, 54579158,
     55474077, 56369004, 57263940, 58158886, 59053840, 59948804, 60843776, 61738759, 62633751, 63528753,
     64423765, 65318787, 66213820, 67108863, 68003916, 68898980, 69794055, 70689140, 71584237, 72479345,
     73374464, 74269595, 75164738, 76059892, 76955059, 77850237, 78745428, 79640631, 80535846, 81431074,
     82326315, 83221569, 84116836, 85012116, 85907410, 86802716, 87698037, 88593371, 89488720, 90384082,
     91279458, 92174849, 93070254, 93965674, 94861109, 95756559, 96652023, 97547503, 98442998, 99338508,
     100234035, 101129576, 102025134, 102920708, 103816298, 104711904, 105607527, 106503166, 107398822,
     108294495, 109190185, 110085892, 110981617, 111877358, 112773118, 113668895, 114564690, 115460503,
     116356334, 117252183, 118148051, 119043938, 119939843, 120835767, 121731710, 122627672, 123523653,
     124419654, 125315674, 126211714, 127107774, 128003854, 128899954, 129796074, 130692215, 131588376,
     132484558, 133380761]"

definition difficultyListMainnet2 :: "int list" where
  "difficultyListMainnet2 = [
     134276984, 135173229, 136069495, 136965783, 137862092, 138758422, 139654775, 140551149, 141447546,
     142343965, 143240406, 144136870, 145033356, 145929866, 146826398, 147722953, 148619532, 149516134,
     150412759, 151309408, 152206081, 153102778, 153999499, 154896245, 155793014, 156689809, 157586627,
     158483471, 159380340, 160277233, 161174152, 162071097, 162968067, 163865062, 164762084, 165659131,
     166556204, 167453304, 168350430, 169247582, 170144761, 171041967, 171939200, 172836460, 173733748,
     174631062, 175528404, 176425774, 177323172, 178220597, 179118051, 180015533, 180913043, 181810582,
     182708149, 183605746, 184503371, 185401025, 186298709, 187196421, 188094164, 188991936, 189889738,
     190787570, 191685432, 192583324, 193481246, 194379199, 195277183, 196175198, 197073243, 197971320,
     198869428, 199767567, 200665738, 201563940, 202462174, 203360440, 204258739, 205157069, 206055432,
     206953828, 207852256, 208750717, 209649211, 210547738, 211446298, 212344892, 213243519, 214142180,
     215040875, 215939603, 216838366, 217737163, 218635995, 219534861, 220433762, 221332697, 222231668,
     223130674, 224029715, 224928791, 225827903, 226727051, 227626234, 228525454, 229424709, 230324001,
     231223330, 232122694, 233022096, 233921535, 234821010, 235720523, 236620073, 237519660, 238419285,
     239318948, 240218649, 241118387, 242018164, 242917979, 243817833, 244717725, 245617656, 246517626,
     247417634, 248317683, 249217770, 250117897, 251018063, 251918269, 252818516, 253718802, 254619128,
     255519495, 256419902, 257320350, 258220839, 259121368, 260021939, 260922551, 261823204, 262723899,
     263624635, 264525414, 265426234, 266327096, 267228001, 268128948]"

definition difficultyListMainnet3 :: "int list" where
  "difficultyListMainnet3 = [
     269029937, 269930969, 270832044, 271733162, 272634324, 273535528, 274436776, 275338067, 276239402,
     277140781, 278042204, 278943671, 279845182, 280746738, 281648339, 282549984, 283451674, 284353409,
     285255189, 286157015, 287058886, 287960802, 288862765, 289764773, 290666828, 291568928, 292471075,
     293373269, 294275509, 295177796, 296080130, 296982511, 297884939, 298787414, 299689937, 300592508,
     301495127, 302397794, 303300508, 304203271, 305106083, 306008943, 306911852, 307814809, 308717816,
     309620872, 310523977, 311427131, 312330335, 313233589, 314136893, 315040247, 315943651, 316847106,
     317750611, 318654166, 319557773, 320461430, 321365138, 322268898, 323172709, 324076572, 324980486,
     325884452, 326788471, 327692541, 328596663, 329500838, 330405066, 331309346, 332213680, 333118066,
     334022505, 334926998, 335831545, 336736144, 337640798, 338545506, 339450268, 340355083, 341259954,
     342164879, 343069858, 343974893, 344879982, 345785127, 346690326, 347595582, 348500892, 349406259,
     350311681, 351217160, 352122695, 353028286, 353933933, 354839637, 355745398, 356651216, 357557091,
     358463023, 359369013, 360275060, 361181165, 362087328, 362993548, 363899827, 364806165, 365712560,
     366619014, 367525527, 368432099, 369338730, 370245420, 371152170, 372058979, 372965848, 373872776,
     374779765, 375686814, 376593923, 377501092, 378408322, 379315613, 380222964, 381130377, 382037850,
     382945386, 383852982, 384760641, 385668361, 386576143, 387483987, 388391893, 389299862, 390207894,
     391115988, 392024145, 392932365, 393840648, 394748994, 395657404, 396565878, 397474416, 398383017,
     399291683, 400200412, 401109207, 402018065, 402926989, 403835977]"

definition difficultyListMainnet4 :: "int list" where
  "difficultyListMainnet4 = [
     404745030, 405654149, 406563333, 407472582, 408381897, 409291278, 410200725, 411110238, 412019817,
     412929462, 413839174, 414748953, 415658799, 416568712, 417478692, 418388739, 419298854, 420209036,
     421119286, 422029605, 422939991, 423850446, 424760969, 425671560, 426582221, 427492950, 428403748,
     429314616, 430225553, 431136559, 432047635, 432958781, 433869997, 434781283, 435692640, 436604066,
     437515564, 438427132, 439338771, 440250482, 441162263, 442074116, 442986040, 443898037, 444810105,
     445722245, 446634457, 447546742, 448459099, 449371529, 450284031, 451196607, 452109255, 453021977,
     453934773, 454847642, 455760585, 456673601, 457586692, 458499857, 459413096, 460326410, 461239799,
     462153263, 463066801, 463980415, 464894104, 465807869, 466721709, 467635625, 468549617, 469463685,
     470377830, 471292051, 472206349, 473120723, 474035174, 474949703, 475864308, 476778991, 477693752,
     478608591, 479523507, 480438501, 481353574, 482268725, 483183954, 484099262, 485014649, 485930115,
     486845661, 487761285, 488676989, 489592773, 490508637, 491424580, 492340604, 493256708, 494172892,
     495089157, 496005503, 496921930, 497838438, 498755027, 499671698, 500588450, 501505284, 502422200,
     503339198, 504256278, 505173440, 506090686, 507008013, 507925424, 508842918, 509760495, 510678156,
     511595900, 512513727, 513431639, 514349635, 515267714, 516185879, 517104127, 518022461, 518940879,
     519859382, 520777970, 521696644, 522615403, 523534248, 524453179, 525372196, 526291299, 527210488,
     528129764, 529049126, 529968575, 530888111, 531807735, 532727445, 533647243, 534567129, 535487103,
     536407164, 537327314, 538247552, 539167878, 540088293, 541008797]"

definition difficultyListMainnet5 :: "int list" where
  "difficultyListMainnet5 = [
     541929390, 542850072, 543770843, 544691704, 545612654, 546533694, 547454824, 548376045, 549297355,
     550218756, 551140248, 552061830, 552983503, 553905268, 554827123, 555749071, 556671109, 557593240,
     558515463, 559437777, 560360184, 561282684, 562205276, 563127961, 564050739, 564973610, 565896574,
     566819632, 567742783, 568666028, 569589368, 570512801, 571436329, 572359951, 573283668, 574207479,
     575131386, 576055388, 576979485, 577903677, 578827966, 579752350, 580676830, 581601406, 582526079,
     583450848, 584375714, 585300676, 586225736, 587150893, 588076147, 589001499, 589926949, 590852496,
     591778141, 592703885, 593629727, 594555668, 595481707, 596407845, 597334083, 598260419, 599186855,
     600113391, 601040026, 601966762, 602893597, 603820533, 604747569, 605674706, 606601943, 607529282,
     608456722, 609384263, 610311905, 611239649, 612167495, 613095443, 614023493, 614951646, 615879901,
     616808259, 617736719, 618665283, 619593950, 620522720, 621451594, 622380572, 623309653, 624238839,
     625168129, 626097523, 627027022, 627956626, 628886335, 629816149, 630746068, 631676093, 632606223,
     633536459, 634466802, 635397250, 636327805, 637258466, 638189235, 639120110, 640051092, 640982181,
     641913378, 642844682, 643776095, 644707615, 645639243, 646570980, 647502825, 648434779, 649366841,
     650299013, 651231294, 652163684, 653096184, 654028794, 654961513, 655894343, 656827283, 657760333,
     658693494, 659626766, 660560148, 661493642, 662427248, 663360965, 664294793, 665228734, 666162786,
     667096951, 668031228, 668965618, 669900120, 670834736, 671769465, 672704307, 673639262, 674574331,
     675509514, 676444812, 677380223, 678315749, 679251389, 680187144]"

definition difficultyListMainnet6 :: "int list" where
  "difficultyListMainnet6 = [
     681123015, 682059000, 682995101, 683931317, 684867648, 685804096, 686740660, 687677340, 688614136,
     689551049, 690488079, 691425226, 692362490, 693299871, 694237370, 695174986, 696112720, 697050573,
     697988543, 698926633, 699864840, 700803167, 701741612, 702680177, 703618861, 704557665, 705496588,
     706435631, 707374794, 708314078, 709253482, 710193007, 711132652, 712072419, 713012307, 713952316,
     714892447, 715832699, 716773074, 717713571, 718654190, 719594931, 720535795, 721476783, 722417893,
     723359126, 724300483, 725241964, 726183568, 727125297, 728067149, 729009126, 729951228, 730893454,
     731835806, 732778282, 733720884, 734663611, 735606464, 736549443, 737492548, 738435780, 739379138,
     740322622, 741266233, 742209972, 743153837, 744097831, 745041951, 745986200, 746930576, 747875081,
     748819714, 749764476, 750709366, 751654385, 752599534, 753544812, 754490219, 755435756, 756381423,
     757327220, 758273148, 759219206, 760165394, 761111714, 762058164, 763004746, 763951459, 764898304,
     765845281, 766792390, 767739631, 768687005, 769634511, 770582150, 771529922, 772477827, 773425865,
     774374037, 775322343, 776270783, 777219357, 778168066, 779116909, 780065887, 781015000, 781964248,
     782913631, 783863150, 784812805, 785762595, 786712522, 787662585, 788612785, 789563121, 790513594,
     791464205, 792414953, 793365838, 794316861, 795268022, 796219321, 797170759, 798122335, 799074049,
     800025903, 800977896, 801930028, 802882299, 803834711, 804787262, 805739953, 806692785, 807645757,
     808598870, 809552124, 810505519, 811459055, 812412733, 813366552, 814320514, 815274618, 816228863,
     817183252, 818137783, 819092457, 820047275, 821002235, 821957340]"

definition difficultyListMainnet7 :: "int list" where
  "difficultyListMainnet7 = [
     822912588, 823867979, 824823516, 825779196, 826735021, 827690991, 828647106, 829603366, 830559771,
     831516322, 832473018, 833429861, 834386850, 835343985, 836301267, 837258696, 838216272, 839173995,
     840131865, 841089883, 842048049, 843006363, 843964826, 844923436, 845882196, 846841104, 847800161,
     848759368, 849718724, 850678230, 851637886, 852597692, 853557648, 854517755, 855478013, 856438421,
     857398981, 858359692, 859320555, 860281570, 861242736, 862204055, 863165526, 864127150, 865088927,
     866050856, 867012939, 867975176, 868937566, 869900110, 870862809, 871825661, 872788668, 873751830,
     874715147, 875678619, 876642247, 877606030, 878569969, 879534064, 880498315, 881462723, 882427287,
     883392008, 884356887, 885321922, 886287115, 887252466, 888217975, 889183642, 890149468, 891115452,
     892081595, 893047897, 894014358, 894980979, 895947759, 896914699, 897881800, 898849061, 899816482,
     900784064, 901751807, 902719711, 903687777, 904656004, 905624394, 906592945, 907561659, 908530535,
     909499574, 910468775, 911438140, 912407669, 913377361, 914347217, 915317237, 916287421, 917257770,
     918228283, 919198962, 920169805, 921140814, 922111989, 923083329, 924054835, 925026508, 925998347,
     926970353, 927942526, 928914866, 929887374, 930860049, 931832891, 932805902, 933779081, 934752429,
     935725946, 936699631, 937673486, 938647510, 939621703, 940596067, 941570600, 942545304, 943520178,
     944495224, 945470440, 946445827, 947421386, 948397116, 949373019, 950349093, 951325340, 952301759,
     953278352, 954255117, 955232055, 956209167, 957186453, 958163913, 959141547, 960119355, 961097338,
     962075496, 963053829, 964032337, 965011021, 965989880, 966968916]"

definition difficultyListMainnet8 :: "int list" where
  "difficultyListMainnet8 = [
     967948128, 968927516, 969907081, 970886823, 971866742, 972846839, 973827113, 974807565, 975788196,
     976769004, 977749991, 978731157, 979712502, 980694027, 981675730, 982657614, 983639678, 984621921,
     985604346, 986586951, 987569737, 988552704, 989535852, 990519182, 991502694, 992486388, 993470265,
     994454324, 995438565, 996422990, 997407598, 998392390, 999377366, 1000362525, 1001347869, 1002333397,
     1003319110, 1004305008, 1005291091, 1006277360, 1007263814, 1008250454, 1009237281, 1010224294, 1011211493,
     1012198880, 1013186453, 1014174214, 1015162162, 1016150299, 1017138623, 1018127136, 1019115838, 1020104728,
     1021093807, 1022083076, 1023072534, 1024062182, 1025052020, 1026042049, 1027032268, 1028022677, 1029013278,
     1030004070, 1030995054, 1031986229, 1032977597, 1033969156, 1034960908, 1035952853, 1036944991, 1037937323,
     1038929847, 1039922566, 1040915478, 1041908585, 1042901886, 1043895382, 1044889073, 1045882959, 1046877041,
     1047871319, 1048865792, 1049860462, 1050855328, 1051850391, 1052845651, 1053841108, 1054836763, 1055832615,
     1056828666, 1057824915, 1058821362, 1059818008, 1060814853, 1061811898, 1062809142, 1063806585, 1064804229,
     1065802073, 1066800118, 1067798363, 1068796809, 1069795457, 1070794306, 1071793358, 1072792611, 1073792066,
     1074791725, 1075791586, 1076791650, 1077791917, 1078792389, 1079793064, 1080793943, 1081795026, 1082796315,
     1083797808, 1084799506, 1085801410, 1086803520, 1087805835, 1088808357, 1089811085, 1090814020, 1091817162,
     1092820511, 1093824068, 1094827833, 1095831806, 1096835987, 1097840376, 1098844975, 1099849782, 1100854799,
     1101860026, 1102865462, 1103871109, 1104876966, 1105883033, 1106889312, 1107895802, 1108902504, 1109909417,
     1110916542, 1111923880, 1112931430, 1113939193, 1114947169, 1115955359]"

definition difficultyListMainnet9 :: "int list" where
  "difficultyListMainnet9 = [
     1116963762, 1117972379, 1118981210, 1119990256, 1120999516, 1122008991, 1123018682, 1124028588, 1125038710,
     1126049048, 1127059602, 1128070373, 1129081361, 1130092566, 1131103989, 1132115629, 1133127487, 1134139563,
     1135151858, 1136164372, 1137177105, 1138190057, 1139203229, 1140216621, 1141230232, 1142244065, 1143258118,
     1144272392, 1145286887, 1146301604, 1147316543, 1148331703, 1149347087, 1150362692, 1151378521, 1152394573,
     1153410849, 1154427348, 1155444071, 1156461019, 1157478192, 1158495589, 1159513211, 1160531059, 1161549133,
     1162567433, 1163585959, 1164604711, 1165623691, 1166642897, 1167662331, 1168681993, 1169701883, 1170722001,
     1171742348, 1172762923, 1173783728, 1174804762, 1175826026, 1176847520, 1177869244, 1178891199, 1179913385,
     1180935801, 1181958450, 1182981330, 1184004442, 1185027786, 1186051363, 1187075173, 1188099215, 1189123492,
     1190148002, 1191172746, 1192197725, 1193222938, 1194248386, 1195274070, 1196299989, 1197326143, 1198352534,
     1199379161, 1200406025, 1201433126, 1202460464, 1203488040, 1204515853, 1205543905, 1206572195, 1207600724,
     1208629492, 1209658499, 1210687746, 1211717233, 1212746960, 1213776927, 1214807136, 1215837585, 1216868276,
     1217899209, 1218930384, 1219961801, 1220993461, 1222025363, 1223057509, 1224089899, 1225122532, 1226155409,
     1227188531, 1228221897, 1229255509, 1230289366, 1231323468, 1232357817, 1233392412, 1234427253, 1235462341,
     1236497677, 1237533260, 1238569090, 1239605169, 1240641496, 1241678072, 1242714897, 1243751971, 1244789295,
     1245826869, 1246864693, 1247902767, 1248941093, 1249979670, 1251018498, 1252057578, 1253096910, 1254136494,
     1255176331, 1256216422, 1257256765, 1258297363, 1259338214, 1260379320, 1261420680, 1262462295, 1263504165,
     1264546291, 1265588673, 1266631311, 1267674206, 1268717357, 1269760766]"

definition difficultyListMainnet10 :: "int list" where
  "difficultyListMainnet10 = [
     1270804432, 1271848356, 1272892538, 1273936978, 1274981677, 1276026635, 1277071853, 1278117330, 1279163067,
     1280209065, 1281255323, 1282301842, 1283348623, 1284395665, 1285442969, 1286490535, 1287538364, 1288586456,
     1289634811, 1290683430, 1291732313, 1292781460, 1293830871, 1294880547, 1295930489, 1296980696, 1298031169,
     1299081908, 1300132914, 1301184186, 1302235726, 1303287533, 1304339608, 1305391951, 1306444562, 1307497443,
     1308550593, 1309604012, 1310657701, 1311711660, 1312765889, 1313820390, 1314875161, 1315930204, 1316985519,
     1318041106, 1319096966, 1320153098, 1321209504, 1322266183, 1323323136, 1324380363, 1325437864, 1326495641,
     1327553693, 1328612020, 1329670623, 1330729502, 1331788658, 1332848091, 1333907801, 1334967788, 1336028054,
     1337088598, 1338149420, 1339210522, 1340271902, 1341333563, 1342395503, 1343457724, 1344520225, 1345583007,
     1346646071, 1347709417, 1348773044, 1349836954, 1350901147, 1351965623, 1353030382, 1354095425, 1355160753,
     1356226365, 1357292261, 1358358443, 1359424911, 1360491664, 1361558704, 1362626030, 1363693643, 1364761544,
     1365829732, 1366898209, 1367966974, 1369036027, 1370105370, 1371175002, 1372244924, 1373315136, 1374385639,
     1375456433, 1376527518, 1377598894, 1378670563, 1379742523, 1380814777, 1381887324, 1382960164, 1384033298,
     1385106726, 1386180448, 1387254466, 1388328778, 1389403386, 1390478291, 1391553491, 1392628989, 1393704783,
     1394780875, 1395857264, 1396933952, 1398010939, 1399088224, 1400165809, 1401243693, 1402321877, 1403400362,
     1404479147, 1405558234, 1406637622, 1407717312, 1408797304, 1409877599, 1410958196, 1412039098, 1413120303,
     1414201812, 1415283625, 1416365744, 1417448168, 1418530897, 1419613933, 1420697274, 1421780923, 1422864879,
     1423949142, 1425033713, 1426118593, 1427203781, 1428289278, 1429375085]"

definition difficultyListMainnet11 :: "int list" where
  "difficultyListMainnet11 = [
     1430461202, 1431547628, 1432634366, 1433721414, 1434808774, 1435896445, 1436984429, 1438072725, 1439161334,
     1440250256, 1441339492, 1442429042, 1443518907, 1444609086, 1445699581, 1446790391, 1447881518, 1448972960,
     1450064720, 1451156797, 1452249191, 1453341904, 1454434934, 1455528284, 1456621953, 1457715941, 1458810249,
     1459904878, 1460999827, 1462095098, 1463190690, 1464286604, 1465382841, 1466479400, 1467576282, 1468673488,
     1469771018, 1470868873, 1471967052, 1473065556, 1474164386, 1475263542, 1476363024, 1477462833, 1478562969,
     1479663433, 1480764225, 1481865345, 1482966794, 1484068573, 1485170681, 1486273119, 1487375888, 1488478987,
     1489582418, 1490686180, 1491790275, 1492894702, 1493999462, 1495104556, 1496209983, 1497315744, 1498421841,
     1499528272, 1500635038, 1501742141, 1502849579, 1503957355, 1505065467, 1506173918, 1507282706, 1508391832,
     1509501297, 1510611102, 1511721246, 1512831730, 1513942555, 1515053721, 1516165228, 1517277077, 1518389268,
     1519501802, 1520614679, 1521727899, 1522841463, 1523955372, 1525069625, 1526184224, 1527299168, 1528414458,
     1529530095, 1530646079, 1531762410, 1532879089, 1533996117, 1535113492, 1536231218, 1537349292, 1538467717,
     1539586492, 1540705618, 1541825095, 1542944924, 1544065106, 1545185640, 1546306527, 1547427767, 1548549362,
     1549671311, 1550793614, 1551916274, 1553039288, 1554162659, 1555286387, 1556410472, 1557534914, 1558659715,
     1559784874, 1560910391, 1562036268, 1563162505, 1564289102, 1565416060, 1566543379, 1567671059, 1568799102,
     1569927507, 1571056275, 1572185407, 1573314902, 1574444762, 1575574987, 1576705577, 1577836532, 1578967854,
     1580099543, 1581231598, 1582364021, 1583496813, 1584629972, 1585763501, 1586897399, 1588031667, 1589166306,
     1590301315, 1591436695, 1592572448, 1593708572, 1594845070, 1595981940]"

definition difficultyListMainnet12 :: "int list" where
  "difficultyListMainnet12 = [
     1597119184, 1598256802, 1599394795, 1600533163, 1601671907, 1602811026, 1603950522, 1605090395, 1606230646,
     1607371274, 1608512281, 1609653667, 1610795432, 1611937577, 1613080102, 1614223008, 1615366296, 1616509965,
     1617654017, 1618798451, 1619943268, 1621088470, 1622234055, 1623380025, 1624526381, 1625673122, 1626820249,
     1627967763, 1629115664, 1630263952, 1631412629, 1632561695, 1633711149, 1634860993, 1636011228, 1637161853,
     1638312869, 1639464276, 1640616076, 1641768269, 1642920854, 1644073833, 1645227207, 1646380974, 1647535137,
     1648689696, 1649844651, 1651000002, 1652155751, 1653311897, 1654468441, 1655625384, 1656782727, 1657940469,
     1659098611, 1660257154, 1661416098, 1662575443, 1663735191, 1664895342, 1666055896, 1667216854, 1668378217,
     1669539984, 1670702156, 1671864734, 1673027719, 1674191111, 1675354910, 1676519117, 1677683732, 1678848757,
     1680014191, 1681180035, 1682346290, 1683512956, 1684680033, 1685847523, 1687015425, 1688183741, 1689352470,
     1690521614, 1691691172, 1692861146, 1694031536, 1695202342, 1696373566, 1697545206, 1698717265, 1699889743,
     1701062639, 1702235955, 1703409692, 1704583849, 1705758427, 1706933428, 1708108851, 1709284696, 1710460965,
     1711637659, 1712814776, 1713992319, 1715170288, 1716348683, 1717527505, 1718706754, 1719886430, 1721066536,
     1722247070, 1723428034, 1724609428, 1725791253, 1726973509, 1728156196, 1729339316, 1730522869, 1731706856,
     1732891276, 1734076132, 1735261422, 1736447148, 1737633310, 1738819910, 1740006946, 1741194421, 1742382334,
     1743570687, 1744759479, 1745948711, 1747138385, 1748328499, 1749519056, 1750710056, 1751901498, 1753093385,
     1754285715, 1755478491, 1756671712, 1757865379, 1759059493, 1760254054, 1761449063, 1762644521, 1763840427,
     1765036783, 1766233590, 1767430847, 1768628555, 1769826715, 1771025328]"

definition difficultyListMainnet13 :: "int list" where
  "difficultyListMainnet13 = [
     1772224394, 1773423914, 1774623888, 1775824318, 1777025202, 1778226543, 1779428340, 1780630595, 1781833308,
     1783036479, 1784240110, 1785444200, 1786648751, 1787853762, 1789059235, 1790265171, 1791471569, 1792678430,
     1793885756, 1795093546, 1796301801, 1797510523, 1798719710, 1799929365, 1801139487, 1802350078, 1803561138,
     1804772667, 1805984667, 1807197137, 1808410079, 1809623492, 1810837379, 1812051739, 1813266572, 1814481881,
     1815697664, 1816913923, 1818130659, 1819347872, 1820565562, 1821783731, 1823002379, 1824221507, 1825441114,
     1826661203, 1827881773, 1829102826, 1830324361, 1831546380, 1832768883, 1833991870, 1835215343, 1836439302,
     1837663748, 1838888681, 1840114103, 1841340013, 1842566412, 1843793301, 1845020681, 1846248552, 1847476915,
     1848705770, 1849935119, 1851164962, 1852395300, 1853626132, 1854857461, 1856089286, 1857321608, 1858554429,
     1859787748, 1861021566, 1862255884, 1863490703, 1864726023, 1865961845, 1867198169, 1868434997, 1869672329,
     1870910165, 1872148507, 1873387355, 1874626710, 1875866572, 1877106942, 1878347821, 1879589209, 1880831107,
     1882073516, 1883316437, 1884559870, 1885803816, 1887048275, 1888293249, 1889538738, 1890784742, 1892031263,
     1893278301, 1894525857, 1895773931, 1897022524, 1898271637, 1899521271, 1900771427, 1902022104, 1903273304,
     1904525027, 1905777275, 1907030047, 1908283345, 1909537170, 1910791521, 1912046400, 1913301808, 1914557745,
     1915814212, 1917071209, 1918328738, 1919586799, 1920845392, 1922104520, 1923364181, 1924624378, 1925885110,
     1927146378, 1928408184, 1929670528, 1930933411, 1932196833, 1933460795, 1934725298, 1935990343, 1937255930,
     1938522060, 1939788735, 1941055953, 1942323718, 1943592028, 1944860885, 1946130290, 1947400244, 1948670746,
     1949941799, 1951213402, 1952485556, 1953758263, 1955031523, 1956305336]"

definition difficultyListMainnet14 :: "int list" where
  "difficultyListMainnet14 = [
     1957579704, 1958854628, 1960130107, 1961406143, 1962682737, 1963959889, 1965237600, 1966515871, 1967794703,
     1969074096, 1970354051, 1971634570, 1972915652, 1974197299, 1975479511, 1976762290, 1978045635, 1979329548,
     1980614030, 1981899081, 1983184702, 1984470894, 1985757658, 1987044994, 1988332904, 1989621388, 1990910446,
     1992200081, 1993490292, 1994781080, 1996072446, 1997364392, 1998656917, 1999950023, 2001243710, 2002537979,
     2003832832, 2005128268, 2006424289, 2007720895, 2009018088, 2010315868, 2011614236, 2012913193, 2014212739,
     2015512876, 2016813604, 2018114924, 2019416837, 2020719344, 2022022446, 2023326143, 2024630437, 2025935328,
     2027240816, 2028546904, 2029853591, 2031160879, 2032468768, 2033777260, 2035086355, 2036396053, 2037706357,
     2039017266, 2040328782, 2041640905, 2042953637, 2044266978, 2045580928, 2046895490, 2048210664, 2049526450,
     2050842849, 2052159863, 2053477493, 2054795738, 2056114601, 2057434081, 2058754180, 2060074899, 2061396239,
     2062718200, 2064040783, 2065363990, 2066687820, 2068012276, 2069337358, 2070663066, 2071989403, 2073316368,
     2074643962, 2075972187, 2077301043, 2078630532, 2079960654, 2081291410, 2082622801, 2083954828, 2085287491,
     2086620793, 2087954733, 2089289313, 2090624534, 2091960395, 2093296900, 2094634047, 2095971839, 2097310276,
     2098649360, 2099989090, 2101329468, 2102670496, 2104012173, 2105354501, 2106697481, 2108041114, 2109385400,
     2110730341, 2112075938, 2113422191, 2114769102, 2116116671, 2117464900, 2118813789, 2120163340, 2121513552,
     2122864429, 2124215969, 2125568175, 2126921047, 2128274586, 2129628794, 2130983670, 2132339217, 2133695435,
     2135052325, 2136409889, 2137768126, 2139127039, 2140486627, 2141846893, 2143207837, 2144569460, 2145931763,
     2147294747, 2148658413, 2150022763, 2151387797, 2152753515, 2154119920]"

definition difficultyListMainnet15 :: "int list" where
  "difficultyListMainnet15 = [
     2155487012, 2156854793, 2158223262, 2159592422, 2160962274, 2162332817, 2163704054, 2165075985, 2166448612,
     2167821935, 2169195955, 2170570674, 2171946093, 2173322212, 2174699033, 2176076557, 2177454784, 2178833716,
     2180213354, 2181593699, 2182974752, 2184356514, 2185738986, 2187122169, 2188506065, 2189890674, 2191275997,
     2192662035, 2194048791, 2195436263, 2196824455, 2198213366, 2199602998, 2200993352, 2202384429, 2203776230,
     2205168757, 2206562009, 2207955989, 2209350698, 2210746136, 2212142305, 2213539206, 2214936840, 2216335208,
     2217734311, 2219134150, 2220534727, 2221936042, 2223338097, 2224740892, 2226144430, 2227548710, 2228953735,
     2230359505, 2231766022, 2233173286, 2234581299, 2235990061, 2237399575, 2238809841, 2240220860, 2241632634,
     2243045163, 2244458449, 2245872493, 2247287296, 2248702859, 2250119184, 2251536272, 2252954123, 2254372739,
     2255792122, 2257212271, 2258633190, 2260054878, 2261477337, 2262900567, 2264324572, 2265749350, 2267174905,
     2268601236, 2270028345, 2271456234, 2272884903, 2274314354, 2275744588, 2277175606, 2278607409, 2280039999,
     2281473376, 2282907543, 2284342500, 2285778248, 2287214789, 2288652125, 2290090255, 2291529182, 2292968906,
     2294409430, 2295850753, 2297292878, 2298735806, 2300179538, 2301624075, 2303069418, 2304515570, 2305962530,
     2307410301, 2308858883, 2310308278, 2311758487, 2313209512, 2314661353, 2316114012, 2317567491, 2319021790,
     2320476911, 2321932856, 2323389625, 2324847219, 2326305641, 2327764891, 2329224971, 2330685882, 2332147625,
     2333610202, 2335073614, 2336537863, 2338002949, 2339468874, 2340935640, 2342403247, 2343871697, 2345340992,
     2346811132, 2348282120, 2349753956, 2351226641, 2352700178, 2354174568, 2355649811, 2357125910, 2358602866,
     2360080679, 2361559352, 2363038886, 2364519281, 2366000541, 2367482665]"

definition difficultyListMainnet16 :: "int list" where
  "difficultyListMainnet16 = [
     2368965656, 2370449515, 2371934242, 2373419841, 2374906311, 2376393655, 2377881873, 2379370968, 2380860940,
     2382351792, 2383843524, 2385336138, 2386829635, 2388324017, 2389819285, 2391315441, 2392812487, 2394310422,
     2395809250, 2397308972, 2398809588, 2400311101, 2401813511, 2403316821, 2404821032, 2406326145, 2407832162,
     2409339084, 2410846913, 2412355651, 2413865298, 2415375856, 2416887327, 2418399712, 2419913013, 2421427232,
     2422942369, 2424458426, 2425975405, 2427493308, 2429012136, 2430531890, 2432052571, 2433574183, 2435096725,
     2436620200, 2438144609, 2439669954, 2441196236, 2442723457, 2444251619, 2445780722, 2447310769, 2448841760,
     2450373699, 2451906586, 2453440422, 2454975210, 2456510951, 2458047647, 2459585299, 2461123909, 2462663478,
     2464204008, 2465745501, 2467287958, 2468831382, 2470375772, 2471921132, 2473467463, 2475014766, 2476563043,
     2478112296, 2479662527, 2481213736, 2482765926, 2484319099, 2485873255, 2487428398, 2488984527, 2490541646,
     2492099755, 2493658857, 2495218954, 2496780045, 2498342135, 2499905224, 2501469313, 2503034406, 2504600502,
     2506167605, 2507735716, 2509304836, 2510874967, 2512446112, 2514018271, 2515591446, 2517165640, 2518740854,
     2520317090, 2521894349, 2523472634, 2525051945, 2526632286, 2528213657, 2529796060, 2531379498, 2532963971,
     2534549483, 2536136034, 2537723626, 2539312262, 2540901942, 2542492669, 2544084446, 2545677272, 2547271151,
     2548866084, 2550462073, 2552059120, 2553657226, 2555256394, 2556856626, 2558457923, 2560060286, 2561663719,
     2563268223, 2564873800, 2566480451, 2568088179, 2569696985, 2571306872, 2572917841, 2574529894, 2576143033,
     2577757260, 2579372577, 2580988986, 2582606489, 2584225087, 2585844784, 2587465579, 2589087477, 2590710478,
     2592334584, 2593959798, 2595586122, 2597213557, 2598842105, 2600471769]"

definition difficultyListMainnet17 :: "int list" where
  "difficultyListMainnet17 = [
     2602102550, 2603734451, 2605367473, 2607001618, 2608636889, 2610273288, 2611910816, 2613549475, 2615189268,
     2616830197, 2618472263, 2620115469, 2621759817, 2623405308, 2625051945, 2626699731, 2628348666, 2629998754,
     2631649995, 2633302394, 2634955950, 2636610667, 2638266546, 2639923591, 2641581802, 2643241182, 2644901733,
     2646563458, 2648226358, 2649890435, 2651555693, 2653222132, 2654889755, 2656558564, 2658228562, 2659899750,
     2661572131, 2663245707, 2664920480, 2666596453, 2668273627, 2669952004, 2671631588, 2673312380, 2674994383,
     2676677598, 2678362028, 2680047676, 2681734543, 2683422631, 2685111944, 2686802483, 2688494250, 2690187249,
     2691881480, 2693576947, 2695273652, 2696971597, 2698670784, 2700371216, 2702072895, 2703775824, 2705480004,
     2707185438, 2708892129, 2710600078, 2712309289, 2714019763, 2715731503, 2717444512, 2719158791, 2720874344,
     2722591172, 2724309278, 2726028664, 2727749333, 2729471287, 2731194529, 2732919061, 2734644886, 2736372006,
     2738100423, 2739830141, 2741561161, 2743293485, 2745027117, 2746762060, 2748498314, 2750235884, 2751974771,
     2753714978, 2755456508, 2757199363, 2758943546, 2760689059, 2762435904, 2764184085, 2765933604, 2767684464,
     2769436666, 2771190215, 2772945111, 2774701359, 2776458960, 2778217918, 2779978234, 2781739912, 2783502954,
     2785267363, 2787033141, 2788800291, 2790568817, 2792338719, 2794110002, 2795882668, 2797656720, 2799432160,
     2801208991, 2802987216, 2804766837, 2806547858, 2808330280, 2810114108, 2811899343, 2813685989, 2815474048,
     2817263522, 2819054416, 2820846731, 2822640471, 2824435638, 2826232235, 2828030265, 2829829731, 2831630635,
     2833432981, 2835236771, 2837042009, 2838848697, 2840656838, 2842466435, 2844277491, 2846090009, 2847903992,
     2849719442, 2851536363, 2853354758, 2855174630, 2856995981, 2858818815]"

definition difficultyListMainnet18 :: "int list" where
  "difficultyListMainnet18 = [
     2860643134, 2862468942, 2864296242, 2866125036, 2867955328, 2869787121, 2871620417, 2873455221, 2875291534,
     2877129361, 2878968703, 2880809565, 2882651949, 2884495858, 2886341296, 2888188266, 2890036771, 2891886813,
     2893738397, 2895591525, 2897446200, 2899302426, 2901160206, 2903019543, 2904880441, 2906742902, 2908606929,
     2910472527, 2912339698, 2914208446, 2916078773, 2917950684, 2919824181, 2921699267, 2923575947, 2925454223,
     2927334099, 2929215578, 2931098663, 2932983358, 2934869666, 2936757591, 2938647136, 2940538304, 2942431099,
     2944325524, 2946221583, 2948119278, 2950018615, 2951919595, 2953822223, 2955726502, 2957632435, 2959540027,
     2961449280, 2963360198, 2965272784, 2967187043, 2969102978, 2971020592, 2972939889, 2974860873, 2976783546,
     2978707914, 2980633979, 2982561745, 2984491215, 2986422394, 2988355286, 2990289893, 2992226219, 2994164269,
     2996104045, 2998045552, 2999988794, 3001933774, 3003880496, 3005828963, 3007779180, 3009731151, 3011684879,
     3013640367, 3015597621, 3017556643, 3019517438, 3021480010, 3023444361, 3025410498, 3027378422, 3029348139,
     3031319651, 3033292964, 3035268081, 3037245006, 3039223742, 3041204295, 3043186668, 3045170865, 3047156891,
     3049144748, 3051134442, 3053125976, 3055119355, 3057114582, 3059111662, 3061110599, 3063111397, 3065114060,
     3067118593, 3069124999, 3071133283, 3073143449, 3075155502, 3077169444, 3079185282, 3081203019, 3083222659,
     3085244207, 3087267667, 3089293043, 3091320340, 3093349562, 3095380714, 3097413799, 3099448823, 3101485789,
     3103524703, 3105565568, 3107608389, 3109653171, 3111699918, 3113748634, 3115799325, 3117851994, 3119906646,
     3121963286, 3124021919, 3126082548, 3128145179, 3130209817, 3132276465, 3134345129, 3136415813, 3138488522,
     3140563261, 3142640034, 3144718847, 3146799703, 3148882608, 3150967567]"

definition difficultyListMainnet19 :: "int list" where
  "difficultyListMainnet19 = [
     3153054584, 3155143664, 3157234812, 3159328033, 3161423332, 3163520713, 3165620182, 3167721744, 3169825403,
     3171931164, 3174039033, 3176149015, 3178261114, 3180375335, 3182491684, 3184610165, 3186730785, 3188853547,
     3190978457, 3193105520, 3195234741, 3197366126, 3199499679, 3201635406, 3203773312, 3205913403, 3208055683,
     3210200158, 3212346834, 3214495715, 3216646806, 3218800114, 3220955644, 3223113401, 3225273390, 3227435617,
     3229600087, 3231766807, 3233935780, 3236107014, 3238280513, 3240456283, 3242634329, 3244814658, 3246997274,
     3249182184, 3251369393, 3253558907, 3255750731, 3257944872, 3260141334, 3262340124, 3264541248, 3266744711,
     3268950519, 3271158678, 3273369195, 3275582073, 3277797321, 3280014943, 3282234946, 3284457335, 3286682117,
     3288909297, 3291138882, 3293370878, 3295605291, 3297842126, 3300081391, 3302323091, 3304567232, 3306813821,
     3309062864, 3311314367, 3313568336, 3315824778, 3318083699, 3320345105, 3322609003, 3324875400, 3327144300,
     3329415712, 3331689642, 3333966095, 3336245079, 3338526599, 3340810664, 3343097278, 3345386450, 3347678184,
     3349972489, 3352269371, 3354568837, 3356870892, 3359175545, 3361482802, 3363792669, 3366105154, 3368420263,
     3370738003, 3373058382, 3375381406, 3377707083, 3380035418, 3382366420, 3384700095, 3387036450, 3389375494,
     3391717231, 3394061671, 3396408820, 3398758685, 3401111273, 3403466593, 3405824651, 3408185454, 3410549010,
     3412915326, 3415284411, 3417656270, 3420030913, 3422408345, 3424788576, 3427171612, 3429557460, 3431946130,
     3434337628, 3436731962, 3439129140, 3441529169, 3443932058, 3446337814, 3448746445, 3451157959, 3453572364,
     3455989668, 3458409879, 3460833005, 3463259054, 3465688034, 3468119953, 3470554819, 3472992641, 3475433427,
     3477877185, 3480323923, 3482773650, 3485226374, 3487682103, 3490140846]"

definition difficultyListMainnet20 :: "int list" where
  "difficultyListMainnet20 = [
     3492602612, 3495067408, 3497535244, 3500006128, 3502480068, 3504957074, 3507437153, 3509920315, 3512406568,
     3514895922, 3517388385, 3519883965, 3522382672, 3524884515, 3527389503, 3529897644, 3532408948, 3534923424,
     3537441081, 3539961929, 3542485975, 3545013230, 3547543703, 3550077404, 3552614341, 3555154524, 3557697962,
     3560244666, 3562794644, 3565347906, 3567904461, 3570464320, 3573027493, 3575593988, 3578163815, 3580736985,
     3583313507, 3585893392, 3588476648, 3591063287, 3593653318, 3596246751, 3598843596, 3601443864, 3604047565,
     3606654709, 3609265307, 3611879368, 3614496903, 3617117923, 3619742438, 3622370459, 3625001995, 3627637059,
     3630275660, 3632917810, 3635563518, 3638212797, 3640865656, 3643522107, 3646182161, 3648845829, 3651513121,
     3654184049, 3656858624, 3659536858, 3662218761, 3664904345, 3667593622, 3670286602, 3672983298, 3675683720,
     3678387881, 3681095792, 3683807465, 3686522911, 3689242142, 3691965171, 3694692009, 3697422668, 3700157160,
     3702895497, 3705637692, 3708383756, 3711133703, 3713887543, 3716645290, 3719406956, 3722172553, 3724942094,
     3727715592, 3730493060, 3733274509, 3736059953, 3738849405, 3741642877, 3744440384, 3747241936, 3750047549,
     3752857234, 3755671006, 3758488877, 3761310860, 3764136970, 3766967220, 3769801623, 3772640193, 3775482943,
     3778329887, 3781181040, 3784036415, 3786896026, 3789759886, 3792628011, 3795500414, 3798377110, 3801258112,
     3804143436, 3807033095, 3809927104, 3812825478, 3815728232, 3818635379, 3821546935, 3824462916, 3827383335,
     3830308207, 3833237549, 3836171375, 3839109700, 3842052540, 3844999910, 3847951825, 3850908302, 3853869355,
     3856835002, 3859805256, 3862780135, 3865759654, 3868743829, 3871732677, 3874726214, 3877724455, 3880727418,
     3883735119, 3886747574, 3889764800, 3892786814, 3895813633, 3898845273]"

definition difficultyListMainnet21 :: "int list" where
  "difficultyListMainnet21 = [
     3901881752, 3904923086, 3907969294, 3911020391, 3914076396, 3917137326, 3920203198, 3923274030, 3926349841,
     3929430646, 3932516466, 3935607317, 3938703218, 3941804186, 3944910241, 3948021401, 3951137684, 3954259108,
     3957385693, 3960517457, 3963654420, 3966796599, 3969944015, 3973096687, 3976254634, 3979417874, 3982586429,
     3985760317, 3988939559, 3992124173, 3995314181, 3998509602, 4001710456, 4004916764, 4008128546, 4011345823,
     4014568615, 4017796943, 4021030828, 4024270291, 4027515354, 4030766036, 4034022360, 4037284348, 4040552020,
     4043825399, 4047104506, 4050389363, 4053679993, 4056976418, 4060278660, 4063586741, 4066900684, 4070220512,
     4073546248, 4076877914, 4080215535, 4083559132, 4086908731, 4090264353, 4093626023, 4096993765, 4100367603,
     4103747560, 4107133661, 4110525931, 4113924393, 4117329073, 4120739996, 4124157185, 4127580668, 4131010468,
     4134446612, 4137889124, 4141338031, 4144793358, 4148255132, 4151723378, 4155198124, 4158679395, 4162167219,
     4165661621, 4169162630, 4172670272, 4176184575, 4179705566, 4183233273, 4186767724, 4190308947, 4193856969,
     4197411820, 4200973528, 4204542121, 4208117630, 4211700081, 4215289506, 4218885933, 4222489392, 4226099913,
     4229717526, 4233342262, 4236974149, 4240613220, 4244259505, 4247913035, 4251573841, 4255241955, 4258917407,
     4262600231, 4266290458, 4269988120, 4273693249, 4277405879, 4281126042, 4284853771, 4288589100, 4292332061,
     4296082690, 4299841018, 4303607082, 4307380915, 4311162552, 4314952027, 4318749377, 4322554635, 4326367838,
     4330189022, 4334018222, 4337855475, 4341700817, 4345554285, 4349415917, 4353285749, 4357163819, 4361050164,
     4364944824, 4368847836, 4372759238, 4376679070, 4380607371, 4384544180, 4388489536, 4392443481, 4396406053,
     4400377294, 4404357243, 4408345943, 4412343435, 4416349760, 4420364960]"

definition difficultyListMainnet22 :: "int list" where
  "difficultyListMainnet22 = [
     4424389078, 4428422156, 4432464236, 4436515363, 4440575579, 4444644928, 4448723455, 4452811204, 4456908219,
     4461014546, 4465130229, 4469255316, 4473389851, 4477533882, 4481687454, 4485850615, 4490023413, 4494205895,
     4498398109, 4502600105, 4506811929, 4511033633, 4515265265, 4519506876, 4523758516, 4528020235, 4532292084,
     4536574116, 4540866382, 4545168934, 4549481825, 4553805108, 4558138836, 4562483064, 4566837846, 4571203236,
     4575579290, 4579966063, 4584363612, 4588771992, 4593191261, 4597621476, 4602062695, 4606514976, 4610978378,
     4615452960, 4619938782, 4624435903, 4628944386, 4633464289, 4637995677, 4642538609, 4647093150, 4651659361,
     4656237308, 4660827053, 4665428662, 4670042200, 4674667733, 4679305326, 4683955048, 4688616964, 4693291144,
     4697977655, 4702676567, 4707387950, 4712111873, 4716848408, 4721597626, 4726359599, 4731134400, 4735922102,
     4740722780, 4745536507, 4750363359, 4755203412, 4760056742, 4764923427, 4769803544, 4774697172, 4779604391,
     4784525279, 4789459918, 4794408390, 4799370775, 4804347158, 4809337621, 4814342250, 4819361128, 4824394342,
     4829441978, 4834504124, 4839580867, 4844672298, 4849778506, 4854899580, 4860035614, 4865186698, 4870352927,
     4875534394, 4880731194, 4885943423, 4891171177, 4896414555, 4901673654, 4906948574, 4912239416, 4917546281,
     4922869271, 4928208489, 4933564040, 4938936029, 4944324562, 4949729747, 4955151691, 4960590506, 4966046300,
     4971519186, 4977009276, 4982516684, 4988041525, 4993583916, 4999143973, 5004721814, 5010317561, 5015931332,
     5021563251, 5027213441, 5032882026, 5038569132, 5044274886, 5049999417, 5055742854, 5061505329, 5067286974,
     5073087923, 5078908311, 5084748275, 5090607953, 5096487484, 5102387011, 5108306674, 5114246620, 5120206992,
     5126187938, 5132189608, 5138212152, 5144255721, 5150320470, 5156406554]"

definition difficultyListMainnet23 :: "int list" where
  "difficultyListMainnet23 = [
     5162514130, 5168643357, 5174794397, 5180967410, 5187162562, 5193380018, 5199619948, 5205882520, 5212167906,
     5218476281, 5224807820, 5231162701, 5237541103, 5243943210, 5250369204, 5256819272, 5263293603, 5269792387,
     5276315816, 5282864087, 5289437396, 5296035944, 5302659933, 5309309567, 5315985053, 5322686601, 5329414424,
     5336168737, 5342949756, 5349757702, 5356592797, 5363455268, 5370345344, 5377263254, 5384209234, 5391183521,
     5398186354, 5405217979, 5412278640, 5419368587, 5426488074, 5433637356, 5440816693, 5448026348, 5455266587,
     5462537680, 5469839901, 5477173525, 5484538836, 5491936115, 5499365654, 5506827743, 5514322678, 5521850761,
     5529412296, 5537007592, 5544636961, 5552300721, 5559999194, 5567732706, 5575501588, 5583306177, 5591146811,
     5599023838, 5606937606, 5614888472, 5622876797, 5630902945, 5638967289, 5647070206, 5655212077, 5663393290,
     5671614240, 5679875327, 5688176956, 5696519539, 5704903496, 5713329250, 5721797233, 5730307883, 5738861646,
     5747458973, 5756100323, 5764786163, 5773516966, 5782293214, 5791115397, 5799984011, 5808899561, 5817862562,
     5826873534, 5835933010, 5845041528, 5854199636, 5863407894, 5872666867, 5881977133, 5891339279, 5900753902,
     5910221609, 5919743017, 5929318757, 5938949466, 5948635798, 5958378414, 5968177989, 5978035211, 5987950779,
     5997925404, 6007959813, 6018054745, 6028210951, 6038429198, 6048710268, 6059054957, 6069464076, 6079938452,
     6090478927, 6101086362, 6111761631, 6122505629, 6133319266, 6144203473, 6155159197, 6166187405, 6177289085,
     6188465245, 6199716912, 6211045136, 6222450989, 6233935565, 6245499982, 6257145382, 6268872931, 6280683821,
     6292579269, 6304560520, 6316628847, 6328785550, 6341031959, 6353369435, 6365799370, 6378323188, 6390942344,
     6403658331, 6416472674, 6429386936, 6442402718, 6455521658, 6468745435]"

definition difficultyListMainnet24 :: "int list" where
  "difficultyListMainnet24 = [
     6482075769, 6495514424, 6509063206, 6522723968, 6536498610, 6550389079, 6564397376, 6578525550, 6592775707,
     6607150008, 6621650672, 6636279978, 6651040267, 6665933944, 6680963482, 6696131423, 6711440380, 6726893043,
     6742492177, 6758240628, 6774141329, 6790197295, 6806411636, 6822787555, 6839328351, 6856037427, 6872918293,
     6889974569, 6907209991, 6924628415, 6942233823, 6960030329, 6978022184, 6996213781, 7014609666, 7033214539,
     7052033265, 7071070882, 7090332606, 7109823843, 7129550197, 7149517479, 7169731720, 7190199178, 7210926352,
     7231919996, 7253187130, 7274735056, 7296571371, 7318703984, 7341141136, 7363891416, 7386963780, 7410367575,
     7434112561, 7458208936, 7482667360, 7507498987, 7532715495, 7558329117, 7584352681, 7610799645, 7637684141,
     7665021021, 7692825906, 7721115239, 7749906348, 7779217505, 7809068000, 7839478215, 7870469710, 7902065317,
     7934289238, 7967167160, 8000726378, 8034995932, 8070006759, 8105791863, 8142386500, 8179828393, 8218157964,
     8257418596, 8297656936, 8338923223, 8381271673, 8424760906, 8469454440, 8515421247, 8562736402, 8611481819,
     8661747114, 8713630597, 8767240436, 8822696020, 8880129569, 8939688038, 9001535395, 9065855349, 9132854653,
     9202767132, 9275858615, 9352433067, 9432840248, 9517485397, 9606841628, 9701465989, 9802020566, 9909300683,
     10024273228, 10148129854, 10282362543, 10428873852, 10590142924, 10769484918, 10971475071, 11202681220,
     11473020592, 11798513111, 12207614812, 12758754052, 13606706890, 15530391682]"

definition difficultyListMainnet :: "int list" where
  "difficultyListMainnet =
     difficultyListMainnet1 @ difficultyListMainnet2 @ difficultyListMainnet3 @ difficultyListMainnet4 @
     difficultyListMainnet5 @ difficultyListMainnet6 @ difficultyListMainnet7 @ difficultyListMainnet8 @
     difficultyListMainnet9 @ difficultyListMainnet10 @ difficultyListMainnet11 @ difficultyListMainnet12 @
     difficultyListMainnet13 @ difficultyListMainnet14 @ difficultyListMainnet15 @ difficultyListMainnet16 @
     difficultyListMainnet17 @ difficultyListMainnet18 @ difficultyListMainnet19 @ difficultyListMainnet20 @
     difficultyListMainnet21 @ difficultyListMainnet22 @ difficultyListMainnet23 @ difficultyListMainnet24"

subsection \<open>\<open>difficultyListTestnet\<close>\<close>

definition difficultyListTestnet1 :: "int list" where
  "difficultyListTestnet1 = [
     0, 874, 1748, 2621, 3495, 4369, 5242, 6116, 6990, 7863, 8737, 9611, 10484, 11358, 12232, 13105, 13979,
     14853, 15726, 16600, 17474, 18348, 19221, 20095, 20969, 21842, 22716, 23590, 24463, 25337, 26211, 27085,
     27958, 28832, 29706, 30580, 31453, 32327, 33201, 34075, 34948, 35822, 36696, 37570, 38443, 39317, 40191,
     41065, 41939, 42812, 43686, 44560, 45434, 46308, 47182, 48056, 48929, 49803, 50677, 51551, 52425, 53299,
     54173, 55047, 55921, 56795, 57669, 58542, 59416, 60290, 61164, 62038, 62912, 63786, 64660, 65534, 66409,
     67283, 68157, 69031, 69905, 70779, 71653, 72527, 73401, 74275, 75150, 76024, 76898, 77772, 78646, 79521,
     80395, 81269, 82143, 83018, 83892, 84766, 85641, 86515, 87389, 88264, 89138, 90012, 90887, 91761, 92635,
     93510, 94384, 95259, 96133, 97008, 97882, 98757, 99631, 100506, 101381, 102255, 103130, 104004, 104879,
     105754, 106628, 107503, 108378, 109252, 110127, 111002, 111877, 112751, 113626, 114501, 115376, 116251,
     117126, 118001, 118875, 119750, 120625, 121500, 122375, 123250, 124125, 125000, 125876, 126751, 127626,
     128501, 129376, 130251]"

definition difficultyListTestnet2 :: "int list" where
  "difficultyListTestnet2 = [
     131126, 132002, 132877, 133752, 134627, 135503, 136378, 137253, 138129, 139004, 139879, 140755, 141630,
     142506, 143381, 144257, 145132, 146008, 146883, 147759, 148635, 149510, 150386, 151262, 152137, 153013,
     153889, 154765, 155641, 156516, 157392, 158268, 159144, 160020, 160896, 161772, 162648, 163524, 164400,
     165276, 166152, 167029, 167905, 168781, 169657, 170533, 171410, 172286, 173162, 174039, 174915, 175792,
     176668, 177544, 178421, 179298, 180174, 181051, 181927, 182804, 183681, 184557, 185434, 186311, 187188,
     188064, 188941, 189818, 190695, 191572, 192449, 193326, 194203, 195080, 195957, 196834, 197711, 198589,
     199466, 200343, 201220, 202098, 202975, 203852, 204730, 205607, 206485, 207362, 208240, 209117, 209995,
     210873, 211750, 212628, 213506, 214383, 215261, 216139, 217017, 217895, 218773, 219651, 220529, 221407,
     222285, 223163, 224041, 224919, 225798, 226676, 227554, 228433, 229311, 230189, 231068, 231946, 232825,
     233703, 234582, 235460, 236339, 237218, 238097, 238975, 239854, 240733, 241612, 242491, 243370, 244249,
     245128, 246007, 246886, 247765, 248644, 249524, 250403, 251282, 252162, 253041, 253920, 254800, 255679,
     256559, 257439, 258318, 259198, 260078, 260957, 261837]"

definition difficultyListTestnet3 :: "int list" where
  "difficultyListTestnet3 = [
     262717, 263597, 264477, 265357, 266237, 267117, 267997, 268877, 269757, 270638, 271518, 272398, 273278,
     274159, 275039, 275920, 276800, 277681, 278562, 279442, 280323, 281204, 282084, 282965, 283846, 284727,
     285608, 286489, 287370, 288251, 289132, 290014, 290895, 291776, 292658, 293539, 294420, 295302, 296183,
     297065, 297947, 298828, 299710, 300592, 301474, 302355, 303237, 304119, 305001, 305883, 306765, 307648,
     308530, 309412, 310294, 311177, 312059, 312942, 313824, 314707, 315589, 316472, 317355, 318237, 319120,
     320003, 320886, 321769, 322652, 323535, 324418, 325301, 326184, 327068, 327951, 328834, 329718, 330601,
     331485, 332368, 333252, 334136, 335019, 335903, 336787, 337671, 338555, 339439, 340323, 341207, 342091,
     342976, 343860, 344744, 345629, 346513, 347398, 348282, 349167, 350051, 350936, 351821, 352706, 353591,
     354476, 355361, 356246, 357131, 358016, 358901, 359787, 360672, 361557, 362443, 363328, 364214, 365100,
     365985, 366871, 367757, 368643, 369529, 370415, 371301, 372187, 373073, 373959, 374845, 375732, 376618,
     377505, 378391, 379278, 380165, 381051, 381938, 382825, 383712, 384599, 385486, 386373, 387260, 388147,
     389035, 389922, 390809, 391697, 392584, 393472, 394360]"

definition difficultyListTestnet4 :: "int list" where
  "difficultyListTestnet4 = [
     395247, 396135, 397023, 397911, 398799, 399687, 400575, 401463, 402351, 403240, 404128, 405016, 405905,
     406793, 407682, 408571, 409460, 410348, 411237, 412126, 413015, 413904, 414793, 415683, 416572, 417461,
     418351, 419240, 420130, 421019, 421909, 422799, 423689, 424579, 425469, 426359, 427249, 428139, 429029,
     429920, 430810, 431700, 432591, 433481, 434372, 435263, 436154, 437045, 437935, 438827, 439718, 440609,
     441500, 442391, 443283, 444174, 445066, 445957, 446849, 447741, 448632, 449524, 450416, 451308, 452200,
     453093, 453985, 454877, 455770, 456662, 457555, 458447, 459340, 460233, 461125, 462018, 462911, 463804,
     464698, 465591, 466484, 467377, 468271, 469164, 470058, 470952, 471845, 472739, 473633, 474527, 475421,
     476315, 477210, 478104, 478998, 479893, 480787, 481682, 482577, 483471, 484366, 485261, 486156, 487051,
     487946, 488842, 489737, 490632, 491528, 492423, 493319, 494215, 495110, 496006, 496902, 497798, 498694,
     499591, 500487, 501383, 502280, 503176, 504073, 504970, 505866, 506763, 507660, 508557, 509454, 510352,
     511249, 512146, 513044, 513941, 514839, 515736, 516634, 517532, 518430, 519328, 520226, 521124, 522023,
     522921, 523820, 524718, 525617, 526516, 527414, 528313]"

definition difficultyListTestnet5 :: "int list" where
  "difficultyListTestnet5 = [
     529212, 530111, 531011, 531910, 532809, 533709, 534608, 535508, 536407, 537307, 538207, 539107, 540007,
     540907, 541807, 542708, 543608, 544509, 545409, 546310, 547211, 548111, 549012, 549913, 550815, 551716,
     552617, 553518, 554420, 555321, 556223, 557125, 558027, 558929, 559831, 560733, 561635, 562537, 563440,
     564342, 565245, 566148, 567050, 567953, 568856, 569759, 570663, 571566, 572469, 573373, 574276, 575180,
     576083, 576987, 577891, 578795, 579699, 580604, 581508, 582412, 583317, 584221, 585126, 586031, 586936,
     587841, 588746, 589651, 590556, 591462, 592367, 593273, 594178, 595084, 595990, 596896, 597802, 598708,
     599615, 600521, 601427, 602334, 603241, 604147, 605054, 605961, 606868, 607775, 608683, 609590, 610498,
     611405, 612313, 613221, 614129, 615037, 615945, 616853, 617761, 618670, 619578, 620487, 621395, 622304,
     623213, 624122, 625031, 625941, 626850, 627759, 628669, 629579, 630488, 631398, 632308, 633218, 634128,
     635039, 635949, 636860, 637770, 638681, 639592, 640503, 641414, 642325, 643236, 644148, 645059, 645971,
     646882, 647794, 648706, 649618, 650530, 651443, 652355, 653267, 654180, 655093, 656005, 656918, 657831,
     658744, 659658, 660571, 661484, 662398, 663312, 664226]"

definition difficultyListTestnet6 :: "int list" where
  "difficultyListTestnet6 = [
     665139, 666053, 666968, 667882, 668796, 669711, 670625, 671540, 672455, 673370, 674285, 675200, 676115,
     677031, 677946, 678862, 679777, 680693, 681609, 682525, 683441, 684358, 685274, 686191, 687107, 688024,
     688941, 689858, 690775, 691692, 692610, 693527, 694445, 695363, 696280, 697198, 698116, 699035, 699953,
     700871, 701790, 702708, 703627, 704546, 705465, 706384, 707304, 708223, 709143, 710062, 710982, 711902,
     712822, 713742, 714662, 715582, 716503, 717424, 718344, 719265, 720186, 721107, 722028, 722950, 723871,
     724793, 725715, 726636, 727558, 728480, 729403, 730325, 731247, 732170, 733093, 734016, 734939, 735862,
     736785, 737708, 738632, 739555, 740479, 741403, 742327, 743251, 744175, 745100, 746024, 746949, 747873,
     748798, 749723, 750649, 751574, 752499, 753425, 754350, 755276, 756202, 757128, 758054, 758981, 759907,
     760834, 761760, 762687, 763614, 764541, 765469, 766396, 767323, 768251, 769179, 770107, 771035, 771963,
     772891, 773820, 774748, 775677, 776606, 777535, 778464, 779393, 780322, 781252, 782182, 783111, 784041,
     784971, 785902, 786832, 787762, 788693, 789624, 790555, 791486, 792417, 793348, 794280, 795211, 796143,
     797075, 798007, 798939, 799871, 800804, 801736, 802669]"

definition difficultyListTestnet7 :: "int list" where
  "difficultyListTestnet7 = [
     803602, 804535, 805468, 806401, 807334, 808268, 809202, 810135, 811069, 812003, 812938, 813872, 814807,
     815741, 816676, 817611, 818546, 819481, 820417, 821352, 822288, 823224, 824160, 825096, 826032, 826969,
     827905, 828842, 829779, 830716, 831653, 832590, 833527, 834465, 835403, 836341, 837279, 838217, 839155,
     840094, 841032, 841971, 842910, 843849, 844788, 845728, 846667, 847607, 848546, 849486, 850427, 851367,
     852307, 853248, 854188, 855129, 856070, 857012, 857953, 858894, 859836, 860778, 861720, 862662, 863604,
     864546, 865489, 866432, 867374, 868317, 869261, 870204, 871147, 872091, 873035, 873979, 874923, 875867,
     876811, 877756, 878701, 879646, 880591, 881536, 882481, 883427, 884372, 885318, 886264, 887210, 888157,
     889103, 890050, 890996, 891943, 892890, 893838, 894785, 895733, 896680, 897628, 898576, 899525, 900473,
     901422, 902370, 903319, 904268, 905217, 906167, 907116, 908066, 909016, 909966, 910916, 911866, 912817,
     913768, 914718, 915669, 916621, 917572, 918523, 919475, 920427, 921379, 922331, 923283, 924236, 925188,
     926141, 927094, 928047, 929001, 929954, 930908, 931862, 932816, 933770, 934724, 935679, 936634, 937588,
     938544, 939499, 940454, 941410, 942365, 943321, 944277]"

definition difficultyListTestnet8 :: "int list" where
  "difficultyListTestnet8 = [
     945234, 946190, 947147, 948103, 949060, 950017, 950975, 951932, 952890, 953847, 954805, 955764, 956722,
     957680, 958639, 959598, 960557, 961516, 962475, 963435, 964395, 965355, 966315, 967275, 968235, 969196,
     970157, 971118, 972079, 973040, 974002, 974963, 975925, 976887, 977849, 978812, 979774, 980737, 981700,
     982663, 983627, 984590, 985554, 986518, 987482, 988446, 989410, 990375, 991340, 992305, 993270, 994235,
     995200, 996166, 997132, 998098, 999064, 1000031, 1000997, 1001964, 1002931, 1003898, 1004866, 1005833,
     1006801, 1007769, 1008737, 1009705, 1010674, 1011642, 1012611, 1013580, 1014549, 1015519, 1016489, 1017458,
     1018428, 1019399, 1020369, 1021339, 1022310, 1023281, 1024252, 1025224, 1026195, 1027167, 1028139, 1029111,
     1030083, 1031056, 1032028, 1033001, 1033974, 1034947, 1035921, 1036895, 1037868, 1038842, 1039817, 1040791,
     1041766, 1042741, 1043716, 1044691, 1045666, 1046642, 1047618, 1048594, 1049570, 1050546, 1051523, 1052500,
     1053477, 1054454, 1055431, 1056409, 1057387, 1058365, 1059343, 1060321, 1061300, 1062278, 1063257, 1064237,
     1065216, 1066196, 1067175, 1068155, 1069136, 1070116, 1071097, 1072078, 1073059, 1074040, 1075021, 1076003,
     1076985, 1077967, 1078949, 1079931, 1080914, 1081897, 1082880, 1083863, 1084847, 1085831, 1086814, 1087799,
     1088783, 1089767]"

definition difficultyListTestnet9 :: "int list" where
  "difficultyListTestnet9 = [
     1090752, 1091737, 1092722, 1093708, 1094693, 1095679, 1096665, 1097651, 1098638, 1099624, 1100611, 1101598,
     1102585, 1103573, 1104561, 1105548, 1106537, 1107525, 1108513, 1109502, 1110491, 1111480, 1112470, 1113459,
     1114449, 1115439, 1116429, 1117420, 1118411, 1119402, 1120393, 1121384, 1122376, 1123367, 1124359, 1125352,
     1126344, 1127337, 1128329, 1129323, 1130316, 1131309, 1132303, 1133297, 1134291, 1135286, 1136280, 1137275,
     1138270, 1139265, 1140261, 1141257, 1142253, 1143249, 1144245, 1145242, 1146239, 1147236, 1148233, 1149231,
     1150228, 1151226, 1152225, 1153223, 1154222, 1155220, 1156220, 1157219, 1158218, 1159218, 1160218, 1161219,
     1162219, 1163220, 1164221, 1165222, 1166223, 1167225, 1168227, 1169229, 1170231, 1171234, 1172236, 1173239,
     1174242, 1175246, 1176250, 1177254, 1178258, 1179262, 1180267, 1181272, 1182277, 1183282, 1184288, 1185293,
     1186299, 1187306, 1188312, 1189319, 1190326, 1191333, 1192341, 1193348, 1194356, 1195364, 1196373, 1197381,
     1198390, 1199399, 1200409, 1201418, 1202428, 1203438, 1204449, 1205459, 1206470, 1207481, 1208492, 1209504,
     1210516, 1211528, 1212540, 1213552, 1214565, 1215578, 1216591, 1217605, 1218618, 1219632, 1220647, 1221661,
     1222676, 1223691, 1224706, 1225721, 1226737, 1227753, 1228769, 1229785, 1230802, 1231819, 1232836, 1233854,
     1234871, 1235889, 1236907, 1237926, 1238945, 1239963]"

definition difficultyListTestnet10 :: "int list" where
  "difficultyListTestnet10 = [
     1240983, 1242002, 1243022, 1244042, 1245062, 1246082, 1247103, 1248124, 1249145, 1250167, 1251188, 1252210,
     1253232, 1254255, 1255278, 1256301, 1257324, 1258347, 1259371, 1260395, 1261419, 1262444, 1263469, 1264494,
     1265519, 1266545, 1267570, 1268596, 1269623, 1270649, 1271676, 1272703, 1273731, 1274758, 1275786, 1276815,
     1277843, 1278872, 1279901, 1280930, 1281959, 1282989, 1284019, 1285049, 1286080, 1287111, 1288142, 1289173,
     1290205, 1291237, 1292269, 1293301, 1294334, 1295367, 1296400, 1297434, 1298467, 1299501, 1300536, 1301570,
     1302605, 1303640, 1304676, 1305711, 1306747, 1307783, 1308820, 1309857, 1310894, 1311931, 1312969, 1314006,
     1315044, 1316083, 1317122, 1318160, 1319200, 1320239, 1321279, 1322319, 1323359, 1324400, 1325441, 1326482,
     1327523, 1328565, 1329607, 1330649, 1331692, 1332735, 1333778, 1334821, 1335865, 1336909, 1337953, 1338998,
     1340043, 1341088, 1342133, 1343179, 1344225, 1345271, 1346317, 1347364, 1348411, 1349459, 1350506, 1351554,
     1352603, 1353651, 1354700, 1355749, 1356798, 1357848, 1358898, 1359948, 1360999, 1362050, 1363101, 1364152,
     1365204, 1366256, 1367308, 1368361, 1369414, 1370467, 1371520, 1372574, 1373628, 1374683, 1375737, 1376792,
     1377847, 1378903, 1379959, 1381015, 1382071, 1383128, 1384185, 1385242, 1386300, 1387358, 1388416, 1389475,
     1390533, 1391593, 1392652, 1393712, 1394772, 1395832]"

definition difficultyListTestnet11 :: "int list" where
  "difficultyListTestnet11 = [
     1396893, 1397954, 1399015, 1400076, 1401138, 1402200, 1403263, 1404326, 1405389, 1406452, 1407516, 1408580,
     1409644, 1410709, 1411773, 1412839, 1413904, 1414970, 1416036, 1417103, 1418169, 1419236, 1420304, 1421372,
     1422440, 1423508, 1424576, 1425645, 1426715, 1427784, 1428854, 1429924, 1430995, 1432066, 1433137, 1434208,
     1435280, 1436352, 1437424, 1438497, 1439570, 1440644, 1441717, 1442791, 1443866, 1444940, 1446015, 1447091,
     1448166, 1449242, 1450318, 1451395, 1452472, 1453549, 1454626, 1455704, 1456783, 1457861, 1458940, 1460019,
     1461099, 1462178, 1463258, 1464339, 1465420, 1466501, 1467582, 1468664, 1469746, 1470829, 1471911, 1472994,
     1474078, 1475162, 1476246, 1477330, 1478415, 1479500, 1480585, 1481671, 1482757, 1483844, 1484930, 1486018,
     1487105, 1488193, 1489281, 1490369, 1491458, 1492547, 1493637, 1494726, 1495817, 1496907, 1497998, 1499089,
     1500181, 1501272, 1502365, 1503457, 1504550, 1505643, 1506737, 1507831, 1508925, 1510019, 1511114, 1512210,
     1513305, 1514401, 1515498, 1516594, 1517691, 1518789, 1519886, 1520984, 1522083, 1523181, 1524281, 1525380,
     1526480, 1527580, 1528681, 1529781, 1530883, 1531984, 1533086, 1534188, 1535291, 1536394, 1537497, 1538601,
     1539705, 1540810, 1541914, 1543019, 1544125, 1545231, 1546337, 1547444, 1548550, 1549658, 1550765, 1551873,
     1552982, 1554091, 1555200, 1556309, 1557419, 1558529]"

definition difficultyListTestnet12 :: "int list" where
  "difficultyListTestnet12 = [
     1559640, 1560751, 1561862, 1562974, 1564086, 1565198, 1566311, 1567424, 1568537, 1569651, 1570765, 1571880,
     1572995, 1574110, 1575226, 1576342, 1577459, 1578575, 1579693, 1580810, 1581928, 1583046, 1584165, 1585284,
     1586404, 1587524, 1588644, 1589764, 1590885, 1592007, 1593128, 1594250, 1595373, 1596496, 1597619, 1598743,
     1599867, 1600991, 1602116, 1603241, 1604366, 1605492, 1606619, 1607745, 1608872, 1610000, 1611128, 1612256,
     1613385, 1614514, 1615643, 1616773, 1617903, 1619034, 1620165, 1621296, 1622428, 1623560, 1624692, 1625825,
     1626959, 1628092, 1629226, 1630361, 1631496, 1632631, 1633767, 1634903, 1636039, 1637176, 1638314, 1639451,
     1640589, 1641728, 1642867, 1644006, 1645146, 1646286, 1647426, 1648567, 1649708, 1650850, 1651992, 1653135,
     1654278, 1655421, 1656565, 1657709, 1658854, 1659998, 1661144, 1662290, 1663436, 1664582, 1665729, 1666877,
     1668025, 1669173, 1670322, 1671471, 1672620, 1673770, 1674920, 1676071, 1677222, 1678374, 1679526, 1680678,
     1681831, 1682984, 1684138, 1685292, 1686447, 1687602, 1688757, 1689913, 1691069, 1692226, 1693383, 1694540,
     1695698, 1696856, 1698015, 1699174, 1700334, 1701494, 1702654, 1703815, 1704977, 1706138, 1707300, 1708463,
     1709626, 1710790, 1711954, 1713118, 1714283, 1715448, 1716614, 1717780, 1718946, 1720113, 1721281, 1722448,
     1723617, 1724785, 1725955, 1727124, 1728294, 1729465]"

definition difficultyListTestnet13 :: "int list" where
  "difficultyListTestnet13 = [
     1730636, 1731807, 1732979, 1734151, 1735324, 1736497, 1737671, 1738845, 1740019, 1741194, 1742369, 1743545,
     1744721, 1745898, 1747075, 1748253, 1749431, 1750610, 1751789, 1752968, 1754148, 1755328, 1756509, 1757690,
     1758872, 1760054, 1761237, 1762420, 1763604, 1764788, 1765972, 1767157, 1768342, 1769528, 1770715, 1771901,
     1773089, 1774276, 1775465, 1776653, 1777842, 1779032, 1780222, 1781413, 1782603, 1783795, 1784987, 1786179,
     1787372, 1788565, 1789759, 1790954, 1792148, 1793344, 1794539, 1795735, 1796932, 1798129, 1799327, 1800525,
     1801724, 1802923, 1804122, 1805322, 1806523, 1807724, 1808925, 1810127, 1811330, 1812532, 1813736, 1814940,
     1816144, 1817349, 1818554, 1819760, 1820966, 1822173, 1823381, 1824588, 1825797, 1827006, 1828215, 1829425,
     1830635, 1831846, 1833057, 1834269, 1835481, 1836694, 1837907, 1839121, 1840335, 1841550, 1842765, 1843981,
     1845197, 1846414, 1847631, 1848849, 1850067, 1851286, 1852505, 1853725, 1854945, 1856166, 1857387, 1858609,
     1859832, 1861054, 1862278, 1863502, 1864726, 1865951, 1867176, 1868402, 1869629, 1870856, 1872083, 1873311,
     1874540, 1875769, 1876998, 1878229, 1879459, 1880690, 1881922, 1883154, 1884387, 1885620, 1886854, 1888088,
     1889323, 1890558, 1891794, 1893031, 1894268, 1895505, 1896743, 1897982, 1899221, 1900460, 1901701, 1902941,
     1904182, 1905424, 1906667, 1907909, 1909153, 1910397]"

definition difficultyListTestnet14 :: "int list" where
  "difficultyListTestnet14 = [
     1911641, 1912886, 1914132, 1915378, 1916624, 1917872, 1919119, 1920368, 1921616, 1922866, 1924116, 1925366,
     1926617, 1927869, 1929121, 1930374, 1931627, 1932881, 1934135, 1935390, 1936645, 1937901, 1939158, 1940415,
     1941673, 1942931, 1944190, 1945449, 1946709, 1947970, 1949231, 1950492, 1951754, 1953017, 1954280, 1955544,
     1956809, 1958074, 1959339, 1960606, 1961872, 1963140, 1964408, 1965676, 1966945, 1968215, 1969485, 1970756,
     1972027, 1973299, 1974572, 1975845, 1977118, 1978393, 1979668, 1980943, 1982219, 1983496, 1984773, 1986051,
     1987329, 1988608, 1989887, 1991168, 1992448, 1993730, 1995012, 1996294, 1997577, 1998861, 2000145, 2001430,
     2002716, 2004002, 2005288, 2006576, 2007864, 2009152, 2010441, 2011731, 2013021, 2014312, 2015604, 2016896,
     2018189, 2019482, 2020776, 2022071, 2023366, 2024662, 2025958, 2027255, 2028553, 2029851, 2031150, 2032450,
     2033750, 2035051, 2036352, 2037654, 2038957, 2040260, 2041564, 2042868, 2044173, 2045479, 2046786, 2048093,
     2049400, 2050709, 2052017, 2053327, 2054637, 2055948, 2057260, 2058572, 2059884, 2061198, 2062512, 2063826,
     2065142, 2066458, 2067774, 2069092, 2070409, 2071728, 2073047, 2074367, 2075687, 2077009, 2078330, 2079653,
     2080976, 2082300, 2083624, 2084949, 2086275, 2087601, 2088928, 2090256, 2091584, 2092913, 2094243, 2095573,
     2096904, 2098236, 2099568, 2100901, 2102235, 2103569]"

definition difficultyListTestnet15 :: "int list" where
  "difficultyListTestnet15 = [
     2104904, 2106240, 2107576, 2108913, 2110251, 2111589, 2112928, 2114268, 2115608, 2116950, 2118291, 2119634,
     2120977, 2122321, 2123665, 2125010, 2126356, 2127703, 2129050, 2130398, 2131747, 2133096, 2134446, 2135797,
     2137148, 2138500, 2139853, 2141207, 2142561, 2143916, 2145271, 2146628, 2147985, 2149343, 2150701, 2152060,
     2153420, 2154781, 2156142, 2157504, 2158866, 2160230, 2161594, 2162959, 2164324, 2165691, 2167058, 2168425,
     2169794, 2171163, 2172533, 2173903, 2175275, 2176647, 2178020, 2179393, 2180767, 2182142, 2183518, 2184894,
     2186272, 2187649, 2189028, 2190408, 2191788, 2193168, 2194550, 2195932, 2197316, 2198699, 2200084, 2201469,
     2202855, 2204242, 2205630, 2207018, 2208407, 2209797, 2211188, 2212579, 2213971, 2215364, 2216757, 2218152,
     2219547, 2220943, 2222340, 2223737, 2225135, 2226534, 2227934, 2229334, 2230736, 2232138, 2233541, 2234944,
     2236349, 2237754, 2239160, 2240566, 2241974, 2243382, 2244791, 2246201, 2247612, 2249023, 2250435, 2251848,
     2253262, 2254677, 2256092, 2257508, 2258925, 2260343, 2261762, 2263181, 2264601, 2266022, 2267444, 2268867,
     2270290, 2271714, 2273139, 2274565, 2275992, 2277419, 2278847, 2280276, 2281706, 2283137, 2284568, 2286001,
     2287434, 2288868, 2290303, 2291738, 2293175, 2294612, 2296050, 2297489, 2298929, 2300370, 2301811, 2303253,
     2304697, 2306140, 2307585, 2309031, 2310477, 2311925]"

definition difficultyListTestnet16 :: "int list" where
  "difficultyListTestnet16 = [
     2313373, 2314822, 2316272, 2317723, 2319174, 2320627, 2322080, 2323534, 2324989, 2326445, 2327902, 2329359,
     2330818, 2332277, 2333737, 2335198, 2336660, 2338123, 2339587, 2341051, 2342517, 2343983, 2345450, 2346918,
     2348387, 2349857, 2351327, 2352799, 2354271, 2355745, 2357219, 2358694, 2360170, 2361647, 2363125, 2364603,
     2366083, 2367563, 2369045, 2370527, 2372010, 2373494, 2374979, 2376465, 2377952, 2379440, 2380929, 2382418,
     2383909, 2385400, 2386892, 2388385, 2389880, 2391375, 2392871, 2394368, 2395865, 2397364, 2398864, 2400364,
     2401866, 2403369, 2404872, 2406376, 2407882, 2409388, 2410895, 2412403, 2413912, 2415422, 2416933, 2418445,
     2419958, 2421472, 2422987, 2424503, 2426019, 2427537, 2429056, 2430575, 2432096, 2433617, 2435140, 2436663,
     2438188, 2439713, 2441240, 2442767, 2444296, 2445825, 2447355, 2448886, 2450419, 2451952, 2453486, 2455022,
     2456558, 2458095, 2459633, 2461173, 2462713, 2464254, 2465796, 2467340, 2468884, 2470429, 2471975, 2473523,
     2475071, 2476620, 2478171, 2479722, 2481274, 2482828, 2484382, 2485938, 2487494, 2489052, 2490610, 2492170,
     2493730, 2495292, 2496855, 2498418, 2499983, 2501549, 2503116, 2504684, 2506253, 2507823, 2509394, 2510966,
     2512539, 2514113, 2515688, 2517265, 2518842, 2520421, 2522000, 2523581, 2525163, 2526745, 2528329, 2529914,
     2531500, 2533087, 2534675, 2536265, 2537855, 2539446]"

definition difficultyListTestnet17 :: "int list" where
  "difficultyListTestnet17 = [
     2541039, 2542632, 2544227, 2545823, 2547420, 2549018, 2550617, 2552217, 2553818, 2555421, 2557024, 2558629,
     2560235, 2561842, 2563450, 2565059, 2566669, 2568280, 2569893, 2571506, 2573121, 2574737, 2576354, 2577972,
     2579592, 2581212, 2582834, 2584456, 2586080, 2587705, 2589331, 2590959, 2592587, 2594217, 2595848, 2597480,
     2599113, 2600747, 2602383, 2604019, 2605657, 2607296, 2608936, 2610578, 2612220, 2613864, 2615509, 2617155,
     2618802, 2620451, 2622100, 2623751, 2625403, 2627056, 2628711, 2630367, 2632023, 2633682, 2635341, 2637001,
     2638663, 2640326, 2641990, 2643656, 2645322, 2646990, 2648659, 2650330, 2652001, 2653674, 2655348, 2657023,
     2658700, 2660378, 2662057, 2663737, 2665419, 2667101, 2668785, 2670471, 2672157, 2673845, 2675534, 2677225,
     2678916, 2680609, 2682304, 2683999, 2685696, 2687394, 2689093, 2690794, 2692496, 2694199, 2695904, 2697610,
     2699317, 2701025, 2702735, 2704446, 2706158, 2707872, 2709587, 2711304, 2713021, 2714740, 2716461, 2718182,
     2719905, 2721630, 2723355, 2725082, 2726811, 2728540, 2730271, 2732004, 2733738, 2735473, 2737209, 2738947,
     2740686, 2742427, 2744169, 2745912, 2747657, 2749403, 2751151, 2752899, 2754650, 2756401, 2758154, 2759909,
     2761665, 2763422, 2765180, 2766941, 2768702, 2770465, 2772229, 2773995, 2775762, 2777531, 2779301, 2781072,
     2782845, 2784619, 2786395, 2788172, 2789951, 2791731]"

definition difficultyListTestnet18 :: "int list" where
  "difficultyListTestnet18 = [
     2793512, 2795295, 2797080, 2798865, 2800653, 2802442, 2804232, 2806024, 2807817, 2809611, 2811408, 2813205,
     2815004, 2816805, 2818607, 2820411, 2822216, 2824023, 2825831, 2827640, 2829452, 2831264, 2833078, 2834894,
     2836711, 2838530, 2840350, 2842172, 2843996, 2845820, 2847647, 2849475, 2851304, 2853135, 2854968, 2856802,
     2858638, 2860475, 2862314, 2864155, 2865997, 2867840, 2869686, 2871532, 2873381, 2875231, 2877082, 2878935,
     2880790, 2882647, 2884505, 2886364, 2888225, 2890088, 2891953, 2893819, 2895686, 2897556, 2899427, 2901299,
     2903174, 2905049, 2906927, 2908806, 2910687, 2912570, 2914454, 2916340, 2918227, 2920116, 2922007, 2923900,
     2925794, 2927690, 2929588, 2931487, 2933388, 2935291, 2937195, 2939101, 2941009, 2942919, 2944830, 2946743,
     2948658, 2950575, 2952493, 2954413, 2956335, 2958258, 2960183, 2962110, 2964039, 2965970, 2967902, 2969836,
     2971772, 2973710, 2975649, 2977590, 2979533, 2981478, 2983425, 2985373, 2987323, 2989275, 2991229, 2993185,
     2995142, 2997102, 2999063, 3001026, 3002990, 3004957, 3006926, 3008896, 3010868, 3012842, 3014818, 3016796,
     3018776, 3020758, 3022741, 3024726, 3026714, 3028703, 3030694, 3032687, 3034682, 3036679, 3038677, 3040678,
     3042681, 3044685, 3046691, 3048700, 3050710, 3052722, 3054737, 3056753, 3058771, 3060791, 3062813, 3064837,
     3066863, 3068891, 3070921, 3072953, 3074987, 3077023]"

definition difficultyListTestnet19 :: "int list" where
  "difficultyListTestnet19 = [
     3079061, 3081102, 3083144, 3085188, 3087234, 3089282, 3091332, 3093384, 3095439, 3097495, 3099553, 3101614,
     3103676, 3105741, 3107808, 3109877, 3111947, 3114020, 3116095, 3118173, 3120252, 3122333, 3124417, 3126502,
     3128590, 3130680, 3132772, 3134866, 3136962, 3139061, 3141161, 3143264, 3145369, 3147476, 3149586, 3151697,
     3153811, 3155927, 3158045, 3160165, 3162287, 3164412, 3166539, 3168668, 3170800, 3172933, 3175069, 3177207,
     3179348, 3181490, 3183635, 3185782, 3187932, 3190084, 3192238, 3194394, 3196553, 3198714, 3200877, 3203042,
     3205210, 3207381, 3209553, 3211728, 3213905, 3216085, 3218267, 3220451, 3222638, 3224827, 3227019, 3229212,
     3231409, 3233607, 3235808, 3238012, 3240218, 3242426, 3244637, 3246850, 3249066, 3251284, 3253504, 3255728,
     3257953, 3260181, 3262411, 3264644, 3266880, 3269118, 3271358, 3273601, 3275847, 3278095, 3280345, 3282598,
     3284854, 3287112, 3289373, 3291636, 3293902, 3296171, 3298442, 3300716, 3302992, 3305271, 3307552, 3309837,
     3312123, 3314413, 3316705, 3319000, 3321297, 3323597, 3325900, 3328205, 3330513, 3332824, 3335137, 3337454,
     3339773, 3342094, 3344419, 3346746, 3349076, 3351408, 3353744, 3356082, 3358423, 3360766, 3363113, 3365462,
     3367814, 3370169, 3372527, 3374888, 3377251, 3379617, 3381986, 3384358, 3386733, 3389111, 3391491, 3393875,
     3396261, 3398651, 3401043, 3403438, 3405836, 3408237]"

definition difficultyListTestnet20 :: "int list" where
  "difficultyListTestnet20 = [
     3410641, 3413048, 3415458, 3417871, 3420287, 3422706, 3425128, 3427553, 3429980, 3432411, 3434845, 3437282,
     3439722, 3442166, 3444612, 3447061, 3449513, 3451969, 3454427, 3456889, 3459354, 3461822, 3464293, 3466767,
     3469245, 3471725, 3474209, 3476696, 3479186, 3481679, 3484176, 3486676, 3489179, 3491685, 3494195, 3496707,
     3499223, 3501743, 3504265, 3506791, 3509321, 3511853, 3514389, 3516928, 3519471, 3522017, 3524566, 3527119,
     3529675, 3532235, 3534797, 3537364, 3539934, 3542507, 3545083, 3547664, 3550247, 3552834, 3555425, 3558019,
     3560617, 3563218, 3565823, 3568431, 3571043, 3573658, 3576277, 3578900, 3581526, 3584155, 3586789, 3589426,
     3592067, 3594711, 3597359, 3600011, 3602666, 3605325, 3607988, 3610655, 3613325, 3615999, 3618677, 3621359,
     3624044, 3626733, 3629426, 3632123, 3634824, 3637528, 3640237, 3642949, 3645665, 3648385, 3651109, 3653837,
     3656569, 3659305, 3662045, 3664788, 3667536, 3670288, 3673044, 3675803, 3678567, 3681335, 3684107, 3686883,
     3689663, 3692448, 3695236, 3698028, 3700825, 3703626, 3706431, 3709240, 3712053, 3714871, 3717693, 3720519,
     3723349, 3726184, 3729023, 3731866, 3734714, 3737566, 3740422, 3743282, 3746147, 3749017, 3751891, 3754769,
     3757651, 3760538, 3763430, 3766326, 3769227, 3772132, 3775041, 3777955, 3780874, 3783797, 3786725, 3789658,
     3792595, 3795537, 3798483, 3801434, 3804390, 3807351]"

definition difficultyListTestnet21 :: "int list" where
  "difficultyListTestnet21 = [
     3810316, 3813286, 3816260, 3819240, 3822224, 3825213, 3828207, 3831206, 3834210, 3837218, 3840232, 3843250,
     3846273, 3849301, 3852334, 3855373, 3858416, 3861464, 3864517, 3867575, 3870639, 3873707, 3876781, 3879859,
     3882943, 3886032, 3889126, 3892226, 3895331, 3898440, 3901556, 3904676, 3907802, 3910933, 3914069, 3917211,
     3920358, 3923511, 3926669, 3929832, 3933001, 3936175, 3939355, 3942541, 3945732, 3948928, 3952130, 3955338,
     3958552, 3961771, 3964995, 3968226, 3971462, 3974704, 3977952, 3981205, 3984465, 3987730, 3991001, 3994278,
     3997560, 4000849, 4004144, 4007444, 4010751, 4014064, 4017382, 4020707, 4024038, 4027375, 4030718, 4034067,
     4037423, 4040785, 4044153, 4047527, 4050907, 4054294, 4057687, 4061087, 4064493, 4067905, 4071324, 4074750,
     4078181, 4081620, 4085065, 4088516, 4091974, 4095439, 4098911, 4102389, 4105873, 4109365, 4112863, 4116369,
     4119881, 4123400, 4126925, 4130458, 4133998, 4137544, 4141098, 4144659, 4148227, 4151801, 4155384, 4158973,
     4162569, 4166173, 4169784, 4173402, 4177027, 4180660, 4184300, 4187948, 4191603, 4195266, 4198936, 4202614,
     4206299, 4209992, 4213692, 4217401, 4221117, 4224840, 4228572, 4232311, 4236058, 4239813, 4243576, 4247347,
     4251127, 4254914, 4258709, 4262512, 4266323, 4270143, 4273971, 4277807, 4281651, 4285504, 4289365, 4293235,
     4297113, 4300999, 4304895, 4308798, 4312711, 4316632]"

definition difficultyListTestnet22 :: "int list" where
  "difficultyListTestnet22 = [
     4320561, 4324500, 4328447, 4332403, 4336368, 4340342, 4344325, 4348316, 4352317, 4356327, 4360346, 4364375,
     4368412, 4372459, 4376515, 4380580, 4384655, 4388740, 4392833, 4396937, 4401050, 4405172, 4409305, 4413447,
     4417599, 4421760, 4425932, 4430114, 4434305, 4438507, 4442718, 4446940, 4451172, 4455415, 4459667, 4463930,
     4468203, 4472487, 4476782, 4481087, 4485402, 4489728, 4494065, 4498413, 4502772, 4507141, 4511522, 4515914,
     4520316, 4524730, 4529155, 4533591, 4538039, 4542498, 4546969, 4551451, 4555944, 4560450, 4564967, 4569495,
     4574036, 4578588, 4583153, 4587729, 4592318, 4596919, 4601532, 4606157, 4610795, 4615445, 4620108, 4624783,
     4629471, 4634172, 4638886, 4643612, 4648352, 4653104, 4657870, 4662649, 4667441, 4672246, 4677065, 4681897,
     4686743, 4691603, 4696476, 4701363, 4706264, 4711179, 4716109, 4721052, 4726010, 4730982, 4735968, 4740969,
     4745984, 4751015, 4756060, 4761119, 4766194, 4771284, 4776389, 4781510, 4786645, 4791796, 4796963, 4802145,
     4807343, 4812557, 4817787, 4823033, 4828295, 4833574, 4838868, 4844179, 4849507, 4854852, 4860213, 4865591,
     4870986, 4876399, 4881828, 4887275, 4892740, 4898222, 4903721, 4909239, 4914775, 4920328, 4925900, 4931490,
     4937099, 4942726, 4948372, 4954037, 4959721, 4965424, 4971146, 4976887, 4982648, 4988429, 4994230, 5000050,
     5005891, 5011752, 5017633, 5023535, 5029457, 5035400]"

definition difficultyListTestnet23 :: "int list" where
  "difficultyListTestnet23 = [
     5041364, 5047350, 5053357, 5059385, 5065434, 5071506, 5077600, 5083715, 5089853, 5096013, 5102196, 5108402,
     5114631, 5120883, 5127158, 5133457, 5139779, 5146125, 5152496, 5158890, 5165309, 5171753, 5178221, 5184715,
     5191234, 5197778, 5204348, 5210944, 5217566, 5224214, 5230889, 5237590, 5244318, 5251074, 5257857, 5264668,
     5271506, 5278373, 5285268, 5292191, 5299144, 5306125, 5313136, 5320177, 5327247, 5334347, 5341478, 5348640,
     5355832, 5363056, 5370311, 5377598, 5384917, 5392268, 5399653, 5407070, 5414520, 5422004, 5429522, 5437074,
     5444660, 5452282, 5459938, 5467631, 5475359, 5483123, 5490924, 5498762, 5506637, 5514549, 5522500, 5530489,
     5538517, 5546585, 5554691, 5562838, 5571025, 5579253, 5587523, 5595834, 5604187, 5612582, 5621021, 5629503,
     5638029, 5646599, 5655214, 5663875, 5672581, 5681334, 5690133, 5698980, 5707875, 5716818, 5725810, 5734852,
     5743944, 5753086, 5762280, 5771525, 5780823, 5790174, 5799579, 5809038, 5818552, 5828122, 5837748, 5847430,
     5857171, 5866970, 5876828, 5886746, 5896724, 5906764, 5916866, 5927031, 5937259, 5947552, 5957911, 5968336,
     5978828, 5989387, 6000016, 6010715, 6021484, 6032325, 6043239, 6054227, 6065289, 6076428, 6087643, 6098936,
     6110308, 6121760, 6133294, 6144910, 6156610, 6168395, 6180267, 6192226, 6204274, 6216412, 6228642, 6240965,
     6253382, 6265896, 6278507, 6291218, 6304029, 6316942]"

definition difficultyListTestnet24 :: "int list" where
  "difficultyListTestnet24 = [
     6329960, 6343083, 6356314, 6369654, 6383105, 6396670, 6410349, 6424146, 6438062, 6452099, 6466259, 6480545,
     6494959, 6509503, 6524180, 6538992, 6553942, 6569032, 6584265, 6599644, 6615171, 6630850, 6646684, 6662676,
     6678828, 6695145, 6711630, 6728286, 6745117, 6762127, 6779319, 6796698, 6814268, 6832032, 6849996, 6868165,
     6886542, 6905133, 6923942, 6942976, 6962240, 6981738, 7001478, 7021465, 7041706, 7062207, 7082975, 7104017,
     7125341, 7146954, 7168865, 7191081, 7213612, 7236467, 7259655, 7283186, 7307070, 7331319, 7355944, 7380956,
     7406369, 7432195, 7458449, 7485144, 7512297, 7539922, 7568038, 7596661, 7625811, 7655508, 7685772, 7716626,
     7748094, 7780200, 7812972, 7846437, 7880626, 7915572, 7951307, 7987871, 8025301, 8063640, 8102934, 8143232,
     8184587, 8227055, 8270700, 8315588, 8361793, 8409394, 8458480, 8509146, 8561498, 8615652, 8671738, 8729898,
     8790294, 8853105, 8918532, 8986804, 9058180, 9132957, 9211478, 9294136, 9381396, 9473800, 9571994, 9676757,
     9789031, 9909981, 10041064, 10184137, 10341622, 10516755, 10714005, 10939785, 11203781, 11521635, 11921136,
     12459341, 13287395, 15165936]"

definition difficultyListTestnet :: "int list" where
  "difficultyListTestnet =
     difficultyListTestnet1 @ difficultyListTestnet2 @ difficultyListTestnet3 @ difficultyListTestnet4 @
     difficultyListTestnet5 @ difficultyListTestnet6 @ difficultyListTestnet7 @ difficultyListTestnet8 @
     difficultyListTestnet9 @ difficultyListTestnet10 @ difficultyListTestnet11 @ difficultyListTestnet12 @
     difficultyListTestnet13 @ difficultyListTestnet14 @ difficultyListTestnet15 @ difficultyListTestnet16 @
     difficultyListTestnet17 @ difficultyListTestnet18 @ difficultyListTestnet19 @ difficultyListTestnet20 @
     difficultyListTestnet21 @ difficultyListTestnet22 @ difficultyListTestnet23 @ difficultyListTestnet24"

subsection \<open>\<open>qcMapMainnet\<close>\<close>

definition qcMapMainnet1 :: "(u64 \<times> int) list" where
  "qcMapMainnet1 = [
     (51, 987080173288357376), (52, 973993424654456192), (53, 960737597495985792), (54, 947310507347708544),
     (55, 933709941521474304), (56, 919933658741584512), (57, 905979388775447936), (58, 891844832059461376),
     (59, 877527659320058752), (60, 863025511189862144), (61, 848335997818876672), (62, 833456698480659968),
     (63, 818385161173402752), (64, 803118902215857536), (65, 787655405838046080), (66, 771992123766676864),
     (67, 756126474805210112), (68, 740055844408493440), (69, 723777584251904256), (70, 707289011794925312),
     (71, 690587409839079424), (72, 673670026080157312), (73, 656534072654655744), (74, 639176725680357760),
     (75, 621595124790977920), (76, 603786372664794240), (77, 585747534547189376), (78, 567475637767025792),
     (79, 548967671246769472), (80, 530220585006286912), (81, 511231289660228672), (82, 491996655908923264),
     (83, 472513514022689024), (84, 452778653319486400), (85, 432788821635819968), (86, 412540724790805696),
     (87, 392031026043313280), (88, 371256345542095424), (89, 350213259768811904), (90, 328898300973859328),
     (91, 307307956604910144), (92, 285438668728069440), (93, 263286833441553024), (94, 240848800281789888),
     (95, 218120871621852576), (96, 195099302062114336), (97, 171780297813033824), (98, 148160016069967424),
     (99, 124234564379900544), (100, 100000000000000096), (101, 99736634886425696), (102, 99473339134034448),
     (103, 99210112724558928), (104, 98946955639736656), (105, 98683867861309888), (106, 98420849371025792),
     (107, 98157900150636304), (108, 97895020181898000), (109, 97632209446572576), (110, 97369467926426304),
     (111, 97106795603230320), (112, 96844192458760640), (113, 96581658474797824), (114, 96319193633127568),
     (115, 96056797915540112), (116, 95794471303830672), (117, 95532213779799152), (118, 95270025325250192),
     (119, 95007905921993264), (120, 94745855551842784), (121, 94483874196617856), (122, 94221961838142240),
     (123, 93960118458244704), (124, 93698344038758656), (125, 93436638561522288), (126, 93175002008378688),
     (127, 92913434361175600), (128, 92651935601765648), (129, 92390505712006128), (130, 92129144673759216),
     (131, 91867852468891840), (132, 91606629079275744), (133, 91345474486787200), (134, 91084388673307696),
     (135, 90823371620723072), (136, 90562423310924128), (137, 90301543725806336), (138, 90040732847270208),
     (139, 89779990657220752), (140, 89519317137567776), (141, 89258712270225856), (142, 88998176037114464),
     (143, 88737708420157712), (144, 88477309401284400), (145, 88216978962428304), (146, 87956717085527888),
     (147, 87696523752526128), (148, 87436398945371136), (149, 87176342646015488), (150, 86916354836416688),
     (151, 86656435498536848), (152, 86396584614342960), (153, 86136802165806768), (154, 85877088134904576),
     (155, 85617442503617696), (156, 85357865253931856), (157, 85098356367837920), (158, 84838915827331280),
     (159, 84579543614412000), (160, 84320239711085152), (161, 84061004099360128), (162, 83801836761251520),
     (163, 83542737678778288), (164, 83283706833964352), (165, 83024744208838208), (166, 82765849785433328),
     (167, 82507023545787648), (168, 82248265471943968), (169, 81989575545949872), (170, 81730953749857392),
     (171, 81472400065723648), (172, 81213914475610320), (173, 80955496961583776), (174, 80697147505715216),
     (175, 80438866090080448), (176, 80180652696759888), (177, 79922507307839120), (178, 79664429905408000),
     (179, 79406420471561216), (180, 79148478988398384), (181, 78890605438023504), (182, 78632799802545568),
     (183, 78375062064077968), (184, 78117392204739232), (185, 77859790206652240), (186, 77602256051944704),
     (187, 77344789722749168), (188, 77087391201202560), (189, 76830060469446848), (190, 76572797509628528),
     (191, 76315602303898896), (192, 76058474834413744), (193, 75801415083333824), (194, 75544423032824496),
     (195, 75287498665055680), (196, 75030641962202208), (197, 74773852906443344), (198, 74517131479963424),
     (199, 74260477664951136), (200, 74003891443599984)]"

definition qcMapMainnet2 :: "(u64 \<times> int) list" where
  "qcMapMainnet2 = [
     (201, 73747372798108176), (202, 73490921710678496), (203, 73234538163518656), (204, 72978222138840752),
     (205, 72721973618861904), (206, 72465792585803552), (207, 72209679021892016), (208, 71953632909358408),
     (209, 71697654230438280), (210, 71441742967372048), (211, 71185899102404584), (212, 70930122617785752),
     (213, 70674413495769864), (214, 70418771718615880), (215, 70163197268587552), (216, 69907690127953392),
     (217, 69652250278986248), (218, 69396877703963968), (219, 69141572385168824), (220, 68886334304888112),
     (221, 68631163445413312), (222, 68376059789040936), (223, 68121023318072016), (224, 67866054014812160),
     (225, 67611151861571848), (226, 67356316840666008), (227, 67101548934414448), (228, 66846848125141520),
     (229, 66592214395176152), (230, 66337647726851912), (231, 66083148102507152), (232, 65828715504484992),
     (233, 65574349915132776), (234, 65320051316803072), (235, 65065819691852432), (236, 64811655022642632),
     (237, 64557557291539776), (238, 64303526480914752), (239, 64049562573142984), (240, 63795665550604672),
     (241, 63541835395684584), (242, 63288072090772032), (243, 63034375618261088), (244, 62780745960550392),
     (245, 62527183100043352), (246, 62273687019147928), (247, 62020257700276528), (248, 61766895125846544),
     (249, 61513599278279704), (250, 61260370140002632), (251, 61007207693446256), (252, 60754111921046296),
     (253, 60501082805243248), (254, 60248120328482032), (255, 59995224473212264), (256, 59742395221888064),
     (257, 59489632556968376), (258, 59236936460916656), (259, 58984306916201048), (260, 58731743905294008),
     (261, 58479247410673120), (262, 58226817414820272), (263, 57974453900221824), (264, 57722156849369208),
     (265, 57469926244757888), (266, 57217762068888512), (267, 56965664304265864), (268, 56713632933399704),
     (269, 56461667938804136), (270, 56209769302998040), (271, 55957937008504712), (272, 55706171037852136),
     (273, 55454471373573176), (274, 55202837998204800), (275, 54951270894288864), (276, 54699770044371872),
     (277, 54448335431004800), (278, 54196967036743256), (279, 53945664844147424), (280, 53694428835782016),
     (281, 53443258994216536), (282, 53192155302024816), (283, 52941117741785672), (284, 52690146296081928),
     (285, 52439240947501520), (286, 52188401678636808), (287, 51937628472084608), (288, 51686921310446384),
     (289, 51436280176328288), (290, 51185705052340992), (291, 50935195921099632), (292, 50684752765224104),
     (293, 50434375567338760), (294, 50184064310072496), (295, 49933818976059088), (296, 49683639547936312),
     (297, 49433526008347160), (298, 49183478339938744), (299, 48933496525362944), (300, 48683580547276064),
     (301, 48433730388339200), (302, 48183946031217784), (303, 47934227458581888), (304, 47684574653106384),
     (305, 47434987597470224), (306, 47185466274357376), (307, 46936010666456144), (308, 46686620756459352),
     (309, 46437296527064520), (310, 46188037960973816), (311, 45938845040893520), (312, 45689717749535008),
     (313, 45440656069613896), (314, 45191659983850328), (315, 44942729474969248), (316, 44693864525699904),
     (317, 44445065118776104), (318, 44196331236936448), (319, 43947662862923840), (320, 43699059979485752),
     (321, 43450522569374320), (322, 43202050615346096), (323, 42953644100162224), (324, 42705303006588592),
     (325, 42457027317395088), (326, 42208817015356840), (327, 41960672083252824), (328, 41712592503867160),
     (329, 41464578259987952), (330, 41216629334408392), (331, 40968745709925704), (332, 40720927369341960),
     (333, 40473174295463712), (334, 40225486471101800), (335, 39977863879071872), (336, 39730306502194000),
     (337, 39482814323292928), (338, 39235387325197488), (339, 38988025490741648), (340, 38740728802763360),
     (341, 38493497244105448), (342, 38246330797614968), (343, 37999229446143864), (344, 37752193172548080),
     (345, 37505221959688752), (346, 37258315790430816), (347, 37011474647644208), (348, 36764698514203272),
     (349, 36517987372986616), (350, 36271341206877808)]"

definition qcMapMainnet3 :: "(u64 \<times> int) list" where
  "qcMapMainnet3 = [
     (351, 36024759998764532), (352, 35778243731539148), (353, 35531792388098448), (354, 35285405951343772),
     (355, 35039084404181020), (356, 34792827729520524), (357, 34546635910277068), (358, 34300508929370088),
     (359, 34054446769723356), (360, 33808449414265308), (361, 33562516845928704), (362, 33316649047650860),
     (363, 33070846002373644), (364, 32825107693043364), (365, 32579434102610884), (366, 32333825214031388),
     (367, 32088281010264728), (368, 31842801474275208), (369, 31597386589031552), (370, 31352036337507048),
     (371, 31106750702679320), (372, 30861529667530752), (373, 30616373215047952), (374, 30371281328222088),
     (375, 30126253990048756), (376, 29881291183528336), (377, 29636392891665088), (378, 29391559097468380),
     (379, 29146789783951800), (380, 28902084934133156), (381, 28657444531035024), (382, 28412868557684544),
     (383, 28168356997112952), (384, 27923909832356376), (385, 27679527046455044), (386, 27435208622453964),
     (387, 27190954543402368), (388, 26946764792353916), (389, 26702639352367052), (390, 26458578206504436),
     (391, 26214581337833276), (392, 25970648729425004), (393, 25726780364355940), (394, 25482976225706500),
     (395, 25239236296561772), (396, 24995560560011176), (397, 24751948999148564), (398, 24508401597072348),
     (399, 24264918336885376), (400, 24021499201694828), (401, 23778144174612436), (402, 23534853238754484),
     (403, 23291626377241472), (404, 23048463573198452), (405, 22805364809754812), (406, 22562330070044824),
     (407, 22319359337206524), (408, 22076452594382956), (409, 21833609824721268), (410, 21590831011373156),
     (411, 21348116137494876), (412, 21105465186246784), (413, 20862878140794128), (414, 20620354984306256),
     (415, 20377895699956960), (416, 20135500270924700), (417, 19893168680392148), (418, 19650900911546420),
     (419, 19408696947579184), (420, 19166556771686328), (421, 18924480367068508), (422, 18682467716930384),
     (423, 18440518804481500), (424, 18198633612935276), (425, 17956812125510036), (426, 17715054325428304),
     (427, 17473360195917054), (428, 17231729720207700), (429, 16990162881535986), (430, 16748659663142206),
     (431, 16507220048270988), (432, 16265844020171282), (433, 16024531562096712), (434, 15783282657304998),
     (435, 15542097289058532), (436, 15300975440623920), (437, 15059917095272324), (438, 14818922236279230),
     (439, 14577990846924572), (440, 14337122910492606), (441, 14096318410272146), (442, 13855577329556224),
     (443, 13614899651642310), (444, 13374285359832428), (445, 13133734437432710), (446, 12893246867754172),
     (447, 12652822634111604), (448, 12412461719824686), (449, 12172164108217198), (450, 11931929782617590),
     (451, 11691758726358414), (452, 11451650922776668), (453, 11211606355213898), (454, 10971625007015984),
     (455, 10731706861533020), (456, 10491851902119764), (457, 10252060112135086), (458, 10012331474942404),
     (459, 9772665973909466), (460, 9533063592408464), (461, 9293524313815916), (462, 9054048121512670),
     (463, 8814634998884019), (464, 8575284929319471), (465, 8335997896213310), (466, 8096773882963704),
     (467, 7857612872973596), (468, 7618514849650038), (469, 7379479796404520), (470, 7140507696652976),
     (471, 6901598533815556), (472, 6662752291317076), (473, 6423968952586234), (474, 6185248501056617),
     (475, 5946590920165806), (476, 5707996193355824), (477, 5469464304073246), (478, 5230995235768754),
     (479, 4992588971897582), (480, 4754245495919074), (481, 4515964791297233), (482, 4277746841500174),
     (483, 4039591630000561), (484, 3801499140275277), (485, 3563469355805648), (486, 3325502260077106),
     (487, 3087597836579858), (488, 2849756068808107), (489, 2611976940260496), (490, 2374260434440112),
     (491, 2136606534854368), (492, 1899015225014677), (493, 1661486488437447), (494, 1424020308642859),
     (495, 1186616669155760), (496, 949275553504991), (497, 711996945224169), (498, 474780827850906),
     (499, 237627184927480), (500, 536000000050)]"

definition qcMapMainnet :: "(u64 \<times> int) list" where
  "qcMapMainnet = qcMapMainnet1 @ qcMapMainnet2 @ qcMapMainnet3"

section \<open>The tables never decrease\<close>

text \<open>\<open>climb d lo xs\<close> is the last entry when every entry is above the one before it by at least \<open>d\<close>.\<close>

fun climb :: "int \<Rightarrow> int \<Rightarrow> int list \<Rightarrow> int option" where
  "climb d lo [] = Some lo"
| "climb d lo (x # xs) = (if lo + d \<le> x then climb d x xs else None)"

lemma climb_append: "climb d lo xs = Some m \<Longrightarrow> climb d m ys = Some hi \<Longrightarrow> climb d lo (xs @ ys) = Some hi"
  by (induction xs arbitrary: lo) (auto split: if_splits)

lemma climb_sorted: "climb d lo xs = Some hi \<Longrightarrow> 0 \<le> d \<Longrightarrow> sorted_wrt (\<lambda>x y. x + d \<le> y) xs \<and> (\<forall>x \<in> set xs. lo + d \<le> x)"
  by (induction xs arbitrary: lo) (fastforce split: if_splits)+

lemma climb_stakeAmountListMainnet1: "climb 1 (-1) stakeAmountListMainnet1 = Some 19874000000000000000000" "length stakeAmountListMainnet1 = 150"
  by (code_simp, code_simp)

lemma climb_stakeAmountListMainnet2: "climb 1 (19874000000000000000000) stakeAmountListMainnet2 = Some 39951000000000000000000" "length stakeAmountListMainnet2 = 150"
  by (code_simp, code_simp)

lemma climb_stakeAmountListMainnet3: "climb 1 (39951000000000000000000) stakeAmountListMainnet3 = Some 60171000000000000000000" "length stakeAmountListMainnet3 = 150"
  by (code_simp, code_simp)

lemma climb_stakeAmountListMainnet4: "climb 1 (60171000000000000000000) stakeAmountListMainnet4 = Some 80609000000000000000000" "length stakeAmountListMainnet4 = 150"
  by (code_simp, code_simp)

lemma climb_stakeAmountListMainnet5: "climb 1 (80609000000000000000000) stakeAmountListMainnet5 = Some 101346000000000000000000" "length stakeAmountListMainnet5 = 150"
  by (code_simp, code_simp)

lemma climb_stakeAmountListMainnet6: "climb 1 (101346000000000000000000) stakeAmountListMainnet6 = Some 122469000000000000000000" "length stakeAmountListMainnet6 = 150"
  by (code_simp, code_simp)

lemma climb_stakeAmountListMainnet7: "climb 1 (122469000000000000000000) stakeAmountListMainnet7 = Some 144076000000000000000000" "length stakeAmountListMainnet7 = 150"
  by (code_simp, code_simp)

lemma climb_stakeAmountListMainnet8: "climb 1 (144076000000000000000000) stakeAmountListMainnet8 = Some 166274000000000000000000" "length stakeAmountListMainnet8 = 150"
  by (code_simp, code_simp)

lemma climb_stakeAmountListMainnet9: "climb 1 (166274000000000000000000) stakeAmountListMainnet9 = Some 189191000000000000000000" "length stakeAmountListMainnet9 = 150"
  by (code_simp, code_simp)

lemma climb_stakeAmountListMainnet10: "climb 1 (189191000000000000000000) stakeAmountListMainnet10 = Some 212973000000000000000000" "length stakeAmountListMainnet10 = 150"
  by (code_simp, code_simp)

lemma climb_stakeAmountListMainnet11: "climb 1 (212973000000000000000000) stakeAmountListMainnet11 = Some 237797000000000000000000" "length stakeAmountListMainnet11 = 150"
  by (code_simp, code_simp)

lemma climb_stakeAmountListMainnet12: "climb 1 (237797000000000000000000) stakeAmountListMainnet12 = Some 263877000000000000000000" "length stakeAmountListMainnet12 = 150"
  by (code_simp, code_simp)

lemma climb_stakeAmountListMainnet13: "climb 1 (263877000000000000000000) stakeAmountListMainnet13 = Some 291484000000000000000000" "length stakeAmountListMainnet13 = 150"
  by (code_simp, code_simp)

lemma climb_stakeAmountListMainnet14: "climb 1 (291484000000000000000000) stakeAmountListMainnet14 = Some 320957000000000000000000" "length stakeAmountListMainnet14 = 150"
  by (code_simp, code_simp)

lemma climb_stakeAmountListMainnet15: "climb 1 (320957000000000000000000) stakeAmountListMainnet15 = Some 352748000000000000000000" "length stakeAmountListMainnet15 = 150"
  by (code_simp, code_simp)

lemma climb_stakeAmountListMainnet16: "climb 1 (352748000000000000000000) stakeAmountListMainnet16 = Some 387462000000000000000000" "length stakeAmountListMainnet16 = 150"
  by (code_simp, code_simp)

lemma climb_stakeAmountListMainnet17: "climb 1 (387462000000000000000000) stakeAmountListMainnet17 = Some 425955000000000000000000" "length stakeAmountListMainnet17 = 150"
  by (code_simp, code_simp)

lemma climb_stakeAmountListMainnet18: "climb 1 (425955000000000000000000) stakeAmountListMainnet18 = Some 469484000000000000000000" "length stakeAmountListMainnet18 = 150"
  by (code_simp, code_simp)

lemma climb_stakeAmountListMainnet19: "climb 1 (469484000000000000000000) stakeAmountListMainnet19 = Some 520020000000000000000000" "length stakeAmountListMainnet19 = 150"
  by (code_simp, code_simp)

lemma climb_stakeAmountListMainnet20: "climb 1 (520020000000000000000000) stakeAmountListMainnet20 = Some 580916000000000000000000" "length stakeAmountListMainnet20 = 150"
  by (code_simp, code_simp)

lemma climb_stakeAmountListMainnet21: "climb 1 (580916000000000000000000) stakeAmountListMainnet21 = Some 658620000000000000000000" "length stakeAmountListMainnet21 = 150"
  by (code_simp, code_simp)

lemma climb_stakeAmountListMainnet22: "climb 1 (658620000000000000000000) stakeAmountListMainnet22 = Some 768288000000000000000000" "length stakeAmountListMainnet22 = 150"
  by (code_simp, code_simp)

lemma climb_stakeAmountListMainnet23: "climb 1 (768288000000000000000000) stakeAmountListMainnet23 = Some 963822000000000000000000" "length stakeAmountListMainnet23 = 150"
  by (code_simp, code_simp)

lemma climb_stakeAmountListMainnet24: "climb 1 (963822000000000000000000) stakeAmountListMainnet24 = Some 2313978000000000000000000" "length stakeAmountListMainnet24 = 122"
  by (code_simp, code_simp)

lemmas stakeAmountListMainnet_pieces =
  climb_stakeAmountListMainnet1 climb_stakeAmountListMainnet2 climb_stakeAmountListMainnet3
  climb_stakeAmountListMainnet4 climb_stakeAmountListMainnet5 climb_stakeAmountListMainnet6
  climb_stakeAmountListMainnet7 climb_stakeAmountListMainnet8 climb_stakeAmountListMainnet9
  climb_stakeAmountListMainnet10 climb_stakeAmountListMainnet11 climb_stakeAmountListMainnet12
  climb_stakeAmountListMainnet13 climb_stakeAmountListMainnet14 climb_stakeAmountListMainnet15
  climb_stakeAmountListMainnet16 climb_stakeAmountListMainnet17 climb_stakeAmountListMainnet18
  climb_stakeAmountListMainnet19 climb_stakeAmountListMainnet20 climb_stakeAmountListMainnet21
  climb_stakeAmountListMainnet22 climb_stakeAmountListMainnet23 climb_stakeAmountListMainnet24

lemma climb_stakeAmountListMainnet: "climb 1 (-1) stakeAmountListMainnet = Some 2313978000000000000000000"
  unfolding stakeAmountListMainnet_def by (rule climb_append stakeAmountListMainnet_pieces(1, 3, 5, 7, 9, 11, 13, 15, 17, 19, 21, 23, 25, 27, 29, 31, 33, 35, 37, 39, 41, 43, 45, 47))+

lemma length_stakeAmountListMainnet: "length stakeAmountListMainnet = 3572"
  by (simp add: stakeAmountListMainnet_def stakeAmountListMainnet_pieces)

lemma climb_stakeAmountListTestnet1: "climb 0 (0) stakeAmountListTestnet1 = Some 20000000000000000000" "length stakeAmountListTestnet1 = 150"
  by (code_simp, code_simp)

lemma climb_stakeAmountListTestnet2: "climb 0 (20000000000000000000) stakeAmountListTestnet2 = Some 40000000000000000000" "length stakeAmountListTestnet2 = 150"
  by (code_simp, code_simp)

lemma climb_stakeAmountListTestnet3: "climb 0 (40000000000000000000) stakeAmountListTestnet3 = Some 61000000000000000000" "length stakeAmountListTestnet3 = 150"
  by (code_simp, code_simp)

lemma climb_stakeAmountListTestnet4: "climb 0 (61000000000000000000) stakeAmountListTestnet4 = Some 81000000000000000000" "length stakeAmountListTestnet4 = 150"
  by (code_simp, code_simp)

lemma climb_stakeAmountListTestnet5: "climb 0 (81000000000000000000) stakeAmountListTestnet5 = Some 102000000000000000000" "length stakeAmountListTestnet5 = 150"
  by (code_simp, code_simp)

lemma climb_stakeAmountListTestnet6: "climb 0 (102000000000000000000) stakeAmountListTestnet6 = Some 123000000000000000000" "length stakeAmountListTestnet6 = 150"
  by (code_simp, code_simp)

lemma climb_stakeAmountListTestnet7: "climb 0 (123000000000000000000) stakeAmountListTestnet7 = Some 145000000000000000000" "length stakeAmountListTestnet7 = 150"
  by (code_simp, code_simp)

lemma climb_stakeAmountListTestnet8: "climb 0 (145000000000000000000) stakeAmountListTestnet8 = Some 167000000000000000000" "length stakeAmountListTestnet8 = 150"
  by (code_simp, code_simp)

lemma climb_stakeAmountListTestnet9: "climb 0 (167000000000000000000) stakeAmountListTestnet9 = Some 190000000000000000000" "length stakeAmountListTestnet9 = 150"
  by (code_simp, code_simp)

lemma climb_stakeAmountListTestnet10: "climb 0 (190000000000000000000) stakeAmountListTestnet10 = Some 213000000000000000000" "length stakeAmountListTestnet10 = 150"
  by (code_simp, code_simp)

lemma climb_stakeAmountListTestnet11: "climb 0 (213000000000000000000) stakeAmountListTestnet11 = Some 238000000000000000000" "length stakeAmountListTestnet11 = 150"
  by (code_simp, code_simp)

lemma climb_stakeAmountListTestnet12: "climb 0 (238000000000000000000) stakeAmountListTestnet12 = Some 264000000000000000000" "length stakeAmountListTestnet12 = 150"
  by (code_simp, code_simp)

lemma climb_stakeAmountListTestnet13: "climb 0 (264000000000000000000) stakeAmountListTestnet13 = Some 292000000000000000000" "length stakeAmountListTestnet13 = 150"
  by (code_simp, code_simp)

lemma climb_stakeAmountListTestnet14: "climb 0 (292000000000000000000) stakeAmountListTestnet14 = Some 321000000000000000000" "length stakeAmountListTestnet14 = 150"
  by (code_simp, code_simp)

lemma climb_stakeAmountListTestnet15: "climb 0 (321000000000000000000) stakeAmountListTestnet15 = Some 353000000000000000000" "length stakeAmountListTestnet15 = 150"
  by (code_simp, code_simp)

lemma climb_stakeAmountListTestnet16: "climb 0 (353000000000000000000) stakeAmountListTestnet16 = Some 388000000000000000000" "length stakeAmountListTestnet16 = 150"
  by (code_simp, code_simp)

lemma climb_stakeAmountListTestnet17: "climb 0 (388000000000000000000) stakeAmountListTestnet17 = Some 426000000000000000000" "length stakeAmountListTestnet17 = 150"
  by (code_simp, code_simp)

lemma climb_stakeAmountListTestnet18: "climb 0 (426000000000000000000) stakeAmountListTestnet18 = Some 470000000000000000000" "length stakeAmountListTestnet18 = 150"
  by (code_simp, code_simp)

lemma climb_stakeAmountListTestnet19: "climb 0 (470000000000000000000) stakeAmountListTestnet19 = Some 521000000000000000000" "length stakeAmountListTestnet19 = 150"
  by (code_simp, code_simp)

lemma climb_stakeAmountListTestnet20: "climb 0 (521000000000000000000) stakeAmountListTestnet20 = Some 581000000000000000000" "length stakeAmountListTestnet20 = 150"
  by (code_simp, code_simp)

lemma climb_stakeAmountListTestnet21: "climb 0 (581000000000000000000) stakeAmountListTestnet21 = Some 659000000000000000000" "length stakeAmountListTestnet21 = 150"
  by (code_simp, code_simp)

lemma climb_stakeAmountListTestnet22: "climb 0 (659000000000000000000) stakeAmountListTestnet22 = Some 769000000000000000000" "length stakeAmountListTestnet22 = 150"
  by (code_simp, code_simp)

lemma climb_stakeAmountListTestnet23: "climb 0 (769000000000000000000) stakeAmountListTestnet23 = Some 964000000000000000000" "length stakeAmountListTestnet23 = 150"
  by (code_simp, code_simp)

lemma climb_stakeAmountListTestnet24: "climb 0 (964000000000000000000) stakeAmountListTestnet24 = Some 2315000000000000000000" "length stakeAmountListTestnet24 = 122"
  by (code_simp, code_simp)

lemmas stakeAmountListTestnet_pieces =
  climb_stakeAmountListTestnet1 climb_stakeAmountListTestnet2 climb_stakeAmountListTestnet3
  climb_stakeAmountListTestnet4 climb_stakeAmountListTestnet5 climb_stakeAmountListTestnet6
  climb_stakeAmountListTestnet7 climb_stakeAmountListTestnet8 climb_stakeAmountListTestnet9
  climb_stakeAmountListTestnet10 climb_stakeAmountListTestnet11 climb_stakeAmountListTestnet12
  climb_stakeAmountListTestnet13 climb_stakeAmountListTestnet14 climb_stakeAmountListTestnet15
  climb_stakeAmountListTestnet16 climb_stakeAmountListTestnet17 climb_stakeAmountListTestnet18
  climb_stakeAmountListTestnet19 climb_stakeAmountListTestnet20 climb_stakeAmountListTestnet21
  climb_stakeAmountListTestnet22 climb_stakeAmountListTestnet23 climb_stakeAmountListTestnet24

lemma climb_stakeAmountListTestnet: "climb 0 (0) stakeAmountListTestnet = Some 2315000000000000000000"
  unfolding stakeAmountListTestnet_def by (rule climb_append stakeAmountListTestnet_pieces(1, 3, 5, 7, 9, 11, 13, 15, 17, 19, 21, 23, 25, 27, 29, 31, 33, 35, 37, 39, 41, 43, 45, 47))+

lemma length_stakeAmountListTestnet: "length stakeAmountListTestnet = 3572"
  by (simp add: stakeAmountListTestnet_def stakeAmountListTestnet_pieces)

lemma climb_difficultyListMainnet1: "climb 1 (-1) difficultyListMainnet1 = Some 133380761" "length difficultyListMainnet1 = 150"
  by (code_simp, code_simp)

lemma climb_difficultyListMainnet2: "climb 1 (133380761) difficultyListMainnet2 = Some 268128948" "length difficultyListMainnet2 = 150"
  by (code_simp, code_simp)

lemma climb_difficultyListMainnet3: "climb 1 (268128948) difficultyListMainnet3 = Some 403835977" "length difficultyListMainnet3 = 150"
  by (code_simp, code_simp)

lemma climb_difficultyListMainnet4: "climb 1 (403835977) difficultyListMainnet4 = Some 541008797" "length difficultyListMainnet4 = 150"
  by (code_simp, code_simp)

lemma climb_difficultyListMainnet5: "climb 1 (541008797) difficultyListMainnet5 = Some 680187144" "length difficultyListMainnet5 = 150"
  by (code_simp, code_simp)

lemma climb_difficultyListMainnet6: "climb 1 (680187144) difficultyListMainnet6 = Some 821957340" "length difficultyListMainnet6 = 150"
  by (code_simp, code_simp)

lemma climb_difficultyListMainnet7: "climb 1 (821957340) difficultyListMainnet7 = Some 966968916" "length difficultyListMainnet7 = 150"
  by (code_simp, code_simp)

lemma climb_difficultyListMainnet8: "climb 1 (966968916) difficultyListMainnet8 = Some 1115955359" "length difficultyListMainnet8 = 150"
  by (code_simp, code_simp)

lemma climb_difficultyListMainnet9: "climb 1 (1115955359) difficultyListMainnet9 = Some 1269760766" "length difficultyListMainnet9 = 150"
  by (code_simp, code_simp)

lemma climb_difficultyListMainnet10: "climb 1 (1269760766) difficultyListMainnet10 = Some 1429375085" "length difficultyListMainnet10 = 150"
  by (code_simp, code_simp)

lemma climb_difficultyListMainnet11: "climb 1 (1429375085) difficultyListMainnet11 = Some 1595981940" "length difficultyListMainnet11 = 150"
  by (code_simp, code_simp)

lemma climb_difficultyListMainnet12: "climb 1 (1595981940) difficultyListMainnet12 = Some 1771025328" "length difficultyListMainnet12 = 150"
  by (code_simp, code_simp)

lemma climb_difficultyListMainnet13: "climb 1 (1771025328) difficultyListMainnet13 = Some 1956305336" "length difficultyListMainnet13 = 150"
  by (code_simp, code_simp)

lemma climb_difficultyListMainnet14: "climb 1 (1956305336) difficultyListMainnet14 = Some 2154119920" "length difficultyListMainnet14 = 150"
  by (code_simp, code_simp)

lemma climb_difficultyListMainnet15: "climb 1 (2154119920) difficultyListMainnet15 = Some 2367482665" "length difficultyListMainnet15 = 150"
  by (code_simp, code_simp)

lemma climb_difficultyListMainnet16: "climb 1 (2367482665) difficultyListMainnet16 = Some 2600471769" "length difficultyListMainnet16 = 150"
  by (code_simp, code_simp)

lemma climb_difficultyListMainnet17: "climb 1 (2600471769) difficultyListMainnet17 = Some 2858818815" "length difficultyListMainnet17 = 150"
  by (code_simp, code_simp)

lemma climb_difficultyListMainnet18: "climb 1 (2858818815) difficultyListMainnet18 = Some 3150967567" "length difficultyListMainnet18 = 150"
  by (code_simp, code_simp)

lemma climb_difficultyListMainnet19: "climb 1 (3150967567) difficultyListMainnet19 = Some 3490140846" "length difficultyListMainnet19 = 150"
  by (code_simp, code_simp)

lemma climb_difficultyListMainnet20: "climb 1 (3490140846) difficultyListMainnet20 = Some 3898845273" "length difficultyListMainnet20 = 150"
  by (code_simp, code_simp)

lemma climb_difficultyListMainnet21: "climb 1 (3898845273) difficultyListMainnet21 = Some 4420364960" "length difficultyListMainnet21 = 150"
  by (code_simp, code_simp)

lemma climb_difficultyListMainnet22: "climb 1 (4420364960) difficultyListMainnet22 = Some 5156406554" "length difficultyListMainnet22 = 150"
  by (code_simp, code_simp)

lemma climb_difficultyListMainnet23: "climb 1 (5156406554) difficultyListMainnet23 = Some 6468745435" "length difficultyListMainnet23 = 150"
  by (code_simp, code_simp)

lemma climb_difficultyListMainnet24: "climb 1 (6468745435) difficultyListMainnet24 = Some 15530391682" "length difficultyListMainnet24 = 122"
  by (code_simp, code_simp)

lemmas difficultyListMainnet_pieces =
  climb_difficultyListMainnet1 climb_difficultyListMainnet2 climb_difficultyListMainnet3
  climb_difficultyListMainnet4 climb_difficultyListMainnet5 climb_difficultyListMainnet6
  climb_difficultyListMainnet7 climb_difficultyListMainnet8 climb_difficultyListMainnet9
  climb_difficultyListMainnet10 climb_difficultyListMainnet11 climb_difficultyListMainnet12
  climb_difficultyListMainnet13 climb_difficultyListMainnet14 climb_difficultyListMainnet15
  climb_difficultyListMainnet16 climb_difficultyListMainnet17 climb_difficultyListMainnet18
  climb_difficultyListMainnet19 climb_difficultyListMainnet20 climb_difficultyListMainnet21
  climb_difficultyListMainnet22 climb_difficultyListMainnet23 climb_difficultyListMainnet24

lemma climb_difficultyListMainnet: "climb 1 (-1) difficultyListMainnet = Some 15530391682"
  unfolding difficultyListMainnet_def by (rule climb_append difficultyListMainnet_pieces(1, 3, 5, 7, 9, 11, 13, 15, 17, 19, 21, 23, 25, 27, 29, 31, 33, 35, 37, 39, 41, 43, 45, 47))+

lemma length_difficultyListMainnet: "length difficultyListMainnet = 3572"
  by (simp add: difficultyListMainnet_def difficultyListMainnet_pieces)

lemma climb_difficultyListTestnet1: "climb 1 (-1) difficultyListTestnet1 = Some 130251" "length difficultyListTestnet1 = 150"
  by (code_simp, code_simp)

lemma climb_difficultyListTestnet2: "climb 1 (130251) difficultyListTestnet2 = Some 261837" "length difficultyListTestnet2 = 150"
  by (code_simp, code_simp)

lemma climb_difficultyListTestnet3: "climb 1 (261837) difficultyListTestnet3 = Some 394360" "length difficultyListTestnet3 = 150"
  by (code_simp, code_simp)

lemma climb_difficultyListTestnet4: "climb 1 (394360) difficultyListTestnet4 = Some 528313" "length difficultyListTestnet4 = 150"
  by (code_simp, code_simp)

lemma climb_difficultyListTestnet5: "climb 1 (528313) difficultyListTestnet5 = Some 664226" "length difficultyListTestnet5 = 150"
  by (code_simp, code_simp)

lemma climb_difficultyListTestnet6: "climb 1 (664226) difficultyListTestnet6 = Some 802669" "length difficultyListTestnet6 = 150"
  by (code_simp, code_simp)

lemma climb_difficultyListTestnet7: "climb 1 (802669) difficultyListTestnet7 = Some 944277" "length difficultyListTestnet7 = 150"
  by (code_simp, code_simp)

lemma climb_difficultyListTestnet8: "climb 1 (944277) difficultyListTestnet8 = Some 1089767" "length difficultyListTestnet8 = 150"
  by (code_simp, code_simp)

lemma climb_difficultyListTestnet9: "climb 1 (1089767) difficultyListTestnet9 = Some 1239963" "length difficultyListTestnet9 = 150"
  by (code_simp, code_simp)

lemma climb_difficultyListTestnet10: "climb 1 (1239963) difficultyListTestnet10 = Some 1395832" "length difficultyListTestnet10 = 150"
  by (code_simp, code_simp)

lemma climb_difficultyListTestnet11: "climb 1 (1395832) difficultyListTestnet11 = Some 1558529" "length difficultyListTestnet11 = 150"
  by (code_simp, code_simp)

lemma climb_difficultyListTestnet12: "climb 1 (1558529) difficultyListTestnet12 = Some 1729465" "length difficultyListTestnet12 = 150"
  by (code_simp, code_simp)

lemma climb_difficultyListTestnet13: "climb 1 (1729465) difficultyListTestnet13 = Some 1910397" "length difficultyListTestnet13 = 150"
  by (code_simp, code_simp)

lemma climb_difficultyListTestnet14: "climb 1 (1910397) difficultyListTestnet14 = Some 2103569" "length difficultyListTestnet14 = 150"
  by (code_simp, code_simp)

lemma climb_difficultyListTestnet15: "climb 1 (2103569) difficultyListTestnet15 = Some 2311925" "length difficultyListTestnet15 = 150"
  by (code_simp, code_simp)

lemma climb_difficultyListTestnet16: "climb 1 (2311925) difficultyListTestnet16 = Some 2539446" "length difficultyListTestnet16 = 150"
  by (code_simp, code_simp)

lemma climb_difficultyListTestnet17: "climb 1 (2539446) difficultyListTestnet17 = Some 2791731" "length difficultyListTestnet17 = 150"
  by (code_simp, code_simp)

lemma climb_difficultyListTestnet18: "climb 1 (2791731) difficultyListTestnet18 = Some 3077023" "length difficultyListTestnet18 = 150"
  by (code_simp, code_simp)

lemma climb_difficultyListTestnet19: "climb 1 (3077023) difficultyListTestnet19 = Some 3408237" "length difficultyListTestnet19 = 150"
  by (code_simp, code_simp)

lemma climb_difficultyListTestnet20: "climb 1 (3408237) difficultyListTestnet20 = Some 3807351" "length difficultyListTestnet20 = 150"
  by (code_simp, code_simp)

lemma climb_difficultyListTestnet21: "climb 1 (3807351) difficultyListTestnet21 = Some 4316632" "length difficultyListTestnet21 = 150"
  by (code_simp, code_simp)

lemma climb_difficultyListTestnet22: "climb 1 (4316632) difficultyListTestnet22 = Some 5035400" "length difficultyListTestnet22 = 150"
  by (code_simp, code_simp)

lemma climb_difficultyListTestnet23: "climb 1 (5035400) difficultyListTestnet23 = Some 6316942" "length difficultyListTestnet23 = 150"
  by (code_simp, code_simp)

lemma climb_difficultyListTestnet24: "climb 1 (6316942) difficultyListTestnet24 = Some 15165936" "length difficultyListTestnet24 = 122"
  by (code_simp, code_simp)

lemmas difficultyListTestnet_pieces =
  climb_difficultyListTestnet1 climb_difficultyListTestnet2 climb_difficultyListTestnet3
  climb_difficultyListTestnet4 climb_difficultyListTestnet5 climb_difficultyListTestnet6
  climb_difficultyListTestnet7 climb_difficultyListTestnet8 climb_difficultyListTestnet9
  climb_difficultyListTestnet10 climb_difficultyListTestnet11 climb_difficultyListTestnet12
  climb_difficultyListTestnet13 climb_difficultyListTestnet14 climb_difficultyListTestnet15
  climb_difficultyListTestnet16 climb_difficultyListTestnet17 climb_difficultyListTestnet18
  climb_difficultyListTestnet19 climb_difficultyListTestnet20 climb_difficultyListTestnet21
  climb_difficultyListTestnet22 climb_difficultyListTestnet23 climb_difficultyListTestnet24

lemma climb_difficultyListTestnet: "climb 1 (-1) difficultyListTestnet = Some 15165936"
  unfolding difficultyListTestnet_def by (rule climb_append difficultyListTestnet_pieces(1, 3, 5, 7, 9, 11, 13, 15, 17, 19, 21, 23, 25, 27, 29, 31, 33, 35, 37, 39, 41, 43, 45, 47))+

lemma length_difficultyListTestnet: "length difficultyListTestnet = 3572"
  by (simp add: difficultyListTestnet_def difficultyListTestnet_pieces)

section \<open>The congestion ratios\<close>

lemma qcMapMainnet1_ratios: "list_all (\<lambda>(i, q). 0 < q \<and> q < qcDivision) qcMapMainnet1" "map (unat \<circ> fst) qcMapMainnet1 = [51..<201]"
  by (code_simp, code_simp)

lemma qcMapMainnet2_ratios: "list_all (\<lambda>(i, q). 0 < q \<and> q < qcDivision) qcMapMainnet2" "map (unat \<circ> fst) qcMapMainnet2 = [201..<351]"
  by (code_simp, code_simp)

lemma qcMapMainnet3_ratios: "list_all (\<lambda>(i, q). 0 < q \<and> q < qcDivision) qcMapMainnet3" "map (unat \<circ> fst) qcMapMainnet3 = [351..<501]"
  by (code_simp, code_simp)

lemma qcMapMainnet_ratio:
  assumes "qcIndexMinMainnet \<le> i" "i \<le> qcIndexMaxMainnet"
  obtains q where "map_of qcMapMainnet i = Some q" "0 < q" "q < qcDivision"
proof -
  have keys: "map (unat \<circ> fst) qcMapMainnet = [51..<501]"
    by (simp add: qcMapMainnet_def qcMapMainnet1_ratios qcMapMainnet2_ratios qcMapMainnet3_ratios flip: upt_add_eq_append)
  have "unat i \<in> set (map (unat \<circ> fst) qcMapMainnet)"
    using assms unfolding keys set_upt atLeastLessThan_iff qcIndexMinMainnet_def qcIndexMaxMainnet_def word_le_nat_alt by simp
  then have "i \<in> fst ` set qcMapMainnet" by (auto dest!: unsigned_word_eqI intro: rev_image_eqI)
  then obtain q where q: "map_of qcMapMainnet i = Some q" by (metis map_of_eq_None_iff option.exhaust)
  have "list_all (\<lambda>(i, q). 0 < q \<and> q < qcDivision) qcMapMainnet"
    by (simp add: qcMapMainnet_def qcMapMainnet1_ratios qcMapMainnet2_ratios qcMapMainnet3_ratios)
  with map_of_SomeD [OF q] show ?thesis using that [OF q] by (auto simp: list_all_iff)
qed

end
