(* ===== verification/Quota.thy ===== *)
theory Quota
  imports Quota_Params Quota_Table Vm_Db
begin

text \<open>
  vm/quota/quota.go: how much quota an account has for its next block, from its stake, its proof of work, the
  quota it used in the last snapshot blocks and the congestion of the network.

  The package variable \<open>quotaConfig\<close> is the argument \<open>cfg\<close>; its field \<open>calcQuotaFunc\<close>, one of two functions, is the
  flag \<open>qcfg_isTest\<close>.  The five queries of the interface \<open>quotaDb\<close> go to the ledger, so \<open>db\<close> is the ledger.  A
  \<open>*big.Int\<close> that may be nil is an \<open>int option\<close>.

  The lemmas show that the binary search finds the section of an amount in the tables, that the quota of a block
  is bounded, and that a difficulty computed for some quota gives that quota.
\<close>

section \<open>Definitions\<close>

subsection \<open>common/types/quota.go\<close>

record Quota =
  quota_current :: u64
  quota_stakeQuotaPerSnapshotBlock :: u64
  quota_avg :: u64
  quota_snapshotCurrent :: u64
  quota_blocked :: bool
  quota_blockReleaseHeight :: u64

definition NewQuota :: "u64 \<Rightarrow> u64 \<Rightarrow> u64 \<Rightarrow> u64 \<Rightarrow> bool \<Rightarrow> u64 \<Rightarrow> Quota" where
  "NewQuota stakeQuota current avg snapshotCurrent blocked blockReleaseHeight =
     \<lparr>quota_current = current, quota_stakeQuotaPerSnapshotBlock = stakeQuota, quota_avg = avg,
      quota_snapshotCurrent = snapshotCurrent, quota_blocked = blocked, quota_blockReleaseHeight = blockReleaseHeight\<rparr>"

subsection \<open>The configuration\<close>

record quotaConfigParams =
  difficultyList :: "int list"
  stakeAmountList :: "int list"
  qcIndexMin :: u64
  qcIndexMax :: u64
  qcMap :: "(u64 \<times> int) list"
  qcfg_isTest :: bool

definition InitQuotaConfig :: "bool \<Rightarrow> bool \<Rightarrow> quotaConfigParams" where
  "InitQuotaConfig isTest isTestParam =
     \<lparr>difficultyList = (if isTestParam then difficultyListTestnet else difficultyListMainnet),
      stakeAmountList = (if isTestParam then stakeAmountListTestnet else stakeAmountListMainnet),
      qcIndexMin = qcIndexMinMainnet, qcIndexMax = qcIndexMaxMainnet, qcMap = qcMapMainnet, qcfg_isTest = isTest\<rparr>"

text \<open>The eight results of a quota calculation.\<close>

record quotaResult =
  qr_quotaTotal :: u64
  qr_quotaStake :: u64
  qr_quotaAddition :: u64
  qr_snapshotCurrentQuota :: u64
  qr_quotaAvg :: u64
  qr_blocked :: bool
  qr_blockReleaseHeight :: u64
  qr_err :: "vm_error option"

definition failedQuota :: "vm_error \<Rightarrow> quotaResult" where
  "failedQuota err = \<lparr>qr_quotaTotal = 0, qr_quotaStake = 0, qr_quotaAddition = 0, qr_snapshotCurrentQuota = 0,
     qr_quotaAvg = 0, qr_blocked = False, qr_blockReleaseHeight = 0, qr_err = Some err\<rparr>"

subsection \<open>Congestion\<close>

text \<open>\<open>big.Int.Div\<close> is the Euclidean division.\<close>

definition big_Div :: "int \<Rightarrow> int \<Rightarrow> int go" where
  "big_Div x y = (if y = 0 then Panics PanicDivide else Ret (if 0 < y then x div y else - (x div (- y))))"

definition CalcQc :: "upgradeBox \<Rightarrow> quotaConfigParams \<Rightarrow> Chain \<Rightarrow> u64 \<Rightarrow> int option \<times> u64 \<times> bool" where
  "CalcQc upgrade cfg db sbHeight =
     (if \<not> IsDexUpgrade upgrade sbHeight then (Some 0, 0, False)
      else
        let globalQuota = QuotaUsedTotal (chain_GetGlobalQuota db);
            qcIndex = (globalQuota + qcGap - 1) div qcGap
        in if qcIndex < qcIndexMin cfg then (Some qcDivision, globalQuota, False)
           else let qcIndex = (if qcIndex \<ge> qcIndexMax cfg then qcIndexMax cfg else qcIndex)
                in (map_of (qcMap cfg) qcIndex, globalQuota, True))"

definition calcStakeParam :: "int option \<Rightarrow> bool \<Rightarrow> int \<Rightarrow> int go" where
  "calcStakeParam qc isCongestion param =
     (if \<not> isCongestion then Ret param
      else case qc of None \<Rightarrow> Panics PanicNil | Some q \<Rightarrow> big_Div (param * q) qcDivision)"

definition calcStakeParamByQc :: "upgradeBox \<Rightarrow> quotaConfigParams \<Rightarrow> Chain \<Rightarrow> int \<Rightarrow> u64 \<Rightarrow> int go" where
  "calcStakeParamByQc upgrade cfg db param sbHeight =
     (let (qc, _, isCongestion) = CalcQc upgrade cfg db sbHeight in calcStakeParam qc isCongestion param)"

text \<open>The loop \<open>for true\<close>, which adds 1 until the target is reached.\<close>

partial_function (option) targetLoop :: "int option \<Rightarrow> bool \<Rightarrow> int \<Rightarrow> int \<Rightarrow> int go option" where
  "targetLoop qc isCongestion target newTarget =
     (case calcStakeParam qc isCongestion newTarget of
        Panics p \<Rightarrow> Some (Panics p)
      | Ret calcTarget \<Rightarrow>
          if calcTarget \<ge> target then Some (Ret newTarget)
          else targetLoop qc isCongestion target (newTarget + 1))"

definition calcStakeTargetParam :: "int option \<Rightarrow> bool \<Rightarrow> int \<Rightarrow> (vm_error + int) go option" where
  "calcStakeTargetParam qc isCongestion target =
     (case (case qc of None \<Rightarrow> Panics PanicNil | Some q \<Rightarrow> big_Div (target * qcDivision) q) of
        Panics p \<Rightarrow> Some (Panics p)
      | Ret newTarget \<Rightarrow>
          (case targetLoop qc isCongestion target newTarget of
             None \<Rightarrow> None
           | Some (Panics p) \<Rightarrow> Some (Panics p)
           | Some (Ret newTarget) \<Rightarrow>
               Some (Ret (if big_BitLen newTarget \<le> 256 then Inr newTarget else Inl ErrBlockQuotaLimitReached))))"

definition calcStakeTargetParamByQc ::
    "upgradeBox \<Rightarrow> quotaConfigParams \<Rightarrow> Chain \<Rightarrow> int \<Rightarrow> u64 \<Rightarrow> ((vm_error + int) \<times> int option) go option" where
  "calcStakeTargetParamByQc upgrade cfg db target sbHeight =
     (let (qc, _, isCongestion) = CalcQc upgrade cfg db sbHeight
      in if \<not> isCongestion then Some (Ret (Inr target, qc))
         else case calcStakeTargetParam qc isCongestion target of
                None \<Rightarrow> None
              | Some (Panics p) \<Rightarrow> Some (Panics p)
              | Some (Ret newTarget) \<Rightarrow> Some (Ret (newTarget, qc)))"

subsection \<open>The search in the tables\<close>

definition listAt :: "int list \<Rightarrow> nat \<Rightarrow> int go" where
  "listAt list i = (if i < length list then Ret (list ! i) else Panics PanicIndex)"

definition getExactIndex :: "int \<Rightarrow> int list \<Rightarrow> nat \<Rightarrow> nat go" where
  "getExactIndex x list index =
     (if index = 0 then Ret index
      else go_bind (listAt list index) (\<lambda>v. Ret (if v \<le> x then index else index - 1)))"

text \<open>The search between \<open>left\<close> and \<open>right = left + width\<close>.\<close>

function getIndexInBigIntList :: "int \<Rightarrow> int list \<Rightarrow> nat \<Rightarrow> nat \<Rightarrow> nat go" where
  "getIndexInBigIntList x list left width =
     (if width = 0 then getExactIndex x list left
      else
        let right = left + width; mid = (left + right + 1) div 2
        in go_bind (listAt list mid) (\<lambda>v.
             if v = x then Ret mid
             else if v > x then getIndexInBigIntList x list left (mid - 1 - left)
             else getIndexInBigIntList x list mid (right - mid)))"
  by pat_completeness auto
termination
  by (relation "measure (\<lambda>(x, list, left, width). width)") auto

declare getIndexInBigIntList.simps [simp del]

definition calcQuotaByIndex :: "nat \<Rightarrow> u64" where
  "calcQuotaByIndex index = (if int index \<le> sectionLen then of_nat index * quotaForSection else 0)"

definition getIndexByQuota :: "u64 \<Rightarrow> vm_error + nat" where
  "getIndexByQuota q =
     (let index = unat ((q + quotaForSection - 1) div quotaForSection)
      in if int index > sectionLen \<or> of_nat index * quotaForSection < q then Inl ErrBlockQuotaLimitReached else Inr index)"

definition getMaxQuota :: u64 where
  "getMaxQuota = of_int sectionLen * quotaForSection"

definition indexQuota :: "int \<Rightarrow> int list \<Rightarrow> u64 go" where
  "indexQuota x list =
     go_bind (getIndexInBigIntList x list 0 (nat sectionLen)) (\<lambda>index. Ret (calcQuotaByIndex index))"

definition calcStakeQuota :: "quotaConfigParams \<Rightarrow> int option \<Rightarrow> bool \<Rightarrow> int option \<Rightarrow> u64 go" where
  "calcStakeQuota cfg qc isCongestion stakeAmount =
     (case stakeAmount of
        None \<Rightarrow> Ret 0
      | Some amount \<Rightarrow>
          if amount \<le> 0 then Ret 0
          else go_bind (calcStakeParam qc isCongestion amount) (\<lambda>amount. indexQuota amount (stakeAmountList cfg)))"

definition calcPoWQuota :: "quotaConfigParams \<Rightarrow> int option \<Rightarrow> bool \<Rightarrow> int option \<Rightarrow> u64 go" where
  "calcPoWQuota cfg qc isCongestion difficulty =
     (case difficulty of
        None \<Rightarrow> Ret 0
      | Some d \<Rightarrow>
          if d \<le> 0 then Ret 0
          else go_bind (calcStakeParam qc isCongestion d) (\<lambda>d. indexQuota d (difficultyList cfg)))"

definition calcPoWQuotaByQc :: "upgradeBox \<Rightarrow> quotaConfigParams \<Rightarrow> Chain \<Rightarrow> int option \<Rightarrow> u64 \<Rightarrow> u64 go" where
  "calcPoWQuotaByQc upgrade cfg db difficulty sbHeight =
     (case difficulty of
        None \<Rightarrow> Ret 0
      | Some d \<Rightarrow>
          if d \<le> 0 then Ret 0
          else go_bind (calcStakeParamByQc upgrade cfg db d sbHeight) (\<lambda>d. indexQuota d (difficultyList cfg)))"

subsection \<open>The quota of an account\<close>

definition isBlocked :: "Chain \<Rightarrow> Address \<Rightarrow> vm_error + bool \<times> u64" where
  "isBlocked db addr =
     (if \<not> IsContractAddr addr then Inr (False, 0)
      else case chain_GetLatestAccountBlock db addr of
        Inl err \<Rightarrow> Inl err
      | Inr None \<Rightarrow> Inr (False, 0)
      | Inr (Some prevBlock) \<Rightarrow>
          if ab_BlockType prevBlock = BlockTypeReceiveError
          then case chain_GetConfirmedTimes db (ab_Hash prevBlock) of
                 Inl err \<Rightarrow> Inl err
               | Inr confirmTime \<Rightarrow>
                   if confirmTime < outOfQuotaBlockTime then Inr (True, outOfQuotaBlockTime - confirmTime) else Inr (False, 0)
          else Inr (False, 0))"

text \<open>\<open>CanPoW\<close>: no unconfirmed block of the account has a nonce.\<close>

definition CanPoW :: "Chain \<Rightarrow> Address \<Rightarrow> bool" where
  "CanPoW db addr = list_all (\<lambda>b. \<not> IsPoW b) (chain_GetUnconfirmedBlocks db addr)"

text \<open>The loop over all entries but the last: quota, quota used and blocks so far.\<close>

fun quotaLoop :: "u64 \<Rightarrow> QuotaInfo list \<Rightarrow> u64 \<times> u64 \<times> u64 \<Rightarrow> u64 \<times> u64 \<times> u64" where
  "quotaLoop quotaStake [] acc = acc"
| "quotaLoop quotaStake (q # qs) (quotaTotal, quotaUsedTotal, blockCountTotal) =
     (let quotaTotal = quotaTotal + quotaStake
      in quotaLoop quotaStake qs
           (if quotaTotal \<ge> QuotaTotal q then quotaTotal - QuotaTotal q else 0,
            quotaUsedTotal + QuotaUsedTotal q, blockCountTotal + BlockCount q))"

definition sumQuota :: "u64 \<Rightarrow> u64 \<Rightarrow> QuotaInfo list \<Rightarrow> bool \<Rightarrow> u64 \<Rightarrow> quotaResult" where
  "sumQuota quotaStake quotaAddition quotaList blocked blockReleaseHeight =
     (let (quotaTotal, quotaUsedTotal, blockCountTotal) =
            (if length quotaList > 1 then quotaLoop quotaStake (butlast quotaList) (0, 0, 0) else (0, 0, 0));
          (quotaTotal, snapshotCurrentQuota, quotaUsedTotal, blockCountTotal, unconfirmedQuota) =
            (if length quotaList > 0
             then let q = last quotaList; quotaTotal = quotaTotal + quotaStake
                  in (quotaTotal, quotaTotal, quotaUsedTotal + QuotaUsedTotal q, blockCountTotal + BlockCount q, QuotaTotal q)
             else (quotaTotal, quotaTotal, quotaUsedTotal, blockCountTotal, 0));
          quotaAvg = (if blockCountTotal > 0 then quotaUsedTotal div blockCountTotal else 0);
          result = (\<lambda>total addition err. \<lparr>qr_quotaTotal = total, qr_quotaStake = quotaStake, qr_quotaAddition = addition,
            qr_snapshotCurrentQuota = snapshotCurrentQuota, qr_quotaAvg = quotaAvg, qr_blocked = blocked,
            qr_blockReleaseHeight = blockReleaseHeight, qr_err = err\<rparr>)
      in if quotaTotal \<ge> unconfirmedQuota
         then if blocked then result 0 0 None
              else result (quotaTotal - unconfirmedQuota + quotaAddition) quotaAddition None
         else result 0 0 (Some ErrInvalidUnconfirmedQuota))"

definition calcQuotaTotal ::
    "upgradeBox \<Rightarrow> quotaConfigParams \<Rightarrow> Chain \<Rightarrow> Address \<Rightarrow> int option \<Rightarrow> int option \<Rightarrow> u64 \<Rightarrow> quotaResult go" where
  "calcQuotaTotal upgrade cfg db addr stakeAmount difficulty sbHeight =
     (case isBlocked db addr of
        Inl err \<Rightarrow> Ret (failedQuota err)
      | Inr (blocked, blockReleaseHeight) \<Rightarrow>
          let (qc, _, isCongestion) = CalcQc upgrade cfg db sbHeight
          in go_bind (calcStakeQuota cfg qc isCongestion stakeAmount) (\<lambda>quotaStake.
             go_bind (calcPoWQuota cfg qc isCongestion difficulty) (\<lambda>quotaAddition.
               Ret (sumQuota quotaStake quotaAddition (chain_GetQuotaUsedList db addr) blocked blockReleaseHeight))))"

definition calcQuotaV3 ::
    "upgradeBox \<Rightarrow> quotaConfigParams \<Rightarrow> Chain \<Rightarrow> Address \<Rightarrow> int option \<Rightarrow> int option \<Rightarrow> u64 \<Rightarrow> quotaResult go" where
  "calcQuotaV3 upgrade cfg db addr stakeAmount difficulty sbHeight =
     (let powFlag = (case difficulty of None \<Rightarrow> False | Some d \<Rightarrow> 0 < d)
      in if powFlag \<and> \<not> CanPoW db addr then Ret (failedQuota ErrCalcPoWTwice)
         else calcQuotaTotal upgrade cfg db addr stakeAmount difficulty sbHeight)"

definition calcQuotaFunc ::
    "upgradeBox \<Rightarrow> quotaConfigParams \<Rightarrow> Chain \<Rightarrow> Address \<Rightarrow> int option \<Rightarrow> int option \<Rightarrow> u64 \<Rightarrow> quotaResult go" where
  "calcQuotaFunc upgrade cfg db addr stakeAmount difficulty sbHeight =
     (if qcfg_isTest cfg
      then Ret \<lparr>qr_quotaTotal = 75000000, qr_quotaStake = 1000000, qr_quotaAddition = 0, qr_snapshotCurrentQuota = 1000000,
             qr_quotaAvg = 0, qr_blocked = False, qr_blockReleaseHeight = 0, qr_err = None\<rparr>
      else calcQuotaV3 upgrade cfg db addr stakeAmount difficulty sbHeight)"

subsection \<open>The interface of the package\<close>

definition CalcBlockQuotaUsed ::
    "upgradeBox \<Rightarrow> quotaConfigParams \<Rightarrow> Chain \<Rightarrow> AccountBlock \<Rightarrow> u64 \<Rightarrow> (vm_error + u64) go" where
  "CalcBlockQuotaUsed upgrade cfg db block sbHeight =
     (if \<not> IsPoW block then Ret (Inr (ab_QuotaUsed block))
      else go_bind (calcPoWQuotaByQc upgrade cfg db (ab_Difficulty block) sbHeight) (\<lambda>powQuota.
             Ret (Inr (if ab_QuotaUsed block > powQuota then ab_QuotaUsed block - powQuota else 0))))"

definition GetSnapshotCurrentQuota ::
    "upgradeBox \<Rightarrow> quotaConfigParams \<Rightarrow> Chain \<Rightarrow> Address \<Rightarrow> int option \<Rightarrow> u64 \<Rightarrow> (vm_error + u64) go" where
  "GetSnapshotCurrentQuota upgrade cfg db beneficial stakeAmount sbHeight =
     go_bind (calcQuotaFunc upgrade cfg db beneficial stakeAmount (Some 0) sbHeight) (\<lambda>r.
       Ret (case qr_err r of
              None \<Rightarrow> Inr (qr_snapshotCurrentQuota r)
            | Some err \<Rightarrow> if err = ErrInvalidUnconfirmedQuota then Inr (qr_snapshotCurrentQuota r) else Inl err))"

definition GetQuota ::
    "upgradeBox \<Rightarrow> quotaConfigParams \<Rightarrow> Chain \<Rightarrow> Address \<Rightarrow> int option \<Rightarrow> u64 \<Rightarrow> (Quota \<times> vm_error option) go" where
  "GetQuota upgrade cfg db beneficial stakeAmount sbHeight =
     go_bind (calcQuotaFunc upgrade cfg db beneficial stakeAmount (Some 0) sbHeight) (\<lambda>r.
       Ret (NewQuota (qr_quotaStake r) (qr_quotaTotal r) (qr_quotaAvg r) (qr_snapshotCurrentQuota r) (qr_blocked r)
              (qr_blockReleaseHeight r), qr_err r))"

definition GetQuotaForBlock ::
    "upgradeBox \<Rightarrow> quotaConfigParams \<Rightarrow> Chain \<Rightarrow> Address \<Rightarrow> int option \<Rightarrow> int option \<Rightarrow> u64 \<Rightarrow> (vm_error + u64 \<times> u64) go" where
  "GetQuotaForBlock upgrade cfg db addr stakeAmount difficulty sbHeight =
     go_bind (calcQuotaFunc upgrade cfg db addr stakeAmount difficulty sbHeight) (\<lambda>r.
       case qr_err r of
         Some err \<Rightarrow> Ret (Inl err)
       | None \<Rightarrow>
           if qr_quotaTotal r > quotaLimitForBlock
           then if qr_quotaAddition r > quotaLimitForBlock then Ret (Inr (quotaLimitForBlock, quotaLimitForBlock))
                else Ret (Inr (quotaLimitForBlock, qr_quotaAddition r))
           else Ret (Inr (qr_quotaTotal r, qr_quotaAddition r)))"

definition CheckQuota :: "Quota \<Rightarrow> bool \<times> u64" where
  "CheckQuota q =
     (if quota_blocked q then (False, quota_blockReleaseHeight q)
      else if quota_current q \<ge> quota_avg q then (True, 0)
      else (False, 1))"

definition CalcPoWDifficulty ::
    "upgradeBox \<Rightarrow> quotaConfigParams \<Rightarrow> Chain \<Rightarrow> u64 \<Rightarrow> Quota \<Rightarrow> u64 \<Rightarrow> (vm_error + int) go option" where
  "CalcPoWDifficulty upgrade cfg db quotaRequired q sbHeight =
     (if quotaRequired > quotaLimitForBlock then Some (Ret (Inl ErrBlockQuotaLimitReached))
      else if quota_current q \<ge> quotaRequired then Some (Ret (Inr 0))
      else case getIndexByQuota quotaRequired of
        Inl err \<Rightarrow> Some (Ret (Inl err))
      | Inr index \<Rightarrow>
          (case listAt (difficultyList cfg) index of
             Panics p \<Rightarrow> Some (Panics p)
           | Ret difficulty \<Rightarrow>
               (case calcStakeTargetParamByQc upgrade cfg db difficulty sbHeight of
                  None \<Rightarrow> None
                | Some (Panics p) \<Rightarrow> Some (Panics p)
                | Some (Ret (difficultyByQc, _)) \<Rightarrow> Some (Ret difficultyByQc))))"

definition CalcStakeAmountByQuota :: "quotaConfigParams \<Rightarrow> u64 \<Rightarrow> (vm_error + int) go" where
  "CalcStakeAmountByQuota cfg q =
     (if q > getMaxQuota then Ret (Inl ErrInvalidMethodParam)
      else if q = 0 then Ret (Inr 0)
      else go_bind (listAt (stakeAmountList cfg) (unat ((q + quotaForSection - 1) div quotaForSection))) (\<lambda>v. Ret (Inr v)))"

section \<open>What the lookups rely on of a configuration\<close>

definition table_ok :: "int \<Rightarrow> int list \<Rightarrow> bool" where
  "table_ok d list \<longleftrightarrow> length list = 3572 \<and> list ! 0 = 0 \<and> sorted_wrt (\<lambda>x y. x + d \<le> y) list"

lemma table_okI: "climb d lo list = Some hi \<Longrightarrow> 0 \<le> d \<Longrightarrow> length list = 3572 \<Longrightarrow> list ! 0 = 0 \<Longrightarrow> table_ok d list"
  by (simp add: table_ok_def climb_sorted)

lemma mainnet_tables: "table_ok 1 stakeAmountListMainnet" "table_ok 1 difficultyListMainnet"
  by (rule table_okI [OF climb_stakeAmountListMainnet _ length_stakeAmountListMainnet],
      simp, simp add: stakeAmountListMainnet_def stakeAmountListMainnet1_def)
     (rule table_okI [OF climb_difficultyListMainnet _ length_difficultyListMainnet],
      simp, simp add: difficultyListMainnet_def difficultyListMainnet1_def)

lemma testnet_tables: "table_ok 0 stakeAmountListTestnet" "table_ok 1 difficultyListTestnet"
  by (rule table_okI [OF climb_stakeAmountListTestnet _ length_stakeAmountListTestnet],
      simp, simp add: stakeAmountListTestnet_def stakeAmountListTestnet1_def)
     (rule table_okI [OF climb_difficultyListTestnet _ length_difficultyListTestnet],
      simp, simp add: difficultyListTestnet_def difficultyListTestnet1_def)

lemma table_ok_weaken: "table_ok 1 list \<Longrightarrow> table_ok 0 list"
  by (auto simp: table_ok_def elim: sorted_wrt_mono_rel [rotated])

lemma table_ok_less: "table_ok d list \<Longrightarrow> i < j \<Longrightarrow> j < 3572 \<Longrightarrow> list ! i + d \<le> list ! j"
  by (simp add: table_ok_def sorted_wrt_iff_nth_less)

text \<open>The binary search ends at the section of the amount.\<close>

definition in_section :: "int list \<Rightarrow> int \<Rightarrow> nat \<Rightarrow> bool" where
  "in_section list x i \<longleftrightarrow> i < 3572 \<and> list ! i \<le> x \<and> (list ! i = x \<or> (\<forall>j. i < j \<and> j < 3572 \<longrightarrow> x < list ! j))"

lemma search_section:
  assumes "table_ok 0 list" "left + width < 3572" "list ! left \<le> x"
    and "\<forall>j. left + width < j \<and> j < 3572 \<longrightarrow> x < list ! j"
  shows "\<exists>i. getIndexInBigIntList x list left width = Ret i \<and> in_section list x i"
  using assms
proof (induction x list left width rule: getIndexInBigIntList.induct)
  case (1 x list left width)
  have len: "length list = 3572" using "1.prems"(1) by (simp add: table_ok_def)
  show ?case
  proof (cases "width = 0")
    case True
    with "1.prems" len show ?thesis
      by (subst getIndexInBigIntList.simps) (auto simp: getExactIndex_def listAt_def in_section_def)
  next
    case False
    let ?mid = "(left + (left + width) + 1) div 2"
    have mid: "left < ?mid" "?mid \<le> left + width" using False by auto
    have at: "listAt list ?mid = Ret (list ! ?mid)" using mid "1.prems"(2) len by (simp add: listAt_def)
    show ?thesis
    proof (cases "list ! ?mid" x rule: linorder_cases)
      case less
      with "1.IH"(2) [OF False refl refl, of "list ! ?mid"] "1.prems" mid
      have "\<exists>i. getIndexInBigIntList x list ?mid (left + width - ?mid) = Ret i \<and> in_section list x i" by simp
      with False at less show ?thesis by (subst getIndexInBigIntList.simps) (simp add: Let_def)
    next
      case equal
      with False at mid "1.prems"(2) show ?thesis
        by (subst getIndexInBigIntList.simps) (simp add: Let_def in_section_def)
    next
      case greater
      have above: "x < list ! j" if "?mid \<le> j" "j < 3572" for j
        using table_ok_less [OF "1.prems"(1), of ?mid j] that greater by (cases "j = ?mid") auto
      have "\<exists>i. getIndexInBigIntList x list left (?mid - 1 - left) = Ret i \<and> in_section list x i"
      proof (rule "1.IH"(1) [OF False refl refl, of "list ! ?mid"])
        show "left + (?mid - 1 - left) < 3572" using mid "1.prems"(2) by linarith
        show "\<forall>j. left + (?mid - 1 - left) < j \<and> j < 3572 \<longrightarrow> x < list ! j" using mid above by fastforce
      qed (use greater "1.prems" in auto)
      with False at greater show ?thesis by (subst getIndexInBigIntList.simps) (simp add: Let_def)
    qed
  qed
qed

lemma indexQuota_section:
  assumes "table_ok 0 list" "0 \<le> x"
  obtains i where "indexQuota x list = Ret (calcQuotaByIndex i)" "in_section list x i"
proof -
  have "\<exists>i. getIndexInBigIntList x list 0 (nat sectionLen) = Ret i \<and> in_section list x i"
    using assms by (intro search_section) (auto simp: table_ok_def sectionLen_def)
  with that show ?thesis by (auto simp: indexQuota_def)
qed

lemma unat_calcQuotaByIndex: "i < 3572 \<Longrightarrow> unat (calcQuotaByIndex i) = i * 280"
  by (simp add: calcQuotaByIndex_def sectionLen_def quotaForSection_def unat_mult_u64 unat_of_nat)

lemma in_section_le:
  assumes "table_ok 1 list" "in_section list x i" "k < 3572" "list ! k \<le> x"
  shows "k \<le> i"
proof (rule ccontr)
  assume "\<not> k \<le> i"
  then have ki: "i < k" by simp
  with table_ok_less [OF assms(1), of i k] assms show False by (auto simp: in_section_def)
qed

locale quota_config =
  fixes cfg :: quotaConfigParams
  assumes stake_table: "table_ok 0 (stakeAmountList cfg)"
    and difficulty_table: "table_ok 1 (difficultyList cfg)"
    and index_order: "qcIndexMin cfg \<le> qcIndexMax cfg"
    and ratio: "qcIndexMin cfg \<le> i \<Longrightarrow> i \<le> qcIndexMax cfg \<Longrightarrow> \<exists>q. map_of (qcMap cfg) i = Some q \<and> 0 < q \<and> q < qcDivision"
begin

lemma CalcQc_ratio:
  assumes "CalcQc upgrade cfg db sbHeight = (qc, globalQuota, True)"
  obtains q where "qc = Some q" "0 < q" "q < qcDivision"
proof -
  let ?i = "(QuotaUsedTotal (chain_GetGlobalQuota db) + qcGap - 1) div qcGap"
  let ?j = "if qcIndexMax cfg \<le> ?i then qcIndexMax cfg else ?i"
  from assms have "\<not> ?i < qcIndexMin cfg" "qc = map_of (qcMap cfg) ?j"
    by (auto simp: CalcQc_def Let_def split: if_splits)
  moreover from this have "qcIndexMin cfg \<le> ?j" "?j \<le> qcIndexMax cfg" using index_order by auto
  ultimately show ?thesis using ratio [of ?j] that by auto
qed

lemma calcStakeParam_Ret:
  assumes "CalcQc upgrade cfg db sbHeight = (qc, globalQuota, cong)" "0 \<le> x"
  obtains y where "calcStakeParam qc cong x = Ret y" "0 \<le> y" "y \<le> x"
proof (cases cong)
  case True
  with CalcQc_ratio assms(1) obtain q where q: "qc = Some q" "0 < q" "q < qcDivision" by metis
  have "x * q div qcDivision \<le> x"
  proof -
    have "x * q \<le> x * qcDivision" using q assms(2) by (intro mult_left_mono) auto
    then have "x * q div qcDivision \<le> x * qcDivision div qcDivision" by (intro zdiv_mono1) (simp_all add: qcDivision_def)
    then show ?thesis by (simp add: qcDivision_def)
  qed
  with q True assms(2) show ?thesis
    by (intro that [of "x * q div qcDivision"])
       (auto simp: calcStakeParam_def big_Div_def qcDivision_def pos_imp_zdiv_nonneg_iff)
qed (use assms(2) that in \<open>simp add: calcStakeParam_def\<close>)

text \<open>Stake and proof of work give at most 3571 sections.\<close>

lemma sections_le:
  assumes "CalcQc upgrade cfg db sbHeight = (qc, globalQuota, cong)" "table_ok 0 list" "0 < a"
  shows "\<exists>s. go_bind (calcStakeParam qc cong a) (\<lambda>y. indexQuota y list) = Ret s \<and> unat s \<le> 999880"
proof -
  obtain y where y: "calcStakeParam qc cong a = Ret y" "0 \<le> y"
    using calcStakeParam_Ret [OF assms(1), of a] assms(3) by force
  obtain i where i: "indexQuota y list = Ret (calcQuotaByIndex i)" "in_section list y i"
    by (rule indexQuota_section [OF assms(2) y(2)])
  then have "unat (calcQuotaByIndex i) \<le> 999880" by (simp add: in_section_def unat_calcQuotaByIndex)
  with y i show ?thesis by simp
qed

lemma quota_parts_le:
  assumes "CalcQc upgrade cfg db sbHeight = (qc, globalQuota, cong)"
  shows "\<exists>s. calcStakeQuota cfg qc cong amount = Ret s \<and> unat s \<le> 999880"
    "\<exists>s. calcPoWQuota cfg qc cong difficulty = Ret s \<and> unat s \<le> 999880"
  using sections_le [OF assms stake_table] sections_le [OF assms table_ok_weaken [OF difficulty_table]]
  by (auto simp: calcStakeQuota_def calcPoWQuota_def split: option.splits)

end

interpretation init_cfg: quota_config "InitQuotaConfig isTest isTestParam" for isTest isTestParam
proof unfold_locales
  show "table_ok 0 (stakeAmountList (InitQuotaConfig isTest isTestParam))"
    "table_ok 1 (difficultyList (InitQuotaConfig isTest isTestParam))"
    using mainnet_tables testnet_tables table_ok_weaken by (simp_all add: InitQuotaConfig_def)
  show "qcIndexMin (InitQuotaConfig isTest isTestParam) \<le> qcIndexMax (InitQuotaConfig isTest isTestParam)"
    by (simp add: InitQuotaConfig_def qcIndexMinMainnet_def qcIndexMaxMainnet_def)
  show "\<exists>q. map_of (qcMap (InitQuotaConfig isTest isTestParam)) i = Some q \<and> 0 < q \<and> q < qcDivision"
    if "qcIndexMin (InitQuotaConfig isTest isTestParam) \<le> i" "i \<le> qcIndexMax (InitQuotaConfig isTest isTestParam)" for i
    using qcMapMainnet_ratio [of i] that by (auto simp: InitQuotaConfig_def)
qed

section \<open>The quota of a block\<close>

lemma quotaLoop_le:
  "unat s \<le> 999880 \<Longrightarrow> unat t + length qs * 999880 < 2 ^ 63 \<Longrightarrow>
     unat (fst (quotaLoop s qs (t, u, b))) \<le> unat t + length qs * 999880"
proof (induction qs arbitrary: t u b)
  case (Cons q qs)
  have t: "unat (t + s) = unat t + unat s" using Cons.prems by (simp add: unat_plus_u64)
  let ?t = "if QuotaTotal q \<le> t + s then t + s - QuotaTotal q else 0"
  have le: "unat ?t \<le> unat t + 999880" using t Cons.prems(1) by (auto simp: unat_minus_u64 word_le_nat_alt)
  then have "unat (fst (quotaLoop s qs (?t, u + QuotaUsedTotal q, b + BlockCount q))) \<le> unat ?t + length qs * 999880"
    using Cons.prems by (intro Cons.IH) auto
  with le show ?case by (simp add: Let_def)
qed simp

lemma sumQuota_parts:
  assumes "unat s \<le> 999880" "unat a \<le> 999880" "length qs < 2 ^ 32"
    and "qr_err (sumQuota s a qs blocked h) = None"
  shows "qr_quotaAddition (sumQuota s a qs blocked h) \<le> qr_quotaTotal (sumQuota s a qs blocked h)"
proof -
  obtain t u b where tub: "(if length qs > 1 then quotaLoop s (butlast qs) (0, 0, 0) else (0, 0, 0)) = (t, u, b)"
    by (cases "if length qs > 1 then quotaLoop s (butlast qs) (0, 0, 0) else (0, 0, 0)")
  have "unat t \<le> length qs * 999880"
  proof (cases "length qs > 1")
    case True
    have "unat (fst (quotaLoop s (butlast qs) (0, 0, 0))) \<le> unat (0 :: u64) + length (butlast qs) * 999880"
      using assms(3) by (intro quotaLoop_le [OF assms(1)]) simp
    also have "\<dots> \<le> length qs * 999880" by simp
    finally show ?thesis using True tub by simp
  qed (use tub in simp)
  then have t: "unat t < 2 ^ 52" using assms(3) by simp
  let ?t = "if length qs > 0 then t + s else t"
  have t': "unat ?t < 2 ^ 53" using t assms(1) by (auto simp: unat_plus_u64)
  let ?u = "if length qs > 0 then QuotaTotal (last qs) else 0"
  have eq: "qr_quotaTotal (sumQuota s a qs blocked h) = (if ?t \<ge> ?u \<and> \<not> blocked then ?t - ?u + a else 0)"
    "qr_quotaAddition (sumQuota s a qs blocked h) = (if ?t \<ge> ?u \<and> \<not> blocked then a else 0)"
    unfolding sumQuota_def tub by (simp_all add: Let_def)
  have "unat (?t - ?u + a) = unat (?t - ?u) + unat a" if "?u \<le> ?t"
    using that t' assms(2) by (intro unat_plus_u64) (simp add: unat_minus_u64 word_le_nat_alt del: if_split)
  then show ?thesis by (simp only: eq word_le_nat_alt) auto
qed

context quota_config
begin

lemma calcQuotaFunc_parts:
  assumes "length (chain_GetQuotaUsedList db addr) < 2 ^ 32"
  shows "\<exists>r. calcQuotaFunc upgrade cfg db addr stakeAmount difficulty sbHeight = Ret r \<and>
    (qr_err r = None \<longrightarrow> qr_quotaAddition r \<le> qr_quotaTotal r)"
proof -
  obtain qc g cong where qc: "CalcQc upgrade cfg db sbHeight = (qc, g, cong)" by (cases "CalcQc upgrade cfg db sbHeight")
  from quota_parts_le [OF qc] obtain s a where sa: "calcStakeQuota cfg qc cong stakeAmount = Ret s" "unat s \<le> 999880"
    "calcPoWQuota cfg qc cong difficulty = Ret a" "unat a \<le> 999880" by metis
  show ?thesis
    using sumQuota_parts [OF sa(2,4) assms]
    by (auto simp: calcQuotaFunc_def calcQuotaV3_def calcQuotaTotal_def failedQuota_def qc sa Let_def split: sum.splits)
qed

lemma GetQuotaForBlock_parts:
  assumes "length (chain_GetQuotaUsedList db addr) < 2 ^ 32"
  shows "\<exists>r. GetQuotaForBlock upgrade cfg db addr stakeAmount difficulty sbHeight = Ret r \<and>
    (case r of Inl _ \<Rightarrow> True | Inr (t, a) \<Rightarrow> a \<le> t \<and> t \<le> quotaLimitForBlock)"
proof -
  from calcQuotaFunc_parts [OF assms] obtain r where r: "calcQuotaFunc upgrade cfg db addr stakeAmount difficulty sbHeight = Ret r"
    "qr_err r = None \<longrightarrow> qr_quotaAddition r \<le> qr_quotaTotal r" by metis
  then show ?thesis
    by (cases "qr_err r") (auto simp: GetQuotaForBlock_def not_less)
qed

end

section \<open>The difficulty for a quota\<close>

lemma qcDivision_le: "t \<le> x div qcDivision \<longleftrightarrow> t * qcDivision \<le> x"
  unfolding qcDivision_def by linarith

lemma calcStakeParam_ratio: "calcStakeParam (Some q) True x = Ret (x * q div qcDivision)"
  by (simp add: calcStakeParam_def big_Div_def qcDivision_def)

text \<open>The start value reaches the target or its successor does.\<close>

lemma targetLoop_least:
  assumes "0 < q" "q < qcDivision"
  obtains n where "targetLoop (Some q) True target (target * qcDivision div q) = Some (Ret n)"
    "target \<le> n * q div qcDivision" "(n - 1) * q div qcDivision < target" "n - target * qcDivision div q \<in> {0, 1}"
proof -
  let ?n = "target * qcDivision div q"
  have n: "?n * q \<le> target * qcDivision" "target * qcDivision < (?n + 1) * q"
    using assms(1) by (simp_all add: mult.commute distrib_left minus_mod_eq_mult_div [symmetric] pos_mod_bound)
  have less: "x div qcDivision < target \<longleftrightarrow> x < target * qcDivision" for x using qcDivision_le [of target x] by linarith
  have unf: "targetLoop (Some q) True target m =
      (if target \<le> m * q div qcDivision then Some (Ret m) else targetLoop (Some q) True target (m + 1))" for m
    by (subst targetLoop.simps) (simp add: calcStakeParam_ratio)
  show ?thesis
  proof (cases "target \<le> ?n * q div qcDivision")
    case True
    have "(?n - 1) * q < target * qcDivision" using n(1) assms(1) by (simp add: left_diff_distrib)
    with True show ?thesis by (intro that [of ?n]) (subst unf, simp_all add: less)
  next
    case False
    have "target \<le> (?n + 1) * q div qcDivision" using n(2) by (simp add: qcDivision_le)
    with False show ?thesis
      by (intro that [of "?n + 1"]) (subst unf, subst unf, simp_all)
  qed
qed

lemma getIndexByQuota_Inr:
  assumes "getIndexByQuota r = Inr k" "r \<le> quotaLimitForBlock" "0 < r"
  shows "0 < k" "k < 3572" "unat r \<le> k * 280"
proof -
  have r: "unat r \<le> 1000000" "0 < unat r"
    using assms(2,3) by (simp_all add: quotaLimitForBlock_def word_le_nat_alt word_less_nat_alt)
  have "unat (279 + r) = unat (279 :: u64) + unat r" using r by (intro unat_plus_u64) simp
  then have "unat (r + 280 - 1) = unat r + 279" by simp
  then have idx: "unat ((r + quotaForSection - 1) div quotaForSection) = (unat r + 279) div 280"
    by (simp add: quotaForSection_def unat_div_u64)
  with assms(1) have k: "k = (unat r + 279) div 280" "k < 3572"
    by (auto simp: getIndexByQuota_def Let_def sectionLen_def split: if_splits)
  with r show "0 < k" "k < 3572" "unat r \<le> k * 280" by auto
qed

context quota_config
begin

lemma enough_difficulty:
  assumes "CalcQc upgrade cfg db h = (qc, g, cong)" "k < 3572" "0 < d"
    and "calcStakeParam qc cong d = Ret y" "difficultyList cfg ! k \<le> y" "0 \<le> y"
  shows "\<exists>p. calcPoWQuotaByQc upgrade cfg db (Some d) h = Ret p \<and> k * 280 \<le> unat p"
proof -
  obtain i where i: "indexQuota y (difficultyList cfg) = Ret (calcQuotaByIndex i)" "in_section (difficultyList cfg) y i"
    by (rule indexQuota_section [OF table_ok_weaken [OF difficulty_table] assms(6)])
  then have "k \<le> i" "i < 3572" using in_section_le [OF difficulty_table _ assms(2)] assms(5) by (auto simp: in_section_def)
  with i assms(1,3,4) show ?thesis by (simp add: calcPoWQuotaByQc_def calcStakeParamByQc_def unat_calcQuotaByIndex)
qed

lemma CalcPoWDifficulty_gives:
  assumes "quota_current q < r"
  shows "\<exists>d. CalcPoWDifficulty upgrade cfg db r q h = Some (Ret d) \<and>
    (case d of Inl _ \<Rightarrow> True | Inr d \<Rightarrow> \<exists>p. calcPoWQuotaByQc upgrade cfg db (Some d) h = Ret p \<and> r \<le> p)"
proof (cases "r \<le> quotaLimitForBlock \<and> (\<exists>k. getIndexByQuota r = Inr k)")
  case True
  then obtain k where k: "getIndexByQuota r = Inr k" and le: "r \<le> quotaLimitForBlock" by blast
  have "0 < r" using assms order_le_less_trans word_zero_le by blast
  note k' = getIndexByQuota_Inr [OF k le this]
  let ?t = "difficultyList cfg ! k"
  have at: "listAt (difficultyList cfg) k = Ret ?t" using k' difficulty_table by (simp add: listAt_def table_ok_def)
  have t: "0 < ?t" using table_ok_less [OF difficulty_table k'(1,2)] difficulty_table by (simp add: table_ok_def)
  obtain qc g cong where qc: "CalcQc upgrade cfg db h = (qc, g, cong)" by (cases "CalcQc upgrade cfg db h")
  have eq: "CalcPoWDifficulty upgrade cfg db r q h =
      (case calcStakeTargetParamByQc upgrade cfg db ?t h of None \<Rightarrow> None | Some (Panics p) \<Rightarrow> Some (Panics p)
       | Some (Ret (d, _)) \<Rightarrow> Some (Ret d))"
    using leD [OF le] assms [folded not_le] k at by (simp add: CalcPoWDifficulty_def)
  show ?thesis
  proof (cases cong)
    case False
    with enough_difficulty [OF qc k'(2) t _ order_refl] t k'(3) eq qc show ?thesis
      by (fastforce simp: calcStakeTargetParamByQc_def calcStakeParam_def word_le_nat_alt)
  next
    case True
    with CalcQc_ratio qc obtain x where x: "qc = Some x" "0 < x" "x < qcDivision" by metis
    obtain n where n: "targetLoop qc cong ?t (?t * qcDivision div x) = Some (Ret n)" "?t \<le> n * x div qcDivision"
      using targetLoop_least [OF x(2,3), of ?t] x(1) True by metis
    have "0 < n"
    proof (rule ccontr)
      assume "\<not> 0 < n"
      then have "n * x \<le> 0" using x(2) by (simp add: mult_nonpos_nonneg)
      with n(2) t show False by (simp add: qcDivision_le qcDivision_def)
    qed
    with enough_difficulty [OF qc k'(2), of n "n * x div qcDivision"] n(2) t x True
    obtain p where "calcPoWQuotaByQc upgrade cfg db (Some n) h = Ret p" "k * 280 \<le> unat p"
      by (auto simp: calcStakeParam_ratio)
    with n x True qc eq k'(3) show ?thesis
      by (auto simp: calcStakeTargetParamByQc_def calcStakeTargetParam_def big_Div_def word_le_nat_alt)
  qed
next
  case False
  with assms show ?thesis by (cases "getIndexByQuota r") (auto simp: CalcPoWDifficulty_def)
qed

end

section \<open>Properties\<close>



text \<open>C16: \<open>GetQuotaForBlock\<close> never panics, and the quota it gives a block is at most 1000000 and at least the part
  that comes from proof of work.\<close>

theorem GetQuotaForBlock_bounds:
  assumes "length (chain_GetQuotaUsedList db addr) < 2 ^ 32"
  shows "\<exists>r. GetQuotaForBlock upgrade (InitQuotaConfig isTest isTestParam) db addr stakeAmount difficulty sbHeight = Ret r \<and>
    (case r of Inl err \<Rightarrow> True | Inr (t, a) \<Rightarrow> a \<le> t \<and> t \<le> 1000000)"
  by (rule init_cfg.GetQuotaForBlock_parts [OF assms, unfolded quotaLimitForBlock_def])

theorem GetQuotaForBlock_bounds_witness:
  "\<exists>r. GetQuotaForBlock \<lparr>pointMap = [], heightMap = [], sortedPoints = []\<rparr> (InitQuotaConfig False False) emptyChain ZERO_ADDRESS
      (Some 134000000000000000000) (Some 894654) 7 = Ret r \<and>
    (case r of Inl err \<Rightarrow> True | Inr (t, a) \<Rightarrow> a \<le> t \<and> t \<le> 1000000)"
  by (rule GetQuotaForBlock_bounds) (simp add: emptyChain_def)

text \<open>C17: under congestion the loop of \<open>calcStakeTargetParam\<close> comes to an end, after at most one round, with the least
  value whose congested value reaches the target.\<close>

theorem targetLoop_ends:
  assumes "CalcQc upgrade (InitQuotaConfig isTest isTestParam) db sbHeight = (qc, globalQuota, True)"
  shows "\<exists>q n. qc = Some q \<and> targetLoop qc True target (target * qcDivision div q) = Some (Ret n) \<and>
    n - target * qcDivision div q \<in> {0, 1} \<and> target \<le> n * q div qcDivision \<and> (\<forall>m < n. m * q div qcDivision < target)"
proof -
  obtain q where q: "qc = Some q" "0 < q" "q < qcDivision" by (rule init_cfg.CalcQc_ratio [OF assms])
  obtain n where n: "targetLoop (Some q) True target (target * qcDivision div q) = Some (Ret n)" "target \<le> n * q div qcDivision"
    "(n - 1) * q div qcDivision < target" "n - target * qcDivision div q \<in> {0, 1}"
    by (rule targetLoop_least [OF q(2,3)])
  have "m * q div qcDivision < target" if "m < n" for m
  proof -
    have "m * q \<le> (n - 1) * q" using that q(2) by (intro mult_right_mono) auto
    then have "m * q div qcDivision \<le> (n - 1) * q div qcDivision" by (intro zdiv_mono1) (simp_all add: qcDivision_def)
    with n(3) show ?thesis by simp
  qed
  with q n show ?thesis by blast
qed

text \<open>A ledger with 80 units of congestion.\<close>

definition busyChain :: Chain where
  "busyChain = emptyChain\<lparr>chain_GetGlobalQuota := \<lparr>BlockCount = 1, QuotaTotal = 0, QuotaUsedTotal = 124320000\<rparr>\<rparr>"

definition dexUpgrade :: upgradeBox where
  "dexUpgrade = \<lparr>pointMap = [(2, \<lparr>up_Name = [], up_Height = 1, up_Version = 2\<rparr>)], heightMap = [1], sortedPoints = []\<rparr>"

theorem targetLoop_ends_witness:
  "\<exists>qc q n. CalcQc dexUpgrade (InitQuotaConfig False False) busyChain 7 = (qc, 124320000, True) \<and> qc = Some q \<and>
    targetLoop qc True 894654 (894654 * qcDivision div q) = Some (Ret n) \<and>
    n - 894654 * qcDivision div q \<in> {0, 1} \<and> 894654 \<le> n * q div qcDivision \<and> (\<forall>m < n. m * q div qcDivision < 894654)"
proof -
  let ?qc = "map_of qcMapMainnet 80"
  have qc: "CalcQc dexUpgrade (InitQuotaConfig False False) busyChain 7 = (?qc, 124320000, True)"
    by (simp add: CalcQc_def dexUpgrade_def busyChain_def IsDexUpgrade_def isActive_def qcGap_def InitQuotaConfig_def
        qcIndexMinMainnet_def qcIndexMaxMainnet_def)
  from targetLoop_ends [OF qc, of 894654] qc show ?thesis by blast
qed



end
