(* ===== verification/Vm_Blocks.thy ===== *)
theory Vm_Blocks
  imports Vm_Runs Quota
begin

text \<open>
  vm/vm.go: the execution of an account block.  \<open>RunV2\<close> dispatches on the type of the block; the send operations
  debit the account, the receive operations credit it, run the contract and send what the contract asked for.

  The database is threaded through as a value.  A send operation returns the database it worked on and an error or
  the block; a receive operation returns, as the code does, an optional block, the retry flag and an optional error,
  together with the database.  A receive operation may run a contract, so its result is an option that is None only
  when the interpreter does not end.  The list of the send blocks on an error path is never read and is left out.
  Timers, logs and debug output have no effect and are left out.

  The properties of these operations are in \<open>Vm_Transfers\<close>.
\<close>

section \<open>Definitions\<close>

subsection \<open>params.go and the configuration\<close>

definition callDepth :: u16 where "callDepth = 512"
definition maxCodeSize :: nat where "maxCodeSize = 24575"
definition offChainReaderGas :: u64 where "offChainReaderGas = 1000000"
definition snapshotCountMin :: byte where "snapshotCountMin = 0"
definition snapshotCountMax :: byte where "snapshotCountMax = 75"
definition snapshotWithSeedCountMin :: byte where "snapshotWithSeedCountMin = 0"
definition snapshotWithSeedCountMax :: byte where "snapshotWithSeedCountMax = 75"
definition createContractFee :: int where "createContractFee = 10 * AttovPerVite"

abbreviation (input) retry :: bool where "retry \<equiv> True"
abbreviation (input) noRetry :: bool where "noRetry \<equiv> False"

record vmConfig =
  vc_canTransfer :: "Chain \<Rightarrow> vmDb \<Rightarrow> TokenTypeId \<Rightarrow> int \<Rightarrow> int \<Rightarrow> bool go"
  vc_quotaConfig :: quotaConfigParams

definition canTransfer :: "Chain \<Rightarrow> vmDb \<Rightarrow> TokenTypeId \<Rightarrow> int \<Rightarrow> int \<Rightarrow> bool go" where
  "canTransfer chain db tokenTypeId tokenAmount feeAmount =
     (if feeAmount = 0
      then go_bind (util_GetBalance chain db tokenTypeId) (\<lambda>b. Ret (tokenAmount \<le> b))
      else if IsViteToken tokenTypeId
      then go_bind (util_GetBalance chain db tokenTypeId) (\<lambda>b. Ret (tokenAmount + feeAmount \<le> b))
      else go_bind (util_GetBalance chain db tokenTypeId) (\<lambda>amountB.
           go_bind (util_GetBalance chain db ViteTokenId) (\<lambda>feeB.
             Ret (tokenAmount \<le> amountB \<and> feeAmount \<le> feeB))))"

definition InitVMConfig :: "bool \<Rightarrow> bool \<Rightarrow> vmConfig" where
  "InitVMConfig isTest isQuotaTestParam =
     \<lparr>vc_canTransfer = (if isTest then (\<lambda>_ _ _ _ _. Ret True) else canTransfer),
      vc_quotaConfig = InitQuotaConfig isTest isQuotaTestParam\<rparr>"

subsection \<open>Helpers\<close>

text \<open>A price, possibly an error, taken from the quota.\<close>

definition payQuota :: "u64 \<Rightarrow> vm_error + u64 \<Rightarrow> vm_error + u64" where
  "payQuota quotaLeft cost =
     (case cost of
        Inl err \<Rightarrow> Inl err
      | Inr c \<Rightarrow> (case UseQuota quotaLeft c of (q, None) \<Rightarrow> Inr q | (_, Some err) \<Rightarrow> Inl err))"

definition calcContractFee :: "bytes \<Rightarrow> vm_error + int" where
  "calcContractFee data = Inr createContractFee"

definition checkDepth :: "env \<Rightarrow> vmDb \<Rightarrow> AccountBlock \<Rightarrow> bool go" where
  "checkDepth env db sendBlock =
     go_bind (DealWithErr (vdb_GetCallDepth (e_chain env) db (ab_Hash sendBlock))) (\<lambda>depth. Ret (depth \<ge> callDepth))"

definition getStakeBeneficialAmount :: "env \<Rightarrow> vmDb \<Rightarrow> int go" where
  "getStakeBeneficialAmount env db =
     (if vdb_latestSnapshotBlockHash db = None
      then DealWithErr (vdb_GetStakeBeneficialAmount (e_chain env) db ZERO_ADDRESS)
      else go_bind (derefAddress db) (\<lambda>a. DealWithErr (vdb_GetStakeBeneficialAmount (e_chain env) db a)))"

definition useQuotaForSend :: "env \<Rightarrow> AccountBlock \<Rightarrow> vmDb \<Rightarrow> u64 \<Rightarrow> QuotaTable \<Rightarrow> (vm_error + u64) go" where
  "useQuotaForSend env block db quotaLeft gasTable =
     (case gasSendCall block gasTable of
        Inl err \<Rightarrow> Ret (Inl err)
      | Inr cost \<Rightarrow>
          go_bind (getQuotaMultiplierForS env db (ab_ToAddress block)) (\<lambda>m.
            case m of
              Inl err \<Rightarrow> Ret (Inl err)
            | Inr quotaMultiplier \<Rightarrow> Ret (payQuota quotaLeft (MultipleCost cost quotaMultiplier))))"

definition getContractMeta :: "env \<Rightarrow> vmDb \<Rightarrow> ContractMeta option go" where
  "getContractMeta env db =
     go_bind (derefAddress db) (\<lambda>a.
       if \<not> IsContractAddr a then Ret None
       else go_bind (DealWithErr (vdb_GetContractMeta (e_chain env) db)) (\<lambda>meta.
              if meta = None then Panics (PanicErr ErrContractNotExists) else Ret meta))"

definition quotaForBlock :: "env \<Rightarrow> vmConfig \<Rightarrow> vmDb \<Rightarrow> AccountBlock \<Rightarrow> u64 \<Rightarrow> (vm_error + u64 \<times> u64) go" where
  "quotaForBlock env cfg db block sbHeight =
     go_bind (getStakeBeneficialAmount env db) (\<lambda>amount.
       GetQuotaForBlock (e_upgrade env) (vc_quotaConfig cfg) (e_chain env) (ab_AccountAddress block) (Some amount)
         (ab_Difficulty block) sbHeight)"

definition updateBlock :: "env \<Rightarrow> vmDb \<Rightarrow> AccountBlock \<Rightarrow> vm_error option \<Rightarrow> u64 \<times> u64 \<Rightarrow> AccountBlock go" where
  "updateBlock env db block err q =
     (let block = ab_map (\<lambda>b. b\<lparr>f_Quota := fst q, f_QuotaUsed := snd q\<rparr>) block
      in if IsReceiveBlock (ab_BlockType block)
         then go_bind (vdb_GetLogListHash (e_crypto env) (e_upgrade env) (e_chain env) db) (\<lambda>h.
                Ret (ab_map (\<lambda>b. b\<lparr>f_LogHash := h,
                  f_BlockType := (if err = Some ErrOutOfQuota then BlockTypeReceiveError else BlockTypeReceive)\<rparr>) block))
         else Ret block)"

definition resultSuccess :: byte where "resultSuccess = 0"
definition resultFail :: byte where "resultFail = 1"
definition resultDepthErr :: byte where "resultDepthErr = 2"

text \<open>\<open>block.Data = getReceiveCallData(db, err)\<close>; reading the receipt hash fills a cache of the database.\<close>

definition getReceiveCallData :: "env \<Rightarrow> vmDb \<Rightarrow> vm_error option \<Rightarrow> (vmDb \<times> bytes) go" where
  "getReceiveCallData env db err =
     go_bind (vdb_GetReceiptHash (e_crypto env) db) (\<lambda>(db', h).
       Ret (db', h @ [if err = None then resultSuccess else if err = Some ErrDepth then resultDepthErr else resultFail]))"

definition setData :: "bytes \<Rightarrow> AccountBlock \<Rightarrow> AccountBlock" where
  "setData d block = ab_map (\<lambda>b. b\<lparr>f_Data := d\<rparr>) block"

definition setFee :: "int \<Rightarrow> AccountBlock \<Rightarrow> AccountBlock" where
  "setFee fee block = ab_map (\<lambda>b. b\<lparr>f_Fee := fee\<rparr>) block"

definition mergeReceiveBlock :: "AccountBlock \<Rightarrow> AccountBlock list \<Rightarrow> AccountBlock" where
  "mergeReceiveBlock receiveBlock sendBlockList = AccountBlock (ab_fields receiveBlock) sendBlockList"

subsection \<open>Send blocks\<close>

type_synonym sendResult = "vmDb \<times> (vm_error + AccountBlock)"

text \<open>Two debits: the amount, and the fee in VITE.\<close>

definition debit :: "env \<Rightarrow> vmDb \<Rightarrow> TokenTypeId \<Rightarrow> int \<Rightarrow> (vmDb \<Rightarrow> sendResult go) \<Rightarrow> sendResult go" where
  "debit env db tokenId amount k =
     go_bind (SubBalance (e_chain env) db tokenId amount) (\<lambda>(db, ok).
       if ok then k db else Ret (db, Inl ErrInsufficientBalance))"

definition finishSend ::
    "env \<Rightarrow> vmDb \<Rightarrow> AccountBlock \<Rightarrow> bool \<Rightarrow> u64 \<Rightarrow> u64 \<Rightarrow> u64 \<Rightarrow> sendResult go" where
  "finishSend env db block useQuota quotaTotal quotaAddition quotaLeft =
     go_bind (updateBlock env db block None (CalcQuotaUsed useQuota quotaTotal quotaAddition quotaLeft None)) (\<lambda>block.
       Ret (db, Inr block))"

text \<open>The checks of the parameters of a create request: the metadata of the new contract.\<close>

definition checkCreateData :: "env \<Rightarrow> VM \<Rightarrow> bytes \<Rightarrow> (vm_error + ContractMeta) go" where
  "checkCreateData env vm data =
     (let isSeedFork = IsSeedUpgrade (e_upgrade env) (vm_latestSnapshotHeight vm)
      in if length data < (if isSeedFork then CreateContractDataLengthMinRand else CreateContractDataLengthMin)
         then Ret (Inl ErrInvalidMethodParam)
         else
           go_bind (GetGidFromCreateContractData data) (\<lambda>gid.
           if gid = SNAPSHOT_GID then Ret (Inl ErrInvalidMethodParam) else
           go_bind (GetContractTypeFromCreateContractData data) (\<lambda>contractType.
           if \<not> IsExistContractType contractType then Ret (Inl ErrInvalidMethodParam) else
           go_bind (GetSnapshotCountFromCreateContractData data) (\<lambda>snapshotCount.
           if snapshotCount < snapshotCountMin \<or> snapshotCount > snapshotCountMax then Ret (Inl ErrInvalidResponseLatency) else
           go_bind (GetQuotaMultiplierFromCreateContractData (e_upgrade env) data (vm_latestSnapshotHeight vm)) (\<lambda>quotaMultiplier.
           if quotaMultiplier < 10 \<or> quotaMultiplier > 100 then Ret (Inl ErrInvalidQuotaMultiplier) else
           let meta = (\<lambda>n. \<lparr>cm_Gid = gid, cm_SendConfirmedTimes = snapshotCount, cm_CreateBlockHash = ZERO_HASH,
                 cm_QuotaRatio = quotaMultiplier, cm_SeedConfirmedTimes = n\<rparr>);
               getCode = GetCodeFromCreateContractData (e_upgrade env) data (vm_latestSnapshotHeight vm)
           in if \<not> isSeedFork
              then go_bind (go_bind getCode ContainsStatusCode) (\<lambda>b.
                     if b \<and> snapshotCount \<le> 0 then Ret (Inl ErrInvalidResponseLatency) else Ret (Inr (meta snapshotCount)))
              else go_bind (GetSnapshotWithSeedCountCountFromCreateContractData data) (\<lambda>snapshotWithSeedCount.
                     if snapshotWithSeedCount < snapshotWithSeedCountMin \<or> snapshotWithSeedCount > snapshotWithSeedCountMax \<or>
                        snapshotCount < snapshotWithSeedCount
                     then Ret (Inl ErrInvalidRandomDegree)
                     else go_bind (go_bind getCode ContainsCertainStatusCode) (\<lambda>(requireSnapshot, requireSnapshotWithSeed).
                            if requireSnapshot \<and> snapshotCount \<le> 0 then Ret (Inl ErrInvalidResponseLatency)
                            else if requireSnapshotWithSeed \<and> snapshotWithSeedCount \<le> 0 then Ret (Inl ErrInvalidRandomDegree)
                            else Ret (Inr (meta snapshotWithSeedCount)))))))))"

definition sendCreate ::
    "env \<Rightarrow> vmConfig \<Rightarrow> VM \<Rightarrow> vmDb \<Rightarrow> AccountBlock \<Rightarrow> bool \<Rightarrow> u64 \<Rightarrow> u64 \<Rightarrow> sendResult go" where
  "sendCreate env cfg vm db block useQuota quotaTotal quotaAddition =
     (case (if useQuota then payQuota quotaTotal (gasSendCreate block (vm_gasTable vm)) else Inr quotaTotal) of
        Inl err \<Rightarrow> Ret (db, Inl err)
      | Inr quotaLeft \<Rightarrow>
          go_bind (checkCreateData env vm (ab_Data block)) (\<lambda>r.
          case r of
            Inl err \<Rightarrow> Ret (db, Inl err)
          | Inr meta \<Rightarrow>
              (case calcContractFee (ab_Data block) of
                 Inl err \<Rightarrow> Ret (db, Inl err)
               | Inr fee \<Rightarrow>
                   let block = setFee fee block
                   in go_bind (vc_canTransfer cfg (e_chain env) db (ab_TokenId block) (ab_Amount block) (ab_Fee block)) (\<lambda>can.
                      if \<not> can then Ret (db, Inl ErrInsufficientBalance)
                      else
                        let contractAddr = NewContractAddress (e_crypto env) (ab_AccountAddress block) (ab_Height block) (ab_PrevHash block);
                            block = ab_map (\<lambda>b. b\<lparr>f_ToAddress := contractAddr\<rparr>) block
                        in debit env db (ab_TokenId block) (ab_Amount block) (\<lambda>db.
                           debit env db ViteTokenId (ab_Fee block) (\<lambda>db.
                           go_bind (finishSend env db block useQuota quotaTotal quotaAddition quotaLeft) (\<lambda>(db, r).
                             Ret (vdb_SetContractMeta contractAddr meta db, r))))))))"

definition sendCall ::
    "env \<Rightarrow> vmConfig \<Rightarrow> VM \<Rightarrow> vmDb \<Rightarrow> AccountBlock \<Rightarrow> bool \<Rightarrow> u64 \<Rightarrow> u64 \<Rightarrow> sendResult go" where
  "sendCall env cfg vm db block useQuota quotaTotal quotaAddition =
     (case e_GetBuiltinContractMethod env (ab_ToAddress block) (ab_Data block) (vm_latestSnapshotHeight vm) of
        Some (Inl err) \<Rightarrow> Ret (db, Inl err)
      | Some (Inr p) \<Rightarrow>
          (case GetFee p block of
             Inl err \<Rightarrow> Ret (db, Inl err)
           | Inr fee \<Rightarrow>
               let block = setFee fee block
               in go_bind (vc_canTransfer cfg (e_chain env) db (ab_TokenId block) (ab_Amount block) (ab_Fee block)) (\<lambda>can.
                  if \<not> can then Ret (db, Inl ErrInsufficientBalance)
                  else
                    case (if useQuota then payQuota quotaTotal (GetSendQuota p (ab_Data block) (vm_gasTable vm)) else Inr quotaTotal) of
                      Inl err \<Rightarrow> Ret (db, Inl err)
                    | Inr quotaLeft \<Rightarrow>
                        go_bind (DoSend p db block) (\<lambda>(db, block, err).
                        case err of
                          Some err \<Rightarrow> Ret (db, Inl err)
                        | None \<Rightarrow>
                            debit env db (ab_TokenId block) (ab_Amount block) (\<lambda>db.
                            debit env db ViteTokenId (ab_Fee block) (\<lambda>db.
                              finishSend env db block useQuota quotaTotal quotaAddition quotaLeft)))))
      | None \<Rightarrow>
          let block = setFee 0 block
          in go_bind (if useQuota then useQuotaForSend env block db quotaTotal (vm_gasTable vm) else Ret (Inr quotaTotal)) (\<lambda>q.
             case q of
               Inl err \<Rightarrow> Ret (db, Inl err)
             | Inr quotaLeft \<Rightarrow>
                 go_bind (vc_canTransfer cfg (e_chain env) db (ab_TokenId block) (ab_Amount block) (ab_Fee block)) (\<lambda>can.
                   if \<not> can then Ret (db, Inl ErrInsufficientBalance)
                   else debit env db (ab_TokenId block) (ab_Amount block) (\<lambda>db.
                          finishSend env db block useQuota quotaTotal quotaAddition quotaLeft))))"

definition sendReward ::
    "env \<Rightarrow> VM \<Rightarrow> vmDb \<Rightarrow> AccountBlock \<Rightarrow> bool \<Rightarrow> u64 \<Rightarrow> u64 \<Rightarrow> sendResult go" where
  "sendReward env vm db block useQuota quotaTotal quotaAddition =
     go_bind (if useQuota then useQuotaForSend env block db quotaTotal (vm_gasTable vm) else Ret (Inr quotaTotal)) (\<lambda>q.
       case q of
         Inl err \<Rightarrow> Ret (db, Inl err)
       | Inr quotaLeft \<Rightarrow>
           if ab_AccountAddress block \<noteq> AddressGovernance \<and> ab_AccountAddress block \<noteq> AddressAsset
           then Ret (db, Inl ErrInvalidMethodParam)
           else finishSend env db block useQuota quotaTotal quotaAddition quotaLeft)"

definition sendRefund ::
    "env \<Rightarrow> vmConfig \<Rightarrow> VM \<Rightarrow> vmDb \<Rightarrow> AccountBlock \<Rightarrow> bool \<Rightarrow> u64 \<Rightarrow> u64 \<Rightarrow> sendResult go" where
  "sendRefund env cfg vm db block useQuota quotaTotal quotaAddition =
     (let block = setFee 0 block
      in go_bind (if useQuota then useQuotaForSend env block db quotaTotal (vm_gasTable vm) else Ret (Inr quotaTotal)) (\<lambda>q.
         case q of
           Inl err \<Rightarrow> Ret (db, Inl err)
         | Inr quotaLeft \<Rightarrow>
             go_bind (vc_canTransfer cfg (e_chain env) db (ab_TokenId block) (ab_Amount block) (ab_Fee block)) (\<lambda>can.
               if \<not> can then Ret (db, Inl ErrInsufficientBalance)
               else debit env db (ab_TokenId block) (ab_Amount block) (\<lambda>db.
                      finishSend env db block useQuota quotaTotal quotaAddition quotaLeft))))"

text \<open>The blocks a receive block sends, one after the other; a block of another type has no result to read.\<close>

definition doSendBlock :: "env \<Rightarrow> vmConfig \<Rightarrow> VM \<Rightarrow> vmDb \<Rightarrow> AccountBlock \<Rightarrow> sendResult go" where
  "doSendBlock env cfg vm db block =
     (if ab_BlockType block = BlockTypeSendCall then sendCall env cfg vm db block False 0 0
      else if ab_BlockType block = BlockTypeSendReward then sendReward env vm db block False 0 0
      else if ab_BlockType block = BlockTypeSendRefund then sendRefund env cfg vm db block False 0 0
      else Panics PanicNil)"

fun doSendBlocks :: "env \<Rightarrow> vmConfig \<Rightarrow> VM \<Rightarrow> vmDb \<Rightarrow> AccountBlock list \<Rightarrow> (vmDb \<times> (vm_error + AccountBlock list)) go" where
  "doSendBlocks env cfg vm db [] = Ret (db, Inr [])"
| "doSendBlocks env cfg vm db (block # blocks) =
     go_bind (doSendBlock env cfg vm db block) (\<lambda>(db, r).
       case r of
         Inl err \<Rightarrow> Ret (db, Inl err)
       | Inr sent \<Rightarrow>
           go_bind (doSendBlocks env cfg vm db blocks) (\<lambda>(db, r).
             Ret (db, case r of Inl err \<Rightarrow> Inl err | Inr sents \<Rightarrow> Inr (sent # sents))))"

definition doSendBlockList :: "env \<Rightarrow> vmConfig \<Rightarrow> VM \<Rightarrow> vmDb \<Rightarrow> (vmDb \<times> (vm_error + AccountBlock list)) go" where
  "doSendBlockList env cfg vm db = doSendBlocks env cfg vm db (vm_sendBlockList vm)"

subsection \<open>Receive blocks\<close>

type_synonym vmResult = "vmDb \<times> AccountBlock option \<times> bool \<times> vm_error option"

text \<open>Sequencing after a run of the interpreter.\<close>

definition after_run :: "'a go option \<Rightarrow> ('a \<Rightarrow> 'b go) \<Rightarrow> 'b go option" where
  "after_run m k = map_option (\<lambda>r. go_bind r k) m"

definition revert :: "VM \<Rightarrow> vmDb \<Rightarrow> (VM \<times> vmDb) go" where
  "revert vm db = go_bind (vdb_Reset db) (\<lambda>db. Ret (vm\<lparr>vm_sendBlockList := []\<rparr>, db))"

text \<open>\<open>vm.vmContext.AppendBlock(util.MakeRequestBlock(...))\<close> and the credit that the block will take away again.\<close>

definition refundBlock ::
    "env \<Rightarrow> VM \<Rightarrow> vmDb \<Rightarrow> AccountBlock \<Rightarrow> AccountBlock \<Rightarrow> byte \<Rightarrow> int \<Rightarrow> TokenTypeId \<Rightarrow> bytes \<Rightarrow> (VM \<times> vmDb) go" where
  "refundBlock env vm db block sendBlock blockType amount tokenId data =
     go_bind (AddBalance (e_chain env) db tokenId amount) (\<lambda>db.
       Ret (AppendBlock (MakeRequestBlock (ab_AccountAddress block) (ab_AccountAddress sendBlock) blockType amount tokenId data) vm, db))"

definition doRefund ::
    "env \<Rightarrow> VM \<Rightarrow> vmDb \<Rightarrow> AccountBlock \<Rightarrow> AccountBlock \<Rightarrow> bytes \<Rightarrow> bool \<Rightarrow> byte \<Rightarrow> (VM \<times> vmDb \<times> bool) go" where
  "doRefund env vm db block sendBlock refundData needRefund refundBlockType =
     (let refund = (\<lambda>amount tokenId (vm, db). refundBlock env vm db block sendBlock refundBlockType amount tokenId refundData)
      in go_bind
           (if 0 < ab_Amount sendBlock \<and> 0 < ab_Fee sendBlock \<and> ab_TokenId sendBlock = ViteTokenId
            then go_bind (refund (ab_Amount sendBlock + ab_Fee sendBlock) ViteTokenId (vm, db)) (\<lambda>s. Ret (s, True))
            else
              go_bind (if 0 < ab_Amount sendBlock
                       then go_bind (refund (ab_Amount sendBlock) (ab_TokenId sendBlock) (vm, db)) (\<lambda>s. Ret (s, True))
                       else Ret ((vm, db), False)) (\<lambda>(s, refundFlag).
              if 0 < ab_Fee sendBlock then go_bind (refund (ab_Fee sendBlock) ViteTokenId s) (\<lambda>s. Ret (s, True))
              else Ret (s, refundFlag)))
           (\<lambda>((vm, db), refundFlag).
              if \<not> refundFlag \<and> needRefund
              then Ret (AppendBlock (MakeRequestBlock (ab_AccountAddress block) (ab_AccountAddress sendBlock) BlockTypeSendCall 0
                          ViteTokenId refundData) vm, db, True)
              else Ret (vm, db, refundFlag)))"

text \<open>The end of a receive block: its data and the blocks it sent.\<close>

definition finishReceive :: "env \<Rightarrow> vmDb \<Rightarrow> AccountBlock \<Rightarrow> AccountBlock list option \<Rightarrow> vm_error option \<Rightarrow> vmResult go" where
  "finishReceive env db block sents err =
     go_bind (getReceiveCallData env db err) (\<lambda>(db, d).
       let block = setData d block
       in Ret (db, Some (case sents of None \<Rightarrow> block | Some bs \<Rightarrow> mergeReceiveBlock block bs), noRetry, err))"

text \<open>The refund after an error has been decided: send the refund blocks or finish without.\<close>

definition sendRefunds :: "env \<Rightarrow> vmConfig \<Rightarrow> VM \<Rightarrow> vmDb \<Rightarrow> AccountBlock \<Rightarrow> bool \<Rightarrow> vm_error option \<Rightarrow> vmResult go" where
  "sendRefunds env cfg vm db block refundFlag err =
     (if refundFlag
      then go_bind (doSendBlockList env cfg vm db) (\<lambda>(db, r).
             case r of
               Inl refundErr \<Rightarrow> Ret (db, None, retry, err)
             | Inr sents \<Rightarrow> finishReceive env db block (Some sents) err)
      else finishReceive env db block None err)"

definition createRefund ::
    "env \<Rightarrow> vmConfig \<Rightarrow> VM \<Rightarrow> vmDb \<Rightarrow> AccountBlock \<Rightarrow> AccountBlock \<Rightarrow> vm_error option \<Rightarrow> vmResult go" where
  "createRefund env cfg vm db block sendBlock err =
     go_bind (revert vm db) (\<lambda>(vm, db).
     go_bind (updateBlock env db block err (0, 0)) (\<lambda>block.
       if 0 < ab_Amount sendBlock
       then go_bind (refundBlock env vm db block sendBlock BlockTypeSendRefund (ab_Amount sendBlock) (ab_TokenId sendBlock) []) (\<lambda>(vm, db).
              sendRefunds env cfg vm db block True err)
       else finishReceive env db block None err))"

text \<open>What follows the run of the init code.\<close>

definition createFinish ::
    "env \<Rightarrow> vmConfig \<Rightarrow> AccountBlock \<Rightarrow> AccountBlock \<Rightarrow> frame \<times> bytes \<times> vm_error option \<Rightarrow> vmResult go" where
  "createFinish env cfg block sendBlock r =
     (case r of (f, code, err) \<Rightarrow>
        let vm = f_vm f; db = c_db (f_c f)
        in if err = None \<and> length code \<le> maxCodeSize
           then
             go_bind (GetContractTypeFromCreateContractData (ab_Data sendBlock)) (\<lambda>contractType.
             let packed = PackContractCode contractType code;
                 codeCost = u64_len packed * CodeQuota (vm_gasTable vm)
             in case UseQuota (c_quotaLeft (f_c f)) codeCost of
                  (_, Some err) \<Rightarrow> createRefund env cfg vm db block sendBlock (Some err)
                | (_, None) \<Rightarrow>
                    let db = vdb_SetContractCode packed db
                    in go_bind (updateBlock env db block None (0, 0)) (\<lambda>block.
                       go_bind (doSendBlockList env cfg vm db) (\<lambda>(db, r).
                       case r of
                         Inl err \<Rightarrow> createRefund env cfg vm db block sendBlock (Some err)
                       | Inr sents \<Rightarrow> finishReceive env db block (Some sents) None)))
           else
             let err = (if err = None \<and> length code > maxCodeSize \<and> IsEarthUpgrade (e_upgrade env) (vm_latestSnapshotHeight vm)
                        then Some ErrInvalidCodeLength else err)
             in createRefund env cfg vm db block sendBlock err)"

definition receiveCreate ::
    "env \<Rightarrow> vmConfig \<Rightarrow> VM \<Rightarrow> vmDb \<Rightarrow> AccountBlock \<Rightarrow> AccountBlock \<Rightarrow> ContractMeta option \<Rightarrow> vmResult go option" where
  "receiveCreate env cfg vm db block sendBlock meta =
     (case DealWithErr (vdb_PrevAccountBlock (e_chain env) db) of
        Panics p \<Rightarrow> Some (Panics p)
      | Ret prev \<Rightarrow>
          if prev \<noteq> None then Some (Ret (db, None, noRetry, Some ErrAddressCollision))
          else
            case payQuota QuotaForCreateContractResponse (gasReceiveCreate block meta (vm_gasTable vm)) of
              Inl err \<Rightarrow> Some (Ret (db, None, noRetry, Some err))
            | Inr quotaLeft \<Rightarrow>
                (case go_bind (AddBalance (e_chain env) db (ab_TokenId sendBlock) (ab_Amount sendBlock)) (\<lambda>db.
                      go_bind (GetCodeFromCreateContractData (e_upgrade env) (ab_Data sendBlock) (vm_latestSnapshotHeight vm)) (\<lambda>initCode.
                        Ret (db, initCode))) of
                   Panics p \<Rightarrow> Some (Panics p)
                 | Ret (db, initCode) \<Rightarrow>
                     let c = setCallCode (ab_AccountAddress block) initCode (newContract block db sendBlock initCode quotaLeft)
                     in after_run (run env vm c) (createFinish env cfg block sendBlock)))"

text \<open>A call of a built-in contract.\<close>

definition receiveBuiltin ::
    "env \<Rightarrow> vmConfig \<Rightarrow> VM \<Rightarrow> vmDb \<Rightarrow> AccountBlock \<Rightarrow> AccountBlock \<Rightarrow> BuiltinContractMethod \<Rightarrow> vmResult go" where
  "receiveBuiltin env cfg vm db block sendBlock p =
     (let quotaUsed = GetReceiveQuota p (vm_gasTable vm);
          deliver =
            go_bind (AddBalance (e_chain env) db (ab_TokenId sendBlock) (ab_Amount sendBlock)) (\<lambda>db.
            let fail = (\<lambda>db err.
                  go_bind (revert vm db) (\<lambda>(vm, db).
                  let (refundData, needRefund) = GetRefundData p sendBlock (vm_latestSnapshotHeight vm)
                  in go_bind (doRefund env vm db block sendBlock refundData needRefund BlockTypeSendCall) (\<lambda>(vm, db, refundFlag).
                     go_bind (updateBlock env db block (Some err) (quotaUsed, quotaUsed)) (\<lambda>block.
                       sendRefunds env cfg vm db block refundFlag (Some err)))))
            in go_bind (DoReceive p db block sendBlock vm) (\<lambda>(db, r).
               case r of
                 Inl err \<Rightarrow> fail db err
               | Inr blockListToSend \<Rightarrow>
                   go_bind (updateBlock env db block None (quotaUsed, quotaUsed)) (\<lambda>block.
                   go_bind (doSendBlockList env cfg (vm\<lparr>vm_sendBlockList := blockListToSend\<rparr>) db) (\<lambda>(db, r).
                   case r of
                     Inl err \<Rightarrow> fail db err
                   | Inr sents \<Rightarrow> finishReceive env db block (Some sents) None))))
      in if quotaUsed > 0
         then go_bind (quotaForBlock env cfg db block (vm_latestSnapshotHeight vm)) (\<lambda>q.
                case q of
                  Inl err \<Rightarrow> Ret (db, None, noRetry, Some err)
                | Inr (quotaTotal, _) \<Rightarrow>
                    (case UseQuota quotaTotal quotaUsed of
                       (_, Some err) \<Rightarrow> Ret (db, None, retry, Some err)
                     | (_, None) \<Rightarrow> deliver))
         else deliver)"

text \<open>What follows the run of the code of a contract.\<close>

definition callFail ::
    "env \<Rightarrow> vmConfig \<Rightarrow> VM \<Rightarrow> vmDb \<Rightarrow> AccountBlock \<Rightarrow> AccountBlock \<Rightarrow> u64 \<times> u64 \<Rightarrow> u64 \<Rightarrow> vm_error \<Rightarrow> vmResult go" where
  "callFail env cfg vm db block sendBlock q quotaLeft err =
     (if err = ErrNoReliableStatus then Ret (db, None, retry, Some err)
      else
        go_bind (revert vm db) (\<lambda>(vm, db).
        go_bind (if err = ErrOutOfQuota
                 then go_bind (derefAddress db) (\<lambda>self. Ret (length (chain_GetUnconfirmedBlocks (e_chain env) self) > 0))
                 else Ret False) (\<lambda>unconfirmed.
          if unconfirmed then Ret (db, None, retry, Some err)
          else
            go_bind (doRefund env vm db block sendBlock [] False BlockTypeSendRefund) (\<lambda>(vm, db, refundFlag).
            go_bind (updateBlock env db block (Some err) (CalcQuotaUsed True (fst q) (snd q) quotaLeft (Some err))) (\<lambda>block.
              sendRefunds env cfg vm db block refundFlag (Some err))))))"

definition callFinish ::
    "env \<Rightarrow> vmConfig \<Rightarrow> AccountBlock \<Rightarrow> AccountBlock \<Rightarrow> u64 \<times> u64 \<Rightarrow> frame \<times> bytes \<times> vm_error option \<Rightarrow> vmResult go" where
  "callFinish env cfg block sendBlock q r =
     (case r of (f, _, err) \<Rightarrow>
        let vm = f_vm f; db = c_db (f_c f); quotaLeft = c_quotaLeft (f_c f)
        in case err of
             Some err \<Rightarrow> callFail env cfg vm db block sendBlock q quotaLeft err
           | None \<Rightarrow>
               go_bind (updateBlock env db block None (CalcQuotaUsed True (fst q) (snd q) quotaLeft None)) (\<lambda>block.
               go_bind (doSendBlockList env cfg vm db) (\<lambda>(db, r).
               case r of
                 Inl err \<Rightarrow> callFail env cfg vm db block sendBlock q quotaLeft err
               | Inr sents \<Rightarrow> finishReceive env db block (Some sents) None)))"

text \<open>The price of a receive block: the quota of the account and what is left of it.\<close>

definition chargeReceive ::
    "env \<Rightarrow> vmConfig \<Rightarrow> VM \<Rightarrow> vmDb \<Rightarrow> AccountBlock \<Rightarrow> ContractMeta option \<Rightarrow> (bool \<times> vm_error + (u64 \<times> u64) \<times> u64) go" where
  "chargeReceive env cfg vm db block meta =
     go_bind (go_bind (quotaForBlock env cfg db block (vm_latestSnapshotHeight vm)) DealWithErr) (\<lambda>(quotaTotal, quotaAddition).
       case gasReceive block meta (vm_gasTable vm) of
         Inl err \<Rightarrow> Ret (Inl (noRetry, err))
       | Inr cost \<Rightarrow>
           (case UseQuota quotaTotal cost of
              (_, Some err) \<Rightarrow> Ret (Inl (retry, err))
            | (quotaLeft, None) \<Rightarrow> Ret (Inr ((quotaTotal, quotaAddition), quotaLeft))))"

definition receiveTransfer ::
    "env \<Rightarrow> vmDb \<Rightarrow> AccountBlock \<Rightarrow> AccountBlock \<Rightarrow> u64 \<times> u64 \<Rightarrow> u64 \<Rightarrow> vmResult go" where
  "receiveTransfer env db block sendBlock q quotaLeft =
     go_bind (AddBalance (e_chain env) db (ab_TokenId sendBlock) (ab_Amount sendBlock)) (\<lambda>db.
     go_bind (updateBlock env db block None (CalcQuotaUsed True (fst q) (snd q) quotaLeft None)) (\<lambda>block.
       Ret (db, Some block, noRetry, None)))"

definition receiveCall ::
    "env \<Rightarrow> vmConfig \<Rightarrow> VM \<Rightarrow> vmDb \<Rightarrow> AccountBlock \<Rightarrow> AccountBlock \<Rightarrow> ContractMeta option \<Rightarrow> vmResult go option" where
  "receiveCall env cfg vm db block sendBlock meta =
     (case checkDepth env db sendBlock of
        Panics p \<Rightarrow> Some (Panics p)
      | Ret True \<Rightarrow>
          Some (go_bind (AddBalance (e_chain env) db (ab_TokenId sendBlock) (ab_Amount sendBlock)) (\<lambda>db.
                go_bind (getReceiveCallData env db (Some ErrDepth)) (\<lambda>(db, d).
                go_bind (updateBlock env db (setData d block) (Some ErrDepth) (0, 0)) (\<lambda>block.
                  Ret (db, Some block, noRetry, Some ErrDepth)))))
      | Ret False \<Rightarrow>
          (case e_GetBuiltinContractMethod env (ab_AccountAddress block) (ab_Data sendBlock) (vm_latestSnapshotHeight vm) of
             Some (Inl _) \<Rightarrow> Some (Panics PanicNil)
           | Some (Inr p) \<Rightarrow> Some (receiveBuiltin env cfg vm db block sendBlock p)
           | None \<Rightarrow>
               (case chargeReceive env cfg vm db block meta of
                  Panics p \<Rightarrow> Some (Panics p)
                | Ret (Inl (isRetry, err)) \<Rightarrow> Some (Ret (db, None, isRetry, Some err))
                | Ret (Inr (q, quotaLeft)) \<Rightarrow>
                    if meta = None then Some (receiveTransfer env db block sendBlock q quotaLeft)
                    else
                      case go_bind (AddBalance (e_chain env) db (ab_TokenId sendBlock) (ab_Amount sendBlock)) (\<lambda>db.
                           go_bind (util_GetContractCode (e_chain env) db (ab_AccountAddress block) None) (\<lambda>(_, code). Ret (db, code))) of
                        Panics p \<Rightarrow> Some (Panics p)
                      | Ret (db, code) \<Rightarrow>
                          let c = setCallCode (ab_AccountAddress block) code (newContract block db sendBlock (ab_Data sendBlock) quotaLeft)
                          in after_run (run env vm c) (callFinish env cfg block sendBlock q))))"

definition receiveReward ::
    "env \<Rightarrow> vmConfig \<Rightarrow> VM \<Rightarrow> vmDb \<Rightarrow> AccountBlock \<Rightarrow> AccountBlock \<Rightarrow> ContractMeta option \<Rightarrow> vmResult go" where
  "receiveReward env cfg vm db block sendBlock meta =
     go_bind (if \<not> IsBuiltinContractAddrInUse (ab_AccountAddress block) then chargeReceive env cfg vm db block meta
              else Ret (Inr ((0, 0), 0))) (\<lambda>r.
       case r of
         Inl (isRetry, err) \<Rightarrow> Ret (db, None, isRetry, Some err)
       | Inr (q, quotaLeft) \<Rightarrow> receiveTransfer env db block sendBlock q quotaLeft)"

definition receiveRefund ::
    "env \<Rightarrow> vmConfig \<Rightarrow> VM \<Rightarrow> vmDb \<Rightarrow> AccountBlock \<Rightarrow> AccountBlock \<Rightarrow> ContractMeta option \<Rightarrow> vmResult go" where
  "receiveRefund env cfg vm db block sendBlock meta =
     go_bind (chargeReceive env cfg vm db block meta) (\<lambda>r.
       case r of
         Inl (isRetry, err) \<Rightarrow> Ret (db, None, isRetry, Some err)
       | Inr (q, quotaLeft) \<Rightarrow> receiveTransfer env db block sendBlock q quotaLeft)"

text \<open>\<open>delegateCall\<close> runs the other code on the data of the caller; its parameter \<open>data\<close> is not used.\<close>

definition delegateCall :: "env \<Rightarrow> VM \<Rightarrow> Address \<Rightarrow> bytes \<Rightarrow> contract \<Rightarrow> (VM \<times> contract \<times> bytes \<times> vm_error option) go option" where
  "delegateCall env vm contractAddr data c =
     (case (if vm_globalStatus vm = None \<and> vdb_address (c_db c) \<noteq> Some contractAddr then Panics PanicNil
            else util_GetContractCode (e_chain env) (c_db c) contractAddr (statusSnapshotBlock (vm_globalStatus vm))) of
        Panics p \<Rightarrow> Some (Panics p)
      | Ret (_, code) \<Rightarrow>
          if length code > 0
          then
            let cNew = setCallCode contractAddr code (newContract (c_block c) (c_db c) (c_sendBlock c) (c_data c) (c_quotaLeft c))
            in after_run (run env vm cNew) (\<lambda>(f, ret, err).
                 Ret (f_vm f, c\<lparr>c_quotaLeft := c_quotaLeft (f_c f), c_db := c_db (f_c f)\<rparr>, ret, err))
          else Some (Ret (vm, c, [], None)))"

definition opDelegateCall :: "env \<Rightarrow> frame \<Rightarrow> (frame \<times> bytes \<times> vm_error option) go option" where
  "opDelegateCall env f =
     (case popF f (\<lambda>addrBig f. popF f (\<lambda>inOffset f. popF f (\<lambda>inSize f. popF f (\<lambda>outOffset f. popF f (\<lambda>outSize f.
             go_bind (mem_get (f_mem f) (big_Int64 inOffset) (big_Int64 inSize)) (\<lambda>data.
               Ret (fst (BigToAddress addrBig), data, outOffset, outSize, f))))))) of
        Panics p \<Rightarrow> Some (Panics p)
      | Ret (contractAddress, data, outOffset, outSize, f) \<Rightarrow>
          after_run (delegateCall env (f_vm f) contractAddress data (f_c f)) (\<lambda>(vm, c, ret, err).
            go_bind (if err = None \<or> err = Some ErrExecutionReverted
                     then mem_set (big_Uint64 outOffset) (big_Uint64 outSize) ret (f_mem f) else Ret (f_mem f)) (\<lambda>m.
              Ret (pushF (if err \<noteq> None then 0 else 1) (f\<lparr>f_vm := vm, f_c := c, f_mem := m\<rparr>), ret, None))))"

subsection \<open>Entry points\<close>

definition RunV2Send :: "env \<Rightarrow> vmConfig \<Rightarrow> VM \<Rightarrow> vmDb \<Rightarrow> AccountBlock \<Rightarrow> vmResult go" where
  "RunV2Send env cfg vm db block =
     (if ab_BlockType block \<noteq> BlockTypeSendCreate \<and> ab_BlockType block \<noteq> BlockTypeSendCall
      then Ret (db, None, noRetry, Some ErrTransactionTypeNotSupport)
      else
        go_bind (quotaForBlock env cfg db block (vm_latestSnapshotHeight vm)) (\<lambda>q.
          case q of
            Inl err \<Rightarrow> Ret (db, None, noRetry, Some err)
          | Inr (quotaTotal, quotaAddition) \<Rightarrow>
              go_bind (if ab_BlockType block = BlockTypeSendCreate then sendCreate env cfg vm db block True quotaTotal quotaAddition
                       else sendCall env cfg vm db block True quotaTotal quotaAddition) (\<lambda>(db, r).
                Ret (case r of Inl err \<Rightarrow> (db, None, noRetry, Some err) | Inr block \<Rightarrow> (db, Some block, noRetry, None)))))"

definition RunV2Receive ::
    "env \<Rightarrow> vmConfig \<Rightarrow> VM \<Rightarrow> vmDb \<Rightarrow> AccountBlock \<Rightarrow> AccountBlock \<Rightarrow> vmResult go option" where
  "RunV2Receive env cfg vm db block sendBlock =
     (case getContractMeta env db of
        Panics p \<Rightarrow> Some (Panics p)
      | Ret contractMeta \<Rightarrow>
          if ab_BlockType sendBlock = BlockTypeSendCreate then receiveCreate env cfg vm db block sendBlock contractMeta
          else if ab_BlockType sendBlock = BlockTypeSendCall then receiveCall env cfg vm db block sendBlock contractMeta
          else if ab_BlockType sendBlock = BlockTypeSendReward
          then if \<not> IsSeedUpgrade (e_upgrade env) (vm_latestSnapshotHeight vm) then receiveCall env cfg vm db block sendBlock contractMeta
               else Some (receiveReward env cfg vm db block sendBlock contractMeta)
          else if ab_BlockType sendBlock = BlockTypeSendRefund then Some (receiveRefund env cfg vm db block sendBlock contractMeta)
          else Some (Ret (db, None, noRetry, Some ErrTransactionTypeNotSupport)))"

text \<open>The VM of \<open>NewVM\<close> with the fields that \<open>RunV2\<close> sets.\<close>

definition blockVM :: "env \<Rightarrow> SnapshotBlock \<Rightarrow> VMGlobalStatus option \<Rightarrow> VM" where
  "blockVM env sb status =
     \<lparr>vm_sendBlockList = [], vm_i = newInterpreter (e_upgrade env) (sb_Height sb) False, vm_globalStatus = status,
      vm_latestSnapshotHeight = sb_Height sb, vm_gasTable = QuotaTableByHeight (e_upgrade env) (sb_Height sb)\<rparr>"

text \<open>\<open>RunV2\<close>, with the deferred call of \<open>db.Finish\<close>.\<close>

definition RunV2 ::
    "env \<Rightarrow> vmConfig \<Rightarrow> vmDb \<Rightarrow> AccountBlock \<Rightarrow> AccountBlock \<Rightarrow> VMGlobalStatus option \<Rightarrow> vmResult go option" where
  "RunV2 env cfg db block sendBlock status =
     (case DealWithErr (vdb_LatestSnapshotBlock (e_chain env) db) of
        Panics p \<Rightarrow> Some (Panics p)
      | Ret sb \<Rightarrow>
          let vm = blockVM env sb status; blockCopy = Copy block
          in after_run
               (if IsSendBlock (ab_BlockType blockCopy) then Some (RunV2Send env cfg vm db blockCopy)
                else RunV2Receive env cfg vm db (setData [] blockCopy) sendBlock)
               (\<lambda>(db, result). go_bind (vdb_Finish db) (\<lambda>db. Ret (db, result))))"

text \<open>\<open>OffChainReader\<close>: the recovered panic is assigned to a variable of the deferred function, so the caller gets
  neither data nor an error.\<close>

definition OffChainReader :: "env \<Rightarrow> vmDb \<Rightarrow> bytes \<Rightarrow> bytes \<Rightarrow> (bytes \<times> vm_error option) option" where
  "OffChainReader env db code data =
     (case vdb_LatestSnapshotBlock (e_chain env) db of
        Inl err \<Rightarrow> Some ([], Some err)
      | Inr sb \<Rightarrow>
          (case vdb_address db of
             None \<Rightarrow> Some ([], None)
           | Some addr \<Rightarrow>
               let vm = (blockVM env sb None)\<lparr>vm_i := newInterpreter (e_upgrade env) (sb_Height sb) True, vm_latestSnapshotHeight := 0\<rparr>;
                   c = setCallCode addr code
                         (newContract (AccountBlock (zeroFields\<lparr>f_AccountAddress := addr\<rparr>) []) db
                           (AccountBlock (zeroFields\<lparr>f_ToAddress := addr\<rparr>) []) data offChainReaderGas)
               in map_option (\<lambda>r. case r of Panics p \<Rightarrow> ([], None) | Ret (_, ret, err) \<Rightarrow> (ret, err)) (run env vm c)))"

end
