(* ===== verification/Vm_Transfers.thy ===== *)
theory Vm_Transfers
  imports Vm_Blocks
begin

text \<open>
  What the execution of an account block does to balances.  The interface \<open>account\<close> states what a transaction
  needs of the database: a credit and a debit that change one balance, exactly.  Over it, the send operations take
  from the account what their blocks carry, a receive operation conserves the balances, a failed call is paid back
  and leaves no trace, and executing a block always comes to an end.

  The built-in contracts are a parameter.  \<open>builtins_ok\<close> says of their \<open>DoSend\<close> what all methods of vm/contracts do:
  they change no balance and none of the fields of the block that carry value.
\<close>

section \<open>Definitions\<close>

text \<open>The balances can be read: the account has an address and the ledger answers.\<close>

definition readable :: "Chain \<Rightarrow> vmDb \<Rightarrow> bool" where
  "readable chain db \<longleftrightarrow> (\<exists>a. vdb_address db = Some a \<and> (\<forall>t. \<exists>b. chain_GetBalance chain a t = Inr b))"

definition bal :: "Chain \<Rightarrow> vmDb \<Rightarrow> TokenTypeId \<Rightarrow> int" where
  "bal chain db t = (case util_GetBalance chain db t of Ret b \<Rightarrow> b | Panics _ \<Rightarrow> 0)"

text \<open>What a sent block carries away; a reward is issued, not transferred.\<close>

definition outflow :: "TokenTypeId \<Rightarrow> AccountBlock \<Rightarrow> int" where
  "outflow t b = (if ab_BlockType b = BlockTypeSendReward then 0
     else (if ab_TokenId b = t then ab_Amount b else 0) + (if t = ViteTokenId then ab_Fee b else 0))"

definition outflows :: "TokenTypeId \<Rightarrow> AccountBlock list \<Rightarrow> int" where
  "outflows t bs = sum_list (map (outflow t) bs)"

text \<open>What a failed call is paid back.\<close>

definition refunds :: "TokenTypeId \<Rightarrow> AccountBlock \<Rightarrow> int" where
  "refunds t sendBlock = (if ab_TokenId sendBlock = t then max 0 (ab_Amount sendBlock) else 0) +
     (if t = ViteTokenId then max 0 (ab_Fee sendBlock) else 0)"

definition builtins_ok :: "env \<Rightarrow> bool" where
  "builtins_ok env \<longleftrightarrow> (\<forall>addr data h p db block db' block' err.
     e_GetBuiltinContractMethod env addr data h = Some (Inr p) \<longrightarrow> DoSend p db block = Ret (db', block', err) \<longrightarrow>
     vdb_address db' = vdb_address db \<and>
     (err = None \<longrightarrow> balanceMap (vdb_uns db') = balanceMap (vdb_uns db) \<and> ab_BlockType block' = ab_BlockType block \<and>
        ab_TokenId block' = ab_TokenId block \<and> ab_Amount block' = ab_Amount block \<and> ab_Fee block' = ab_Fee block \<and>
        ab_ToAddress block' = ab_ToAddress block))"

subsection \<open>A contract and a call of it\<close>

definition demoAccount :: Address where "demoAccount = replicate 20 7 @ [1]"
definition demoSender :: Address where "demoSender = replicate 20 9 @ [0]"

definition demoEnv :: "bytes \<Rightarrow> env" where
  "demoEnv code = sampleEnv\<lparr>e_chain := emptyChain\<lparr>chain_GetContractCode := (\<lambda>_. Inr code), chain_GetBalance := (\<lambda>_ _. Inr 1000)\<rparr>\<rparr>"

definition demoDb :: vmDb where
  "demoDb = \<lparr>vdb_uns = NewUnsaved, vdb_address = Some demoAccount, vdb_isGenesis = False,
     vdb_latestSnapshotBlockHash = Some ZERO_HASH, vdb_prevAccountBlockHash = Some ZERO_HASH\<rparr>"

definition demoSend :: AccountBlock where
  "demoSend = AccountBlock (zeroFields\<lparr>f_BlockType := BlockTypeSendCall, f_AccountAddress := demoSender, f_ToAddress := demoAccount,
     f_TokenId := ViteTokenId, f_Amount := 300, f_Fee := 5\<rparr>) []"

definition demoReceive :: AccountBlock where
  "demoReceive = AccountBlock (zeroFields\<lparr>f_BlockType := BlockTypeReceive, f_AccountAddress := demoAccount, f_Height := 2\<rparr>) []"

definition demoMeta :: ContractMeta where
  "demoMeta = \<lparr>cm_Gid = DELEGATE_GID, cm_SendConfirmedTimes = 0, cm_CreateBlockHash = ZERO_HASH, cm_QuotaRatio = 10, cm_SeedConfirmedTimes = 0\<rparr>"

definition demoCfg :: vmConfig where
  "demoCfg = \<lparr>vc_canTransfer = canTransfer, vc_quotaConfig = \<lparr>difficultyList = [], stakeAmountList = [], qcIndexMin = 0,
     qcIndexMax = 0, qcMap = [], qcfg_isTest = True\<rparr>\<rparr>"

text \<open>A request to create a contract and a ledger in which its sender can pay for it.\<close>

definition createEnv :: env where
  "createEnv = (demoEnv [])\<lparr>e_upgrade := initFromArray [\<lparr>up_Name = ''SeedFork'', up_Height = 1, up_Version = 1\<rparr>]
       \<lparr>pointMap = [], heightMap = [], sortedPoints = []\<rparr>,
     e_chain := (e_chain (demoEnv []))\<lparr>chain_GetBalance := (\<lambda>_ _. Inr (25 * 10 ^ 18))\<rparr>\<rparr>"

definition createSend :: AccountBlock where
  "createSend = AccountBlock (zeroFields\<lparr>f_BlockType := BlockTypeSendCreate, f_AccountAddress := demoSender, f_TokenId := ViteTokenId,
     f_Amount := 7, f_Data := GetCreateContractData [0, 0] SolidityPPContractType 3 2 10 DELEGATE_GID\<rparr>) []"

text \<open>Byte code that no instruction set knows, after the byte of the contract type.\<close>

definition brokenCode :: bytes where "brokenCode = [1, 0xef]"

section \<open>The interface of an account\<close>

locale account =
  fixes ready :: "'s \<Rightarrow> bool"
    and balance :: "'s \<Rightarrow> 't \<Rightarrow> int"
    and credit :: "'t \<Rightarrow> int \<Rightarrow> 's \<Rightarrow> 's go"
    and take_out :: "'t \<Rightarrow> int \<Rightarrow> 's \<Rightarrow> ('s \<times> bool) go"
  assumes credit: "ready s \<Longrightarrow> \<exists>s'. credit t a s = Ret s' \<and> ready s' \<and>
      (\<forall>t'. balance s' t' = balance s t' + (if t' = t then a else 0))"
    and take_out: "ready s \<Longrightarrow> \<exists>s'. take_out t a s = Ret (s', a \<le> balance s t) \<and> ready s' \<and>
      (\<forall>t'. balance s' t' = balance s t' - (if t' = t \<and> a \<le> balance s t then a else 0))"
begin

lemma credit_Ret:
  assumes "ready s" "credit t a s = Ret s'"
  shows "ready s'" "balance s' t' = balance s t' + (if t' = t then a else 0)"
  using credit [OF assms(1), of t a] assms(2) by auto

lemma take_out_Ret:
  assumes "ready s" "take_out t a s = Ret (s', True)"
  shows "ready s'" "balance s' t' = balance s t' - (if t' = t then a else 0)" "a \<le> balance s t"
    "0 \<le> balance s t' \<Longrightarrow> 0 \<le> balance s' t'"
  using take_out [OF assms(1), of t a] assms(2) by auto

end

lemma readable_bal: "readable chain db \<Longrightarrow> util_GetBalance chain db t = Ret (bal chain db t)"
proof -
  assume "readable chain db"
  then obtain a where a: "vdb_address db = Some a" "\<forall>t. \<exists>b. chain_GetBalance chain a t = Inr b" by (auto simp: readable_def)
  then obtain b where "chain_GetBalance chain a t = Inr b" by blast
  with a(1) show ?thesis
    by (cases "uns_GetBalance (vdb_uns db) t") (simp_all add: bal_def util_GetBalance_def vdb_GetBalance_def derefAddress_def)
qed

lemma bal_SetBalance [simp]: "bal chain (vdb_SetBalance t b db) t' = (if t' = t then b else bal chain db t')"
  by (simp add: bal_def)

lemma readable_SetBalance [simp]: "readable chain (vdb_SetBalance t b db) = readable chain db"
  by (simp add: readable_def)

interpretation acct: account "readable chain" "bal chain" "\<lambda>t a db. AddBalance chain db t a" "\<lambda>t a db. SubBalance chain db t a"
  for chain
  by unfold_locales (auto simp: AddBalance_def SubBalance_def readable_bal)

text \<open>Databases that agree on their balances.\<close>

lemma same_balances:
  assumes "balanceMap (vdb_uns db') = balanceMap (vdb_uns db)" "vdb_address db' = vdb_address db"
  shows "bal chain db' = bal chain db" "readable chain db' = readable chain db"
proof -
  have "vdb_GetBalance chain db' t = vdb_GetBalance chain db t" for t
    using assms by (simp add: vdb_GetBalance_def uns_GetBalance_def derefAddress_def split: option.split)
  with assms(2) show "bal chain db' = bal chain db" "readable chain db' = readable chain db"
    by (simp_all add: bal_def util_GetBalance_def readable_def fun_eq_iff)
qed

lemma db_kept_balances:
  assumes "db_kept db db'"
  shows "bal chain db' = bal chain db" "readable chain db' = readable chain db" "vdb_address db' = vdb_address db"
proof -
  have "vdb_address db' = vdb_address db" using assms by (cases db; cases db') (auto simp: db_kept_def)
  with assms same_balances [of db' db] show "bal chain db' = bal chain db" "readable chain db' = readable chain db"
    "vdb_address db' = vdb_address db" by (auto simp: db_kept_def)
qed

section \<open>Send operations\<close>

lemmas block_types = IsReceiveBlock_def IsSendBlock_def

lemma block_simps [simp]:
  "ab_fields (setFee x b) = (ab_fields b)\<lparr>f_Fee := x\<rparr>" "ab_SendBlockList (setFee x b) = ab_SendBlockList b"
  "ab_fields (setData d b) = (ab_fields b)\<lparr>f_Data := d\<rparr>" "ab_SendBlockList (setData d b) = ab_SendBlockList b"
  "ab_fields (mergeReceiveBlock b bs) = ab_fields b" "ab_SendBlockList (mergeReceiveBlock b bs) = bs"
  by (simp_all add: setFee_def setData_def mergeReceiveBlock_def)

lemma updateBlock_Ret:
  assumes "updateBlock env db block err q = Ret block'"
  shows "ab_Amount block' = ab_Amount block" "ab_TokenId block' = ab_TokenId block" "ab_Fee block' = ab_Fee block"
    "ab_ToAddress block' = ab_ToAddress block" "ab_SendBlockList block' = ab_SendBlockList block"
    "ab_AccountAddress block' = ab_AccountAddress block"
    "\<not> IsReceiveBlock (ab_BlockType block) \<Longrightarrow> ab_BlockType block' = ab_BlockType block"
  using assms by (auto simp: updateBlock_def Let_def go_bind_eq_Ret split: if_splits)

text \<open>The outcome of a send operation that succeeds.\<close>

definition transferred :: "Chain \<Rightarrow> vmDb \<Rightarrow> AccountBlock \<Rightarrow> vmDb \<Rightarrow> AccountBlock \<Rightarrow> bool" where
  "transferred chain db block db' sent \<longleftrightarrow> readable chain db' \<and> (\<forall>t. bal chain db' t + outflow t sent = bal chain db t) \<and>
     (\<forall>t. 0 \<le> bal chain db t \<longrightarrow> 0 \<le> bal chain db' t) \<and> ab_BlockType sent = ab_BlockType block \<and>
     ab_Amount sent = ab_Amount block \<and> ab_TokenId sent = ab_TokenId block \<and>
     (ab_BlockType block = BlockTypeSendRefund \<longrightarrow> ab_Fee sent = 0)"

lemma debit_Ret:
  assumes "readable (e_chain env) db" "debit env db t a k = Ret (db', Inr b)"
  obtains db1 where "k db1 = Ret (db', Inr b)"
    "readable (e_chain env) db1" "\<forall>t'. bal (e_chain env) db1 t' = bal (e_chain env) db t' - (if t' = t then a else 0)"
    "\<forall>t'. 0 \<le> bal (e_chain env) db t' \<longrightarrow> 0 \<le> bal (e_chain env) db1 t'"
proof -
  from assms(2) obtain db1 where "SubBalance (e_chain env) db t a = Ret (db1, True)" "k db1 = Ret (db', Inr b)"
    by (auto simp: debit_def go_bind_eq_Ret split: if_splits)
  with acct.take_out_Ret [OF assms(1) this(1)] that show ?thesis by blast
qed

text \<open>A debit of the amount alone, and one of the amount and the fee.\<close>

lemma debit_amount:
  assumes "readable (e_chain env) db" "ab_BlockType block \<noteq> BlockTypeSendReward" "\<not> IsReceiveBlock (ab_BlockType block)" "ab_Fee block = 0"
    "debit env db (ab_TokenId block) (ab_Amount block) (\<lambda>db. finishSend env db block u qt qa ql) = Ret (db', Inr sent)"
  shows "transferred (e_chain env) db block db' sent" "ab_ToAddress sent = ab_ToAddress block"
proof -
  from assms(1,5) obtain db1 where db1: "finishSend env db1 block u qt qa ql = Ret (db', Inr sent)" "readable (e_chain env) db1"
    "\<forall>t'. bal (e_chain env) db1 t' = bal (e_chain env) db t' - (if t' = ab_TokenId block then ab_Amount block else 0)"
    "\<forall>t'. 0 \<le> bal (e_chain env) db t' \<longrightarrow> 0 \<le> bal (e_chain env) db1 t'" by (rule debit_Ret) blast
  then have "db' = db1" "updateBlock env db1 block None (CalcQuotaUsed u qt qa ql None) = Ret sent"
    by (auto simp: finishSend_def go_bind_eq_Ret)
  with updateBlock_Ret [OF this(2)] db1 assms(2-4) show "transferred (e_chain env) db block db' sent" "ab_ToAddress sent = ab_ToAddress block"
    by (auto simp: transferred_def outflow_def)
qed

lemma debit_amount_fee:
  assumes "readable (e_chain env) db" "ab_BlockType block \<noteq> BlockTypeSendReward" "\<not> IsReceiveBlock (ab_BlockType block)"
    "ab_BlockType block \<noteq> BlockTypeSendRefund"
    "debit env db (ab_TokenId block) (ab_Amount block) (\<lambda>db. debit env db ViteTokenId (ab_Fee block) (\<lambda>db.
       finishSend env db block u qt qa ql)) = Ret (db', Inr sent)"
  shows "transferred (e_chain env) db block db' sent" "ab_ToAddress sent = ab_ToAddress block" "ab_Fee sent = ab_Fee block"
proof -
  from assms(1,5) obtain db1 where db1: "debit env db1 ViteTokenId (ab_Fee block) (\<lambda>db. finishSend env db block u qt qa ql) = Ret (db', Inr sent)"
    "readable (e_chain env) db1" "\<forall>t'. bal (e_chain env) db1 t' = bal (e_chain env) db t' - (if t' = ab_TokenId block then ab_Amount block else 0)"
    "\<forall>t'. 0 \<le> bal (e_chain env) db t' \<longrightarrow> 0 \<le> bal (e_chain env) db1 t'" by (rule debit_Ret) blast
  from db1(2,1) obtain db2 where db2: "finishSend env db2 block u qt qa ql = Ret (db', Inr sent)" "readable (e_chain env) db2"
    "\<forall>t'. bal (e_chain env) db2 t' = bal (e_chain env) db1 t' - (if t' = ViteTokenId then ab_Fee block else 0)"
    "\<forall>t'. 0 \<le> bal (e_chain env) db1 t' \<longrightarrow> 0 \<le> bal (e_chain env) db2 t'" by (rule debit_Ret) blast
  then have "db' = db2" "updateBlock env db2 block None (CalcQuotaUsed u qt qa ql None) = Ret sent"
    by (auto simp: finishSend_def go_bind_eq_Ret)
  with updateBlock_Ret [OF this(2)] db1 db2 assms(2-4)
  show "transferred (e_chain env) db block db' sent" "ab_ToAddress sent = ab_ToAddress block" "ab_Fee sent = ab_Fee block"
    by (auto simp: transferred_def outflow_def)
qed

lemma transferred_cong:
  assumes "transferred chain db1 block1 db' sent" "bal chain db1 = bal chain db" "ab_BlockType block1 = ab_BlockType block"
    "ab_Amount block1 = ab_Amount block" "ab_TokenId block1 = ab_TokenId block"
  shows "transferred chain db block db' sent"
  using assms by (simp add: transferred_def)

lemma sendCall_transfers:
  assumes ok: "readable (e_chain env) db" "builtins_ok env" "ab_BlockType block = BlockTypeSendCall"
    and r: "sendCall env cfg vm db block u qt qa = Ret (db', Inr sent)"
  shows "transferred (e_chain env) db block db' sent \<and> ab_ToAddress sent = ab_ToAddress block"
proof (cases "e_GetBuiltinContractMethod env (ab_ToAddress block) (ab_Data block) (vm_latestSnapshotHeight vm)")
  case None
  with r obtain ql where d: "debit env db (ab_TokenId (setFee 0 block)) (ab_Amount (setFee 0 block))
      (\<lambda>db. finishSend env db (setFee 0 block) u qt qa ql) = Ret (db', Inr sent)"
    by (auto simp: sendCall_def Let_def go_bind_eq_Ret split_sum_ex split: if_splits)
  have "transferred (e_chain env) db (setFee 0 block) db' sent" "ab_ToAddress sent = ab_ToAddress block"
    using debit_amount [OF ok(1) _ _ _ d] ok(3) by (simp_all add: block_types)
  then show ?thesis by (auto elim: transferred_cong)
next
  case (Some m)
  with r obtain p fee where p: "m = Inr p" "GetFee p block = Inr fee" by (auto simp: sendCall_def split: sum.splits)
  with Some r obtain db1 block1 ql where send: "DoSend p db (setFee fee block) = Ret (db1, block1, None)"
    and d: "debit env db1 (ab_TokenId block1) (ab_Amount block1) (\<lambda>db. debit env db ViteTokenId (ab_Fee block1) (\<lambda>db.
       finishSend env db block1 u qt qa ql)) = Ret (db', Inr sent)"
    by (auto simp: sendCall_def Let_def go_bind_eq_Ret split: sum.splits if_splits option.splits)
  from ok(2) Some p(1) send have same: "balanceMap (vdb_uns db1) = balanceMap (vdb_uns db)" "vdb_address db1 = vdb_address db"
    "ab_BlockType block1 = ab_BlockType block" "ab_TokenId block1 = ab_TokenId block" "ab_Amount block1 = ab_Amount block"
    "ab_ToAddress block1 = ab_ToAddress block" unfolding builtins_ok_def by fastforce+
  note bals = same_balances [OF same(1,2), of "e_chain env"]
  have "transferred (e_chain env) db1 block1 db' sent" "ab_ToAddress sent = ab_ToAddress block"
    using debit_amount_fee [OF _ _ _ _ d] ok bals same by (simp_all add: block_types)
  with bals same show ?thesis by (auto elim: transferred_cong)
qed

lemma sendRefund_transfers:
  assumes ok: "readable (e_chain env) db" "ab_BlockType block = BlockTypeSendRefund"
    and r: "sendRefund env cfg vm db block u qt qa = Ret (db', Inr sent)"
  shows "transferred (e_chain env) db block db' sent \<and> ab_ToAddress sent = ab_ToAddress block"
proof -
  from r obtain ql where d: "debit env db (ab_TokenId (setFee 0 block)) (ab_Amount (setFee 0 block))
      (\<lambda>db. finishSend env db (setFee 0 block) u qt qa ql) = Ret (db', Inr sent)"
    by (auto simp: sendRefund_def Let_def go_bind_eq_Ret split_sum_ex split: if_splits)
  have "transferred (e_chain env) db (setFee 0 block) db' sent" "ab_ToAddress sent = ab_ToAddress block"
    using debit_amount [OF ok(1) _ _ _ d] ok(2) by (simp_all add: block_types)
  then show ?thesis by (auto elim: transferred_cong)
qed

lemma sendReward_transfers:
  assumes ok: "readable (e_chain env) db" "ab_BlockType block = BlockTypeSendReward"
    and r: "sendReward env vm db block u qt qa = Ret (db', Inr sent)"
  shows "transferred (e_chain env) db block db' sent \<and> ab_ToAddress sent = ab_ToAddress block"
proof -
  from r obtain ql where "db' = db" "updateBlock env db block None (CalcQuotaUsed u qt qa ql None) = Ret sent"
    by (auto simp: sendReward_def finishSend_def go_bind_eq_Ret split_sum_ex split: if_splits)
  with updateBlock_Ret [OF this(2)] ok show ?thesis by (simp add: transferred_def outflow_def block_types)
qed

lemma doSendBlock_transfers:
  assumes "readable (e_chain env) db" "builtins_ok env" "doSendBlock env cfg vm db block = Ret (db', Inr sent)"
  shows "transferred (e_chain env) db block db' sent \<and> ab_ToAddress sent = ab_ToAddress block"
  using assms sendCall_transfers sendRefund_transfers sendReward_transfers by (auto simp: doSendBlock_def split: if_splits)

lemma outflows_simps [simp]: "outflows t [] = 0" "outflows t (b # bs) = outflow t b + outflows t bs"
  by (simp_all add: outflows_def)

lemma doSendBlocks_transfers:
  assumes "readable (e_chain env) db" "builtins_ok env" "doSendBlocks env cfg vm db blocks = Ret (db', Inr sents)"
  shows "readable (e_chain env) db' \<and> (\<forall>t. bal (e_chain env) db' t + outflows t sents = bal (e_chain env) db t) \<and>
    (\<forall>t. 0 \<le> bal (e_chain env) db t \<longrightarrow> 0 \<le> bal (e_chain env) db' t) \<and>
    map (\<lambda>b. (ab_BlockType b, ab_Amount b, ab_TokenId b, ab_ToAddress b)) sents =
    map (\<lambda>b. (ab_BlockType b, ab_Amount b, ab_TokenId b, ab_ToAddress b)) blocks \<and>
    (\<forall>b \<in> set sents. ab_BlockType b = BlockTypeSendRefund \<longrightarrow> ab_Fee b = 0)"
  using assms
proof (induction blocks arbitrary: db sents)
  case (Cons block blocks)
  from Cons.prems(3) obtain db1 sent sents' where 1: "doSendBlock env cfg vm db block = Ret (db1, Inr sent)"
    "doSendBlocks env cfg vm db1 blocks = Ret (db', Inr sents')" "sents = sent # sents'"
    by (auto simp: go_bind_eq_Ret split_sum_ex)
  from doSendBlock_transfers [OF Cons.prems(1,2) 1(1)]
  have tr: "transferred (e_chain env) db block db1 sent" "ab_ToAddress sent = ab_ToAddress block" by auto
  then have "readable (e_chain env) db1" by (simp add: transferred_def)
  from Cons.IH [OF this Cons.prems(2) 1(2)] tr show ?case by (auto simp: transferred_def 1(3) algebra_simps)
qed simp

text \<open>The value of blocks that carry no fee.\<close>

definition carried :: "TokenTypeId \<Rightarrow> AccountBlock list \<Rightarrow> int" where
  "carried t bs = sum_list (map (\<lambda>b. if ab_TokenId b = t then ab_Amount b else 0) bs)"

lemma carried_simps [simp]: "carried t [] = 0" "carried t (b # bs) = (if ab_TokenId b = t then ab_Amount b else 0) + carried t bs"
  by (simp_all add: carried_def)

lemma refund_outflows:
  assumes "map (\<lambda>b. (ab_BlockType b, ab_Amount b, ab_TokenId b, ab_ToAddress b)) sents =
      map (\<lambda>b. (ab_BlockType b, ab_Amount b, ab_TokenId b, ab_ToAddress b)) blocks"
    "\<forall>b \<in> set sents. ab_BlockType b = BlockTypeSendRefund \<longrightarrow> ab_Fee b = 0"
    "\<forall>b \<in> set blocks. ab_BlockType b = BlockTypeSendRefund \<and> ab_ToAddress b = addr"
  shows "outflows t sents = carried t blocks \<and> (\<forall>b \<in> set sents. ab_BlockType b = BlockTypeSendRefund \<and> ab_ToAddress b = addr)"
  using assms
proof (induction blocks arbitrary: sents)
  case (Cons block blocks)
  obtain sent sents' where sents: "sents = sent # sents'" using Cons.prems(1) by (cases sents) simp_all
  from Cons.prems(1) have key: "ab_BlockType sent = ab_BlockType block" "ab_Amount sent = ab_Amount block"
    "ab_TokenId sent = ab_TokenId block" "ab_ToAddress sent = ab_ToAddress block" and rest: "map (\<lambda>b. (ab_BlockType b, ab_Amount b,
      ab_TokenId b, ab_ToAddress b)) sents' = map (\<lambda>b. (ab_BlockType b, ab_Amount b, ab_TokenId b, ab_ToAddress b)) blocks"
    unfolding sents by simp_all
  have blocks: "ab_BlockType block = BlockTypeSendRefund" "ab_ToAddress block = addr"
    "\<forall>b \<in> set blocks. ab_BlockType b = BlockTypeSendRefund \<and> ab_ToAddress b = addr" using Cons.prems(3) by simp_all
  have fee: "ab_Fee sent = 0" "\<forall>b \<in> set sents'. ab_BlockType b = BlockTypeSendRefund \<longrightarrow> ab_Fee b = 0"
    using Cons.prems(2) key(1) blocks(1) unfolding sents by simp_all
  have "outflow t sent = (if ab_TokenId block = t then ab_Amount block else 0)"
    unfolding outflow_def key fee blocks(1) by simp
  with Cons.IH [OF rest fee(2) blocks(3)] key blocks(1,2) show ?case unfolding sents by simp
qed simp

lemma sent_refunds:
  assumes "readable (e_chain env) db" "builtins_ok env" "doSendBlocks env cfg vm db blocks = Ret (db', Inr sents)"
    "\<forall>b \<in> set blocks. ab_BlockType b = BlockTypeSendRefund \<and> ab_ToAddress b = addr"
  shows "outflows t sents = carried t blocks \<and> (\<forall>b \<in> set sents. ab_BlockType b = BlockTypeSendRefund \<and> ab_ToAddress b = addr)"
proof -
  note tr = doSendBlocks_transfers [OF assms(1-3)]
  from tr have "map (\<lambda>b. (ab_BlockType b, ab_Amount b, ab_TokenId b, ab_ToAddress b)) sents =
    map (\<lambda>b. (ab_BlockType b, ab_Amount b, ab_TokenId b, ab_ToAddress b)) blocks" by blast
  moreover from tr have "\<forall>b \<in> set sents. ab_BlockType b = BlockTypeSendRefund \<longrightarrow> ab_Fee b = 0" by blast
  ultimately show ?thesis by (rule refund_outflows) (rule assms(4))
qed

text \<open>The address of the database stays, also when an operation fails.\<close>

lemma debit_address:
  assumes "debit env db t a k = Ret (db', r)" "\<And>db1. k db1 = Ret (db', r) \<Longrightarrow> vdb_address db' = vdb_address db1"
  shows "vdb_address db' = vdb_address db"
proof -
  from assms(1) obtain db1 ok where sub: "SubBalance (e_chain env) db t a = Ret (db1, ok)"
    and k: "(if ok then k db1 else Ret (db1, Inl ErrInsufficientBalance)) = Ret (db', r)" by (auto simp: debit_def go_bind_eq_Ret)
  from sub have "vdb_address db1 = vdb_address db" by (auto simp: SubBalance_Ret split: if_splits)
  with k assms(2) [of db1] show ?thesis by (cases ok) simp_all
qed

lemma finishSend_address: "finishSend env db block u qt qa ql = Ret (db', r) \<Longrightarrow> vdb_address db' = vdb_address db"
  by (auto simp: finishSend_def go_bind_eq_Ret)

lemma sendCall_address:
  assumes ok: "builtins_ok env" and r: "sendCall env cfg vm db block u qt qa = Ret (db', r)"
  shows "vdb_address db' = vdb_address db"
proof (cases "e_GetBuiltinContractMethod env (ab_ToAddress block) (ab_Data block) (vm_latestSnapshotHeight vm)")
  case None
  with r consider "db' = db" | k where "debit env db (ab_TokenId block) (ab_Amount block) k = Ret (db', r)"
      "\<And>db1. k db1 = Ret (db', r) \<Longrightarrow> vdb_address db' = vdb_address db1"
    by (auto simp: sendCall_def Let_def go_bind_eq_Ret split_sum_ex split: if_splits dest: finishSend_address)
  then show ?thesis by cases (auto dest: debit_address)
next
  case (Some m)
  show ?thesis
  proof (cases m)
    case (Inr p)
    with Some r consider "db' = db"
      | db1 block1 err fee where "DoSend p db (setFee fee block) = Ret (db1, block1, err)" "vdb_address db' = vdb_address db1"
      by (auto simp: sendCall_def Let_def go_bind_eq_Ret split: sum.splits if_splits option.splits dest!: debit_address dest: finishSend_address)
    then show ?thesis by cases (use ok Some Inr in \<open>auto simp: builtins_ok_def\<close>)
  qed (use Some r in \<open>auto simp: sendCall_def\<close>)
qed

lemma doSendBlock_address:
  assumes "builtins_ok env" "doSendBlock env cfg vm db block = Ret (db', r)"
  shows "vdb_address db' = vdb_address db"
  using assms(2) sendCall_address [OF assms(1)]
  by (auto simp: doSendBlock_def sendReward_def sendRefund_def Let_def go_bind_eq_Ret split_sum_ex split: if_splits
      dest!: debit_address dest: finishSend_address)

lemma doSendBlocks_address:
  assumes "builtins_ok env" "doSendBlocks env cfg vm db blocks = Ret (db', r)"
  shows "vdb_address db' = vdb_address db"
  using assms(2)
proof (induction blocks arbitrary: db r)
  case (Cons block blocks)
  from Cons.prems obtain db1 r1 where 1: "doSendBlock env cfg vm db block = Ret (db1, r1)"
    "db' = db1 \<or> (\<exists>r2. doSendBlocks env cfg vm db1 blocks = Ret (db', r2))"
    by (auto simp: go_bind_eq_Ret split_sum_ex split: sum.splits)
  from 1(2) Cons.IH [of db1] doSendBlock_address [OF assms(1) 1(1)] show ?case by auto
qed simp

lemma sendRefund_quiet:
  assumes "sendRefund env cfg vm db block u qt qa = Ret (db', Inr sent)"
  shows "u_storage (vdb_uns db') = u_storage (vdb_uns db) \<and> logList (vdb_uns db') = logList (vdb_uns db)"
  using assms by (auto simp: sendRefund_def debit_def finishSend_def Let_def go_bind_eq_Ret split_sum_ex SubBalance_Ret split: if_splits)

lemma sent_refunds_quiet:
  assumes "\<forall>b \<in> set blocks. ab_BlockType b = BlockTypeSendRefund \<and> ab_ToAddress b = addr"
    "doSendBlocks env cfg vm db blocks = Ret (db', Inr sents)"
  shows "u_storage (vdb_uns db') = u_storage (vdb_uns db) \<and> logList (vdb_uns db') = logList (vdb_uns db)"
  using assms
proof (induction blocks arbitrary: db sents)
  case (Cons block blocks)
  from Cons.prems(2) obtain db1 sent sents' where 1: "doSendBlock env cfg vm db block = Ret (db1, Inr sent)"
    "doSendBlocks env cfg vm db1 blocks = Ret (db', Inr sents')" by (auto simp: go_bind_eq_Ret split_sum_ex)
  from Cons.prems(1) 1(1) have "sendRefund env cfg vm db block False 0 0 = Ret (db1, Inr sent)" by (simp add: doSendBlock_def)
  from sendRefund_quiet [OF this] Cons.IH [OF _ 1(2)] Cons.prems(1) show ?case by simp
qed simp

section \<open>Receive operations\<close>

subsection \<open>Refunds\<close>

lemma MakeRequestBlock_simps [simp]:
  "ab_BlockType (MakeRequestBlock a b ty x t d) = ty" "ab_Amount (MakeRequestBlock a b ty x t d) = x"
  "ab_TokenId (MakeRequestBlock a b ty x t d) = t" "ab_ToAddress (MakeRequestBlock a b ty x t d) = b"
  by (simp_all add: MakeRequestBlock_def)

lemma AppendBlock_list [simp]: "vm_sendBlockList (AppendBlock b vm) = vm_sendBlockList vm @ [b]"
  by (simp add: AppendBlock_def)

lemma carried_append [simp]: "carried t (bs @ bs') = carried t bs + carried t bs'"
  by (simp add: carried_def)

text \<open>What is credited is what the refund blocks carry.\<close>

definition refunding :: "Chain \<Rightarrow> vmDb \<Rightarrow> AccountBlock \<Rightarrow> byte \<Rightarrow> VM \<times> vmDb \<Rightarrow> bool" where
  "refunding chain db sendBlock ty s \<longleftrightarrow> readable chain (snd s) \<and>
     (\<forall>t. bal chain (snd s) t = bal chain db t + carried t (vm_sendBlockList (fst s))) \<and>
     u_storage (vdb_uns (snd s)) = u_storage (vdb_uns db) \<and> logList (vdb_uns (snd s)) = logList (vdb_uns db) \<and>
     (\<forall>b \<in> set (vm_sendBlockList (fst s)). ab_BlockType b = ty \<and> ab_ToAddress b = ab_AccountAddress sendBlock)"

lemma refundBlock_refunding:
  assumes "refunding (e_chain env) db0 sendBlock ty (vm, db)"
    "refundBlock env vm db block sendBlock ty amount tokenId data = Ret (vm', db')"
  shows "refunding (e_chain env) db0 sendBlock ty (vm', db') \<and>
    (\<forall>t. carried t (vm_sendBlockList vm') = carried t (vm_sendBlockList vm) + (if tokenId = t then amount else 0)) \<and> vm_sendBlockList vm' \<noteq> []"
proof -
  from assms(2) have add: "AddBalance (e_chain env) db tokenId amount = Ret db'"
    and vm': "vm' = AppendBlock (MakeRequestBlock (ab_AccountAddress block) (ab_AccountAddress sendBlock) ty amount tokenId data) vm"
    by (auto simp: refundBlock_def go_bind_eq_Ret)
  have "readable (e_chain env) db" using assms(1) by (simp add: refunding_def)
  note acct.credit_Ret [OF this add]
  moreover have "u_storage (vdb_uns db') = u_storage (vdb_uns db)" "logList (vdb_uns db') = logList (vdb_uns db)"
    using add by (auto simp: AddBalance_Ret)
  ultimately show ?thesis using assms(1) by (auto simp: refunding_def vm')
qed

lemma doRefund_refunding:
  assumes ok: "refunding (e_chain env) db sendBlock ty (vm, db)" "vm_sendBlockList vm = []"
    and r: "doRefund env vm db block sendBlock data False ty = Ret (vm', db', flag)"
  shows "refunding (e_chain env) db sendBlock ty (vm', db') \<and> carried t (vm_sendBlockList vm') = refunds t sendBlock \<and>
    (\<not> flag \<longrightarrow> vm_sendBlockList vm' = [])"
proof (cases "0 < ab_Amount sendBlock \<and> 0 < ab_Fee sendBlock \<and> ab_TokenId sendBlock = ViteTokenId")
  case True
  with r have "refundBlock env vm db block sendBlock ty (ab_Amount sendBlock + ab_Fee sendBlock) ViteTokenId data = Ret (vm', db')" flag
    by (auto simp: doRefund_def Let_def go_bind_eq_Ret split: if_splits)
  with refundBlock_refunding [OF ok(1)] True ok(2) show ?thesis by (auto simp: refunds_def)
next
  case False
  with r obtain vm1 db1 flag1 where
    1: "(if 0 < ab_Amount sendBlock then refundBlock env vm db block sendBlock ty (ab_Amount sendBlock) (ab_TokenId sendBlock) data
         else Ret (vm, db)) = Ret (vm1, db1)" and
    2: "(if 0 < ab_Fee sendBlock then refundBlock env vm1 db1 block sendBlock ty (ab_Fee sendBlock) ViteTokenId data
         else Ret (vm1, db1)) = Ret (vm', db')" and
    flag: "flag = (0 < ab_Amount sendBlock \<or> 0 < ab_Fee sendBlock)"
    by (auto simp: doRefund_def Let_def go_bind_eq_Ret split: if_splits)
  from 1 ok have s1: "refunding (e_chain env) db sendBlock ty (vm1, db1)"
    "carried t (vm_sendBlockList vm1) = (if ab_TokenId sendBlock = t then max 0 (ab_Amount sendBlock) else 0)"
    "\<not> 0 < ab_Amount sendBlock \<longrightarrow> vm_sendBlockList vm1 = []"
    using refundBlock_refunding [OF ok(1)] by (auto split: if_splits)
  from 2 s1 flag show ?thesis using refundBlock_refunding [OF s1(1)] by (auto simp: refunds_def split: if_splits)
qed

subsection \<open>The end of a receive block\<close>

lemma finishReceive_Ret:
  assumes "finishReceive env db block sents err = Ret (db', b, isRetry, err')"
  shows "bal chain db' = bal chain db" "readable chain db' = readable chain db" "u_storage (vdb_uns db') = u_storage (vdb_uns db)"
    "logList (vdb_uns db') = logList (vdb_uns db)" "\<not> isRetry" "err' = err"
    "\<exists>block'. b = Some block' \<and> ab_SendBlockList block' = (case sents of None \<Rightarrow> ab_SendBlockList block | Some bs \<Rightarrow> bs)"
proof -
  from assms obtain uns kvs where st: "uns_GetStorage (vdb_uns db) = Ret (uns, kvs)" "db' = db\<lparr>vdb_uns := uns\<rparr>"
    by (auto simp: finishReceive_def getReceiveCallData_def vdb_GetReceiptHash_def Let_def go_bind_eq_Ret)
  then have same: "balanceMap uns = balanceMap (vdb_uns db)" "u_storage uns = u_storage (vdb_uns db)" "logList uns = logList (vdb_uns db)"
    by (auto simp: uns_GetStorage_def Let_def split: if_splits option.splits)
  with st(2) same_balances [of db' db chain]
  show "bal chain db' = bal chain db" "readable chain db' = readable chain db" "u_storage (vdb_uns db') = u_storage (vdb_uns db)"
    "logList (vdb_uns db') = logList (vdb_uns db)" by simp_all
  from assms show "\<not> isRetry" "err' = err" by (auto simp: finishReceive_def Let_def go_bind_eq_Ret)
  from assms show "\<exists>block'. b = Some block' \<and> ab_SendBlockList block' = (case sents of None \<Rightarrow> ab_SendBlockList block | Some bs \<Rightarrow> bs)"
    by (cases sents) (auto simp: finishReceive_def Let_def go_bind_eq_Ret)
qed

text \<open>\<open>revert\<close>: no block is sent and the database is as the ledger has it.\<close>

definition unwritten :: "Chain \<Rightarrow> vmDb \<Rightarrow> bool" where
  "unwritten chain db \<longleftrightarrow> readable chain db \<and> balanceMap (vdb_uns db) = [] \<and> u_storage (vdb_uns db) = Some [] \<and>
     deletedKeys (vdb_uns db) = [] \<and> logList (vdb_uns db) = [] \<and> u_code (vdb_uns db) = []"

lemma revert_Ret:
  assumes "revert vm db = Ret (vm', db')" "readable chain db"
  shows "vm_sendBlockList vm' = []" "unwritten chain db'" "vdb_address db' = vdb_address db"
  using assms by (auto simp: revert_def vdb_Reset_def uns_Reset_def go_bind_eq_Ret unwritten_def readable_def split: option.splits)

lemma unwritten_bal:
  assumes "unwritten chain db" "unwritten chain db'" "vdb_address db' = vdb_address db"
  shows "bal chain db' = bal chain db"
  using assms same_balances [of db' db] by (simp add: unwritten_def)

text \<open>A failed call: the balances are those of the ledger again and the blocks that are sent pay the sender back.\<close>

lemma callFail_refunds:
  assumes ok: "readable (e_chain env) db" "builtins_ok env" "ab_SendBlockList block = []"
    and db0: "unwritten (e_chain env) db0" "vdb_address db = vdb_address db0"
    and r: "callFail env cfg vm db block sendBlock q ql err = Ret (db', Some block', isRetry, err')"
  shows "err' = Some err \<and> \<not> isRetry \<and> bal (e_chain env) db' = bal (e_chain env) db0 \<and>
    u_storage (vdb_uns db') = Some [] \<and> logList (vdb_uns db') = [] \<and> outflows t (ab_SendBlockList block') = refunds t sendBlock \<and>
    (\<forall>b \<in> set (ab_SendBlockList block'). ab_BlockType b = BlockTypeSendRefund \<and> ab_ToAddress b = ab_AccountAddress sendBlock)"
proof -
  from r obtain vm1 db1 where rev: "revert vm db = Ret (vm1, db1)" by (auto simp: callFail_def go_bind_eq_Ret split: if_splits)
  with r obtain vm2 db2 flag block1 where ref: "doRefund env vm1 db1 block sendBlock [] False BlockTypeSendRefund = Ret (vm2, db2, flag)"
    and upd: "updateBlock env db2 block (Some err) (CalcQuotaUsed True (fst q) (snd q) ql (Some err)) = Ret block1"
    and fin: "sendRefunds env cfg vm2 db2 block1 flag (Some err) = Ret (db', Some block', isRetry, err')"
    by (auto simp: callFail_def go_bind_eq_Ret split: if_splits)
  note rv = revert_Ret [OF rev ok(1)]
  have bal1: "bal (e_chain env) db1 = bal (e_chain env) db0" using unwritten_bal [OF db0(1) rv(2)] rv(3) db0(2) by simp
  have "refunding (e_chain env) db1 sendBlock BlockTypeSendRefund (vm1, db1)" using rv by (simp add: refunding_def unwritten_def)
  note rf = doRefund_refunding [OF this rv(1) ref]
  then have rd: "readable (e_chain env) db2" "\<forall>t. bal (e_chain env) db2 t = bal (e_chain env) db0 t + carried t (vm_sendBlockList vm2)"
    "\<forall>b \<in> set (vm_sendBlockList vm2). ab_BlockType b = BlockTypeSendRefund \<and> ab_ToAddress b = ab_AccountAddress sendBlock"
    "u_storage (vdb_uns db2) = Some []" "logList (vdb_uns db2) = []"
    using rv(2) by (simp_all add: refunding_def bal1 unwritten_def)
  show ?thesis
  proof (cases flag)
    case True
    with fin obtain db3 sents where snd: "doSendBlocks env cfg vm2 db2 (vm_sendBlockList vm2) = Ret (db3, Inr sents)"
      and f: "finishReceive env db3 block1 (Some sents) (Some err) = Ret (db', Some block', isRetry, err')"
      by (auto simp: sendRefunds_def doSendBlockList_def go_bind_eq_Ret split_sum_ex)
    from doSendBlocks_transfers [OF rd(1) ok(2) snd] have "\<forall>t. bal (e_chain env) db3 t + outflows t sents = bal (e_chain env) db2 t" by blast
    with sent_refunds [OF rd(1) ok(2) snd rd(3)] rd(2) have "bal (e_chain env) db3 = bal (e_chain env) db0" by (simp add: fun_eq_iff)
    with sent_refunds [OF rd(1) ok(2) snd rd(3)] sent_refunds_quiet [OF rd(3) snd] rf rd(4,5) finishReceive_Ret [OF f] show ?thesis by auto
  next
    case False
    with fin have f: "finishReceive env db2 block1 None (Some err) = Ret (db', Some block', isRetry, err')" by (simp add: sendRefunds_def)
    from False rf have "vm_sendBlockList vm2 = []" by blast
    with rf rd(2) have "refunds t sendBlock = 0" "bal (e_chain env) db2 = bal (e_chain env) db0" by (auto simp: fun_eq_iff)
    with rd(4,5) finishReceive_Ret [OF f] updateBlock_Ret(5) [OF upd] ok(3) show ?thesis by auto
  qed
qed

subsection \<open>Running a contract\<close>

text \<open>A request that can be executed: the database has no writes yet, and the lengths and amounts are those of the
  Go types.\<close>

definition request_ok :: "env \<Rightarrow> vmDb \<Rightarrow> AccountBlock \<Rightarrow> AccountBlock \<Rightarrow> bool" where
  "request_ok env db block sendBlock \<longleftrightarrow> env_ok env \<and> unwritten (e_chain env) db \<and>
     length (ab_AccountAddress block) \<le> 32 \<and> length (ab_FromBlockHash block) \<le> 32 \<and>
     length (ab_AccountAddress sendBlock) \<le> 32 \<and> length (ab_TokenId sendBlock) \<le> 32 \<and>
     wf_val (ab_Amount sendBlock) \<and> wf_val (bal (e_chain env) db (ab_TokenId sendBlock) + ab_Amount sendBlock) \<and>
     length (ab_Data sendBlock) < 2 ^ 62 \<and> (\<forall>a code. chain_GetContractCode (e_chain env) a = Inr code \<longrightarrow> length code < 2 ^ 62)"

definition vm_ok :: "VM \<Rightarrow> bool" where
  "vm_ok vm \<longleftrightarrow> quota_table (vm_gasTable vm) \<and> status_ok (vm_globalStatus vm)"

lemma request_run:
  assumes ok: "request_ok env db block sendBlock" "vm_ok vm" "length code < 2 ^ 62" "length data < 2 ^ 62"
    and add: "AddBalance (e_chain env) db (ab_TokenId sendBlock) (ab_Amount sendBlock) = Ret db1"
  shows "fresh_start env vm (setCallCode addr code (newContract block db1 sendBlock data ql))"
proof -
  have un: "unwritten (e_chain env) db" using ok(1) by (simp add: request_ok_def)
  then have db1: "db1 = vdb_SetBalance (ab_TokenId sendBlock) (bal (e_chain env) db (ab_TokenId sendBlock) + ab_Amount sendBlock) db"
    using add by (auto simp: AddBalance_Ret unwritten_def readable_bal)
  have "db_ok db1" using un ok(1)
    by (auto simp: db1 db_ok_def keys_ok_def db_ready_def deleted_ok_def unwritten_def readable_def request_ok_def vdb_SetBalance_def uns_SetBalance_def)
  with ok un show ?thesis
    by (simp add: fresh_start_def frame_ok_def startFrame_def newContract_def setCallCode_def newStack_def newMemory_def wf_mem_def mem_len_def
        dests_ok_def blocks_ok_def request_ok_def vm_ok_def unwritten_def db1)
qed

text \<open>What follows a run: it happens, and on the database of the run.\<close>

lemma after_run_outcome:
  assumes "fresh_start env vm c"
  shows "\<exists>r. after_run (run env vm c) k = Some r"
    and "after_run (run env vm c) k = Some (Ret x) \<Longrightarrow>
      \<exists>f ret err. k (f, ret, err) = Ret x \<and> db_kept (c_db c) (c_db (f_c f)) \<and> db_ok (c_db (f_c f))"
proof -
  from run_db [OF assms] obtain r where r: "run env vm c = Some r"
    "\<forall>f ret err. r = Ret (f, ret, err) \<longrightarrow> db_kept (c_db c) (c_db (f_c f)) \<and> db_ok (c_db (f_c f))" by blast
  from r(1) show "\<exists>r. after_run (run env vm c) k = Some r" by (simp add: after_run_def)
  assume "after_run (run env vm c) k = Some (Ret x)"
  with r(1) obtain y where "r = Ret y" "k y = Ret x" by (auto simp: after_run_def go_bind_eq_Ret)
  with r(2) show "\<exists>f ret err. k (f, ret, err) = Ret x \<and> db_kept (c_db c) (c_db (f_c f)) \<and> db_ok (c_db (f_c f))"
    by (cases y) blast
qed

lemma contract_code_length:
  assumes "unwritten chain db" "\<forall>a code. chain_GetContractCode chain a = Inr code \<longrightarrow> length code < 2 ^ 62"
    "AddBalance chain db t x = Ret db1" "util_GetContractCode chain db1 addr None = Ret (ty, code)"
  shows "length code < 2 ^ 62"
proof -
  have "u_code (vdb_uns db1) = []" using assms(1,3) by (auto simp: AddBalance_Ret unwritten_def)
  with assms(2,4) show ?thesis
    by (force simp: util_GetContractCode_def vdb_GetContractCode_def vdb_GetContractCodeBySnapshotBlock_def go_bind_eq_Ret
        DealWithErr_def split: if_splits sum.splits)
qed

text \<open>The three ways a call ends: the depth is exceeded, a plain transfer, or the run of the code.\<close>

lemma receiveCall_cases:
  assumes ok: "request_ok env db block sendBlock" "vm_ok vm" "checkDepth env db sendBlock = Ret False"
    and user: "e_GetBuiltinContractMethod env (ab_AccountAddress block) (ab_Data sendBlock) (vm_latestSnapshotHeight vm) = None"
    and r: "receiveCall env cfg vm db block sendBlock meta = Some (Ret (db', Some block', isRetry, err))"
  obtains q ql where "receiveTransfer env db block sendBlock q ql = Ret (db', Some block', isRetry, err)"
  | q db1 f ret e where "AddBalance (e_chain env) db (ab_TokenId sendBlock) (ab_Amount sendBlock) = Ret db1"
      "db_kept db1 (c_db (f_c f))" "callFinish env cfg block sendBlock q (f, ret, e) = Ret (db', Some block', isRetry, err)"
proof -
  from r ok(3) user obtain q ql where ch: "chargeReceive env cfg vm db block meta = Ret (Inr (q, ql))"
    by (auto simp: receiveCall_def split: go.splits sum.splits)
  show ?thesis
  proof (cases meta)
    case None
    with r ok(3) user ch have "receiveTransfer env db block sendBlock q ql = Ret (db', Some block', isRetry, err)" by (simp add: receiveCall_def)
    then show ?thesis by (rule that(1))
  next
    case (Some m)
    let ?m = "go_bind (AddBalance (e_chain env) db (ab_TokenId sendBlock) (ab_Amount sendBlock)) (\<lambda>db.
       go_bind (util_GetContractCode (e_chain env) db (ab_AccountAddress block) None) (\<lambda>(_, code). Ret (db, code)))"
    from r ok(3) user ch Some obtain db1 code where m: "?m = Ret (db1, code)" and
      run: "after_run (run env vm (setCallCode (ab_AccountAddress block) code (newContract block db1 sendBlock (ab_Data sendBlock) ql)))
        (callFinish env cfg block sendBlock q) = Some (Ret (db', Some block', isRetry, err))"
      by (auto simp: receiveCall_def Let_def split: go.splits prod.splits)
    from m obtain ty where add: "AddBalance (e_chain env) db (ab_TokenId sendBlock) (ab_Amount sendBlock) = Ret db1"
      "util_GetContractCode (e_chain env) db1 (ab_AccountAddress block) None = Ret (ty, code)" by (auto simp: go_bind_eq_Ret)
    have len: "length code < 2 ^ 62" "length (ab_Data sendBlock) < 2 ^ 62"
      using ok(1) contract_code_length [OF _ _ add] by (auto simp: request_ok_def)
    note fresh = request_run [OF ok(1,2) len add(1)]
    from after_run_outcome(2) [OF fresh run] obtain f ret e where "callFinish env cfg block sendBlock q (f, ret, e) = Ret (db', Some block', isRetry, err)"
      "db_kept db1 (c_db (f_c f))" by (auto simp: setCallCode_def newContract_def)
    with that(2) [OF add(1)] show ?thesis by blast
  qed
qed

lemma receiveTransfer_Ret:
  assumes "readable (e_chain env) db" "receiveTransfer env db block sendBlock q ql = Ret (db', Some block', isRetry, err)"
  shows "err = None" "\<not> isRetry" "readable (e_chain env) db'" "ab_SendBlockList block' = ab_SendBlockList block"
    "bal (e_chain env) db' t = bal (e_chain env) db t + (if t = ab_TokenId sendBlock then ab_Amount sendBlock else 0)"
proof -
  from assms(2) have add: "AddBalance (e_chain env) db (ab_TokenId sendBlock) (ab_Amount sendBlock) = Ret db'" "err = None" "\<not> isRetry"
    and upd: "updateBlock env db' block None (CalcQuotaUsed True (fst q) (snd q) ql None) = Ret block'"
    by (auto simp: receiveTransfer_def go_bind_eq_Ret)
  with acct.credit_Ret [OF assms(1) add(1)] updateBlock_Ret(5) [OF upd] show "err = None" "\<not> isRetry" "readable (e_chain env) db'"
    "ab_SendBlockList block' = ab_SendBlockList block"
    "bal (e_chain env) db' t = bal (e_chain env) db t + (if t = ab_TokenId sendBlock then ab_Amount sendBlock else 0)" by auto
qed

text \<open>A call whose code succeeds, or else fails.\<close>

lemma callFinish_cases:
  assumes r: "callFinish env cfg block sendBlock q (f, ret, e) = Ret (db', Some block', isRetry, err)" and ok: "builtins_ok env"
  obtains db1 block1 sents where "err = None" "doSendBlocks env cfg (f_vm f) (c_db (f_c f)) (vm_sendBlockList (f_vm f)) = Ret (db1, Inr sents)"
      "finishReceive env db1 block1 (Some sents) None = Ret (db', Some block', isRetry, None)"
  | vm db1 block1 ql e' where "callFail env cfg vm db1 block1 sendBlock q ql e' = Ret (db', Some block', isRetry, err)"
      "vdb_address db1 = vdb_address (c_db (f_c f))" "ab_SendBlockList block1 = ab_SendBlockList block"
proof (cases e)
  case (Some e')
  with r that(2) show ?thesis by (auto simp: callFinish_def Let_def)
next
  case None
  with r obtain block1 db1 res where upd: "updateBlock env (c_db (f_c f)) block None (CalcQuotaUsed True (fst q) (snd q) (c_quotaLeft (f_c f)) None) = Ret block1"
    and snd: "doSendBlocks env cfg (f_vm f) (c_db (f_c f)) (vm_sendBlockList (f_vm f)) = Ret (db1, res)"
    and fin: "(case res of Inl err \<Rightarrow> callFail env cfg (f_vm f) db1 block1 sendBlock q (c_quotaLeft (f_c f)) err
       | Inr sents \<Rightarrow> finishReceive env db1 block1 (Some sents) None) = Ret (db', Some block', isRetry, err)"
    by (auto simp: callFinish_def Let_def doSendBlockList_def go_bind_eq_Ret)
  show ?thesis
  proof (cases res)
    case (Inl e')
    with fin doSendBlocks_address [OF ok snd] updateBlock_Ret(5) [OF upd] that(2) show ?thesis by simp
  next
    case (Inr sents)
    with fin have f: "finishReceive env db1 block1 (Some sents) None = Ret (db', Some block', isRetry, err)" by simp
    with finishReceive_Ret(6) [OF f] that(1) snd Inr show ?thesis by simp
  qed
qed

section \<open>Answers\<close>

text \<open>What a caller can rely on of an answer: a retry comes without a block, and an answer without a block is a retry
  or an error.\<close>

definition answered :: "vmResult go \<Rightarrow> bool" where
  "answered r \<longleftrightarrow> (case r of Panics p \<Rightarrow> True
     | Ret (db, b, isRetry, err) \<Rightarrow> (isRetry \<longrightarrow> b = None) \<and> (b = None \<longrightarrow> isRetry \<or> err \<noteq> None))"

named_theorems answers "operations that answer properly"

lemma answered_simps [simp]:
  "answered (Panics p)"
  "answered (Ret (db, b, isRetry, err)) \<longleftrightarrow> (isRetry \<longrightarrow> b = None) \<and> (b = None \<longrightarrow> isRetry \<or> err \<noteq> None)"
  by (simp_all add: answered_def)

lemma answered_bind: "(\<And>x. m = Ret x \<Longrightarrow> answered (k x)) \<Longrightarrow> answered (go_bind m k)"
  by (cases m) simp_all

lemma finishReceive_answered [answers]: "answered (finishReceive env db block sents err)"
  by (auto simp: finishReceive_def Let_def intro!: answered_bind)

lemma sendRefunds_answered [answers]: "answered (sendRefunds env cfg vm db block flag err)"
  by (auto simp: sendRefunds_def answers intro!: answered_bind split: sum.split)

lemma createRefund_answered [answers]: "answered (createRefund env cfg vm db block sendBlock err)"
  by (auto simp: createRefund_def answers intro!: answered_bind)

lemma createFinish_answered [answers]: "answered (createFinish env cfg block sendBlock r)"
  by (auto simp: createFinish_def Let_def answers intro!: answered_bind split: prod.split option.split sum.split)

lemma receiveBuiltin_answered [answers]: "answered (receiveBuiltin env cfg vm db block sendBlock p)"
  by (auto simp: receiveBuiltin_def Let_def answers intro!: answered_bind split: prod.split option.split sum.split)

lemma callFail_answered [answers]: "answered (callFail env cfg vm db block sendBlock q ql err)"
  by (auto simp: callFail_def answers intro!: answered_bind)

lemma callFinish_answered [answers]: "answered (callFinish env cfg block sendBlock q r)"
  by (auto simp: callFinish_def Let_def answers intro!: answered_bind split: prod.split option.split sum.split)

lemma receiveTransfer_answered [answers]: "answered (receiveTransfer env db block sendBlock q ql)"
  by (auto simp: receiveTransfer_def intro!: answered_bind)

lemma receiveReward_answered [answers]: "answered (receiveReward env cfg vm db block sendBlock meta)"
  by (auto simp: receiveReward_def answers intro!: answered_bind split: sum.split)

lemma receiveRefund_answered [answers]: "answered (receiveRefund env cfg vm db block sendBlock meta)"
  by (auto simp: receiveRefund_def answers intro!: answered_bind split: sum.split)

lemma RunV2Send_answered [answers]: "answered (RunV2Send env cfg vm db block)"
  by (auto simp: RunV2Send_def intro!: answered_bind split: sum.split)

text \<open>The operations that run a contract come to an end and answer.\<close>

lemma after_run_answered:
  assumes "fresh_start env vm c" "\<And>x. answered (k x)"
  shows "\<exists>r. after_run (run env vm c) k = Some r \<and> answered r"
proof -
  from run_db [OF assms(1)] obtain r where "run env vm c = Some r" by blast
  with assms(2) show ?thesis by (auto simp: after_run_def intro!: answered_bind)
qed

lemma init_code_length: "GetCodeFromCreateContractData up data h = Ret code \<Longrightarrow> length code \<le> length data"
  by (auto simp: GetCodeFromCreateContractData_def bytesFrom_def split: if_splits)

lemma receiveCreate_answers:
  assumes ok: "request_ok env db block sendBlock" "vm_ok vm"
  shows "\<exists>r. receiveCreate env cfg vm db block sendBlock meta = Some r \<and> answered r"
proof -
  let ?m = "go_bind (AddBalance (e_chain env) db (ab_TokenId sendBlock) (ab_Amount sendBlock)) (\<lambda>db.
     go_bind (GetCodeFromCreateContractData (e_upgrade env) (ab_Data sendBlock) (vm_latestSnapshotHeight vm)) (\<lambda>initCode. Ret (db, initCode)))"
  have "\<exists>r. after_run (run env vm (setCallCode (ab_AccountAddress block) code (newContract block db1 sendBlock code ql)))
      (createFinish env cfg block sendBlock) = Some r \<and> answered r" if "?m = Ret (db1, code)" for db1 code ql
  proof -
    from that have add: "AddBalance (e_chain env) db (ab_TokenId sendBlock) (ab_Amount sendBlock) = Ret db1"
      and "GetCodeFromCreateContractData (e_upgrade env) (ab_Data sendBlock) (vm_latestSnapshotHeight vm) = Ret code" by (auto simp: go_bind_eq_Ret)
    then have "length code < 2 ^ 62" using ok(1) init_code_length by (fastforce simp: request_ok_def)
    from after_run_answered [OF request_run [OF ok this this add] createFinish_answered] show ?thesis .
  qed
  then show ?thesis by (auto simp: receiveCreate_def Let_def split: go.split sum.split)
qed

lemma receiveCall_answers:
  assumes ok: "request_ok env db block sendBlock" "vm_ok vm"
  shows "\<exists>r. receiveCall env cfg vm db block sendBlock meta = Some r \<and> answered r"
proof -
  let ?m = "go_bind (AddBalance (e_chain env) db (ab_TokenId sendBlock) (ab_Amount sendBlock)) (\<lambda>db.
     go_bind (util_GetContractCode (e_chain env) db (ab_AccountAddress block) None) (\<lambda>(_, code). Ret (db, code)))"
  have "\<exists>r. after_run (run env vm (setCallCode (ab_AccountAddress block) code (newContract block db1 sendBlock (ab_Data sendBlock) ql)))
      (callFinish env cfg block sendBlock q) = Some r \<and> answered r" if "?m = Ret (db1, code)" for db1 code ql q
  proof -
    from that obtain ty where add: "AddBalance (e_chain env) db (ab_TokenId sendBlock) (ab_Amount sendBlock) = Ret db1"
      "util_GetContractCode (e_chain env) db1 (ab_AccountAddress block) None = Ret (ty, code)" by (auto simp: go_bind_eq_Ret)
    have len: "length code < 2 ^ 62" "length (ab_Data sendBlock) < 2 ^ 62"
      using ok(1) contract_code_length [OF _ _ add] by (auto simp: request_ok_def)
    from after_run_answered [OF request_run [OF ok len add(1)] callFinish_answered] show ?thesis .
  qed
  then show ?thesis
    by (auto simp: receiveCall_def Let_def answers split: go.split sum.split option.split bool.split intro!: answered_bind)
qed

lemma RunV2Receive_answers:
  assumes "request_ok env db block sendBlock" "vm_ok vm"
  shows "\<exists>r. RunV2Receive env cfg vm db block sendBlock = Some r \<and> answered r"
  using receiveCreate_answers [OF assms] receiveCall_answers [OF assms]
  by (auto simp: RunV2Receive_def answers split: go.split)

lemma request_ok_copy: "request_ok env db block sendBlock \<Longrightarrow> request_ok env db (setData [] (Copy block)) sendBlock"
  by (simp add: request_ok_def)

lemma vm_ok_blockVM: "status_ok status \<Longrightarrow> vm_ok (blockVM env sb status)"
  by (simp add: vm_ok_def blockVM_def quota_table_ByHeight)

lemma demo_request:
  assumes "length code < 2 ^ 62"
  shows "request_ok (demoEnv code) demoDb demoReceive demoSend" "builtins_ok (demoEnv code)" "vm_ok sampleVM" "bal (e_chain (demoEnv code)) demoDb t = 1000"
proof -
  show b: "bal (e_chain (demoEnv code)) demoDb t = 1000" for t
    by (simp add: bal_def util_GetBalance_def vdb_GetBalance_def uns_GetBalance_def demoDb_def NewUnsaved_def derefAddress_def demoEnv_def)
  show "builtins_ok (demoEnv code)" by (simp add: builtins_ok_def demoEnv_def sampleEnv_def)
  show "vm_ok sampleVM" using earth_qt.quota_table_axioms by (simp add: vm_ok_def sampleVM_def status_ok_def)
  show "request_ok (demoEnv code) demoDb demoReceive demoSend" using assms
    by (simp add: request_ok_def b demoSend_def demoReceive_def zeroFields_def demoSender_def demoAccount_def ZERO_HASH_def wf_val_def)
       (simp add: env_ok_def demoEnv_def sampleEnv_def emptyChain_def crypto_ok_def wf_val_def unwritten_def readable_def demoDb_def NewUnsaved_def
        ViteTokenId_def)
qed

lemma demo_user:
  "ab_SendBlockList demoReceive = []"
  "e_GetBuiltinContractMethod (demoEnv code) (ab_AccountAddress demoReceive) (ab_Data demoSend) (vm_latestSnapshotHeight sampleVM) = None"
  by (simp_all add: demoReceive_def demoEnv_def sampleEnv_def)

text \<open>The metadata that the checks of a create request let through.\<close>

lemma checkCreateData_meta:
  assumes "checkCreateData env vm data = Ret (Inr meta)"
  shows "cm_Gid meta \<noteq> SNAPSHOT_GID" "10 \<le> cm_QuotaRatio meta" "cm_QuotaRatio meta \<le> 100"
    "cm_SendConfirmedTimes meta \<le> 75" "cm_SeedConfirmedTimes meta \<le> cm_SendConfirmedTimes meta"
  using assms
  by (auto simp: checkCreateData_def Let_def go_bind_eq_Ret snapshotCountMin_def snapshotCountMax_def not_less split: if_splits prod.splits)

section \<open>Properties\<close>



text \<open>C2: a call of a contract that succeeds conserves the balances: what the contract has afterwards and what its
  blocks carry away is what it had and what the call brought, token by token, and no balance becomes negative.\<close>

theorem receiveCall_conserves:
  assumes "request_ok env db block sendBlock" "vm_ok vm" "builtins_ok env" "ab_SendBlockList block = []"
    "e_GetBuiltinContractMethod env (ab_AccountAddress block) (ab_Data sendBlock) (vm_latestSnapshotHeight vm) = None"
    "receiveCall env cfg vm db block sendBlock meta = Some (Ret (db', Some block', isRetry, None))"
  shows "bal (e_chain env) db' t + outflows t (ab_SendBlockList block') =
      bal (e_chain env) db t + (if t = ab_TokenId sendBlock then ab_Amount sendBlock else 0) \<and>
    (0 \<le> bal (e_chain env) db t \<longrightarrow> 0 \<le> bal (e_chain env) db' t)"
proof -
  have rd: "readable (e_chain env) db" and amount: "0 \<le> ab_Amount sendBlock"
    using assms(1) by (simp_all add: request_ok_def unwritten_def wf_val_def)
  have depth: "checkDepth env db sendBlock = Ret False"
    using assms(6) by (auto simp: receiveCall_def go_bind_eq_Ret split: go.splits bool.splits)
  from assms(1,2) depth assms(5,6) show ?thesis
  proof (cases rule: receiveCall_cases)
    case (1 q ql)
    from receiveTransfer_Ret [OF rd 1] amount assms(4) show ?thesis by auto
  next
    case (2 q db1 f ret e)
    note add = acct.credit_Ret [OF rd 2(1)]
    have run: "bal (e_chain env) (c_db (f_c f)) = bal (e_chain env) db1" "readable (e_chain env) (c_db (f_c f))"
      using db_kept_balances [OF 2(2)] add(1) by simp_all
    from 2(3) assms(3) show ?thesis
    proof (cases rule: callFinish_cases)
      case (1 db2 block1 sents)
      from doSendBlocks_transfers [OF run(2) assms(3) 1(2)]
      have "bal (e_chain env) db2 t + outflows t sents = bal (e_chain env) db1 t" "0 \<le> bal (e_chain env) db1 t \<longrightarrow> 0 \<le> bal (e_chain env) db2 t"
        by (simp_all add: run(1))
      with finishReceive_Ret [OF 1(3)] add(2) amount show ?thesis by auto
    next
      case (2 vm db2 block1 ql e')
      then show ?thesis by (auto simp: callFail_def sendRefunds_def finishReceive_def Let_def go_bind_eq_Ret split_sum_ex split: if_splits)
    qed
  qed
qed

theorem receiveCall_conserves_witness:
  "\<exists>db' block' isRetry. receiveCall (demoEnv []) demoCfg sampleVM demoDb demoReceive demoSend (Some demoMeta) =
      Some (Ret (db', Some block', isRetry, None)) \<and>
    bal (e_chain (demoEnv [])) db' ViteTokenId + outflows ViteTokenId (ab_SendBlockList block') = 1300"
proof -
  have "case receiveCall (demoEnv []) demoCfg sampleVM demoDb demoReceive demoSend (Some demoMeta) of
      Some (Ret (_, Some _, _, None)) \<Rightarrow> True | _ \<Rightarrow> False" by code_simp
  then obtain db' block' isRetry where r: "receiveCall (demoEnv []) demoCfg sampleVM demoDb demoReceive demoSend (Some demoMeta) =
      Some (Ret (db', Some block', isRetry, None))" by (auto split: option.splits go.splits prod.splits)
  have len: "length ([] :: bytes) < 2 ^ 62" by simp
  from receiveCall_conserves [OF demo_request(1,3,2) [OF len] demo_user r, of ViteTokenId]
  have "bal (e_chain (demoEnv [])) db' ViteTokenId + outflows ViteTokenId (ab_SendBlockList block') = 1300"
    by (simp add: demo_request) (simp add: demoSend_def)
  with r show ?thesis by blast
qed



text \<open>C13: a request that creates a contract and is accepted debits exactly its amount and the fee of 10 VITE, addresses
  the new contract by the hash of its creator, height and previous block, and registers metadata within the limits:
  a quota ratio of 10 to 100 and at most 75 confirmations, of which no more with a seed than without.\<close>

theorem sendCreate_registers:
  assumes "readable (e_chain env) db" "ab_BlockType block = BlockTypeSendCreate"
    "sendCreate env cfg vm db block useQuota quotaTotal quotaAddition = Ret (db', Inr sent)"
  shows "ab_ToAddress sent = NewContractAddress (e_crypto env) (ab_AccountAddress block) (ab_Height block) (ab_PrevHash block) \<and>
    bal (e_chain env) db' t = bal (e_chain env) db t - (if t = ab_TokenId block then ab_Amount block else 0)
      - (if t = ViteTokenId then 10 * 10 ^ 18 else 0) \<and>
    (\<exists>meta. uns_GetContractMeta (vdb_uns db') (ab_ToAddress sent) = Some meta \<and> cm_Gid meta \<noteq> SNAPSHOT_GID \<and>
       10 \<le> cm_QuotaRatio meta \<and> cm_QuotaRatio meta \<le> 100 \<and> cm_SendConfirmedTimes meta \<le> 75 \<and>
       cm_SeedConfirmedTimes meta \<le> cm_SendConfirmedTimes meta)"
proof -
  let ?addr = "NewContractAddress (e_crypto env) (ab_AccountAddress block) (ab_Height block) (ab_PrevHash block)"
  let ?b = "ab_map (\<lambda>b. b\<lparr>f_ToAddress := ?addr\<rparr>) (setFee createContractFee block)"
  from assms(3) obtain ql meta db1 where meta: "checkCreateData env vm (ab_Data block) = Ret (Inr meta)"
    and d: "debit env db (ab_TokenId ?b) (ab_Amount ?b) (\<lambda>db. debit env db ViteTokenId (ab_Fee ?b) (\<lambda>db.
       go_bind (finishSend env db ?b useQuota quotaTotal quotaAddition ql) (\<lambda>(db, r). Ret (vdb_SetContractMeta ?addr meta db, r)))) = Ret (db', Inr sent)"
    by (auto simp: sendCreate_def calcContractFee_def Let_def go_bind_eq_Ret split_sum_ex split: sum.splits if_splits)
  from assms(1) d obtain db1 where db1: "debit env db1 ViteTokenId (ab_Fee ?b) (\<lambda>db.
       go_bind (finishSend env db ?b useQuota quotaTotal quotaAddition ql) (\<lambda>(db, r). Ret (vdb_SetContractMeta ?addr meta db, r))) = Ret (db', Inr sent)"
    "readable (e_chain env) db1" "\<forall>t. bal (e_chain env) db1 t = bal (e_chain env) db t - (if t = ab_TokenId ?b then ab_Amount ?b else 0)"
    by (rule debit_Ret) blast
  from db1(2,1) obtain db2 where db2: "go_bind (finishSend env db2 ?b useQuota quotaTotal quotaAddition ql)
      (\<lambda>(db, r). Ret (vdb_SetContractMeta ?addr meta db, r)) = Ret (db', Inr sent)"
    "\<forall>t. bal (e_chain env) db2 t = bal (e_chain env) db1 t - (if t = ViteTokenId then ab_Fee ?b else 0)" by (rule debit_Ret) blast
  then have db': "db' = vdb_SetContractMeta ?addr meta db2"
    and upd: "updateBlock env db2 ?b None (CalcQuotaUsed useQuota quotaTotal quotaAddition ql None) = Ret sent"
    by (auto simp: finishSend_def go_bind_eq_Ret)
  have "bal (e_chain env) db' = bal (e_chain env) db2"
    by (rule same_balances(1)) (simp_all add: db' vdb_SetContractMeta_def uns_SetContractMeta_def)
  moreover have to: "ab_ToAddress sent = ?addr" using updateBlock_Ret(4) [OF upd] by simp
  moreover have "uns_GetContractMeta (vdb_uns db') ?addr = Some meta"
    by (simp add: db' vdb_SetContractMeta_def uns_SetContractMeta_def uns_GetContractMeta_def map_of_AList_update)
  ultimately show ?thesis
    using checkCreateData_meta [OF meta] db1(3) db2(2) by (auto simp: createContractFee_def AttovPerVite_def)
qed

theorem sendCreate_registers_witness:
  "\<exists>db' sent meta. sendCreate createEnv demoCfg sampleVM demoDb createSend True 1000000 0 = Ret (db', Inr sent) \<and>
    bal (e_chain createEnv) db' ViteTokenId = 15 * 10 ^ 18 - 7 \<and> uns_GetContractMeta (vdb_uns db') (ab_ToAddress sent) = Some meta"
proof -
  have "case sendCreate createEnv demoCfg sampleVM demoDb createSend True 1000000 0 of Ret (_, Inr _) \<Rightarrow> True | _ \<Rightarrow> False" by code_simp
  then obtain db' sent where r: "sendCreate createEnv demoCfg sampleVM demoDb createSend True 1000000 0 = Ret (db', Inr sent)"
    by (auto split: go.splits prod.splits sum.splits)
  have rd: "readable (e_chain createEnv) demoDb" by (simp add: readable_def createEnv_def demoDb_def)
  have "bal (e_chain createEnv) demoDb ViteTokenId = 25 * 10 ^ 18"
    by (simp add: bal_def util_GetBalance_def vdb_GetBalance_def uns_GetBalance_def demoDb_def NewUnsaved_def derefAddress_def createEnv_def)
  then show ?thesis using sendCreate_registers [OF rd _ r, of ViteTokenId] r by (auto simp: createSend_def)
qed



end
