(* ===== verification/Spec2Isabelle.thy ===== *)
theory Spec2Isabelle
  imports Vm_Transfers
begin

text \<open>
  A verification library for the virtual machine of go-vite: the execution of account blocks, the interpreter of the
  contracts, the quota that pays for it, and the ledger types and the database they work on.

  \<^bold>\<open>The parts and how they interact.\<close>  A node executes an account block with \<open>RunV2\<close> (vm/vm.go).  A send block is
  debited from its account; a receive block is credited to it and, when the account is a contract, runs the code of
  the contract in the interpreter (vm/interpreter.go), which may write storage and logs and ask for further send
  blocks.  All effects go to an unsaved layer over the ledger (vm_db); an error throws the layer away and refunds the
  sender.  Every block and every instruction is paid from the quota of the account (vm/quota, vm/util/quota.go).
  Which rules hold at a height is decided by the table of hard forks (common/upgrade).

  \<^bold>\<open>The theories, in the order of the imports.\<close>
  \<^item> \<open>Vite_Prelude\<close>: the machine types of Go, slices, errors and panics.  A word is a \<open>64 word\<close>, a byte an \<open>8 word\<close>,
    \<open>big.Int\<close> an int, a pair of a value and an error a sum, a nil-able pointer an option; a computation that may panic
    has the type \<open>'a go\<close>.
  \<^item> \<open>Big_Int\<close>, \<open>Helper\<close>: common/helper, 256-bit arithmetic, padding, checked 64-bit arithmetic.
  \<^item> \<open>Upgrade\<close>: common/upgrade; in an accepted table the versions are nested.
  \<^item> \<open>Common_Types\<close>: common/types and crypto/hash.go; the textual forms read back.
  \<^item> \<open>Ledger_Core\<close>, \<open>Snapshot_Block\<close>: interfaces/core, the blocks, their hashes and the protobuf conversion.
  \<^item> \<open>Quota_Table\<close>: vm/util/quota.go, the prices at a height.  \<open>quota_table\<close> is the interface the gas functions use; it
    is interpreted on every table of the code.
  \<^item> \<open>Vm_Db\<close>: vm_db and vm/util/db_helper.go.  \<open>store\<close> is the interface of storage and balances: the last write is read.
  \<^item> \<open>Quota_Params\<close>, \<open>Quota\<close>: vm/quota.  The tables are those of params.go; \<open>quota_config\<close> is what the calculation needs of
    a configuration and is interpreted on all that \<open>InitQuotaConfig\<close> installs.  The binary search finds the section of a
    linear search, the quota of a block is bounded, and the inverse searches end and are right.
  \<^item> \<open>Opcodes\<close>, \<open>Vm_Stack\<close>, \<open>Vm_Memory\<close>, \<open>Destination\<close>: vm/opcodes.go, stack.go, memory.go, destination.go.  The bitmap of
    jump destinations is the set of instruction starts of a sequential reading.
  \<^item> \<open>Rand\<close>, \<open>Global_Status\<close>: the random source and the seeds of a contract.
  \<^item> \<open>Vm_State\<close>, \<open>Gas_Table\<close>, \<open>Instructions\<close>, \<open>Alu\<close>: the VM, the running contract and its frame; the price and the effect of
    each instruction; the arithmetic instructions as operations of 256-bit words.
  \<^item> \<open>Frame_Rules\<close>, \<open>Jump_Table\<close>: the contract that every instruction fulfils, and the six instruction sets of
    vm/jump_table.go, whose entries are shown to fulfil it.
  \<^item> \<open>Interpreter\<close>, \<open>Vm_Runs\<close>: vm/interpreter.go.  \<open>step\<close> is one turn of the loop of \<open>runLoop\<close>; \<open>measured_loop\<close> is the
    interface of the termination argument.  Every run ends, its frames are well typed, off the chain it writes nothing.
  \<^item> \<open>Vm_Blocks\<close>: vm/vm.go, the send and receive operations, refunds, \<open>RunV2\<close> and \<open>OffChainReader\<close>, in the order of the code.
  \<^item> \<open>Vm_Transfers\<close>: \<open>account\<close> is the interface of credits and debits.  A call conserves the balances, a failed call is
    paid back and leaves no trace, and \<open>RunV2\<close> always answers.

  \<^bold>\<open>Loops and bounds.\<close>  The loops over a list or a fixed range are structural recursions.  The loop of the interpreter and
  the search of \<open>calcStakeTargetParam\<close> are partial functions in the option type, where None stands for not
  returning, and both are proved to return: the interpreter within \<open>1025 * quota + 1\<close> turns, because an instruction
  that costs nothing shrinks the stack of at most 1024 words, and what a storage write gives back was paid before.
  \<open>loopTurns\<close> is the same loop with that number as a bound.

  \<^bold>\<open>Parameters.\<close>  The hash functions, the ledger below the database (\<open>Chain\<close>), the growth of slices, the abort flag and the
  built-in contracts of vm/contracts are fields of \<open>env\<close>.  What a property needs of them is a named hypothesis:
  \<open>env_ok\<close> (the ledger returns 256-bit balances and values and hashes of at most 32 bytes) and \<open>builtins_ok\<close> (\<open>DoSend\<close>
  changes no balance and none of the fields of a block that carry value).

  \<^bold>\<open>Not modelled.\<close>  The built-in contracts, whose effects go through an ABI codec and storage layouts of their own; the
  storage iterators of vm_db; JSON and the protobuf wire format; keys and signatures.  Of vm/vm.go the ABI registry and
  the output for debugging, which no execution reads.  The storage engine, pools, consensus, network, RPC and command
  line of the node: they schedule the modelled functions and are dominated by input, output and concurrency.
\<close>

end
